(* ===== verification/Prelude.thy ===== *)
theory Prelude
  imports Complex_Main
begin

text \<open>
  Shared vocabulary of the development.

  \<^item> \<open>exc\<close>: the exceptions the code raises or lets through.
  \<^item> \<open>('s, 'a) prog\<close>: a piece of Python code that may read and change a state and may
    raise. What was written before the exception stays written, as in Python; only the end of
    the database transaction (\<open>run_tx\<close>) undoes it.
  \<^item> \<open>'r table\<close>: the rows of one model, keyed by record id.
  \<^item> the Python values and string functions that the code uses.
  \<^item> \<open>keeps\<close> and \<open>keeps_all\<close>: an invariant of a program (on its normal exits, on
    every exit), with one rule per combinator in the collections \<open>keeps_intros\<close> and
    \<open>keeps_all_intros\<close>.
\<close>

named_theorems run_simps \<open>evaluation of programs applied to a state\<close>
named_theorems keeps_intros \<open>an invariant on the normal exits of a program\<close>
named_theorems keeps_all_intros \<open>an invariant on every exit of a program\<close>

section \<open>Exceptions and programs\<close>

datatype exc =
    ValidationError string
  | UserError string
  | LibRouterosError string
  | IntegrityError string
  | MissingError string
  | KeyError string
  | ValueError string
  | RuntimeError string
  | OtherError string

text \<open>\<open>str(exc)\<close>.\<close>

fun exc_str :: "exc \<Rightarrow> string" where
  "exc_str (ValidationError m) = m"
| "exc_str (UserError m) = m"
| "exc_str (LibRouterosError m) = m"
| "exc_str (IntegrityError m) = m"
| "exc_str (MissingError m) = m"
| "exc_str (KeyError m) = m"
| "exc_str (ValueError m) = m"
| "exc_str (RuntimeError m) = m"
| "exc_str (OtherError m) = m"

fun is_librouteros_error :: "exc \<Rightarrow> bool" where
  "is_librouteros_error (LibRouterosError m) = True"
| "is_librouteros_error _ = False"

type_synonym ('s, 'a) prog = "'s \<Rightarrow> (exc + 'a) \<times> 's"

definition ret :: "'a \<Rightarrow> ('s, 'a) prog" where
  "ret x = (\<lambda>s. (Inr x, s))"

definition raise :: "exc \<Rightarrow> ('s, 'a) prog" where
  "raise e = (\<lambda>s. (Inl e, s))"

definition bnd :: "('s, 'a) prog \<Rightarrow> ('a \<Rightarrow> ('s, 'b) prog) \<Rightarrow> ('s, 'b) prog" where
  "bnd m k = (\<lambda>s. case m s of (Inl e, s') \<Rightarrow> (Inl e, s') | (Inr x, s') \<Rightarrow> k x s')"

definition andthen :: "('s, 'a) prog \<Rightarrow> ('s, 'b) prog \<Rightarrow> ('s, 'b) prog" where
  "andthen m k = bnd m (\<lambda>_. k)"

definition gets :: "('s \<Rightarrow> 'a) \<Rightarrow> ('s, 'a) prog" where
  "gets f = (\<lambda>s. (Inr (f s), s))"

definition modify :: "('s \<Rightarrow> 's) \<Rightarrow> ('s, unit) prog" where
  "modify f = (\<lambda>s. (Inr (), f s))"

definition do_if :: "bool \<Rightarrow> ('s, unit) prog \<Rightarrow> ('s, unit) prog" where
  "do_if b m = (if b then m else ret ())"

text \<open>\<open>try: m except E as e: h e\<close>, where \<open>p\<close> says which exceptions \<open>E\<close> catches.\<close>

definition catching :: "(exc \<Rightarrow> bool) \<Rightarrow> ('s, 'a) prog \<Rightarrow> (exc \<Rightarrow> ('s, 'a) prog) \<Rightarrow> ('s, 'a) prog" where
  "catching p m h = (\<lambda>s. case m s of
      (Inl e, s') \<Rightarrow> (if p e then h e s' else (Inl e, s'))
    | (Inr x, s') \<Rightarrow> (Inr x, s'))"

text \<open>\<open>for x in xs: f x\<close>; the loop stops at the first exception.\<close>

fun for_each :: "('a \<Rightarrow> ('s, unit) prog) \<Rightarrow> 'a list \<Rightarrow> ('s, unit) prog" where
  "for_each f [] = ret ()"
| "for_each f (x # xs) = andthen (f x) (for_each f xs)"

text \<open>\<open>[f x for x in xs]\<close> with effects, in order.\<close>

fun map_each :: "('a \<Rightarrow> ('s, 'b) prog) \<Rightarrow> 'a list \<Rightarrow> ('s, 'b list) prog" where
  "map_each f [] = ret []"
| "map_each f (x # xs) = bnd (f x) (\<lambda>y. bnd (map_each f xs) (\<lambda>ys. ret (y # ys)))"

text \<open>
  A request or a cron run is one database transaction: when an exception leaves it, what it
  wrote is undone. \<open>undo s s'\<close> says what the state is then, from the state before and the
  one where the exception left (commands sent to a router are not undone, for example).
\<close>

definition run_tx :: "('s \<Rightarrow> 's \<Rightarrow> 's) \<Rightarrow> ('s, 'a) prog \<Rightarrow> 's \<Rightarrow> 's" where
  "run_tx undo m s = (case m s of (Inl e, s') \<Rightarrow> undo s s' | (Inr x, s') \<Rightarrow> s')"

lemma ret_run [run_simps]: "ret x s = (Inr x, s)"
  by (simp add: ret_def)

lemma raise_run [run_simps]: "raise e s = (Inl e, s)"
  by (simp add: raise_def)

lemma gets_run [run_simps]: "gets f s = (Inr (f s), s)"
  by (simp add: gets_def)

lemma modify_run [run_simps]: "modify f s = (Inr (), f s)"
  by (simp add: modify_def)

lemma bnd_run [run_simps]:
  "bnd m k s = (case m s of (Inl e, s') \<Rightarrow> (Inl e, s') | (Inr x, s') \<Rightarrow> k x s')"
  by (simp add: bnd_def)

lemma andthen_run [run_simps]:
  "andthen m k s = (case m s of (Inl e, s') \<Rightarrow> (Inl e, s') | (Inr x, s') \<Rightarrow> k s')"
  by (simp add: andthen_def bnd_def)

lemma do_if_run [run_simps]: "do_if b m s = (if b then m s else (Inr (), s))"
  by (simp add: do_if_def ret_def)

lemma catching_run [run_simps]:
  "catching p m h s = (case m s of
      (Inl e, s') \<Rightarrow> (if p e then h e s' else (Inl e, s'))
    | (Inr x, s') \<Rightarrow> (Inr x, s'))"
  by (simp add: catching_def)

lemma bnd_ok:
  assumes "bnd m k s = (Inr y, s'')"
  obtains x s' where "m s = (Inr x, s')" and "k x s' = (Inr y, s'')"
  using assms by (auto simp: bnd_def split: prod.splits sum.splits)

lemma andthen_ok:
  assumes "andthen m k s = (Inr y, s'')"
  obtains x s' where "m s = (Inr x, s')" and "k s' = (Inr y, s'')"
  using assms by (auto simp: andthen_def elim: bnd_ok)

lemma andthen_raises: "m s = (Inl e, s') \<Longrightarrow> andthen m k s = (Inl e, s')"
  by (simp add: andthen_run)

lemma for_each_append:
  "for_each f (xs @ ys) = andthen (for_each f xs) (for_each f ys)"
  by (induction xs) (simp_all add: fun_eq_iff andthen_run ret_run split: prod.split sum.split)

section \<open>Invariants of programs\<close>

definition keeps :: "('s \<Rightarrow> bool) \<Rightarrow> ('s, 'a) prog \<Rightarrow> bool" where
  "keeps I m \<longleftrightarrow> (\<forall>s x s'. I s \<longrightarrow> m s = (Inr x, s') \<longrightarrow> I s')"

definition keeps_all :: "('s \<Rightarrow> bool) \<Rightarrow> ('s, 'a) prog \<Rightarrow> bool" where
  "keeps_all I m \<longleftrightarrow> (\<forall>s. I s \<longrightarrow> I (snd (m s)))"

lemma keepsD: "keeps I m \<Longrightarrow> I s \<Longrightarrow> m s = (Inr x, s') \<Longrightarrow> I s'"
  by (auto simp: keeps_def)

lemma keeps_allD: "keeps_all I m \<Longrightarrow> I s \<Longrightarrow> m s = (r, s') \<Longrightarrow> I s'"
  by (metis keeps_all_def snd_conv)

lemma keeps_all_imp: "keeps_all I m \<Longrightarrow> keeps I m"
  by (fastforce simp: keeps_def keeps_all_def)

lemma keeps_ret [keeps_intros]: "keeps I (ret x)"
  by (simp add: keeps_def ret_def)

lemma keeps_raise [keeps_intros]: "keeps I (raise e)"
  by (simp add: keeps_def raise_def)

lemma keeps_gets [keeps_intros]: "keeps I (gets f)"
  by (simp add: keeps_def gets_def)

lemma keeps_modify: "(\<And>s. I s \<Longrightarrow> I (f s)) \<Longrightarrow> keeps I (modify f)"
  by (simp add: keeps_def modify_def)

lemma keeps_bnd [keeps_intros]: "keeps I m \<Longrightarrow> (\<And>x. keeps I (k x)) \<Longrightarrow> keeps I (bnd m k)"
  unfolding keeps_def by (metis bnd_ok)

lemma keeps_andthen [keeps_intros]: "keeps I m \<Longrightarrow> keeps I k \<Longrightarrow> keeps I (andthen m k)"
  by (simp add: andthen_def keeps_bnd)

lemma keeps_do_if [keeps_intros]: "(b \<Longrightarrow> keeps I m) \<Longrightarrow> keeps I (do_if b m)"
  by (simp add: do_if_def keeps_ret)

lemma keeps_if [keeps_intros]:
  "(b \<Longrightarrow> keeps I m) \<Longrightarrow> (\<not> b \<Longrightarrow> keeps I n) \<Longrightarrow> keeps I (if b then m else n)"
  by simp

lemma keeps_case_prod [keeps_intros]:
  "(\<And>a b. keeps I (f a b)) \<Longrightarrow> keeps I (case p of (a, b) \<Rightarrow> f a b)"
  by (simp split: prod.split)

lemma keeps_case_option [keeps_intros]:
  "keeps I m \<Longrightarrow> (\<And>x. keeps I (k x)) \<Longrightarrow> keeps I (case v of None \<Rightarrow> m | Some x \<Rightarrow> k x)"
  by (simp split: option.split)

lemma keeps_catching:
  "keeps_all I m \<Longrightarrow> (\<And>e. keeps I (h e)) \<Longrightarrow> keeps I (catching p m h)"
  unfolding keeps_def keeps_all_def catching_run
  by (auto split: prod.splits sum.splits if_splits)

lemma keeps_for_each [keeps_intros]: "(\<And>x. keeps I (f x)) \<Longrightarrow> keeps I (for_each f xs)"
  by (induction xs) (simp_all add: keeps_ret keeps_andthen)

lemma keeps_map_each [keeps_intros]: "(\<And>x. keeps I (f x)) \<Longrightarrow> keeps I (map_each f xs)"
  by (induction xs) (auto intro!: keeps_intros)

lemma keeps_all_ret [keeps_all_intros]: "keeps_all I (ret x)"
  by (simp add: keeps_all_def ret_def)

lemma keeps_all_raise [keeps_all_intros]: "keeps_all I (raise e)"
  by (simp add: keeps_all_def raise_def)

lemma keeps_all_gets [keeps_all_intros]: "keeps_all I (gets f)"
  by (simp add: keeps_all_def gets_def)

lemma keeps_all_modify: "(\<And>s. I s \<Longrightarrow> I (f s)) \<Longrightarrow> keeps_all I (modify f)"
  by (simp add: keeps_all_def modify_def)

lemma keeps_all_bnd [keeps_all_intros]:
  assumes "keeps_all I m" and "\<And>x. keeps_all I (k x)"
  shows "keeps_all I (bnd m k)"
  unfolding keeps_all_def
proof (intro allI impI)
  fix s
  assume "I s"
  obtain r s' where m: "m s = (r, s')" by fastforce
  with assms(1) \<open>I s\<close> have "I s'" by (rule keeps_allD)
  with m assms(2) show "I (snd (bnd m k s))"
    by (cases r) (auto simp: bnd_run keeps_all_def)
qed

lemma keeps_all_andthen [keeps_all_intros]:
  "keeps_all I m \<Longrightarrow> keeps_all I k \<Longrightarrow> keeps_all I (andthen m k)"
  by (simp add: andthen_def keeps_all_bnd)

lemma keeps_all_do_if [keeps_all_intros]: "(b \<Longrightarrow> keeps_all I m) \<Longrightarrow> keeps_all I (do_if b m)"
  by (simp add: do_if_def keeps_all_ret)

lemma keeps_all_if [keeps_all_intros]:
  "(b \<Longrightarrow> keeps_all I m) \<Longrightarrow> (\<not> b \<Longrightarrow> keeps_all I n) \<Longrightarrow> keeps_all I (if b then m else n)"
  by simp

lemma keeps_all_case_prod [keeps_all_intros]:
  "(\<And>a b. keeps_all I (f a b)) \<Longrightarrow> keeps_all I (case p of (a, b) \<Rightarrow> f a b)"
  by (simp split: prod.split)

lemma keeps_all_case_option [keeps_all_intros]:
  "keeps_all I m \<Longrightarrow> (\<And>x. keeps_all I (k x)) \<Longrightarrow>
   keeps_all I (case v of None \<Rightarrow> m | Some x \<Rightarrow> k x)"
  by (simp split: option.split)

lemma keeps_all_list:
  "keeps_all I m \<Longrightarrow> (\<And>x xs. keeps_all I (k x xs)) \<Longrightarrow> keeps_all I (case v of [] \<Rightarrow> m | x # xs \<Rightarrow> k x xs)"
  by (cases v) simp_all

lemma keeps_all_catching [keeps_all_intros]:
  assumes "keeps_all I m" and "\<And>e. keeps_all I (h e)"
  shows "keeps_all I (catching p m h)"
  unfolding keeps_all_def
proof (intro allI impI)
  fix s
  assume "I s"
  obtain r s' where m: "m s = (r, s')" by fastforce
  with assms(1) \<open>I s\<close> have "I s'" by (rule keeps_allD)
  with m assms(2) show "I (snd (catching p m h s))"
    by (cases r) (auto simp: catching_run keeps_all_def)
qed

lemma keeps_all_for_each [keeps_all_intros]:
  "(\<And>x. keeps_all I (f x)) \<Longrightarrow> keeps_all I (for_each f xs)"
  by (induction xs) (simp_all add: keeps_all_ret keeps_all_andthen)

lemma keeps_all_map_each [keeps_all_intros]:
  "(\<And>x. keeps_all I (f x)) \<Longrightarrow> keeps_all I (map_each f xs)"
  by (induction xs) (auto intro!: keeps_all_intros)

section \<open>Tables of records\<close>

type_synonym 'r table = "(nat \<times> 'r) list"

definition tget :: "'r table \<Rightarrow> nat \<Rightarrow> 'r option" where
  "tget t i = map_of t i"

definition tupd :: "nat \<Rightarrow> ('r \<Rightarrow> 'r) \<Rightarrow> 'r table \<Rightarrow> 'r table" where
  "tupd i f t = map (\<lambda>(j, r). if j = i then (j, f r) else (j, r)) t"

definition fresh_id :: "'r table \<Rightarrow> nat" where
  "fresh_id t = Suc (foldr max (map fst t) 0)"

definition tins :: "'r \<Rightarrow> 'r table \<Rightarrow> 'r table" where
  "tins r t = t @ [(fresh_id t, r)]"

text \<open>The ids of the rows that a search domain accepts, in table order.\<close>

definition search_ids :: "(nat \<Rightarrow> 'r \<Rightarrow> bool) \<Rightarrow> 'r table \<Rightarrow> nat list" where
  "search_ids p t =
     filter (\<lambda>i. case tget t i of None \<Rightarrow> False | Some r \<Rightarrow> p i r) (remdups (map fst t))"

lemma fresh_id_gt: "i \<in> fst ` set t \<Longrightarrow> i < fresh_id t"
  unfolding fresh_id_def by (induction t) (fastforce simp: less_Suc_eq_le le_max_iff_disj)+

lemma tget_fresh: "tget t (fresh_id t) = None"
  using fresh_id_gt [of "fresh_id t" t] by (auto simp: tget_def map_of_eq_None_iff)

lemma tget_tupd: "tget (tupd i f t) j = (if j = i then map_option f (tget t j) else tget t j)"
  by (induction t) (auto simp: tget_def tupd_def)

lemma tget_tins: "tget (tins r t) j = (if j = fresh_id t then Some r else tget t j)"
  using tget_fresh [of t]
  by (auto simp: tget_def tins_def map_add_def split: option.splits)

lemma map_fst_tupd: "map fst (tupd i f t) = map fst t"
  by (auto simp: tupd_def)

lemma length_tupd: "length (tupd i f t) = length t"
  by (simp add: tupd_def)

lemma tget_in_ids: "tget t i = Some r \<Longrightarrow> i \<in> fst ` set t"
  by (auto simp: tget_def dest!: map_of_SomeD intro: rev_image_eqI)

lemma search_ids_iff: "i \<in> set (search_ids p t) \<longleftrightarrow> (\<exists>r. tget t i = Some r \<and> p i r)"
  by (auto simp: search_ids_def tget_in_ids split: option.splits)

lemma distinct_search_ids: "distinct (search_ids p t)"
  by (simp add: search_ids_def)

lemma search_ids_empty: "search_ids p t = [] \<longleftrightarrow> (\<forall>i r. tget t i = Some r \<longrightarrow> \<not> p i r)"
  using search_ids_iff [of _ p t] by (metis list.set_intros(1) neq_Nil_conv empty_iff list.set(1))

text \<open>
  What the models rely on: a lookup after an update or an insert. Everything about the rows of
  a table is proved from these laws alone.
\<close>

locale row_store =
  fixes look :: "'t \<Rightarrow> nat \<Rightarrow> 'r option"
    and upd :: "nat \<Rightarrow> ('r \<Rightarrow> 'r) \<Rightarrow> 't \<Rightarrow> 't"
    and ins :: "'r \<Rightarrow> 't \<Rightarrow> 't"
    and new_id :: "'t \<Rightarrow> nat"
  assumes look_upd: "look (upd i f t) j = (if j = i then map_option f (look t j) else look t j)"
    and look_ins: "look (ins r t) j = (if j = new_id t then Some r else look t j)"
    and look_new: "look t (new_id t) = None"
begin

lemma all_upd:
  assumes "\<And>j r. look t j = Some r \<Longrightarrow> P j r"
    and "\<And>r. look t i = Some r \<Longrightarrow> P i (f r)"
    and "look (upd i f t) j = Some r"
  shows "P j r"
  using assms by (auto simp: look_upd split: if_splits)

lemma all_ins:
  assumes "\<And>j r. look t j = Some r \<Longrightarrow> P j r"
    and "P (new_id t) r0"
    and "look (ins r0 t) j = Some r"
  shows "P j r"
  using assms by (auto simp: look_ins split: if_splits)

lemma upd_other: "j \<noteq> i \<Longrightarrow> look (upd i f t) j = look t j"
  by (simp add: look_upd)

lemma upd_same: "look t i = Some r \<Longrightarrow> look (upd i f t) i = Some (f r)"
  by (simp add: look_upd)

lemma ins_old: "look t j = Some r \<Longrightarrow> look (ins r0 t) j = Some r"
  by (auto simp: look_ins look_new)

lemma ins_new: "look (ins r0 t) (new_id t) = Some r0"
  by (simp add: look_ins)

lemma upd_None: "look (upd i f t) j = None \<longleftrightarrow> look t j = None"
  by (simp add: look_upd)

end

interpretation tbl: row_store tget tupd tins fresh_id
  by unfold_locales (auto simp: tget_tupd tget_tins tget_fresh)

lemma remdups_snoc: "y \<notin> set xs \<Longrightarrow> remdups (xs @ [y]) = remdups xs @ [y]"
  by (induction xs) auto

lemma dom_tupd: "dom (tget (tupd i f t)) = dom (tget t)"
  by (auto simp: tbl.look_upd split: if_splits)

lemma dom_tins: "dom (tget (tins r t)) = insert (fresh_id t) (dom (tget t))"
  by (auto simp: tbl.look_ins split: if_splits)

lemma search_ids_tins:
  "search_ids p (tins r t) = search_ids p t @ (if p (fresh_id t) r then [fresh_id t] else [])"
proof -
  have new: "fresh_id t \<notin> set (map fst t)" using fresh_id_gt [of _ t] by fastforce
  have ids: "remdups (map fst (tins r t)) = remdups (map fst t) @ [fresh_id t]"
    using remdups_snoc [OF new] by (simp add: tins_def)
  show ?thesis
    unfolding search_ids_def ids using new by (auto simp: tget_tins intro!: filter_cong)
qed

text \<open>A reference to a row: not set, or the id of a row that exists.\<close>

definition refers :: "'r table \<Rightarrow> nat option \<Rightarrow> bool" where
  "refers t k \<longleftrightarrow> (case k of None \<Rightarrow> True | Some i \<Rightarrow> tget t i \<noteq> None)"

lemma refers_simps [simp]: "refers t None" "refers t (Some i) \<longleftrightarrow> tget t i \<noteq> None"
  by (simp_all add: refers_def)

lemma refers_mono: "refers t k \<Longrightarrow> dom (tget t) \<subseteq> dom (tget u) \<Longrightarrow> refers u k"
  by (cases k) auto

text \<open>The rows after a list of inserts: the old ones, and new ones under the returned ids.\<close>

lemma inserted_rows:
  assumes ins: "\<And>v s i s'. ins v s = (Inr i, s') \<Longrightarrow> i = fresh_id (tab s) \<and> s' = put (tins (row v) (tab s)) s"
    and put: "\<And>t s. tab (put t s) = t"
    and run: "map_each ins vl s = (Inr ids, s')" and r: "tget (tab s') j = Some r"
  shows "tget (tab s) j = Some r \<or> j \<in> set ids \<and> (\<exists>v\<in>set vl. r = row v)"
  using run
proof (induction vl arbitrary: s ids)
  case Nil
  with r show ?case by (simp add: ret_run)
next
  case (Cons v vl)
  let ?t = "put (tins (row v) (tab s)) s"
  from Cons.prems(1) obtain y t js where y: "ins v s = (Inr y, t)" and m: "map_each ins vl t = (Inr js, s')"
      and ids: "ids = y # js"
    by (auto simp: ret_run elim!: bnd_ok)
  from ins [OF y] have "y = fresh_id (tab s)" "t = ?t" by simp_all
  with m ids have js: "map_each ins vl ?t = (Inr js, s')" "ids = fresh_id (tab s) # js" by simp_all
  from Cons.IH [OF js(1)] show ?case
    by (auto simp: put js(2) tbl.look_ins split: if_splits)
qed

text \<open>
  A model whose \<open>write\<close> validates what it stores: it touches one row, and a row that was good
  is good after a write that returns. Then so are all rows, over any sequence of writes.
\<close>

locale checked_rows =
  fixes rows :: "'s \<Rightarrow> nat \<Rightarrow> 'r option"
    and wr :: "nat \<Rightarrow> 'v list \<Rightarrow> ('s, unit) prog"
    and good :: "'r \<Rightarrow> bool"
  assumes wr_other: "wr i vs s = (Inr (), s') \<Longrightarrow> j \<noteq> i \<Longrightarrow> rows s' j = rows s j"
    and wr_good: "wr i vs s = (Inr (), s') \<Longrightarrow> rows s' i = Some r' \<Longrightarrow>
      (\<And>r. rows s i = Some r \<Longrightarrow> good r) \<Longrightarrow> good r'"
begin

lemma keeps_wr: "keeps (\<lambda>s. \<forall>j r. rows s j = Some r \<longrightarrow> good r) (wr i vs)"
  unfolding keeps_def
proof (intro allI impI)
  fix s s' j r and x :: unit
  assume ok: "\<forall>j r. rows s j = Some r \<longrightarrow> good r" and w: "wr i vs s = (Inr x, s')"
    and r: "rows s' j = Some r"
  from w have w: "wr i vs s = (Inr (), s')" by simp
  show "good r"
    using wr_other [OF w, of j] wr_good [OF w, of r] ok r by (cases "j = i") auto
qed

lemma keeps_writes: "keeps (\<lambda>s. \<forall>j r. rows s j = Some r \<longrightarrow> good r) (for_each (\<lambda>(i, vs). wr i vs) ws)"
  by (rule keeps_for_each) (simp add: keeps_wr split: prod.split)

end

text \<open>A transition system with an inductive invariant; reachable states satisfy it.\<close>

locale guarded_system =
  fixes step :: "'s \<Rightarrow> 's \<Rightarrow> bool"
    and inv :: "'s \<Rightarrow> bool"
  assumes step_inv: "step s t \<Longrightarrow> inv s \<Longrightarrow> inv t"
begin

lemma reach_inv: "step\<^sup>*\<^sup>* s t \<Longrightarrow> inv s \<Longrightarrow> inv t"
  by (induction rule: rtranclp_induct) (auto intro: step_inv)

end

end
