(* ===== verification/Py.thy ===== *)
theory Py
  imports Prelude
begin

text \<open>
  The Python values and string functions the code uses: dynamic values (\<open>pyval\<close>, for
  keyword arguments, JSON payloads and the YAML configuration) with their truth value, and
  \<open>strip\<close>, \<open>split\<close>, \<open>upper\<close>, \<open>lower\<close>, \<open>replace\<close>, \<open>join\<close>,
  \<open>startswith\<close>, \<open>isdigit\<close>, \<open>int\<close> and \<open>str\<close> on ASCII text.
\<close>

section \<open>Values\<close>

datatype pyval =
    PNone
  | PBool bool
  | PInt int
  | PFloat rat
  | PStr string
  | PList "pyval list"
  | PDict "(string \<times> pyval) list"

fun truthy :: "pyval \<Rightarrow> bool" where
  "truthy PNone = False"
| "truthy (PBool b) = b"
| "truthy (PInt i) = (i \<noteq> 0)"
| "truthy (PFloat x) = (x \<noteq> 0)"
| "truthy (PStr s) = (s \<noteq> [])"
| "truthy (PList xs) = (xs \<noteq> [])"
| "truthy (PDict d) = (d \<noteq> [])"

text \<open>A \<open>Char\<close> field: \<open>False\<close> when it is not set.\<close>

definition set_str :: "string option \<Rightarrow> bool" where
  "set_str x = (case x of None \<Rightarrow> False | Some s \<Rightarrow> s \<noteq> [])"

definition char_val :: "string option \<Rightarrow> pyval" where
  "char_val x = (case x of None \<Rightarrow> PBool False | Some s \<Rightarrow> PStr s)"

text \<open>\<open>x or d\<close> on a \<open>Char\<close> field.\<close>

definition or_str :: "string option \<Rightarrow> string \<Rightarrow> string" where
  "or_str x d = (case x of None \<Rightarrow> d | Some s \<Rightarrow> if s = [] then d else s)"

lemma set_str_simps [simp]: "\<not> set_str None" "set_str (Some s) \<longleftrightarrow> s \<noteq> []"
  by (simp_all add: set_str_def)

lemma or_str_simps [simp]:
  "or_str None d = d" "or_str (Some []) d = d" "s \<noteq> [] \<Longrightarrow> or_str (Some s) d = s"
  by (simp_all add: or_str_def)

lemma set_strE: "set_str x \<Longrightarrow> (\<And>s. x = Some s \<Longrightarrow> s \<noteq> [] \<Longrightarrow> P) \<Longrightarrow> P"
  by (auto simp: set_str_def split: option.splits)

section \<open>Strings\<close>

definition lower_letters :: string where
  "lower_letters = ''abcdefghijklmnopqrstuvwxyz''"

definition upper_letters :: string where
  "upper_letters = ''ABCDEFGHIJKLMNOPQRSTUVWXYZ''"

definition map_char :: "(char \<times> char) list \<Rightarrow> char \<Rightarrow> char" where
  "map_char m c = (case map_of m c of None \<Rightarrow> c | Some d \<Rightarrow> d)"

definition py_upper :: "string \<Rightarrow> string" where
  "py_upper s = map (map_char (zip lower_letters upper_letters)) s"

definition py_lower :: "string \<Rightarrow> string" where
  "py_lower s = map (map_char (zip upper_letters lower_letters)) s"

definition is_space :: "char \<Rightarrow> bool" where
  "is_space c = (c \<in> set [CHR '' '', CHR 0x09, CHR 0x0A, CHR 0x0B, CHR 0x0C, CHR 0x0D,
     CHR 0x1C, CHR 0x1D, CHR 0x1E, CHR 0x1F])"

definition py_strip :: "string \<Rightarrow> string" where
  "py_strip s = rev (dropWhile is_space (rev (dropWhile is_space s)))"

definition py_rstrip_char :: "char \<Rightarrow> string \<Rightarrow> string" where
  "py_rstrip_char c s = rev (dropWhile (\<lambda>d. d = c) (rev s))"

fun py_split :: "char \<Rightarrow> string \<Rightarrow> string list" where
  "py_split c [] = [[]]"
| "py_split c (d # s) = (if d = c then [] # py_split c s
     else (case py_split c s of [] \<Rightarrow> [[d]] | w # ws \<Rightarrow> (d # w) # ws))"

fun py_join :: "string \<Rightarrow> string list \<Rightarrow> string" where
  "py_join sep [] = []"
| "py_join sep [w] = w"
| "py_join sep (w # ws) = w @ sep @ py_join sep ws"

text \<open>\<open>s.replace(c, r)\<close> for a one-character pattern.\<close>

definition py_replace :: "char \<Rightarrow> string \<Rightarrow> string \<Rightarrow> string" where
  "py_replace c r s = concat (map (\<lambda>d. if d = c then r else [d]) s)"

definition py_startswith :: "string \<Rightarrow> string \<Rightarrow> bool" where
  "py_startswith s p = (take (length p) s = p)"

definition digit_chars :: string where
  "digit_chars = ''0123456789''"

definition digit_val :: "char \<Rightarrow> int option" where
  "digit_val c = map_of (zip digit_chars [0, 1, 2, 3, 4, 5, 6, 7, 8, 9]) c"

definition py_isdigit :: "string \<Rightarrow> bool" where
  "py_isdigit s = (s \<noteq> [] \<and> list_all (\<lambda>c. c \<in> set digit_chars) s)"

text \<open>
  \<open>int(s)\<close> on a string: surrounding blanks and one sign are accepted, single underscores
  between digits too; anything else is a \<open>ValueError\<close> (\<open>None\<close> here).
\<close>

fun digits_int :: "int \<Rightarrow> bool \<Rightarrow> string \<Rightarrow> int option" where
  "digits_int acc after_digit [] = (if after_digit then Some acc else None)"
| "digits_int acc after_digit (c # s) =
     (case digit_val c of
        Some d \<Rightarrow> digits_int (10 * acc + d) True s
      | None \<Rightarrow> (if c = CHR ''_'' \<and> after_digit then digits_int acc False s else None))"

definition py_int :: "string \<Rightarrow> int option" where
  "py_int s = (case py_strip s of
      [] \<Rightarrow> None
    | c # cs \<Rightarrow>
        (if c = CHR ''-'' then map_option uminus (digits_int 0 False cs)
         else if c = CHR ''+'' then digits_int 0 False cs
         else digits_int 0 False (c # cs)))"

text \<open>\<open>str(n)\<close> for a natural number.\<close>

fun nat_str :: "nat \<Rightarrow> string" where
  "nat_str n = (if n < 10 then [digit_chars ! n]
     else nat_str (n div 10) @ [digit_chars ! (n mod 10)])"

declare nat_str.simps [simp del]

definition int_str :: "int \<Rightarrow> string" where
  "int_str i = (if i < 0 then CHR ''-'' # nat_str (nat (- i)) else nat_str (nat i))"

subsection \<open>Case and blanks\<close>

lemma map_char_idem:
  assumes "set (map fst m) \<inter> set (map snd m) = {}"
  shows "map_char m (map_char m c) = map_char m c"
proof (cases "map_of m c")
  case None
  then show ?thesis by (simp add: map_char_def)
next
  case (Some d)
  then have "d \<in> set (map snd m)" by (force dest: map_of_SomeD)
  with assms have "d \<notin> fst ` set m" by auto
  then have "map_of m d = None" by (simp add: map_of_eq_None_iff)
  with Some show ?thesis by (simp add: map_char_def)
qed

lemma py_upper_idem: "py_upper (py_upper s) = py_upper s"
proof -
  have "set (map fst (zip lower_letters upper_letters)) \<inter>
        set (map snd (zip lower_letters upper_letters)) = {}"
    by (simp add: lower_letters_def upper_letters_def)
  then show ?thesis by (simp add: py_upper_def map_char_idem)
qed

lemma is_space_upper: "is_space (map_char (zip lower_letters upper_letters) c) = is_space c"
proof (cases "map_of (zip lower_letters upper_letters) c")
  case None
  then show ?thesis by (simp add: map_char_def)
next
  case (Some d)
  then have "c \<in> set lower_letters" "d \<in> set upper_letters"
    by (force dest: map_of_SomeD set_zip_leftD set_zip_rightD)+
  then have "\<not> is_space c" "\<not> is_space d"
    by (auto simp: is_space_def lower_letters_def upper_letters_def)
  with Some show ?thesis by (simp add: map_char_def)
qed

lemma dropWhile_map_upper:
  "dropWhile is_space (py_upper s) = py_upper (dropWhile is_space s)"
  by (induction s) (simp_all add: py_upper_def is_space_upper)

lemma rev_upper: "rev (py_upper s) = py_upper (rev s)"
  by (simp add: py_upper_def rev_map)

lemma strip_upper: "py_strip (py_upper s) = py_upper (py_strip s)"
  by (simp add: py_strip_def dropWhile_map_upper rev_upper)

lemma dropWhile_idem: "dropWhile p (dropWhile p xs) = dropWhile p xs"
  by (induction xs) auto

lemma dropWhile_rev_dropWhile:
  "dropWhile p xs = xs \<Longrightarrow> dropWhile p (rev (dropWhile p (rev xs))) = rev (dropWhile p (rev xs))"
proof (cases xs)
  case (Cons y ys)
  assume "dropWhile p xs = xs"
  with Cons have "\<not> p y" by (metis hd_dropWhile list.distinct(1) list.sel(1))
  with Cons show ?thesis by (simp add: dropWhile_append)
qed simp

lemma py_strip_idem: "py_strip (py_strip s) = py_strip s"
proof -
  have "dropWhile is_space (py_strip s) = py_strip s"
    unfolding py_strip_def by (rule dropWhile_rev_dropWhile) (rule dropWhile_idem)
  then show ?thesis
    by (simp add: py_strip_def dropWhile_idem)
qed

lemma set_py_strip: "set (py_strip s) \<subseteq> set s"
  by (auto simp: py_strip_def dest!: set_dropWhileD)

subsection \<open>Splitting\<close>

lemma py_split_nonempty: "py_split c s \<noteq> []"
  by (cases s) (auto split: list.splits)

lemma py_split_no_sep: "w \<in> set (py_split c s) \<Longrightarrow> c \<notin> set w"
  by (induction s arbitrary: w) (auto split: if_splits list.splits)

lemma py_join_split: "py_join [c] (py_split c s) = s"
proof (induction s)
  case (Cons d s)
  obtain w ws where "py_split c s = w # ws"
    using py_split_nonempty [of c s] by (cases "py_split c s") auto
  with Cons show ?case by (cases ws) auto
qed simp

lemma py_split_append: "c \<notin> set w \<Longrightarrow> py_split c (w @ c # s) = w # py_split c s"
  by (induction w) auto

lemma py_split_none: "c \<notin> set w \<Longrightarrow> py_split c w = [w]"
  by (induction w) auto

lemma py_split_join:
  "ws \<noteq> [] \<Longrightarrow> \<forall>w\<in>set ws. c \<notin> set w \<Longrightarrow> py_split c (py_join [c] ws) = ws"
proof (induction ws)
  case (Cons w vs)
  then show ?case by (cases vs) (simp_all add: py_split_append py_split_none)
qed simp

subsection \<open>Numbers\<close>

lemma digit_val_nth: "n < 10 \<Longrightarrow> digit_val (digit_chars ! n) = Some (int n)"
proof -
  assume "n < 10"
  then have "n \<in> {0, 1, 2, 3, 4, 5, 6, 7, 8, 9}" by auto
  then show ?thesis by (auto simp: digit_val_def digit_chars_def)
qed

lemma digits_int_snoc:
  "digits_int acc b s = Some v \<Longrightarrow> n < 10 \<Longrightarrow>
   digits_int acc b (s @ [digit_chars ! n]) = Some (10 * v + int n)"
  by (induction acc b s rule: digits_int.induct)
    (auto simp: digit_val_nth split: if_splits option.splits)

lemma digits_int_nat_str: "digits_int 0 False (nat_str n) = Some (int n)"
proof (induction n rule: nat_str.induct)
  case (1 n)
  show ?case
  proof (cases "n < 10")
    case True
    then show ?thesis by (simp add: nat_str.simps [of n] digit_val_nth)
  next
    case False
    with "1" have "digits_int 0 False (nat_str (n div 10)) = Some (int (n div 10))" by simp
    then have "digits_int 0 False (nat_str (n div 10) @ [digit_chars ! (n mod 10)])
        = Some (10 * int (n div 10) + int (n mod 10))"
      by (rule digits_int_snoc) simp
    moreover have "10 * int (n div 10) + int (n mod 10) = int n" by presburger
    ultimately show ?thesis using False by (simp add: nat_str.simps [of n])
  qed
qed

lemma set_nat_str: "set (nat_str n) \<subseteq> set digit_chars"
proof (induction n rule: nat_str.induct)
  case (1 n)
  have "length digit_chars = 10" by (simp add: digit_chars_def)
  with "1" show ?case by (simp add: nat_str.simps [of n])
qed

lemma nat_str_nonempty: "nat_str n \<noteq> []"
  by (subst nat_str.simps) simp

lemma isdigit_nat_str: "py_isdigit (nat_str n)"
  using set_nat_str by (auto simp: py_isdigit_def nat_str_nonempty list_all_iff)

lemma strip_digits: "set s \<subseteq> set digit_chars \<Longrightarrow> py_strip s = s"
proof -
  assume *: "set s \<subseteq> set digit_chars"
  have no_space: "\<not> is_space c" if "c \<in> set digit_chars" for c
    using that by (auto simp: is_space_def digit_chars_def)
  have drop: "dropWhile is_space xs = xs" if "set xs \<subseteq> set digit_chars" for xs
    using that no_space by (cases xs) auto
  show ?thesis using * drop [of s] drop [of "rev s"] by (simp add: py_strip_def)
qed

lemma py_int_nat_str: "py_int (nat_str n) = Some (int n)"
proof -
  obtain c cs where eq: "nat_str n = c # cs"
    using nat_str_nonempty by (metis list.exhaust)
  have "c \<in> set digit_chars" using set_nat_str [of n] eq by auto
  then have "c \<noteq> CHR ''-''" "c \<noteq> CHR ''+''" by (auto simp: digit_chars_def)
  with eq digits_int_nat_str [of n] strip_digits [OF set_nat_str [of n]] show ?thesis
    by (simp add: py_int_def del: digits_int.simps)
qed

end
