(* ===== verification/Schema.thy ===== *)
theory Schema
  imports Py
begin

text \<open>
  The data model: one record per Odoo model with the fields the source declares (computed and
  related fields are functions of the others), the database \<open>sys\<close> that holds one table
  per model, and the environment \<open>env\<close> of everything that is not under \<open>src/\<close>
  (clock, sequences, random tokens, system parameters, RouterOS devices, accounting, mail
  templates, calendar arithmetic). Many2one fields are \<open>nat option\<close> (the id, or
  \<open>None\<close> for \<open>False\<close>), Char fields \<open>string option\<close>, Date fields the
  ordinal day and Datetime fields the second, Float fields the exact rational value carried.
\<close>

section \<open>Core models (addons/isp_core/models)\<close>

datatype service_type = STPppoe | STDhcp | STHotspot

record service_plan =
  plan_name :: string
  plan_service_type :: service_type
  plan_active :: bool
  plan_download_mbps :: rat
  plan_upload_mbps :: rat
  plan_price_monthly :: rat
  plan_mikrotik_profile :: "string option"
  plan_suspend_after_days :: int
  plan_tax_ids :: "nat list"

record sector =
  sec_name :: string
  sec_code :: string
  sec_active :: bool

datatype device_type = DTMikrotik | DTOlt | DTOther
datatype device_status = DSDraft | DSActive | DSMaintenance | DSRetired

record device =
  dev_name :: string
  dev_device_type :: device_type
  dev_sector_id :: "nat option"
  dev_mgmt_ip :: "string option"
  dev_mgmt_port :: int
  dev_status :: device_status

datatype healthcheck_status = HcOk | HcFailed

record router =
  rtr_device_id :: "nat option"
  rtr_api_user :: "string option"
  rtr_routeros_version :: pyval
  rtr_last_healthcheck_at :: "int option"
  rtr_last_healthcheck_status :: "healthcheck_status option"

record partner =
  par_name :: string
  par_email :: "string option"
  par_is_isp_customer :: bool

datatype sub_state = SubDraft | SubActive | SubSuspended | SubTerminated
datatype auth_method = AuthDhcp | AuthPppoe
datatype dhcp_mode = ModeDynamic | ModeStatic

record subscription =
  sub_name :: string
  sub_partner_id :: "nat option"
  sub_plan_id :: "nat option"
  sub_sector_id :: "nat option"
  sub_state :: sub_state
  sub_start_date :: "int option"
  sub_gps_lat :: rat
  sub_gps_lng :: rat
  sub_device_id :: "nat option"
  sub_auth_method :: auth_method
  sub_dhcp_mode :: dhcp_mode
  sub_next_invoice_date :: "int option"
  sub_pppoe_username :: "string option"
  sub_pppoe_password :: "string option"
  sub_pppoe_profile :: "string option"
  sub_service_ip :: "string option"
  sub_service_mac :: "string option"
  sub_router_id :: "nat option"
  sub_last_invoice_id :: "nat option"

datatype job_type =
    activate_subscription
  | suspend_subscription
  | reconnect_subscription
  | terminate_subscription
  | change_plan
  | disconnect_session
  | mikrotik_healthcheck
  | captive_user_create
  | captive_user_disable
  | walled_garden_apply
  | export_config_snapshot
  | activate_pppoe
  | activate_dhcp
  | ensure_queue

datatype job_state = JobQueued | JobRunning | JobSuccess | JobFailed

record provisioning_job =
  job_name :: string
  job_type :: job_type
  job_subscription_id :: "nat option"
  job_device_id :: "nat option"
  job_sector_id :: "nat option"
  job_state :: job_state
  job_attempts :: int
  job_max_attempts :: int
  job_error_message :: "string option"
  job_traceback :: "string option"
  job_requested_by :: nat
  job_requested_at :: int
  job_executed_at :: "int option"
  job_payload_json :: string

datatype effective_mode = EffImmediate | EffNextCycle | EffCustom
datatype pcr_state = PcrDraft | PcrSubmitted | PcrApproved | PcrRejected | PcrApplied

record plan_change_request =
  pcr_name :: string
  pcr_subscription_id :: "nat option"
  pcr_requested_plan_id :: "nat option"
  pcr_effective_date_mode :: effective_mode
  pcr_effective_date :: "int option"
  pcr_state :: pcr_state
  pcr_requested_by :: nat
  pcr_approved_by :: "nat option"
  pcr_rejection_reason :: "string option"

datatype fault_type = FltOutage | FltSpeed | FltBilling | FltEquipment | FltOther
datatype priority = PrioLow | PrioNormal | PrioHigh | PrioUrgent
datatype fault_state = FltNew | FltInProgress | FltWaiting | FltResolved | FltClosed

record fault_ticket =
  flt_name :: string
  flt_partner_id :: "nat option"
  flt_subscription_id :: "nat option"
  flt_gps_lat :: rat
  flt_gps_lng :: rat
  flt_fault_type :: fault_type
  flt_priority :: priority
  flt_state :: fault_state
  flt_opened_at :: "int option"
  flt_closed_at :: "int option"

record audit_entry =
  aud_action :: string
  aud_record_model :: string
  aud_record_id :: "nat option"
  aud_record_name :: string
  aud_user :: nat
  aud_timestamp :: int
  aud_details :: string

datatype mac_state = MacOnline | MacOffline

record mac_profile =
  mac_mac_address :: string
  mac_sector_id :: "nat option"
  mac_plan_id :: "nat option"
  mac_partner_id :: "nat option"
  mac_subscription_id :: "nat option"
  mac_state :: mac_state
  mac_last_seen_ip :: "string option"
  mac_last_seen_at :: int
  mac_hostname :: "string option"

section \<open>Captive portal, ONU and billing models\<close>

datatype captive_state = CapActive | CapDisabled

record captive_user =
  cap_username :: string
  cap_password :: "string option"
  cap_profile :: "string option"
  cap_state :: captive_state
  cap_router_id :: "nat option"

record walled_garden =
  wg_domain :: string
  wg_router_id :: "nat option"
  wg_active :: bool

record onu_assignment =
  asg_onu_id :: "nat option"
  asg_subscription_id :: "nat option"
  asg_active :: bool
  asg_assigned_at :: "int option"
  asg_unassigned_at :: "int option"

datatype move_type = OutInvoice | OutRefund | InInvoice | OtherMove
datatype move_state = MvDraft | MvPosted | MvCancel
datatype payment_state = NotPaid | InPayment | Paid | Partial | Reversed

record account_move =
  mv_move_type :: move_type
  mv_name :: "string option"
  mv_partner_id :: "nat option"
  mv_state :: move_state
  mv_payment_state :: payment_state
  mv_invoice_date :: "int option"
  mv_invoice_date_due :: "int option"
  mv_subscription_id :: "nat option"
  mv_line_name :: string
  mv_price_unit :: rat
  mv_tax_ids :: "nat list"

datatype transfer_state = TrfDraft | TrfInReview | TrfApproved | TrfRejected | TrfApplied

record transfer_payment =
  trf_name :: string
  trf_partner_id :: "nat option"
  trf_subscription_id :: "nat option"
  trf_invoice_ids :: "nat list"
  trf_bank_name :: string
  trf_reference :: string
  trf_amount :: rat
  trf_currency_id :: "nat option"
  trf_transfer_datetime :: "int option"
  trf_attachment_ids :: "nat list"
  trf_state :: transfer_state
  trf_reviewer_id :: "nat option"
  trf_review_deadline :: "int option"
  trf_attention_deadline :: "int option"
  trf_rejection_reason :: "string option"
  trf_accounting_payment_id :: "nat option"
  trf_needs_attention :: bool

text \<open>\<open>ir.attachment\<close>: the decoded content and the record it belongs to.\<close>

record attachment =
  att_name :: string
  att_raw :: string
  att_res_model :: string
  att_res_id :: nat

section \<open>Preconfiguration profiles (isp_mikrotik/models/preconfig.py)\<close>

record preconfig =
  pc_name :: "string option"
  pc_active :: bool
  pc_sequence :: int
  pc_sector_id :: "nat option"
  pc_is_default :: bool
  pc_mgmt_subnet :: "string option"
  pc_target_mac :: "string option"
  pc_bootstrap_user :: "string option"
  pc_bootstrap_pass :: "string option"
  pc_api_port :: int
  pc_routeros_mgmt_user :: "string option"
  pc_routeros_mgmt_pass_env :: "string option"
  pc_routeros_mgmt_pass_value :: "string option"
  pc_discovery_interfaces :: "string option"
  pc_allowed_mgmt_ips :: "string option"
  pc_apply_sector_config :: bool
  pc_wan_interface :: "string option"
  pc_lan_bridge :: "string option"
  pc_lan_ports :: "string option"
  pc_lan_address :: "string option"
  pc_dhcp_pool :: "string option"
  pc_dhcp_range :: "string option"
  pc_dhcp_server :: "string option"
  pc_dhcp_lease_time :: "string option"
  pc_dhcp_network :: "string option"
  pc_dns_server :: "string option"
  pc_enable_dhcp_client_wan :: bool
  pc_enable_nat :: bool
  pc_enable_hotspot :: bool
  pc_hotspot_profile :: "string option"
  pc_hotspot_server :: "string option"
  pc_hotspot_dns_name :: "string option"
  pc_hotspot_walled_garden :: "string option"
  pc_hotspot_login_by :: "string option"
  pc_hotspot_html_dir :: "string option"
  pc_call_home_enabled :: bool
  pc_call_home_url :: "string option"
  pc_call_home_token_value :: "string option"
  pc_call_home_interval :: "string option"
  pc_call_home_ip_lookup_url :: "string option"
  pc_call_home_script_name :: "string option"
  pc_call_home_scheduler_name :: "string option"
  pc_call_home_check_certificate :: bool
  pc_call_home_mac_interface :: "string option"
  pc_webhook_enabled :: bool
  pc_webhook_url :: "string option"
  pc_webhook_token_value :: "string option"
  pc_webhook_clear_lease_script_on_disable :: bool
  pc_identity_prefix :: "string option"
  pc_identity_format :: "string option"

section \<open>ONUs (isp_onu/models/onu.py)\<close>

datatype onu_status = OnuStock | OnuInstalled | OnuFaulty

record onu =
  onu_serial :: string
  onu_mac_address :: "string option"
  onu_vendor :: "string option"
  onu_model :: "string option"
  onu_sector_id :: "nat option"
  onu_olt_ref :: "string option"
  onu_pon_port :: "string option"
  onu_vlan :: "string option"
  onu_status :: "onu_status option"
  onu_notes :: "string option"

section \<open>Commands on a router and on the accounting application\<close>

text \<open>\<open>client.cmd(path, **kwargs)\<close>: the path and the keyword arguments in call order.\<close>

datatype cmd = Cmd (cmd_path: string) (cmd_args: "(string \<times> pyval) list")

type_synonym row = "(string \<times> pyval) list"

record connection_info =
  ci_host :: "string option"
  ci_port :: int
  ci_user :: string
  ci_password :: "string option"

text \<open>The accounting operations asked for: the payment wizard on invoices, or one payment.\<close>

datatype acct_op =
    RegisterPayments "nat list" rat nat int
  | PostPayment "nat option" rat "nat option" nat "nat option" int string

section \<open>The database and its environment\<close>

record sys =
  plans :: "service_plan table"
  sectors :: "sector table"
  devices :: "device table"
  routers :: "router table"
  partners :: "partner table"
  subs :: "subscription table"
  jobs :: "provisioning_job table"
  pcrs :: "plan_change_request table"
  faults :: "fault_ticket table"
  audits :: "audit_entry table"
  mac_profiles :: "mac_profile table"
  captive_users :: "captive_user table"
  walled_gardens :: "walled_garden table"
  assignments :: "onu_assignment table"
  moves :: "account_move table"
  transfers :: "transfer_payment table"
  outbox :: "(string \<times> nat) list"
  acct :: "acct_op list"
  seq_count :: "string \<Rightarrow> nat"
  draws :: nat
  wire :: "(nat \<times> cmd) list"
  attachments :: "attachment table"
  preconfigs :: "preconfig table"
  onus :: "onu table"

text \<open>
  \<open>wire\<close> is the list of commands sent to real routers (router id, command), oldest first;
  what a device answers is a function of it. \<open>outbox\<close> holds the mails queued (template,
  record), \<open>acct\<close> the accounting operations, \<open>seq_count\<close> the calls of
  \<open>next_by_code\<close> per sequence and \<open>draws\<close> the random tokens drawn.
\<close>

record env =
  now :: int
  today :: int
  today_ctx :: int
  env_user :: nat
  user_partner :: "nat option"
  has_group :: "string \<Rightarrow> bool"
  get_param :: "string \<Rightarrow> string option"
  seq_text :: "string \<Rightarrow> nat \<Rightarrow> string option"
  token_hex :: "nat \<Rightarrow> nat \<Rightarrow> string"
  has_template :: "string \<Rightarrow> bool"
  json_loads :: "string \<Rightarrow> pyval option"
  json_dumps :: "pyval \<Rightarrow> string"
  repr_kwargs :: "(string \<times> pyval) list \<Rightarrow> string"
  py_str :: "pyval \<Rightarrow> string"
  add_month :: "int \<Rightarrow> int"
  collate :: "string \<Rightarrow> nat"
  has_librouteros :: bool
  connect :: "(nat \<times> cmd) list \<Rightarrow> connection_info \<Rightarrow> exc option"
  router_api :: "(nat \<times> cmd) list \<Rightarrow> nat \<Rightarrow> cmd \<Rightarrow> exc + row list"
  post_move :: "account_move \<Rightarrow> account_move option"
  journal :: "nat option"
  method_line :: "nat option"
  wizard_payments :: "acct_op list \<Rightarrow> exc + nat list"
  posted_payment :: "acct_op list \<Rightarrow> exc + nat"
  validate_recomputed :: bool
  move_order :: "nat \<Rightarrow> nat"
  amount_total :: "account_move \<Rightarrow> rat"
  amount_residual :: "account_move \<Rightarrow> rat"
  month_bounds :: "int \<Rightarrow> int \<times> int"
  parse_datetime :: "string \<Rightarrow> int option"
  decode_datas :: "string \<Rightarrow> string option"
  created_at :: "nat \<Rightarrow> int"
  pager_offset :: "nat \<Rightarrow> int \<Rightarrow> nat \<Rightarrow> nat"

text \<open>\<open>str(value)\<close>; the text of floats and containers is left to the environment.\<close>

fun text_of :: "env \<Rightarrow> pyval \<Rightarrow> string" where
  "text_of e (PStr s) = s"
| "text_of e (PInt i) = int_str i"
| "text_of e (PBool b) = (if b then ''True'' else ''False'')"
| "text_of e PNone = ''None''"
| "text_of e v = py_str e v"

text \<open>Python's \<open>get_param(key, default)\<close>.\<close>

definition param_or :: "env \<Rightarrow> string \<Rightarrow> string \<Rightarrow> string" where
  "param_or e k d = (case get_param e k of None \<Rightarrow> d | Some v \<Rightarrow> v)"

text \<open>\<open>int(get_param(key, default))\<close>.\<close>

definition int_param :: "env \<Rightarrow> string \<Rightarrow> string \<Rightarrow> (sys, int) prog" where
  "int_param e k d = (case py_int (param_or e k d) of
      None \<Rightarrow> raise (ValueError ''invalid literal for int()'')
    | Some i \<Rightarrow> ret i)"

type_synonym 'a op = "(sys, 'a) prog"

text \<open>Reading a record that does not exist raises, as the ORM does.\<close>

definition rd :: "(sys \<Rightarrow> 'r table) \<Rightarrow> nat \<Rightarrow> 'r op" where
  "rd tab i = (\<lambda>s. case tget (tab s) i of
      None \<Rightarrow> (Inl (MissingError ''Record does not exist''), s)
    | Some r \<Rightarrow> (Inr r, s))"

text \<open>Reading a field through a Many2one: \<open>d\<close> (the empty value) when it is not set.\<close>

definition deref :: "'r table \<Rightarrow> nat option \<Rightarrow> 'r option" where
  "deref t i = (case i of None \<Rightarrow> None | Some j \<Rightarrow> tget t j)"

definition via :: "'r table \<Rightarrow> nat option \<Rightarrow> 'a \<Rightarrow> ('r \<Rightarrow> 'a) \<Rightarrow> 'a" where
  "via t i d f = (case deref t i of None \<Rightarrow> d | Some r \<Rightarrow> f r)"

text \<open>\<open>ir.sequence.next_by_code(code) or d\<close>.\<close>

definition next_name :: "env \<Rightarrow> sys \<Rightarrow> string \<Rightarrow> string \<Rightarrow> string" where
  "next_name e s code d = or_str (seq_text e code (seq_count s code)) d"

definition bump_seq :: "string \<Rightarrow> sys \<Rightarrow> string \<Rightarrow> nat" where
  "bump_seq code s = (seq_count s)(code := Suc (seq_count s code))"

definition next_by_code :: "env \<Rightarrow> string \<Rightarrow> string \<Rightarrow> string op" where
  "next_by_code e code d = (\<lambda>s. (Inr (next_name e s code d), s\<lparr>seq_count := bump_seq code s\<rparr>))"

text \<open>\<open>secrets.token_hex(n)\<close>.\<close>

definition draw_token :: "env \<Rightarrow> nat \<Rightarrow> string op" where
  "draw_token e n = (\<lambda>s. (Inr (token_hex e n (draws s)), s\<lparr>draws := Suc (draws s)\<rparr>))"

text \<open>
  The end of a transaction that an exception left: the database is as before, while the
  commands that reached a router stay sent.
\<close>

definition rollback :: "sys \<Rightarrow> sys \<Rightarrow> sys" where
  "rollback s s' = s\<lparr>wire := wire s'\<rparr>"

definition transaction :: "'a op \<Rightarrow> sys \<Rightarrow> sys" where
  "transaction m s = run_tx rollback m s"

lemma transaction_raises: "m s = (Inl e, s') \<Longrightarrow> transaction m s = s\<lparr>wire := wire s'\<rparr>"
  by (simp add: transaction_def run_tx_def rollback_def)

lemma transaction_returns: "m s = (Inr x, s') \<Longrightarrow> transaction m s = s'"
  by (simp add: transaction_def run_tx_def)

lemma rd_run [run_simps]: "rd tab i s = (case tget (tab s) i of
      None \<Rightarrow> (Inl (MissingError ''Record does not exist''), s)
    | Some r \<Rightarrow> (Inr r, s))"
  by (simp add: rd_def)

lemma next_by_code_run [run_simps]:
  "next_by_code e code d s = (Inr (next_name e s code d), s\<lparr>seq_count := bump_seq code s\<rparr>)"
  by (simp add: next_by_code_def)

lemma draw_token_run [run_simps]:
  "draw_token e n s = (Inr (token_hex e n (draws s)), s\<lparr>draws := Suc (draws s)\<rparr>)"
  by (simp add: draw_token_def)

lemma keeps_all_rd [keeps_all_intros]: "keeps_all I (rd tab i)"
  by (simp add: keeps_all_def rd_def split: option.split)

lemma keeps_rd [keeps_intros]: "keeps I (rd tab i)"
  by (rule keeps_all_imp) (rule keeps_all_rd)

lemma keeps_all_int_param [keeps_all_intros]: "keeps_all I (int_param e k d)"
  by (simp add: int_param_def keeps_all_raise keeps_all_ret split: option.split)

lemma keeps_int_param [keeps_intros]: "keeps I (int_param e k d)"
  by (rule keeps_all_imp) (rule keeps_all_int_param)

text \<open>An invariant of the database that does not read the wire survives a rollback.\<close>

lemma keeps_transaction:
  assumes "keeps I m" and "I s" and "\<And>w. I (s\<lparr>wire := w\<rparr>)"
  shows "I (transaction m s)"
proof -
  obtain r s' where m: "m s = (r, s')" by fastforce
  show ?thesis
  proof (cases r)
    case (Inl e)
    with m assms(3) show ?thesis by (simp add: transaction_raises)
  next
    case (Inr x)
    with m have "m s = (Inr x, s')" by simp
    with assms(1,2) show ?thesis by (auto simp: transaction_returns dest: keepsD)
  qed
qed

text \<open>An empty database and a plain environment, the ground of the concrete examples.\<close>

definition blank_sys :: sys where
  "blank_sys = \<lparr>plans = [], sectors = [], devices = [], routers = [], partners = [], subs = [],
     jobs = [], pcrs = [], faults = [], audits = [], mac_profiles = [], captive_users = [],
     walled_gardens = [], assignments = [], moves = [], transfers = [], outbox = [], acct = [],
     seq_count = (\<lambda>_. 0), draws = 0, wire = [],
     attachments = [], preconfigs = [], onus = []\<rparr>"

definition plain_env :: env where
  "plain_env = \<lparr>now = 0, today = 0, today_ctx = 0, env_user = 2, user_partner = None,
     has_group = (\<lambda>_. False),
     get_param = (\<lambda>k. if k = ''isp_mikrotik.default_api_password'' then Some ''secret'' else None),
     seq_text = (\<lambda>c n. Some (nat_str n)), token_hex = (\<lambda>k n. nat_str n), has_template = (\<lambda>_. False),
     json_loads = (\<lambda>_. Some (PDict [])), json_dumps = (\<lambda>_. ''{}''), repr_kwargs = (\<lambda>_. []),
     py_str = (\<lambda>_. []), add_month = (\<lambda>d. d + 30), collate = size, has_librouteros = True,
     connect = (\<lambda>_ _. None), router_api = (\<lambda>_ _ _. Inr []), post_move = (\<lambda>m. Some m),
     journal = Some 1, method_line = Some 1, wizard_payments = (\<lambda>_. Inr []),
     posted_payment = (\<lambda>_. Inr 1), validate_recomputed = False, move_order = id,
     amount_total = mv_price_unit, amount_residual = mv_price_unit, month_bounds = (\<lambda>d. (d, d + 30)),
     parse_datetime = (\<lambda>d. Some 0), decode_datas = Some, created_at = int,
     pager_offset = (\<lambda>n_rows page step. nat (page - 1) * step)\<rparr>"

end
