(* ===== verification/Services.thy ===== *)
theory Services
  imports Schema
begin

text \<open>
  What every model calls: the audit log (\<open>isp_core/models/audit_log.py\<close>), the mail
  templates (\<open>_send_template\<close>), a router's credentials
  (\<open>isp_mikrotik/models/router.py\<close>) and the RouterOS clients
  (\<open>isp_mikrotik/models/routeros_client.py\<close>). The lemmas say what each of them can
  change: a client touches the audit log or the wire and nothing else.
\<close>

section \<open>Audit log and mails\<close>

text \<open>\<open>log_action(action, record, details)\<close>; the record is its model, id and display name.\<close>

definition audit_row :: "env \<Rightarrow> string \<Rightarrow> (string \<times> nat \<times> string) option \<Rightarrow> string \<Rightarrow> audit_entry" where
  "audit_row e action record details =
     \<lparr>aud_action = action,
      aud_record_model = (case record of None \<Rightarrow> [] | Some (m, i, n) \<Rightarrow> m),
      aud_record_id = (case record of None \<Rightarrow> None | Some (m, i, n) \<Rightarrow> Some i),
      aud_record_name = (case record of None \<Rightarrow> [] | Some (m, i, n) \<Rightarrow> n),
      aud_user = env_user e,
      aud_timestamp = now e,
      aud_details = details\<rparr>"

definition log_action :: "env \<Rightarrow> string \<Rightarrow> (string \<times> nat \<times> string) option \<Rightarrow> string \<Rightarrow> unit op" where
  "log_action e action record details =
     modify (\<lambda>s. s\<lparr>audits := tins (audit_row e action record details) (audits s)\<rparr>)"

lemma log_action_run [run_simps]: "log_action e a r d s =
     (Inr (), s\<lparr>audits := tins (audit_row e a r d) (audits s)\<rparr>)"
  by (simp add: log_action_def run_simps)

text \<open>\<open>_send_template(xmlid)\<close> on record \<open>i\<close> with partner \<open>p\<close>.\<close>

definition send_template :: "env \<Rightarrow> string \<Rightarrow> nat \<Rightarrow> nat option \<Rightarrow> unit op" where
  "send_template e xmlid i p = (\<lambda>s.
     if \<not> has_template e xmlid then ret () s
     else if deref (partners s) p = None \<or> \<not> set_str (via (partners s) p None par_email) then ret () s
     else modify (\<lambda>s. s\<lparr>outbox := outbox s @ [(xmlid, i)]\<rparr>) s)"

lemma send_template_returns: "\<exists>m. send_template e x i p s = (Inr (), s\<lparr>outbox := m\<rparr>)"
proof -
  have "s = s\<lparr>outbox := outbox s\<rparr>" by simp
  then show ?thesis unfolding send_template_def run_simps by metis
qed

section \<open>A router's connection\<close>

definition get_api_user :: "env \<Rightarrow> router \<Rightarrow> string" where
  "get_api_user e r = (if set_str (rtr_api_user r) then or_str (rtr_api_user r) []
     else or_str (get_param e ''isp_mikrotik.default_api_user'') ''odoo_noc'')"

definition get_api_password :: "env \<Rightarrow> nat \<Rightarrow> string option" where
  "get_api_password e i =
     (let password = get_param e (''isp_mikrotik.router_password.'' @ nat_str i)
      in if set_str password then password
         else get_param e ''isp_mikrotik.default_api_password'')"

definition get_connection_info :: "env \<Rightarrow> nat \<Rightarrow> connection_info op" where
  "get_connection_info e i = bnd (rd routers i) (\<lambda>r. gets (\<lambda>s.
     \<lparr>ci_host = via (devices s) (rtr_device_id r) None dev_mgmt_ip,
      ci_port = (let p = via (devices s) (rtr_device_id r) 0 dev_mgmt_port
                 in if p = 0 then 8728 else p),
      ci_user = get_api_user e r,
      ci_password = get_api_password e i\<rparr>))"

section \<open>RouterOS clients\<close>

datatype client = DummyRouterOS nat | RouterOSAdapter nat

text \<open>\<open>RouterOSAdapter.__init__\<close>: the connection may fail.\<close>

definition open_adapter :: "env \<Rightarrow> nat \<Rightarrow> client op" where
  "open_adapter e i =
     (if \<not> has_librouteros e then raise (UserError ''librouteros is not installed in this Odoo environment.'')
      else bnd (get_connection_info e i) (\<lambda>info.
        if \<not> set_str (ci_host info) then raise (UserError ''Router management IP is missing.'')
        else if \<not> set_str (ci_password info) then raise (UserError ''Router API password is missing.'')
        else bnd (gets (\<lambda>s. connect e (wire s) info)) (\<lambda>failure.
          case failure of Some x \<Rightarrow> raise x | None \<Rightarrow> ret (RouterOSAdapter i))))"

definition dry_run :: "env \<Rightarrow> bool" where
  "dry_run e = (get_param e ''isp_mikrotik.dry_run'' \<in> {Some ''1'', Some ''true'', Some ''True''})"

definition get_routeros_client :: "env \<Rightarrow> nat \<Rightarrow> client op" where
  "get_routeros_client e i = (if dry_run e then ret (DummyRouterOS i) else open_adapter e i)"

definition dummy_cmd :: "env \<Rightarrow> nat \<Rightarrow> cmd \<Rightarrow> row list op" where
  "dummy_cmd e i c = bnd (rd routers i) (\<lambda>r. bnd (gets (\<lambda>s. deref (devices s) (rtr_device_id r))) (\<lambda>d.
     andthen (log_action e ''routeros.dry_run''
        (case (rtr_device_id r, d) of (Some j, Some dv) \<Rightarrow> Some (''isp.device'', j, dev_name dv) | _ \<Rightarrow> None)
        (cmd_path c @ '' '' @ repr_kwargs e (cmd_args c)))
      (ret [])))"

definition adapter_cmd :: "env \<Rightarrow> nat \<Rightarrow> cmd \<Rightarrow> row list op" where
  "adapter_cmd e i c = (\<lambda>s.
     (case router_api e (wire s) i c of Inl x \<Rightarrow> Inl x | Inr rows \<Rightarrow> Inr rows,
      s\<lparr>wire := wire s @ [(i, c)]\<rparr>))"

fun client_cmd :: "env \<Rightarrow> client \<Rightarrow> cmd \<Rightarrow> row list op" where
  "client_cmd e (DummyRouterOS i) c = dummy_cmd e i c"
| "client_cmd e (RouterOSAdapter i) c = adapter_cmd e i c"

text \<open>
  The pattern of the handlers: \<open>try: client.cmd(c) except LibRouterosError: h\<close>. Without
  librouteros the name is bound to \<open>Exception\<close>, but then no adapter can be opened.
\<close>

definition catches_librouteros :: "env \<Rightarrow> exc \<Rightarrow> bool" where
  "catches_librouteros e x = (\<not> has_librouteros e \<or> is_librouteros_error x)"

definition try_cmd :: "env \<Rightarrow> client \<Rightarrow> cmd \<Rightarrow> unit op \<Rightarrow> unit op" where
  "try_cmd e cl c h = catching (catches_librouteros e)
     (andthen (client_cmd e cl c) (ret ())) (\<lambda>_. h)"

section \<open>What the services can change\<close>

text \<open>
  A predicate of the database that looks at neither the audit log, the mails nor the wire is
  kept by every service.
\<close>

definition audit_free :: "(sys \<Rightarrow> bool) \<Rightarrow> bool" where
  "audit_free I \<longleftrightarrow> (\<forall>s a. I s \<longrightarrow> I (s\<lparr>audits := a\<rparr>))"

definition mail_free :: "(sys \<Rightarrow> bool) \<Rightarrow> bool" where
  "mail_free I \<longleftrightarrow> (\<forall>s a. I s \<longrightarrow> I (s\<lparr>outbox := a\<rparr>))"

definition wire_free :: "(sys \<Rightarrow> bool) \<Rightarrow> bool" where
  "wire_free I \<longleftrightarrow> (\<forall>s a. I s \<longrightarrow> I (s\<lparr>wire := a\<rparr>))"

definition seq_free :: "(sys \<Rightarrow> bool) \<Rightarrow> bool" where
  "seq_free I \<longleftrightarrow> (\<forall>s a. I s \<longrightarrow> I (s\<lparr>seq_count := a\<rparr>))"

definition draw_free :: "(sys \<Rightarrow> bool) \<Rightarrow> bool" where
  "draw_free I \<longleftrightarrow> (\<forall>s a. I s \<longrightarrow> I (s\<lparr>draws := a\<rparr>))"

lemmas free_defs = audit_free_def mail_free_def wire_free_def seq_free_def draw_free_def

lemma keeps_all_log_action [keeps_all_intros]: "audit_free I \<Longrightarrow> keeps_all I (log_action e a r d)"
  by (auto simp: log_action_def audit_free_def intro!: keeps_all_modify)

lemma keeps_all_send_template [keeps_all_intros]: "mail_free I \<Longrightarrow> keeps_all I (send_template e x i p)"
  by (auto simp: send_template_def keeps_all_def mail_free_def run_simps)

lemma keeps_all_next_by_code [keeps_all_intros]: "seq_free I \<Longrightarrow> keeps_all I (next_by_code e c d)"
  by (auto simp: next_by_code_def keeps_all_def seq_free_def)

lemma keeps_all_draw_token [keeps_all_intros]: "draw_free I \<Longrightarrow> keeps_all I (draw_token e n)"
  by (auto simp: draw_token_def keeps_all_def draw_free_def)

lemma keeps_all_get_connection_info [keeps_all_intros]: "keeps_all I (get_connection_info e i)"
  unfolding get_connection_info_def by (intro keeps_all_intros)

lemma keeps_all_open_adapter [keeps_all_intros]: "keeps_all I (open_adapter e i)"
  unfolding open_adapter_def by (intro keeps_all_intros)

lemma keeps_all_get_routeros_client [keeps_all_intros]: "keeps_all I (get_routeros_client e i)"
  unfolding get_routeros_client_def by (intro keeps_all_intros)

lemma keeps_all_client_cmd [keeps_all_intros]:
  assumes "audit_free I" and "wire_free I"
  shows "keeps_all I (client_cmd e cl c)"
proof (cases cl)
  case (DummyRouterOS i)
  then show ?thesis
    using assms by (auto simp: dummy_cmd_def intro!: keeps_all_intros)
next
  case (RouterOSAdapter i)
  then show ?thesis
    using assms by (auto simp: adapter_cmd_def keeps_all_def wire_free_def)
qed

lemma keeps_all_try_cmd [keeps_all_intros]:
  "audit_free I \<Longrightarrow> wire_free I \<Longrightarrow> keeps_all I h \<Longrightarrow> keeps_all I (try_cmd e cl c h)"
  unfolding try_cmd_def by (intro keeps_all_intros)

lemmas keeps_services [keeps_intros] =
  keeps_all_imp [OF keeps_all_log_action]
  keeps_all_imp [OF keeps_all_send_template]
  keeps_all_imp [OF keeps_all_next_by_code]
  keeps_all_imp [OF keeps_all_draw_token]
  keeps_all_imp [OF keeps_all_get_connection_info]
  keeps_all_imp [OF keeps_all_open_adapter]
  keeps_all_imp [OF keeps_all_get_routeros_client]
  keeps_all_imp [OF keeps_all_client_cmd]

lemma keeps_try_cmd [keeps_intros]:
  assumes "audit_free I" and "wire_free I" and "keeps I h"
  shows "keeps I (try_cmd e cl c h)"
  unfolding try_cmd_def
  by (rule keeps_catching) (use assms in \<open>auto intro!: keeps_all_intros\<close>)

section \<open>The clients\<close>

lemma get_routeros_client_dry: "dry_run e \<Longrightarrow> get_routeros_client e i s = (Inr (DummyRouterOS i), s)"
  by (simp add: get_routeros_client_def run_simps)

lemma get_routeros_client_same_state: "get_routeros_client e i s = (r, s') \<Longrightarrow> s' = s"
  using keeps_all_get_routeros_client [of "\<lambda>t. t = s" e i] by (auto simp: keeps_all_def)

text \<open>In dry run, nothing is ever sent to a router.\<close>

lemma dummy_cmd_wire: "wire (snd (dummy_cmd e i c s)) = wire s"
proof -
  have "keeps_all (\<lambda>t. wire t = wire s) (dummy_cmd e i c)"
    unfolding dummy_cmd_def by (intro keeps_all_intros) (simp add: audit_free_def)
  then show ?thesis by (simp add: keeps_all_def)
qed

lemma open_adapter_ok:
  assumes "open_adapter e i s = (Inr cl, s')"
  shows "cl = RouterOSAdapter i \<and> s' = s \<and> has_librouteros e \<and> (\<exists>r. tget (routers s) i = Some r)"
  using assms
  by (auto simp: open_adapter_def get_connection_info_def run_simps
      split: if_splits option.splits prod.splits sum.splits)

lemma get_routeros_client_ok:
  assumes "get_routeros_client e i s = (Inr cl, s')"
  shows "s' = s \<and> (cl = (if dry_run e then DummyRouterOS i else RouterOSAdapter i))"
  using assms
  by (auto simp: get_routeros_client_def run_simps dest: open_adapter_ok split: if_splits)

end
