(* ===== verification/Subscription.thy ===== *)
theory Subscription
  imports Services
begin

text \<open>
  Subscriptions (\<open>isp_core/models/subscription.py\<close>): the ORM's \<open>create\<close> and
  \<open>write\<close> with the constraints of the model, the generation of PPPoE credentials, and the
  onchange handlers. A \<open>sub_val\<close> is one entry of a \<open>vals\<close> dictionary; a constraint
  runs when one of the fields it declares is among the written ones.
\<close>

named_theorems check_simps \<open>when a constraint accepts\<close>

section \<open>Values and rows\<close>

datatype sub_val =
    V_name string
  | V_partner_id "nat option"
  | V_plan_id "nat option"
  | V_sector_id "nat option"
  | V_state sub_state
  | V_start_date "int option"
  | V_gps_lat rat
  | V_gps_lng rat
  | V_device_id "nat option"
  | V_auth_method auth_method
  | V_dhcp_mode dhcp_mode
  | V_next_invoice_date "int option"
  | V_pppoe_username "string option"
  | V_pppoe_password "string option"
  | V_pppoe_profile "string option"
  | V_service_ip "string option"
  | V_service_mac "string option"
  | V_router_id "nat option"
  | V_last_invoice_id "nat option"

fun sub_field :: "sub_val \<Rightarrow> string" where
  "sub_field (V_name x) = ''name''"
| "sub_field (V_partner_id x) = ''partner_id''"
| "sub_field (V_plan_id x) = ''plan_id''"
| "sub_field (V_sector_id x) = ''sector_id''"
| "sub_field (V_state x) = ''state''"
| "sub_field (V_start_date x) = ''start_date''"
| "sub_field (V_gps_lat x) = ''gps_lat''"
| "sub_field (V_gps_lng x) = ''gps_lng''"
| "sub_field (V_device_id x) = ''device_id''"
| "sub_field (V_auth_method x) = ''auth_method''"
| "sub_field (V_dhcp_mode x) = ''dhcp_mode''"
| "sub_field (V_next_invoice_date x) = ''next_invoice_date''"
| "sub_field (V_pppoe_username x) = ''pppoe_username''"
| "sub_field (V_pppoe_password x) = ''pppoe_password''"
| "sub_field (V_pppoe_profile x) = ''pppoe_profile''"
| "sub_field (V_service_ip x) = ''service_ip''"
| "sub_field (V_service_mac x) = ''service_mac''"
| "sub_field (V_router_id x) = ''router_id''"
| "sub_field (V_last_invoice_id x) = ''last_invoice_id''"

fun sub_set :: "sub_val \<Rightarrow> subscription \<Rightarrow> subscription" where
  "sub_set (V_name x) r = r\<lparr>sub_name := x\<rparr>"
| "sub_set (V_partner_id x) r = r\<lparr>sub_partner_id := x\<rparr>"
| "sub_set (V_plan_id x) r = r\<lparr>sub_plan_id := x\<rparr>"
| "sub_set (V_sector_id x) r = r\<lparr>sub_sector_id := x\<rparr>"
| "sub_set (V_state x) r = r\<lparr>sub_state := x\<rparr>"
| "sub_set (V_start_date x) r = r\<lparr>sub_start_date := x\<rparr>"
| "sub_set (V_gps_lat x) r = r\<lparr>sub_gps_lat := x\<rparr>"
| "sub_set (V_gps_lng x) r = r\<lparr>sub_gps_lng := x\<rparr>"
| "sub_set (V_device_id x) r = r\<lparr>sub_device_id := x\<rparr>"
| "sub_set (V_auth_method x) r = r\<lparr>sub_auth_method := x\<rparr>"
| "sub_set (V_dhcp_mode x) r = r\<lparr>sub_dhcp_mode := x\<rparr>"
| "sub_set (V_next_invoice_date x) r = r\<lparr>sub_next_invoice_date := x\<rparr>"
| "sub_set (V_pppoe_username x) r = r\<lparr>sub_pppoe_username := x\<rparr>"
| "sub_set (V_pppoe_password x) r = r\<lparr>sub_pppoe_password := x\<rparr>"
| "sub_set (V_pppoe_profile x) r = r\<lparr>sub_pppoe_profile := x\<rparr>"
| "sub_set (V_service_ip x) r = r\<lparr>sub_service_ip := x\<rparr>"
| "sub_set (V_service_mac x) r = r\<lparr>sub_service_mac := x\<rparr>"
| "sub_set (V_router_id x) r = r\<lparr>sub_router_id := x\<rparr>"
| "sub_set (V_last_invoice_id x) r = r\<lparr>sub_last_invoice_id := x\<rparr>"

text \<open>A new row before its \<open>vals\<close> are applied: the defaults of the fields.\<close>

definition sub_default :: subscription where
  "sub_default =
     \<lparr>sub_name = ''New'', sub_partner_id = None, sub_plan_id = None, sub_sector_id = None,
      sub_state = SubDraft, sub_start_date = None, sub_gps_lat = 0, sub_gps_lng = 0,
      sub_device_id = None, sub_auth_method = AuthDhcp, sub_dhcp_mode = ModeDynamic,
      sub_next_invoice_date = None, sub_pppoe_username = None, sub_pppoe_password = None,
      sub_pppoe_profile = None, sub_service_ip = None, sub_service_mac = None,
      sub_router_id = None, sub_last_invoice_id = None\<rparr>"

definition defaulted_fields :: "string list" where
  "defaulted_fields = [''name'', ''state'', ''auth_method'', ''dhcp_mode'']"

section \<open>Constraints\<close>

definition assert_that :: "bool \<Rightarrow> exc \<Rightarrow> unit op" where
  "assert_that b x = (if b then ret () else raise x)"

definition check_pppoe_credentials :: "nat list \<Rightarrow> unit op" where
  "check_pppoe_credentials ids = for_each (\<lambda>i. bnd (rd subs i) (\<lambda>r.
     assert_that (\<not> (sub_auth_method r = AuthPppoe \<and>
         (\<not> set_str (sub_pppoe_username r) \<or> \<not> set_str (sub_pppoe_password r))))
       (ValidationError ''PPPoE username and password are required.''))) ids"

definition check_dhcp_static_ip :: "nat list \<Rightarrow> unit op" where
  "check_dhcp_static_ip ids = for_each (\<lambda>i. bnd (rd subs i) (\<lambda>r.
     assert_that (\<not> (sub_auth_method r = AuthDhcp \<and> sub_dhcp_mode r = ModeStatic \<and>
         \<not> set_str (sub_service_ip r)))
       (ValidationError ''Static DHCP requires an IP address.''))) ids"

definition same_static_ip :: "nat \<Rightarrow> subscription \<Rightarrow> nat \<Rightarrow> subscription \<Rightarrow> bool" where
  "same_static_ip i r j r' = (j \<noteq> i \<and> sub_service_ip r' = sub_service_ip r \<and>
     sub_auth_method r' = AuthDhcp \<and> sub_dhcp_mode r' = ModeStatic)"

definition check_unique_static_ip :: "nat list \<Rightarrow> unit op" where
  "check_unique_static_ip ids = for_each (\<lambda>i. bnd (rd subs i) (\<lambda>r.
     if sub_auth_method r \<noteq> AuthDhcp \<or> sub_dhcp_mode r \<noteq> ModeStatic \<or> \<not> set_str (sub_service_ip r)
     then ret ()
     else bnd (gets (\<lambda>s. length (search_ids (same_static_ip i r) (subs s)))) (\<lambda>count.
       assert_that (count = 0) (ValidationError ''Static IP address must be unique.'')))) ids"

definition check_gps_required_for_active :: "nat list \<Rightarrow> unit op" where
  "check_gps_required_for_active ids = for_each (\<lambda>i. bnd (rd subs i) (\<lambda>r.
     assert_that (\<not> ((sub_state r = SubActive \<or> sub_state r = SubSuspended) \<and>
         (sub_gps_lat r = 0 \<or> sub_gps_lng r = 0)))
       (ValidationError ''GPS coordinates are required for active installations.''))) ids"

definition device_sector :: "sys \<Rightarrow> nat option \<Rightarrow> nat option" where
  "device_sector s d = via (devices s) d None dev_sector_id"

definition check_device_sector_match :: "nat list \<Rightarrow> unit op" where
  "check_device_sector_match ids = for_each (\<lambda>i. bnd (rd subs i) (\<lambda>r.
     bnd (gets (\<lambda>s. device_sector s (sub_device_id r))) (\<lambda>sec.
     assert_that (\<not> (sec \<noteq> None \<and> sec \<noteq> sub_sector_id r))
       (ValidationError ''The selected device does not belong to the subscription's sector.'')))) ids"

text \<open>\<open>@api.constrains\<close>: the fields that trigger each check.\<close>

definition sub_checks :: "(string list \<times> (nat list \<Rightarrow> unit op)) list" where
  "sub_checks =
     [([''auth_method'', ''pppoe_username'', ''pppoe_password''], check_pppoe_credentials),
      ([''auth_method'', ''dhcp_mode'', ''service_ip''], check_dhcp_static_ip),
      ([''auth_method'', ''dhcp_mode'', ''service_ip''], check_unique_static_ip),
      ([''state'', ''gps_lat'', ''gps_lng''], check_gps_required_for_active),
      ([''sector_id'', ''device_id''], check_device_sector_match)]"

definition triggered :: "string list \<Rightarrow> string list \<Rightarrow> bool" where
  "triggered written declared = list_ex (\<lambda>f. f \<in> set written) declared"

definition sub_validate :: "string list \<Rightarrow> nat list \<Rightarrow> unit op" where
  "sub_validate written ids =
     for_each (\<lambda>(declared, check). do_if (triggered written declared) (check ids)) sub_checks"

text \<open>The database: required columns, and the unique user name (\<open>NULL\<close>s are distinct).\<close>

definition sub_not_null :: "nat list \<Rightarrow> unit op" where
  "sub_not_null ids = for_each (\<lambda>i. bnd (rd subs i) (\<lambda>r.
     assert_that (sub_partner_id r \<noteq> None \<and> sub_plan_id r \<noteq> None \<and> sub_sector_id r \<noteq> None)
       (IntegrityError ''null value in a required column''))) ids"

definition same_username :: "nat \<Rightarrow> subscription \<Rightarrow> nat \<Rightarrow> subscription \<Rightarrow> bool" where
  "same_username i r j r' = (j \<noteq> i \<and> sub_pppoe_username r' = sub_pppoe_username r)"

definition pppoe_user_uniq :: "nat list \<Rightarrow> unit op" where
  "pppoe_user_uniq ids = for_each (\<lambda>i. bnd (rd subs i) (\<lambda>r.
     bnd (gets (\<lambda>s. search_ids (same_username i r) (subs s))) (\<lambda>others.
     assert_that (sub_pppoe_username r = None \<or> others = [])
       (IntegrityError ''PPPoE username must be unique.'')))) ids"

text \<open>
  \<open>_check_plan_diff\<close> of the plan change requests reads \<open>current_plan_id\<close>, a stored
  field related to the subscription's plan. \<open>validate_recomputed\<close> says whether the framework
  runs the constraint when that field is recomputed, or only on an explicit write.
\<close>

definition current_plan :: "sys \<Rightarrow> plan_change_request \<Rightarrow> nat option" where
  "current_plan s r = via (subs s) (pcr_subscription_id r) None sub_plan_id"

definition check_plan_diff :: "nat list \<Rightarrow> unit op" where
  "check_plan_diff ids = for_each (\<lambda>i. bnd (rd pcrs i) (\<lambda>r. bnd (gets (\<lambda>s. current_plan s r)) (\<lambda>cur.
     assert_that (\<not> (pcr_requested_plan_id r \<noteq> None \<and> cur \<noteq> None \<and> pcr_requested_plan_id r = cur))
       (ValidationError ''Requested plan must be different from current plan.'')))) ids"

definition recheck_plan_requests :: "env \<Rightarrow> nat \<Rightarrow> unit op" where
  "recheck_plan_requests e i =
     bnd (gets (\<lambda>s. search_ids (\<lambda>_ r. pcr_subscription_id r = Some i) (pcrs s))) (\<lambda>ids.
       do_if (validate_recomputed e) (check_plan_diff ids))"

section \<open>write and create\<close>

definition sub_store :: "nat \<Rightarrow> sub_val list \<Rightarrow> unit op" where
  "sub_store i vs = modify (\<lambda>s. s\<lparr>subs := tupd i (fold sub_set vs) (subs s)\<rparr>)"

definition sub_write :: "env \<Rightarrow> nat \<Rightarrow> sub_val list \<Rightarrow> unit op" where
  "sub_write e i vs =
     bnd (rd subs i) (\<lambda>_.
     andthen (sub_store i vs)
    (andthen (sub_validate (map sub_field vs) [i])
    (andthen (sub_not_null [i])
    (andthen (pppoe_user_uniq [i])
    (do_if (''plan_id'' \<in> set (map sub_field vs)) (recheck_plan_requests e i))))))"

text \<open>\<open>_ensure_pppoe_credentials\<close>, one record.\<close>

definition ensure_pppoe_credentials :: "env \<Rightarrow> nat \<Rightarrow> unit op" where
  "ensure_pppoe_credentials e i = bnd (rd subs i) (\<lambda>r.
     if sub_auth_method r \<noteq> AuthPppoe then ret ()
     else andthen (do_if (\<not> set_str (sub_pppoe_username r))
                     (sub_write e i [V_pppoe_username (Some (sub_name r))]))
         (bnd (rd subs i) (\<lambda>r.
          andthen (do_if (\<not> set_str (sub_pppoe_password r))
                     (bnd (draw_token e 6) (\<lambda>t. sub_write e i [V_pppoe_password (Some t)])))
         (bnd (rd subs i) (\<lambda>r.
          do_if (\<not> set_str (sub_pppoe_profile r) \<and> sub_plan_id r \<noteq> None)
            (bnd (gets (\<lambda>s. via (plans s) (sub_plan_id r) None plan_mikrotik_profile)) (\<lambda>prof.
              sub_write e i [V_pppoe_profile (if set_str prof then prof else sub_pppoe_profile r)])))))))"

definition vget :: "(sub_val \<Rightarrow> 'a option) \<Rightarrow> sub_val list \<Rightarrow> 'a option" where
  "vget f vs = (case List.map_filter f vs of [] \<Rightarrow> None | x # xs \<Rightarrow> Some (last (x # xs)))"

definition vals_name :: "sub_val list \<Rightarrow> string option" where
  "vals_name = vget (\<lambda>v. case v of V_name x \<Rightarrow> Some x | _ \<Rightarrow> None)"

definition vals_auth :: "sub_val list \<Rightarrow> auth_method option" where
  "vals_auth = vget (\<lambda>v. case v of V_auth_method x \<Rightarrow> Some x | _ \<Rightarrow> None)"

definition vals_plan :: "sub_val list \<Rightarrow> nat option" where
  "vals_plan vs = (case vget (\<lambda>v. case v of V_plan_id x \<Rightarrow> Some x | _ \<Rightarrow> None) vs of
     None \<Rightarrow> None | Some p \<Rightarrow> p)"

definition service_auth :: "service_type \<Rightarrow> auth_method option" where
  "service_auth t = (case t of STPppoe \<Rightarrow> Some AuthPppoe | STDhcp \<Rightarrow> Some AuthDhcp | STHotspot \<Rightarrow> None)"

text \<open>The part of \<open>create\<close> that completes one \<open>vals\<close> before the ORM stores it.\<close>

definition sub_prepare_name :: "env \<Rightarrow> sub_val list \<Rightarrow> sub_val list op" where
  "sub_prepare_name e vs =
     (if vals_name vs = None \<or> vals_name vs = Some ''New''
      then bnd (next_by_code e ''isp.subscription'' ''SUB'') (\<lambda>n. ret (vs @ [V_name n]))
      else ret vs)"

definition sub_prepare_auth :: "sub_val list \<Rightarrow> sub_val list op" where
  "sub_prepare_auth vs =
     (if vals_auth vs = None
      then (case vals_plan vs of
              None \<Rightarrow> ret vs
            | Some p \<Rightarrow> bnd (rd plans p) (\<lambda>plan.
                case service_auth (plan_service_type plan) of
                  None \<Rightarrow> ret vs
                | Some a \<Rightarrow> ret (vs @ [V_auth_method a])))
      else ret vs)"

definition sub_insert :: "sub_val list \<Rightarrow> nat op" where
  "sub_insert vs = (\<lambda>s. (Inr (fresh_id (subs s)), s\<lparr>subs := tins (fold sub_set vs sub_default) (subs s)\<rparr>))"

lemma sub_insert_run [run_simps]: "sub_insert vs s =
    (Inr (fresh_id (subs s)), s\<lparr>subs := tins (fold sub_set vs sub_default) (subs s)\<rparr>)"
  by (simp add: sub_insert_def)

definition sub_create :: "env \<Rightarrow> sub_val list list \<Rightarrow> nat list op" where
  "sub_create e vals_list =
     bnd (map_each (\<lambda>vs. bnd (sub_prepare_name e vs) sub_prepare_auth) vals_list) (\<lambda>vals_list.
     bnd (map_each sub_insert vals_list) (\<lambda>ids.
     andthen (sub_not_null ids)
    (andthen (pppoe_user_uniq ids)
    (andthen (sub_validate (concat (map (map sub_field) vals_list) @ defaulted_fields) ids)
    (andthen (for_each (ensure_pppoe_credentials e) ids)
    (ret ids))))))"

section \<open>Onchange handlers\<close>

text \<open>
  They run on the unsaved values of a form. \<open>_onchange_plan_id_auth_method\<close>, then
  \<open>_onchange_sector_id_set_router\<close> of \<open>isp_mikrotik/models/subscription.py\<close>.
\<close>

definition onchange_plan_id :: "sys \<Rightarrow> subscription \<Rightarrow> subscription" where
  "onchange_plan_id s r =
     (let r1 = (case deref (plans s) (sub_plan_id r) of
                  None \<Rightarrow> r
                | Some p \<Rightarrow> (case service_auth (plan_service_type p) of
                    None \<Rightarrow> r | Some a \<Rightarrow> r\<lparr>sub_auth_method := a\<rparr>))
      in (case deref (plans s) (sub_plan_id r1) of
            None \<Rightarrow> r1
          | Some p \<Rightarrow> (if set_str (plan_mikrotik_profile p)
              then r1\<lparr>sub_pppoe_profile := plan_mikrotik_profile p\<rparr> else r1)))"

definition router_sector :: "sys \<Rightarrow> router \<Rightarrow> nat option" where
  "router_sector s r = device_sector s (rtr_device_id r)"

definition onchange_sector_id :: "sys \<Rightarrow> subscription \<Rightarrow> subscription" where
  "onchange_sector_id s r =
     (if sub_sector_id r = None then r\<lparr>sub_router_id := None\<rparr>
      else (case search_ids (\<lambda>_ rt. router_sector s rt = sub_sector_id r) (routers s) of
              [i] \<Rightarrow> r\<lparr>sub_router_id := Some i\<rparr>
            | _ \<Rightarrow> r))"

end
