(* ===== verification/Subscription_Inv.thy ===== *)
theory Subscription_Inv
  imports Subscription
begin

text \<open>
  What the constraints of a subscription guarantee: \<open>subs_ok\<close> holds for the table after
  every \<open>write\<close> and \<open>create\<close> that returns, because each field a constraint reads is
  also among the fields that trigger it.
\<close>

section \<open>When a check accepts\<close>

lemma assert_that_ok: "assert_that b x s = (Inr u, s') \<longleftrightarrow> b \<and> s' = s"
  by (auto simp: assert_that_def run_simps)

lemma keeps_all_assert_that [keeps_all_intros]: "keeps_all I (assert_that b x)"
  by (simp add: assert_that_def keeps_all_ret keeps_all_raise)

lemma for_each_check:
  assumes "\<And>i s'. f i s = (Inr (), s') \<longleftrightarrow> P i \<and> s' = s"
  shows "for_each f ids s = (Inr (), s') \<longleftrightarrow> (\<forall>i\<in>set ids. P i) \<and> s' = s"
proof (induction ids)
  case Nil
  then show ?case by (auto simp: run_simps)
next
  case (Cons i ids)
  show ?case
  proof (cases "f i s")
    case (Pair r t)
    show ?thesis
    proof (cases r)
      case (Inl x)
      with Pair assms [of i s] have "\<not> P i" by auto
      with Inl Pair show ?thesis by (simp add: run_simps)
    next
      case (Inr u)
      with Pair assms [of i t] have "P i" "t = s" by auto
      with Inr Pair Cons show ?thesis by (simp add: run_simps)
    qed
  qed
qed

definition credentials_ok :: "subscription \<Rightarrow> bool" where
  "credentials_ok r \<longleftrightarrow> (sub_auth_method r = AuthPppoe \<longrightarrow>
     set_str (sub_pppoe_username r) \<and> set_str (sub_pppoe_password r))"

definition has_static_ip :: "subscription \<Rightarrow> bool" where
  "has_static_ip r \<longleftrightarrow> sub_auth_method r = AuthDhcp \<and> sub_dhcp_mode r = ModeStatic"

definition gps_ok :: "subscription \<Rightarrow> bool" where
  "gps_ok r \<longleftrightarrow> (sub_state r = SubActive \<or> sub_state r = SubSuspended \<longrightarrow>
     sub_gps_lat r \<noteq> 0 \<and> sub_gps_lng r \<noteq> 0)"

definition required_ok :: "subscription \<Rightarrow> bool" where
  "required_ok r \<longleftrightarrow> sub_partner_id r \<noteq> None \<and> sub_plan_id r \<noteq> None \<and> sub_sector_id r \<noteq> None"

definition device_ok :: "sys \<Rightarrow> subscription \<Rightarrow> bool" where
  "device_ok s r \<longleftrightarrow> (device_sector s (sub_device_id r) \<noteq> None \<longrightarrow>
     device_sector s (sub_device_id r) = sub_sector_id r)"

lemma check_pppoe_ok [check_simps]:
  "check_pppoe_credentials ids s = (Inr (), s') \<longleftrightarrow>
     (\<forall>i\<in>set ids. \<exists>r. tget (subs s) i = Some r \<and> credentials_ok r) \<and> s' = s"
  unfolding check_pppoe_credentials_def
  by (rule for_each_check) (auto simp: run_simps assert_that_ok credentials_ok_def split: option.splits)

lemma check_dhcp_ok [check_simps]:
  "check_dhcp_static_ip ids s = (Inr (), s') \<longleftrightarrow>
     (\<forall>i\<in>set ids. \<exists>r. tget (subs s) i = Some r \<and> (has_static_ip r \<longrightarrow> set_str (sub_service_ip r))) \<and> s' = s"
  unfolding check_dhcp_static_ip_def
  by (rule for_each_check) (auto simp: run_simps assert_that_ok has_static_ip_def split: option.splits)

lemma check_unique_ok [check_simps]:
  "check_unique_static_ip ids s = (Inr (), s') \<longleftrightarrow>
     (\<forall>i\<in>set ids. \<exists>r. tget (subs s) i = Some r \<and>
        (has_static_ip r \<and> set_str (sub_service_ip r) \<longrightarrow>
          (\<forall>j r'. j \<noteq> i \<longrightarrow> tget (subs s) j = Some r' \<longrightarrow> has_static_ip r' \<longrightarrow>
             sub_service_ip r' \<noteq> sub_service_ip r))) \<and> s' = s"
  unfolding check_unique_static_ip_def
  by (rule for_each_check)
    (auto simp: run_simps assert_that_ok has_static_ip_def same_static_ip_def search_ids_empty
      split: option.splits)

lemma check_gps_ok [check_simps]:
  "check_gps_required_for_active ids s = (Inr (), s') \<longleftrightarrow>
     (\<forall>i\<in>set ids. \<exists>r. tget (subs s) i = Some r \<and> gps_ok r) \<and> s' = s"
  unfolding check_gps_required_for_active_def
  by (rule for_each_check) (auto simp: run_simps assert_that_ok gps_ok_def split: option.splits)

lemma check_device_ok [check_simps]:
  "check_device_sector_match ids s = (Inr (), s') \<longleftrightarrow>
     (\<forall>i\<in>set ids. \<exists>r. tget (subs s) i = Some r \<and> device_ok s r) \<and> s' = s"
  unfolding check_device_sector_match_def
  by (rule for_each_check) (auto simp: run_simps assert_that_ok device_ok_def split: option.splits)

lemma sub_not_null_ok [check_simps]:
  "sub_not_null ids s = (Inr (), s') \<longleftrightarrow>
     (\<forall>i\<in>set ids. \<exists>r. tget (subs s) i = Some r \<and> required_ok r) \<and> s' = s"
  unfolding sub_not_null_def
  by (rule for_each_check) (auto simp: run_simps assert_that_ok required_ok_def split: option.splits)

lemma pppoe_user_uniq_ok [check_simps]:
  "pppoe_user_uniq ids s = (Inr (), s') \<longleftrightarrow>
     (\<forall>i\<in>set ids. \<exists>r. tget (subs s) i = Some r \<and>
        (sub_pppoe_username r \<noteq> None \<longrightarrow>
          (\<forall>j r'. j \<noteq> i \<longrightarrow> tget (subs s) j = Some r' \<longrightarrow>
             sub_pppoe_username r' \<noteq> sub_pppoe_username r))) \<and> s' = s"
  unfolding pppoe_user_uniq_def
  by (rule for_each_check)
    (auto simp: run_simps assert_that_ok same_username_def search_ids_empty split: option.splits)

lemma check_plan_diff_ok [check_simps]:
  "check_plan_diff ids s = (Inr (), s') \<longleftrightarrow>
     (\<forall>i\<in>set ids. \<exists>r. tget (pcrs s) i = Some r \<and>
        \<not> (pcr_requested_plan_id r \<noteq> None \<and> current_plan s r \<noteq> None \<and>
           pcr_requested_plan_id r = current_plan s r)) \<and> s' = s"
  unfolding check_plan_diff_def
  by (rule for_each_check) (auto simp: run_simps assert_that_ok split: option.splits)

text \<open>What \<open>_validate_fields\<close> amounts to.\<close>

lemma do_if_check: "do_if b m s = (Inr (), s') \<longleftrightarrow> (if b then m s = (Inr (), s') else s' = s)"
  by (auto simp: run_simps)

definition rows_pass :: "sys \<Rightarrow> nat list \<Rightarrow> (nat \<Rightarrow> subscription \<Rightarrow> bool) \<Rightarrow> bool" where
  "rows_pass s ids P \<longleftrightarrow> (\<forall>i\<in>set ids. \<exists>r. tget (subs s) i = Some r \<and> P i r)"

lemma rows_pass_conj:
  "rows_pass s ids P \<Longrightarrow> rows_pass s ids Q \<Longrightarrow> rows_pass s ids (\<lambda>i r. P i r \<and> Q i r)"
  by (fastforce simp: rows_pass_def)

definition static_unique :: "sys \<Rightarrow> nat \<Rightarrow> subscription \<Rightarrow> bool" where
  "static_unique s i r \<longleftrightarrow> (has_static_ip r \<and> set_str (sub_service_ip r) \<longrightarrow>
     (\<forall>j r'. j \<noteq> i \<longrightarrow> tget (subs s) j = Some r' \<longrightarrow> has_static_ip r' \<longrightarrow>
        sub_service_ip r' \<noteq> sub_service_ip r))"

definition user_unique :: "sys \<Rightarrow> nat \<Rightarrow> subscription \<Rightarrow> bool" where
  "user_unique s i r \<longleftrightarrow> (sub_pppoe_username r \<noteq> None \<longrightarrow>
     (\<forall>j r'. j \<noteq> i \<longrightarrow> tget (subs s) j = Some r' \<longrightarrow>
        sub_pppoe_username r' \<noteq> sub_pppoe_username r))"

lemma sub_validate_ok:
  assumes "sub_validate written ids s = (Inr (), s')"
  shows "s' = s"
    and "triggered written [''auth_method'', ''pppoe_username'', ''pppoe_password''] \<Longrightarrow>
           rows_pass s ids (\<lambda>i. credentials_ok)"
    and "triggered written [''auth_method'', ''dhcp_mode'', ''service_ip''] \<Longrightarrow>
           rows_pass s ids (\<lambda>i r. has_static_ip r \<longrightarrow> set_str (sub_service_ip r))"
    and "triggered written [''auth_method'', ''dhcp_mode'', ''service_ip''] \<Longrightarrow>
           rows_pass s ids (static_unique s)"
    and "triggered written [''state'', ''gps_lat'', ''gps_lng''] \<Longrightarrow> rows_pass s ids (\<lambda>i. gps_ok)"
    and "triggered written [''sector_id'', ''device_id''] \<Longrightarrow> rows_pass s ids (\<lambda>i. device_ok s)"
proof -
  define check where "check = (\<lambda>(declared, chk :: nat list \<Rightarrow> unit op).
     do_if (triggered written declared) (chk ids))"
  define passes where "passes = (\<lambda>(declared :: string list, chk :: nat list \<Rightarrow> unit op).
     triggered written declared \<longrightarrow> chk ids s = (Inr (), s))"
  have "check c s = (Inr (), t) \<longleftrightarrow> passes c \<and> t = s" if "c \<in> set sub_checks" for c t
    using that by (auto simp: sub_checks_def check_def passes_def do_if_check check_simps split: if_splits)
  then have "for_each check cs s = (Inr (), s') \<Longrightarrow> set cs \<subseteq> set sub_checks \<Longrightarrow>
      (\<forall>c\<in>set cs. passes c) \<and> s' = s" for cs
    by (induction cs) (auto simp: run_simps split: prod.splits sum.splits)
  from this [of sub_checks] assms have *: "(\<forall>c\<in>set sub_checks. passes c) \<and> s' = s"
    by (simp add: sub_validate_def check_def)
  then show "s' = s" by simp
  from * show
    "triggered written [''auth_method'', ''pppoe_username'', ''pppoe_password''] \<Longrightarrow>
       rows_pass s ids (\<lambda>i. credentials_ok)"
    "triggered written [''auth_method'', ''dhcp_mode'', ''service_ip''] \<Longrightarrow>
       rows_pass s ids (\<lambda>i r. has_static_ip r \<longrightarrow> set_str (sub_service_ip r))"
    "triggered written [''auth_method'', ''dhcp_mode'', ''service_ip''] \<Longrightarrow>
       rows_pass s ids (static_unique s)"
    "triggered written [''state'', ''gps_lat'', ''gps_lng''] \<Longrightarrow> rows_pass s ids (\<lambda>i. gps_ok)"
    "triggered written [''sector_id'', ''device_id''] \<Longrightarrow> rows_pass s ids (\<lambda>i. device_ok s)"
    by (auto simp: sub_checks_def passes_def check_simps rows_pass_def static_unique_def)
qed


section \<open>The invariant of the table\<close>

definition row_ok :: "sys \<Rightarrow> nat \<Rightarrow> subscription \<Rightarrow> bool" where
  "row_ok s i r \<longleftrightarrow> credentials_ok r \<and> (has_static_ip r \<longrightarrow> set_str (sub_service_ip r)) \<and>
     gps_ok r \<and> required_ok r \<and> device_ok s r"

definition subs_ok :: "sys \<Rightarrow> bool" where
  "subs_ok s \<longleftrightarrow> (\<forall>i r. tget (subs s) i = Some r \<longrightarrow>
     row_ok s i r \<and> static_unique s i r \<and> user_unique s i r)"

lemma subs_okD:
  assumes "subs_ok s" and "tget (subs s) i = Some r"
  shows "row_ok s i r" and "static_unique s i r" and "user_unique s i r"
  using assms by (auto simp: subs_ok_def)

lemma user_uniqueD:
  "user_unique s i r \<Longrightarrow> sub_pppoe_username r \<noteq> None \<Longrightarrow> j \<noteq> i \<Longrightarrow>
   tget (subs s) j = Some r' \<Longrightarrow> sub_pppoe_username r' \<noteq> sub_pppoe_username r"
  by (auto simp: user_unique_def)

text \<open>A state that agrees on subscriptions and devices has the same invariant.\<close>

lemma subs_ok_cong: "subs s' = subs s \<Longrightarrow> devices s' = devices s \<Longrightarrow> subs_ok s' = subs_ok s"
  by (simp add: subs_ok_def row_ok_def device_ok_def device_sector_def static_unique_def user_unique_def)

text \<open>A write that does not trigger a check does not change what it reads.\<close>

lemma fold_sub_set_frame:
  assumes "\<And>v r. sub_field v \<notin> F \<Longrightarrow> g (sub_set v r) = g r"
    and "\<forall>v\<in>set vs. sub_field v \<notin> F"
  shows "g (fold sub_set vs r) = g r"
  using assms(2) by (induction vs arbitrary: r) (simp_all add: assms(1))

lemma not_triggered: "\<not> triggered (map f vs) F \<Longrightarrow> \<forall>v\<in>set vs. f v \<notin> set F"
  by (auto simp: triggered_def list_ex_iff)

lemma frame_credentials:
  assumes "\<not> triggered (map sub_field vs) [''auth_method'', ''pppoe_username'', ''pppoe_password'']"
  shows "credentials_ok (fold sub_set vs r) = credentials_ok r"
  by (rule fold_sub_set_frame [OF _ not_triggered [OF assms]]) (case_tac v; simp add: credentials_ok_def)

lemma frame_static:
  assumes "\<not> triggered (map sub_field vs) [''auth_method'', ''dhcp_mode'', ''service_ip'']"
  shows "(has_static_ip (fold sub_set vs r), sub_service_ip (fold sub_set vs r)) =
         (has_static_ip r, sub_service_ip r)"
  by (rule fold_sub_set_frame [OF _ not_triggered [OF assms]]) (case_tac v; simp add: has_static_ip_def)

lemma frame_gps:
  assumes "\<not> triggered (map sub_field vs) [''state'', ''gps_lat'', ''gps_lng'']"
  shows "gps_ok (fold sub_set vs r) = gps_ok r"
  by (rule fold_sub_set_frame [OF _ not_triggered [OF assms]]) (case_tac v; simp add: gps_ok_def)

lemma frame_device:
  assumes "\<not> triggered (map sub_field vs) [''sector_id'', ''device_id'']"
  shows "(sub_sector_id (fold sub_set vs r), sub_device_id (fold sub_set vs r)) =
         (sub_sector_id r, sub_device_id r)"
  by (rule fold_sub_set_frame [OF _ not_triggered [OF assms]]) (case_tac v; simp)

text \<open>What a successful write has done.\<close>

lemma keeps_all_check_plan_diff [keeps_all_intros]: "keeps_all I (check_plan_diff ids)"
  unfolding check_plan_diff_def by (intro keeps_all_intros)

lemma keeps_all_recheck [keeps_all_intros]: "keeps_all I (recheck_plan_requests e i)"
  unfolding recheck_plan_requests_def by (intro keeps_all_intros)

lemma recheck_same_state: "recheck_plan_requests e i s = (x, s') \<Longrightarrow> s' = s"
  using keeps_all_recheck [of "\<lambda>t. t = s" e i] by (auto simp: keeps_all_def)

lemma sub_write_ok:
  assumes "sub_write e i vs s = (Inr u, s')"
  shows "\<exists>r. tget (subs s) i = Some r"
    and "s' = s\<lparr>subs := tupd i (fold sub_set vs) (subs s)\<rparr>"
    and "sub_validate (map sub_field vs) [i] s' = (Inr (), s')"
    and "rows_pass s' [i] (\<lambda>i. required_ok)"
    and "rows_pass s' [i] (user_unique s')"
proof -
  let ?s = "s\<lparr>subs := tupd i (fold sub_set vs) (subs s)\<rparr>"
  from assms obtain r where r: "tget (subs s) i = Some r"
    by (auto simp: sub_write_def run_simps split: option.splits)
  from assms obtain t1 t2 t3 where
      v: "sub_validate (map sub_field vs) [i] ?s = (Inr (), t1)"
    and n: "sub_not_null [i] t1 = (Inr (), t2)"
    and q: "pppoe_user_uniq [i] t2 = (Inr (), t3)"
    and c: "do_if (''plan_id'' \<in> set (map sub_field vs)) (recheck_plan_requests e i) t3 = (Inr (), s')"
    using r by (auto simp: sub_write_def sub_store_def rd_run modify_run elim!: bnd_ok andthen_ok)
  have t1: "t1 = ?s" using sub_validate_ok(1) [OF v] .
  have t2: "t2 = t1" using n by (auto simp: check_simps)
  have t3: "t3 = t2" using q by (auto simp: check_simps)
  have s': "s' = t3" using c by (auto simp: do_if_run split: if_splits dest: recheck_same_state)
  show "\<exists>r. tget (subs s) i = Some r" using r by simp
  show "s' = ?s" using t1 t2 t3 s' by simp
  show "sub_validate (map sub_field vs) [i] s' = (Inr (), s')" using v t1 t2 t3 s' by simp
  show "rows_pass s' [i] (\<lambda>i. required_ok)" using n t2 t3 s' by (auto simp: check_simps rows_pass_def)
  show "rows_pass s' [i] (user_unique s')"
    using q t3 s' by (auto simp: check_simps rows_pass_def user_unique_def)
qed

lemma rows_passD: "rows_pass s [i] P \<Longrightarrow> tget (subs s) i = Some r \<Longrightarrow> P i r"
  by (auto simp: rows_pass_def)

lemma sub_write_row_ok:
  assumes "subs_ok s" and w: "sub_write e i vs s = (Inr u, s')" and "tget (subs s') j = Some r"
  shows "row_ok s' j r"
proof -
  have s': "s' = s\<lparr>subs := tupd i (fold sub_set vs) (subs s)\<rparr>" by (rule sub_write_ok(2) [OF w])
  have dev: "device_ok s' = device_ok s" by (simp add: s' device_ok_def device_sector_def fun_eq_iff)
  note val = sub_validate_ok [OF sub_write_ok(3) [OF w]]
  show ?thesis
  proof (cases "j = i")
    case False
    with assms(3) s' have "tget (subs s) j = Some r" by (simp add: tbl.look_upd)
    with assms(1) dev show ?thesis by (auto simp: row_ok_def dest: subs_okD)
  next
    case True
    with assms(3) s' obtain r0 where r0: "tget (subs s) i = Some r0" "r = fold sub_set vs r0"
      by (auto simp: tbl.look_upd)
    have old: "row_ok s i r0" using assms(1) r0(1) by (rule subs_okD)
    have ri: "tget (subs s') i = Some r" using assms(3) True by simp
    have "credentials_ok r"
      using old val(2) rows_passD [OF _ ri] frame_credentials [of vs r0] r0(2)
      by (cases "triggered (map sub_field vs) [''auth_method'', ''pppoe_username'', ''pppoe_password'']")
        (auto simp: row_ok_def)
    moreover have "has_static_ip r \<longrightarrow> set_str (sub_service_ip r)"
      using old val(3) rows_passD [OF _ ri] frame_static [of vs r0] r0(2)
      by (cases "triggered (map sub_field vs) [''auth_method'', ''dhcp_mode'', ''service_ip'']")
        (auto simp: row_ok_def)
    moreover have "gps_ok r"
      using old val(5) rows_passD [OF _ ri] frame_gps [of vs r0] r0(2)
      by (cases "triggered (map sub_field vs) [''state'', ''gps_lat'', ''gps_lng'']")
        (auto simp: row_ok_def)
    moreover have "device_ok s' r"
    proof (cases "triggered (map sub_field vs) [''sector_id'', ''device_id'']")
      case True
      then show ?thesis by (rule rows_passD [OF val(6) ri])
    next
      case False
      with frame_device [of vs r0] r0(2) old have "device_ok s r"
        by (simp add: row_ok_def device_ok_def)
      with dev show ?thesis by simp
    qed
    moreover have "required_ok r" using sub_write_ok(4) [OF w] ri by (rule rows_passD)
    ultimately show ?thesis using True by (simp add: row_ok_def)
  qed
qed

lemma static_uniqueD:
  "static_unique s i r \<Longrightarrow> has_static_ip r \<Longrightarrow> set_str (sub_service_ip r) \<Longrightarrow> j \<noteq> i \<Longrightarrow>
   tget (subs s) j = Some r' \<Longrightarrow> has_static_ip r' \<Longrightarrow> sub_service_ip r' \<noteq> sub_service_ip r"
  by (auto simp: static_unique_def)

lemma sub_write_static_unique:
  assumes ok: "subs_ok s" and w: "sub_write e i vs s = (Inr u, s')" and j: "tget (subs s') j = Some r"
  shows "static_unique s' j r"
proof -
  have s': "s' = s\<lparr>subs := tupd i (fold sub_set vs) (subs s)\<rparr>" by (rule sub_write_ok(2) [OF w])
  show ?thesis
  proof (cases "triggered (map sub_field vs) [''auth_method'', ''dhcp_mode'', ''service_ip'']")
    case True
    from sub_validate_ok(4) [OF sub_write_ok(3) [OF w] True]
    obtain ri where ri: "tget (subs s') i = Some ri" "static_unique s' i ri"
      by (auto simp: rows_pass_def)
    have "sub_service_ip r' \<noteq> sub_service_ip r"
      if "has_static_ip r" "set_str (sub_service_ip r)" "k \<noteq> j" "tget (subs s') k = Some r'"
        "has_static_ip r'" for k r'
    proof (cases "j = i \<or> k = i")
      case True
      with ri that j show ?thesis by (auto dest: static_uniqueD)
    next
      case False
      with j that(4) s' have "tget (subs s) j = Some r" "tget (subs s) k = Some r'"
        by (simp_all add: tbl.look_upd)
      with ok that show ?thesis by (auto dest: subs_okD(2) static_uniqueD)
    qed
    then show ?thesis by (auto simp: static_unique_def)
  next
    case False
    have old: "\<exists>q. tget (subs s) k = Some q \<and> has_static_ip q = has_static_ip r'
        \<and> sub_service_ip q = sub_service_ip r'" if "tget (subs s') k = Some r'" for k r'
      using that frame_static [OF False] by (auto simp: s' tbl.look_upd split: if_splits)
    obtain q where q: "tget (subs s) j = Some q" "has_static_ip q = has_static_ip r"
        "sub_service_ip q = sub_service_ip r"
      using old [OF j] by blast
    show ?thesis
      unfolding static_unique_def
    proof (intro impI allI)
      fix k r'
      assume r: "has_static_ip r \<and> set_str (sub_service_ip r)" and k: "k \<noteq> j"
        and r': "tget (subs s') k = Some r'" "has_static_ip r'"
      obtain q' where "tget (subs s) k = Some q'" "has_static_ip q' = has_static_ip r'"
          "sub_service_ip q' = sub_service_ip r'"
        using old [OF r'(1)] by blast
      with static_uniqueD [OF subs_okD(2) [OF ok q(1)]] q r k r'(2)
      show "sub_service_ip r' \<noteq> sub_service_ip r" by metis
    qed
  qed
qed

lemma sub_write_user_unique:
  assumes ok: "subs_ok s" and w: "sub_write e i vs s = (Inr u, s')" and j: "tget (subs s') j = Some r"
  shows "user_unique s' j r"
proof -
  have s': "s' = s\<lparr>subs := tupd i (fold sub_set vs) (subs s)\<rparr>" by (rule sub_write_ok(2) [OF w])
  obtain ri where ri: "tget (subs s') i = Some ri" "user_unique s' i ri"
    using sub_write_ok(5) [OF w] by (auto simp: rows_pass_def)
  have "sub_pppoe_username r' \<noteq> sub_pppoe_username r"
    if "sub_pppoe_username r \<noteq> None" "k \<noteq> j" "tget (subs s') k = Some r'" for k r'
  proof (cases "j = i \<or> k = i")
    case True
    with ri that j show ?thesis by (auto simp: user_unique_def)
  next
    case False
    with j that(3) s' have "tget (subs s) j = Some r" "tget (subs s) k = Some r'"
      by (simp_all add: tbl.look_upd)
    with ok that show ?thesis by (auto dest!: subs_okD(3) simp: user_unique_def)
  qed
  then show ?thesis by (auto simp: user_unique_def)
qed

lemma sub_write_subs_ok:
  assumes "subs_ok s" and "sub_write e i vs s = (Inr u, s')"
  shows "subs_ok s'"
  using sub_write_row_ok [OF assms] sub_write_static_unique [OF assms] sub_write_user_unique [OF assms]
  by (auto simp: subs_ok_def)

lemma keeps_sub_write [keeps_intros]: "keeps subs_ok (sub_write e i vs)"
  by (auto simp: keeps_def intro: sub_write_subs_ok)

lemma subs_ok_free:
  "audit_free subs_ok" "mail_free subs_ok" "wire_free subs_ok" "seq_free subs_ok" "draw_free subs_ok"
  by (simp_all add: free_defs subs_ok_def row_ok_def device_ok_def device_sector_def
      static_unique_def user_unique_def)

lemma keeps_ensure_pppoe [keeps_intros]: "keeps subs_ok (ensure_pppoe_credentials e i)"
  unfolding ensure_pppoe_credentials_def by (intro keeps_intros subs_ok_free)


section \<open>create\<close>

lemma vget_snoc: "vget f (vs @ [v]) = (case f v of None \<Rightarrow> vget f vs | Some x \<Rightarrow> Some x)"
  by (cases "List.map_filter f vs")
    (auto simp: vget_def List.map_filter_def split: option.splits list.splits)

lemma fold_sub_auth:
  "sub_auth_method (fold sub_set vs r) =
     (case vals_auth vs of None \<Rightarrow> sub_auth_method r | Some a \<Rightarrow> a)"
proof (induction vs rule: rev_induct)
  case Nil
  then show ?case by (simp add: vals_auth_def vget_def List.map_filter_def)
next
  case (snoc v vs)
  then show ?case by (cases v) (auto simp: vals_auth_def vget_snoc)
qed

lemma vals_auth_snoc_auth [simp]: "vals_auth (vs @ [V_auth_method a]) = Some a"
  by (simp add: vals_auth_def vget_snoc)

lemma vals_auth_snoc_both [simp]: "vals_auth (vs @ [V_name n, V_auth_method a]) = Some a"
  using vals_auth_snoc_auth [of "vs @ [V_name n]" a] by simp

lemma vals_auth_snoc_name [simp]: "vals_auth (vs @ [V_name n]) = vals_auth vs"
  by (simp add: vals_auth_def vget_snoc)

lemma vals_plan_snoc_name [simp]: "vals_plan (vs @ [V_name n]) = vals_plan vs"
  by (simp add: vals_plan_def vget_snoc)

lemma sub_insert_rows:
  assumes "map_each sub_insert vl s = (Inr ids, s')"
  shows "(\<exists>u. s' = s\<lparr>subs := u\<rparr>) \<and>
    (\<forall>j r. tget (subs s) j = Some r \<longrightarrow> tget (subs s') j = Some r) \<and>
    (\<forall>j r. tget (subs s') j = Some r \<longrightarrow> tget (subs s) j = Some r \<or>
       (j \<in> set ids \<and> (\<exists>vs\<in>set vl. r = fold sub_set vs sub_default)))"
  using assms
proof (induction vl arbitrary: s ids)
  case Nil
  have "\<exists>u. s = s\<lparr>subs := u\<rparr>" by (rule exI [of _ "subs s"]) simp
  with Nil show ?case by (simp add: run_simps)
next
  case (Cons vs vl)
  let ?t = "s\<lparr>subs := tins (fold sub_set vs sub_default) (subs s)\<rparr>"
  from Cons.prems obtain y t ids' where y: "sub_insert vs s = (Inr y, t)"
      and m: "map_each sub_insert vl t = (Inr ids', s')" and ids: "ids = y # ids'"
    by (auto simp: ret_run elim!: bnd_ok)
  from y have t: "t = ?t" and ids: "ids = fresh_id (subs s) # ids'" using ids by (auto simp: sub_insert_run)
  from m t have ids': "map_each sub_insert vl ?t = (Inr ids', s')" by simp
  note IH = Cons.IH [OF ids']
  have "\<exists>u. s' = s\<lparr>subs := u\<rparr>" using IH by auto
  moreover have "tget (subs s') j = Some r" if "tget (subs s) j = Some r" for j r
    using IH tbl.ins_old [OF that] by simp
  moreover have "tget (subs s) j = Some r \<or>
      (j \<in> set ids \<and> (\<exists>ws\<in>set (vs # vl). r = fold sub_set ws sub_default))"
    if "tget (subs s') j = Some r" for j r
  proof -
    from IH that have "tget (subs ?t) j = Some r \<or>
      (j \<in> set ids' \<and> (\<exists>ws\<in>set vl. r = fold sub_set ws sub_default))" by blast
    then show ?thesis using ids by (auto simp: tbl.look_ins split: if_splits)
  qed
  ultimately show ?case by blast
qed

lemma triggered_defaults:
  "triggered (ws @ defaulted_fields) [''auth_method'', ''pppoe_username'', ''pppoe_password'']"
  "triggered (ws @ defaulted_fields) [''auth_method'', ''dhcp_mode'', ''service_ip'']"
  "triggered (ws @ defaulted_fields) [''state'', ''gps_lat'', ''gps_lng'']"
  by (auto simp: triggered_def defaulted_fields_def)

lemma sector_written:
  assumes "sub_sector_id (fold sub_set vs sub_default) \<noteq> None"
  shows "''sector_id'' \<in> set (map sub_field vs)"
proof (rule ccontr)
  assume "''sector_id'' \<notin> set (map sub_field vs)"
  then have "\<forall>v\<in>set vs. sub_field v \<notin> {''sector_id''}" by (auto simp: image_iff)
  then have "sub_sector_id (fold sub_set vs sub_default) = sub_sector_id sub_default"
    by (rule fold_sub_set_frame [rotated]) (case_tac v; simp)
  with assms show False by (simp add: sub_default_def)
qed

text \<open>Inserting rows that pass every check keeps the invariant.\<close>

lemma inserted_subs_ok:
  assumes ok: "subs_ok s"
    and dev: "devices s' = devices s"
    and rows: "\<And>j r. tget (subs s') j = Some r \<Longrightarrow> tget (subs s) j = Some r \<or> j \<in> set ids"
    and new: "rows_pass s' ids (row_ok s')" "rows_pass s' ids (static_unique s')"
      "rows_pass s' ids (user_unique s')"
  shows "subs_ok s'"
proof -
  have same_dev: "device_ok s' = device_ok s"
    by (simp add: device_ok_def device_sector_def dev fun_eq_iff)
  have local: "row_ok s' j r" if "tget (subs s') j = Some r" for j r
    using rows [OF that] that new(1) subs_okD(1) [OF ok, of j r] same_dev
    by (auto simp: rows_pass_def row_ok_def)
  have static: "static_unique s' j r" if j: "tget (subs s') j = Some r" for j r
    unfolding static_unique_def
  proof (intro impI allI)
    fix k r'
    assume a: "has_static_ip r \<and> set_str (sub_service_ip r)" "k \<noteq> j"
      "tget (subs s') k = Some r'" "has_static_ip r'"
    show "sub_service_ip r' \<noteq> sub_service_ip r"
    proof (cases "j \<in> set ids \<or> k \<in> set ids")
      case True
      then have "static_unique s' j r \<or> static_unique s' k r'"
        using new(2) j a(3) by (auto simp: rows_pass_def)
      with j a show ?thesis by (auto dest: static_uniqueD)
    next
      case False
      with rows j a have "tget (subs s) j = Some r" "tget (subs s) k = Some r'" by blast+
      with subs_okD(2) [OF ok] a show ?thesis by (auto simp: static_unique_def)
    qed
  qed
  have user: "user_unique s' j r" if j: "tget (subs s') j = Some r" for j r
    unfolding user_unique_def
  proof (intro impI allI)
    fix k r'
    assume a: "sub_pppoe_username r \<noteq> None" "k \<noteq> j" "tget (subs s') k = Some r'"
    show "sub_pppoe_username r' \<noteq> sub_pppoe_username r"
    proof (cases "j \<in> set ids \<or> k \<in> set ids")
      case True
      then have "user_unique s' j r \<or> user_unique s' k r'"
        using new(3) j a(3) by (auto simp: rows_pass_def)
      with j a show ?thesis by (auto dest: user_uniqueD)
    next
      case False
      with rows j a have "tget (subs s) j = Some r" "tget (subs s) k = Some r'" by blast+
      with subs_okD(3) [OF ok] a show ?thesis by (auto simp: user_unique_def)
    qed
  qed
  from local static user show ?thesis by (simp add: subs_ok_def)
qed

lemma keeps_prepare [keeps_intros]:
  "seq_free I \<Longrightarrow> keeps I (sub_prepare_name e vs)" "keeps I (sub_prepare_auth vs)"
  unfolding sub_prepare_name_def sub_prepare_auth_def by (intro keeps_intros; simp)+

text \<open>The middle of \<open>create\<close>: store the rows, then check them.\<close>

text \<open>The device constraint is skipped when no \<open>vals\<close> name a sector: the new rows then fail the
  required fields, so there are none.\<close>

lemma inserted_devices_ok:
  assumes ok: "subs_ok s" and ins: "map_each sub_insert vl s = (Inr ids, s1)"
    and req: "rows_pass s1 ids (\<lambda>i. required_ok)"
    and none: "\<And>vs. vs \<in> set vl \<Longrightarrow> ''sector_id'' \<notin> set (map sub_field vs)"
  shows "rows_pass s1 ids (\<lambda>i r. device_ok s1 r)"
  unfolding rows_pass_def
proof
  note rows = sub_insert_rows [OF ins]
  have same: "device_ok s1 = device_ok s"
    using rows by (auto simp: device_ok_def device_sector_def fun_eq_iff)
  fix j
  assume "j \<in> set ids"
  with req obtain r where r: "tget (subs s1) j = Some r" "required_ok r"
    by (auto simp: rows_pass_def)
  from r(1) rows have "tget (subs s) j = Some r \<or> (\<exists>vs\<in>set vl. r = fold sub_set vs sub_default)"
    by blast
  then have "tget (subs s) j = Some r"
    using r(2) none sector_written by (metis required_ok_def)
  then have "device_ok s r" using subs_okD(1) [OF ok] by (simp add: row_ok_def)
  with r(1) same show "\<exists>r. tget (subs s1) j = Some r \<and> device_ok s1 r" by simp
qed

lemma insert_checked_subs_ok:
  assumes ok: "subs_ok s" and ins: "map_each sub_insert vl s = (Inr ids, s1)"
    and n: "sub_not_null ids s1 = (Inr (), s2)" and q: "pppoe_user_uniq ids s2 = (Inr (), s3)"
    and v: "sub_validate (concat (map (map sub_field) vl) @ defaulted_fields) ids s3 = (Inr (), s4)"
  shows "subs_ok s4"
proof -
  have eqs: "s2 = s1" "s3 = s1" "s4 = s1"
    using n q sub_validate_ok(1) [OF v] by (auto simp: check_simps)
  note rows = sub_insert_rows [OF ins]
  note val = sub_validate_ok [OF v, unfolded eqs]
  let ?ws = "concat (map (map sub_field) vl) @ defaulted_fields"
  have req: "rows_pass s1 ids (\<lambda>i. required_ok)" using n eqs by (auto simp: check_simps rows_pass_def)
  have dev: "rows_pass s1 ids (\<lambda>i r. device_ok s1 r)"
    using val(6) inserted_devices_ok [OF ok ins req] by (auto simp: triggered_def)
  have "subs_ok s1"
  proof (rule inserted_subs_ok [OF ok])
    show "devices s1 = devices s" using rows by auto
    show "tget (subs s) j = Some r \<or> j \<in> set ids" if "tget (subs s1) j = Some r" for j r
      using rows that by blast
    show "rows_pass s1 ids (row_ok s1)"
      unfolding row_ok_def
      by (intro rows_pass_conj req dev val(2) [OF triggered_defaults(1)]
          val(3) [OF triggered_defaults(2)] val(5) [OF triggered_defaults(3)])
    show "rows_pass s1 ids (static_unique s1)" by (rule val(4) [OF triggered_defaults(2)])
    show "rows_pass s1 ids (user_unique s1)"
      using q eqs by (auto simp: check_simps rows_pass_def user_unique_def)
  qed
  with eqs show ?thesis by simp
qed

lemma keeps_sub_create [keeps_intros]: "keeps subs_ok (sub_create e vl)"
proof -
  have tail: "subs_ok s'" if ok: "subs_ok t" and m: "bnd (map_each sub_insert vl) (\<lambda>ids.
     andthen (sub_not_null ids) (andthen (pppoe_user_uniq ids)
    (andthen (sub_validate (concat (map (map sub_field) vl) @ defaulted_fields) ids)
    (andthen (for_each (ensure_pppoe_credentials e) ids) (ret ids))))) t = (Inr u, s')" for vl t u s'
  proof -
    from m obtain ids s1 s2 s3 s4 where
        "map_each sub_insert vl t = (Inr ids, s1)" "sub_not_null ids s1 = (Inr (), s2)"
        "pppoe_user_uniq ids s2 = (Inr (), s3)"
        "sub_validate (concat (map (map sub_field) vl) @ defaulted_fields) ids s3 = (Inr (), s4)"
      and rest: "for_each (ensure_pppoe_credentials e) ids s4 = (Inr (), s')"
      by (auto simp: ret_run elim!: bnd_ok andthen_ok)
    then have "subs_ok s4" using ok by (blast intro: insert_checked_subs_ok)
    then show ?thesis using rest by (rule keepsD [OF keeps_for_each [OF keeps_ensure_pppoe]])
  qed
  show ?thesis
    unfolding sub_create_def
  proof (rule keeps_bnd)
    show "keeps subs_ok (map_each (\<lambda>vs. bnd (sub_prepare_name e vs) sub_prepare_auth) vl)"
      by (intro keeps_intros subs_ok_free)
  qed (use tail in \<open>fastforce simp: keeps_def\<close>)
qed


section \<open>PPPoE credentials\<close>

text \<open>
  On a table that satisfies the invariant the credentials are already there, so
  \<open>_ensure_pppoe_credentials\<close> can only fill the profile.
\<close>

definition fill_profile :: "sys \<Rightarrow> subscription \<Rightarrow> subscription" where
  "fill_profile s r =
     (if sub_auth_method r = AuthPppoe \<and> \<not> set_str (sub_pppoe_profile r) \<and> sub_plan_id r \<noteq> None
      then let prof = via (plans s) (sub_plan_id r) None plan_mikrotik_profile
           in (if set_str prof then r\<lparr>sub_pppoe_profile := prof\<rparr> else r)
      else r)"

lemma tupd_self: "tget t i = Some r \<Longrightarrow> f r = r \<Longrightarrow> tget (tupd i f t) j = tget t j"
  by (auto simp: tbl.look_upd)

lemma write_returns:
  assumes ok: "subs_ok s" and r: "tget (subs s) i = Some r"
    and user: "\<And>q. sub_pppoe_username (fold sub_set vs q) = sub_pppoe_username q"
    and req: "required_ok (fold sub_set vs r)"
    and val: "sub_validate (map sub_field vs) [i] (s\<lparr>subs := tupd i (fold sub_set vs) (subs s)\<rparr>) =
      (Inr (), s\<lparr>subs := tupd i (fold sub_set vs) (subs s)\<rparr>)"
    and plan: "''plan_id'' \<notin> set (map sub_field vs) \<or> \<not> validate_recomputed e"
  shows "sub_write e i vs s = (Inr (), s\<lparr>subs := tupd i (fold sub_set vs) (subs s)\<rparr>)"
proof -
  let ?s = "s\<lparr>subs := tupd i (fold sub_set vs) (subs s)\<rparr>"
  have ri: "tget (subs ?s) i = Some (fold sub_set vs r)"
    using r by (simp add: tbl.look_upd)
  have others: "\<exists>q. tget (subs s) j = Some q \<and> sub_pppoe_username r' = sub_pppoe_username q"
    if "tget (subs ?s) j = Some r'" for j r'
    using that user by (auto simp: tbl.look_upd split: if_splits)
  have "sub_not_null [i] ?s = (Inr (), ?s)"
    using ri req by (simp add: check_simps)
  moreover have "pppoe_user_uniq [i] ?s = (Inr (), ?s)"
    using ri user subs_okD(3) [OF ok r] others by (fastforce simp: check_simps user_unique_def)
  moreover have "do_if (''plan_id'' \<in> set (map sub_field vs)) (recheck_plan_requests e i) ?s = (Inr (), ?s)"
    using plan by (auto simp: recheck_plan_requests_def run_simps)
  ultimately show ?thesis
    using r val by (simp add: sub_write_def sub_store_def andthen_run bnd_run rd_run modify_run)
qed

lemma untriggered_validate:
  assumes "\<forall>F\<in>fst ` set sub_checks. \<not> triggered ws F"
  shows "sub_validate ws ids s = (Inr (), s)"
  using assms by (simp add: sub_validate_def sub_checks_def run_simps)

lemma profile_write_returns:
  assumes ok: "subs_ok s" and r: "tget (subs s) i = Some r"
  shows "sub_write e i [V_pppoe_profile x] s =
     (Inr (), s\<lparr>subs := tupd i (sub_set (V_pppoe_profile x)) (subs s)\<rparr>)"
proof -
  have set: "fold sub_set [V_pppoe_profile x] = sub_set (V_pppoe_profile x)" by (rule ext) simp
  show ?thesis
    using write_returns [OF ok r, of "[V_pppoe_profile x]" e] subs_okD(1) [OF ok r]
    unfolding set
    by (simp add: row_ok_def required_ok_def untriggered_validate sub_checks_def triggered_def)
qed

lemma plan_write_returns:
  assumes ok: "subs_ok s" and r: "tget (subs s) i = Some r" and "\<not> validate_recomputed e"
  shows "sub_write e i [V_plan_id (Some p)] s =
     (Inr (), s\<lparr>subs := tupd i (\<lambda>r. r\<lparr>sub_plan_id := Some p\<rparr>) (subs s)\<rparr>)"
proof -
  have set: "fold sub_set [V_plan_id (Some p)] = (\<lambda>r. r\<lparr>sub_plan_id := Some p\<rparr>)" by (rule ext) simp
  show ?thesis
    using write_returns [OF ok r, of "[V_plan_id (Some p)]" e] subs_okD(1) [OF ok r] assms(3)
    unfolding set
    by (simp add: row_ok_def required_ok_def untriggered_validate sub_checks_def triggered_def)
qed

lemma state_write_returns:
  assumes ok: "subs_ok s" and r: "tget (subs s) i = Some r" and gps: "gps_ok (r\<lparr>sub_state := x\<rparr>)"
  shows "sub_write e i [V_state x] s =
     (Inr (), s\<lparr>subs := tupd i (\<lambda>r. r\<lparr>sub_state := x\<rparr>) (subs s)\<rparr>)"
proof -
  have set: "fold sub_set [V_state x] = (\<lambda>r. r\<lparr>sub_state := x\<rparr>)" by (rule ext) simp
  have "check_gps_required_for_active [i] (s\<lparr>subs := tupd i (\<lambda>r. r\<lparr>sub_state := x\<rparr>) (subs s)\<rparr>) =
      (Inr (), s\<lparr>subs := tupd i (\<lambda>r. r\<lparr>sub_state := x\<rparr>) (subs s)\<rparr>)"
    using r gps by (simp add: check_simps tbl.look_upd)
  then show ?thesis
    using write_returns [OF ok r, of "[V_state x]" e] subs_okD(1) [OF ok r]
    unfolding set
    by (simp add: row_ok_def required_ok_def sub_validate_def sub_checks_def triggered_def run_simps)
qed

lemma ensure_pppoe_on_valid:
  assumes ok: "subs_ok s" and r: "tget (subs s) i = Some r"
  shows "\<exists>s'. ensure_pppoe_credentials e i s = (Inr (), s') \<and>
     (\<exists>u. s' = s\<lparr>subs := u\<rparr>) \<and>
     (\<forall>j. tget (subs s') j = (if j = i then Some (fill_profile s r) else tget (subs s) j))"
proof (cases "sub_auth_method r = AuthPppoe")
  case False
  then have "ensure_pppoe_credentials e i s = (Inr (), s)"
    using r by (simp add: ensure_pppoe_credentials_def run_simps)
  moreover have "s = s\<lparr>subs := subs s\<rparr>" by simp
  ultimately show ?thesis using False r by (metis fill_profile_def)
next
  case True
  with subs_okD(1) [OF ok r] have cred: "set_str (sub_pppoe_username r)" "set_str (sub_pppoe_password r)"
    by (auto simp: row_ok_def credentials_ok_def)
  let ?prof = "via (plans s) (sub_plan_id r) None plan_mikrotik_profile"
  show ?thesis
  proof (cases "\<not> set_str (sub_pppoe_profile r) \<and> sub_plan_id r \<noteq> None")
    case False
    with True cred r have "ensure_pppoe_credentials e i s = (Inr (), s)"
      by (auto simp: ensure_pppoe_credentials_def run_simps)
    moreover have "s = s\<lparr>subs := subs s\<rparr>" by simp
    moreover have "fill_profile s r = r" using False by (auto simp: fill_profile_def)
    ultimately show ?thesis using r by metis
  next
    case fill: True
    let ?x = "if set_str ?prof then ?prof else sub_pppoe_profile r"
    let ?s = "s\<lparr>subs := tupd i (sub_set (V_pppoe_profile ?x)) (subs s)\<rparr>"
    from True cred r fill have "ensure_pppoe_credentials e i s = (Inr (), ?s)"
      by (simp add: ensure_pppoe_credentials_def run_simps profile_write_returns [OF ok r] del: sub_set.simps)
    moreover have "fill_profile s r = sub_set (V_pppoe_profile ?x) r"
      using True fill by (simp add: fill_profile_def Let_def)
    ultimately show ?thesis using r by (auto simp: tbl.look_upd)
  qed
qed

text \<open>A row made of \<open>vals\<close> without credentials has none.\<close>

lemma fold_no_credentials:
  assumes "\<forall>x. V_pppoe_username x \<notin> set vs" and "\<forall>x. V_pppoe_password x \<notin> set vs"
  shows "sub_pppoe_username (fold sub_set vs sub_default) = None"
    and "sub_pppoe_password (fold sub_set vs sub_default) = None"
proof -
  have *: "(sub_pppoe_username (fold sub_set ws r), sub_pppoe_password (fold sub_set ws r)) =
      (sub_pppoe_username r, sub_pppoe_password r)" if "set ws \<subseteq> set vs" for ws r
    using that
  proof (induction ws arbitrary: r)
    case (Cons w ws)
    with assms show ?case by (cases w) auto
  qed simp
  from * [of vs sub_default] show "sub_pppoe_username (fold sub_set vs sub_default) = None"
    "sub_pppoe_password (fold sub_set vs sub_default) = None"
    by (simp_all add: sub_default_def)
qed

lemma required_snoc: "required_ok (sub_set (V_name n) r) = required_ok r"
    "required_ok (sub_set (V_auth_method a) r) = required_ok r"
  by (simp_all add: required_ok_def)

text \<open>Creating one PPPoE row without credentials, after \<open>vals\<close> are complete.\<close>

lemma create_stored_without_credentials:
  assumes pppoe: "vals_auth vs = Some AuthPppoe"
    and none: "\<forall>x. V_pppoe_username x \<notin> set vs" "\<forall>x. V_pppoe_password x \<notin> set vs"
    and req: "required_ok (fold sub_set vs sub_default)"
    and s1: "s1 = s\<lparr>subs := tins (fold sub_set vs sub_default) (subs s)\<rparr>"
  shows "andthen (sub_not_null [fresh_id (subs s)])
     (andthen (pppoe_user_uniq [fresh_id (subs s)])
     (andthen (sub_validate (map sub_field vs @ defaulted_fields) [fresh_id (subs s)]) k)) s1 =
     (Inl (ValidationError ''PPPoE username and password are required.''), s1)"
proof -
  let ?i = "fresh_id (subs s)" and ?r = "fold sub_set vs sub_default"
  have row: "tget (subs s1) ?i = Some ?r" by (simp add: s1 tbl.ins_new)
  have user: "sub_pppoe_username ?r = None" by (rule fold_no_credentials [OF none])
  have auth: "sub_auth_method ?r = AuthPppoe" using pppoe by (simp add: fold_sub_auth)
  have "sub_not_null [?i] s1 = (Inr (), s1)" using row req by (simp add: check_simps)
  moreover have "pppoe_user_uniq [?i] s1 = (Inr (), s1)" using row user by (simp add: check_simps)
  moreover have "sub_validate (map sub_field vs @ defaulted_fields) [?i] s1 =
     (Inl (ValidationError ''PPPoE username and password are required.''), s1)"
    using row auth user
    by (simp add: sub_validate_def sub_checks_def triggered_defaults(1) run_simps
        check_pppoe_credentials_def assert_that_def)
  ultimately show ?thesis by (simp add: andthen_run)
qed

lemma prepare_name_result:
  "\<exists>s' vs'. sub_prepare_name e vs s = (Inr vs', s') \<and> plans s' = plans s \<and> subs s' = subs s \<and>
     (vs' = vs \<or> (\<exists>n. vs' = vs @ [V_name n]))"
  by (auto simp: sub_prepare_name_def run_simps)

lemma create_pppoe_refused:
  assumes pppoe: "vals_auth vs = Some AuthPppoe \<or>
      vals_auth vs = None \<and> (\<exists>p plan. vals_plan vs = Some p \<and> tget (plans s) p = Some plan \<and>
        plan_service_type plan = STPppoe)"
    and none: "\<forall>x. V_pppoe_username x \<notin> set vs" "\<forall>x. V_pppoe_password x \<notin> set vs"
    and req: "required_ok (fold sub_set vs sub_default)"
  shows "fst (sub_create e [vs] s) = Inl (ValidationError ''PPPoE username and password are required.'')"
proof -
  obtain s1 vs1 where name: "sub_prepare_name e vs s = (Inr vs1, s1)" "plans s1 = plans s"
      and vs1: "vs1 = vs \<or> (\<exists>n. vs1 = vs @ [V_name n])"
    using prepare_name_result by blast
  have "\<exists>vs2. sub_prepare_auth vs1 s1 = (Inr vs2, s1) \<and> vals_auth vs2 = Some AuthPppoe \<and>
      (vs2 = vs1 \<or> vs2 = vs1 @ [V_auth_method AuthPppoe])"
  proof (cases "vals_auth vs")
    case None
    with pppoe obtain p plan where "vals_plan vs = Some p" "tget (plans s) p = Some plan"
        "plan_service_type plan = STPppoe" by auto
    with None vs1 name show ?thesis
      by (auto simp: sub_prepare_auth_def run_simps service_auth_def)
  next
    case (Some a)
    with pppoe vs1 show ?thesis by (auto simp: sub_prepare_auth_def run_simps)
  qed
  then obtain vs2 where auth: "sub_prepare_auth vs1 s1 = (Inr vs2, s1)" "vals_auth vs2 = Some AuthPppoe"
      and vs2: "vs2 = vs1 \<or> vs2 = vs1 @ [V_auth_method AuthPppoe]" by blast
  have none2: "\<forall>x. V_pppoe_username x \<notin> set vs2" "\<forall>x. V_pppoe_password x \<notin> set vs2"
    using none vs1 vs2 by auto
  have req2: "required_ok (fold sub_set vs2 sub_default)"
    using req vs1 vs2 by (auto simp: required_snoc simp del: sub_set.simps)
  note stored = create_stored_without_credentials [OF auth(2) none2 req2 refl]
  show ?thesis
    using name(1) auth(1) by (simp add: sub_create_def bnd_run ret_run sub_insert_run stored)
qed

text \<open>C29. A PPPoE subscription that is created without a user name and password is refused:
  the constraint runs inside the ORM's \<open>create\<close>, before \<open>_ensure_pppoe_credentials\<close> could
  generate them. This holds whether the method comes from the \<open>vals\<close> or from the plan.\<close>

theorem create_pppoe_without_credentials_fails:
  assumes pppoe: "vals_auth vs = Some AuthPppoe \<or>
      vals_auth vs = None \<and> (\<exists>p plan. vals_plan vs = Some p \<and> tget (plans s) p = Some plan \<and>
        plan_service_type plan = STPppoe)"
    and none: "\<forall>x. V_pppoe_username x \<notin> set vs" "\<forall>x. V_pppoe_password x \<notin> set vs"
    and req: "required_ok (fold sub_set vs sub_default)"
  shows "\<exists>m. fst (sub_create e [vs] s) = Inl (ValidationError m)"
  using create_pppoe_refused [OF assms] by blast

theorem create_pppoe_without_credentials_fails_witness:
  "\<exists>m. fst (sub_create plain_env [[V_partner_id (Some 1), V_plan_id (Some 1), V_sector_id (Some 1),
     V_auth_method AuthPppoe]] blank_sys) = Inl (ValidationError m)"
  by (rule create_pppoe_without_credentials_fails)
    (simp_all add: vals_auth_def vget_def List.map_filter_def required_ok_def sub_default_def)

end
