(* ===== verification/Job_Queue.thy ===== *)
theory Job_Queue
  imports Subscription_Inv
begin

text \<open>
  Provisioning jobs as they are queued: \<open>create\<close> and \<open>get_payload\<close> of
  \<open>isp_core/models/provisioning_job.py\<close>, \<open>_queue_job\<close> and the buttons of
  \<open>isp_core/models/subscription.py\<close>, the healthcheck button of a router.
\<close>

fun job_type_str :: "job_type \<Rightarrow> string" where
  "job_type_str activate_subscription = ''activate_subscription''"
| "job_type_str suspend_subscription = ''suspend_subscription''"
| "job_type_str reconnect_subscription = ''reconnect_subscription''"
| "job_type_str terminate_subscription = ''terminate_subscription''"
| "job_type_str change_plan = ''change_plan''"
| "job_type_str disconnect_session = ''disconnect_session''"
| "job_type_str mikrotik_healthcheck = ''mikrotik_healthcheck''"
| "job_type_str captive_user_create = ''captive_user_create''"
| "job_type_str captive_user_disable = ''captive_user_disable''"
| "job_type_str walled_garden_apply = ''walled_garden_apply''"
| "job_type_str export_config_snapshot = ''export_config_snapshot''"
| "job_type_str activate_pppoe = ''activate_pppoe''"
| "job_type_str activate_dhcp = ''activate_dhcp''"
| "job_type_str ensure_queue = ''ensure_queue''"

text \<open>A job as \<open>create\<close> stores it, its name drawn from the sequence.\<close>

definition new_job :: "env \<Rightarrow> string \<Rightarrow> job_type \<Rightarrow> nat option \<Rightarrow> nat option \<Rightarrow> nat option \<Rightarrow>
    string \<Rightarrow> provisioning_job" where
  "new_job e name jt sub dev sec payload =
     \<lparr>job_name = name, job_type = jt, job_subscription_id = sub, job_device_id = dev,
      job_sector_id = sec, job_state = JobQueued, job_attempts = 0, job_max_attempts = 3,
      job_error_message = None, job_traceback = None, job_requested_by = env_user e,
      job_requested_at = now e, job_executed_at = None, job_payload_json = payload\<rparr>"

definition job_create :: "env \<Rightarrow> job_type \<Rightarrow> nat option \<Rightarrow> nat option \<Rightarrow> nat option \<Rightarrow> string \<Rightarrow> nat op" where
  "job_create e jt sub dev sec payload =
     bnd (next_by_code e ''isp.provisioning.job'' ''JOB'') (\<lambda>name.
     bnd (gets (\<lambda>s. fresh_id (jobs s))) (\<lambda>j.
     andthen (modify (\<lambda>s. s\<lparr>jobs := tins (new_job e name jt sub dev sec payload) (jobs s)\<rparr>))
       (ret j)))"

text \<open>\<open>get_payload\<close>: anything that is not JSON counts as an empty payload.\<close>

definition get_payload :: "env \<Rightarrow> provisioning_job \<Rightarrow> pyval" where
  "get_payload e j =
     (case json_loads e (if job_payload_json j = [] then ''{}'' else job_payload_json j) of
        None \<Rightarrow> PDict [] | Some v \<Rightarrow> v)"

text \<open>\<open>_queue_job(job_type, payload)\<close> on subscription \<open>i\<close>.\<close>

definition queue_job :: "env \<Rightarrow> nat \<Rightarrow> job_type \<Rightarrow> (string \<times> pyval) list \<Rightarrow> nat op" where
  "queue_job e i jt payload =
     bnd (rd subs i) (\<lambda>r.
     bnd (job_create e jt (Some i) None (sub_sector_id r) (json_dumps e (PDict payload))) (\<lambda>j.
     bnd (rd jobs j) (\<lambda>job.
     andthen (log_action e (job_type_str jt) (Some (''isp.subscription'', i, sub_name r))
        (''Queued job '' @ job_name job))
       (ret j))))"

definition ignore :: "'a op \<Rightarrow> unit op" where
  "ignore m = bnd m (\<lambda>_. ret ())"

definition action_activate :: "env \<Rightarrow> nat list \<Rightarrow> unit op" where
  "action_activate e ids = for_each (\<lambda>i.
     andthen (ensure_pppoe_credentials e i) (ignore (queue_job e i activate_subscription []))) ids"

definition action_suspend :: "env \<Rightarrow> nat list \<Rightarrow> unit op" where
  "action_suspend e ids = for_each (\<lambda>i. ignore (queue_job e i suspend_subscription [])) ids"

definition action_reconnect :: "env \<Rightarrow> nat list \<Rightarrow> unit op" where
  "action_reconnect e ids = for_each (\<lambda>i. ignore (queue_job e i reconnect_subscription [])) ids"

definition action_terminate :: "env \<Rightarrow> nat list \<Rightarrow> unit op" where
  "action_terminate e ids = for_each (\<lambda>i. ignore (queue_job e i terminate_subscription [])) ids"

definition action_change_plan :: "env \<Rightarrow> nat list \<Rightarrow> unit op" where
  "action_change_plan e ids = for_each (\<lambda>i. ignore (queue_job e i change_plan [])) ids"

text \<open>\<open>action_healthcheck\<close> of \<open>isp_mikrotik/models/router.py\<close>.\<close>

definition action_healthcheck :: "env \<Rightarrow> nat list \<Rightarrow> unit op" where
  "action_healthcheck e ids = for_each (\<lambda>i. bnd (rd routers i) (\<lambda>r.
     bnd (gets (\<lambda>s. router_sector s r)) (\<lambda>sec.
     ignore (job_create e mikrotik_healthcheck None (rtr_device_id r) sec ''{}'')))) ids"

section \<open>What is queued\<close>

lemma job_create_run [run_simps]:
  "job_create e jt sub dev sec payload s =
     (Inr (fresh_id (jobs s)),
      s\<lparr>seq_count := bump_seq ''isp.provisioning.job'' s,
        jobs := tins (new_job e (next_name e s ''isp.provisioning.job'' ''JOB'') jt sub dev sec payload) (jobs s)\<rparr>)"
  by (simp add: job_create_def run_simps)

definition queued_job :: "env \<Rightarrow> sys \<Rightarrow> nat \<Rightarrow> job_type \<Rightarrow> (string \<times> pyval) list \<Rightarrow> provisioning_job" where
  "queued_job e s i jt p = new_job e (next_name e s ''isp.provisioning.job'' ''JOB'') jt (Some i) None
     (via (subs s) (Some i) None sub_sector_id) (json_dumps e (PDict p))"

lemma queue_job_run:
  assumes "tget (subs s) i = Some r"
  shows "queue_job e i jt p s = (Inr (fresh_id (jobs s)),
    s\<lparr>seq_count := bump_seq ''isp.provisioning.job'' s,
      jobs := tins (queued_job e s i jt p) (jobs s),
      audits := tins (audit_row e (job_type_str jt) (Some (''isp.subscription'', i, sub_name r))
        (''Queued job '' @ next_name e s ''isp.provisioning.job'' ''JOB'')) (audits s)\<rparr>)"
  using assms
  by (simp add: queue_job_def run_simps tbl.ins_new queued_job_def via_def deref_def new_job_def)

lemma queue_job_missing:
  "tget (subs s) i = None \<Longrightarrow> queue_job e i jt p s = (Inl (MissingError ''Record does not exist''), s)"
  by (simp add: queue_job_def run_simps)

lemma keeps_all_ignore [keeps_all_intros]: "keeps_all I m \<Longrightarrow> keeps_all I (ignore m)"
  unfolding ignore_def by (intro keeps_all_intros)

lemma keeps_ignore [keeps_intros]: "keeps I m \<Longrightarrow> keeps I (ignore m)"
  unfolding ignore_def by (intro keeps_intros)

definition job_free :: "(sys \<Rightarrow> bool) \<Rightarrow> bool" where
  "job_free I \<longleftrightarrow> (\<forall>s a. I s \<longrightarrow> I (s\<lparr>jobs := a\<rparr>))"

text \<open>
  The application queues two kinds of jobs: jobs of a subscription that exists, and jobs without one,
  for a router, a captive user or a walled garden. No other type of the selection is ever queued.
\<close>

fun sub_job :: "job_type \<Rightarrow> bool" where
  "sub_job activate_subscription = True"
| "sub_job suspend_subscription = True"
| "sub_job reconnect_subscription = True"
| "sub_job terminate_subscription = True"
| "sub_job change_plan = True"
| "sub_job _ = False"

fun free_job :: "job_type \<Rightarrow> bool" where
  "free_job mikrotik_healthcheck = True"
| "free_job captive_user_create = True"
| "free_job captive_user_disable = True"
| "free_job walled_garden_apply = True"
| "free_job _ = False"

definition well_typed :: "sys \<Rightarrow> job_type \<Rightarrow> nat option \<Rightarrow> bool" where
  "well_typed s jt sub = (case sub of None \<Rightarrow> free_job jt | Some i \<Rightarrow> sub_job jt \<and> tget (subs s) i \<noteq> None)"

lemma queued_types [keeps_intros, keeps_all_intros]:
  "sub_job activate_subscription" "sub_job suspend_subscription" "sub_job reconnect_subscription"
  "sub_job terminate_subscription" "sub_job change_plan" "free_job mikrotik_healthcheck"
  "free_job captive_user_create" "free_job captive_user_disable" "free_job walled_garden_apply"
  by simp_all

text \<open>An invariant that a job queued by a request of environment \<open>e\<close> does not break.\<close>

definition queue_free :: "env \<Rightarrow> (sys \<Rightarrow> bool) \<Rightarrow> bool" where
  "queue_free e I \<longleftrightarrow> (\<forall>s n jt a b c p. well_typed s jt a \<longrightarrow> I s \<longrightarrow> I (s\<lparr>jobs := tins (new_job e n jt a b c p) (jobs s)\<rparr>))"

lemma job_free_queue [keeps_intros, keeps_all_intros]: "job_free I \<Longrightarrow> queue_free e I"
  by (simp add: job_free_def queue_free_def)

lemma keeps_all_job_create [keeps_all_intros]:
  "seq_free I \<Longrightarrow> queue_free e I \<Longrightarrow> free_job jt \<Longrightarrow> keeps_all I (job_create e jt None b c p)"
  unfolding job_create_def
  by (intro keeps_all_intros keeps_all_modify) (simp_all add: queue_free_def well_typed_def)

lemma keeps_all_queue_job [keeps_all_intros]:
  assumes "audit_free I" "seq_free I" "queue_free e I" "sub_job jt"
  shows "keeps_all I (queue_job e i jt p)"
  unfolding keeps_all_def
proof (intro allI impI)
  fix s
  assume I: "I s"
  show "I (snd (queue_job e i jt p s))"
  proof (cases "tget (subs s) i")
    case None
    with I show ?thesis by (simp add: queue_job_missing)
  next
    case (Some r)
    let ?s = "s\<lparr>seq_count := bump_seq ''isp.provisioning.job'' s\<rparr>"
    have "I ?s" using I assms(2) by (simp add: seq_free_def)
    moreover have "well_typed ?s jt (Some i)" using Some assms(4) by (simp add: well_typed_def)
    ultimately have "I (?s\<lparr>jobs := tins (queued_job e s i jt p) (jobs ?s)\<rparr>)"
      using assms(3) unfolding queue_free_def queued_job_def by blast
    with assms(1) show ?thesis by (simp add: queue_job_run [OF Some] audit_free_def)
  qed
qed

lemma keeps_all_buttons [keeps_all_intros]:
  assumes "audit_free I" "seq_free I" "queue_free e I"
  shows "keeps_all I (action_suspend e ids)" "keeps_all I (action_reconnect e ids)"
    "keeps_all I (action_terminate e ids)" "keeps_all I (action_change_plan e ids)"
    "keeps_all I (action_healthcheck e ids)"
  unfolding action_suspend_def action_reconnect_def action_terminate_def action_change_plan_def
    action_healthcheck_def
  by (intro assms keeps_all_intros)+

lemmas keeps_queue [keeps_intros] =
  keeps_all_imp [OF keeps_all_job_create]
  keeps_all_imp [OF keeps_all_queue_job]

lemma subs_ok_job_free: "job_free subs_ok"
  by (simp add: job_free_def subs_ok_def row_ok_def device_ok_def device_sector_def
      static_unique_def user_unique_def)

lemmas subs_ok_frees = subs_ok_free subs_ok_job_free

end
