(* ===== verification/Mikrotik_Jobs.thy ===== *)
theory Mikrotik_Jobs
  imports Job_Queue
begin

text \<open>
  The job handlers of \<open>isp_mikrotik/models/provisioning_job.py\<close>: the choice of the router,
  the commands of each operation, and the change of the subscription's state. A handler works on
  the job \<open>j\<close>; every command goes through the client, so a dry run only logs.
\<close>

section \<open>The router of a job\<close>

text \<open>\<open>Router.search(domain, limit=1)\<close>: the routers are ordered by their device's name.\<close>

definition first_router :: "env \<Rightarrow> sys \<Rightarrow> (nat \<Rightarrow> router \<Rightarrow> bool) \<Rightarrow> nat option" where
  "first_router e s p =
     (case sort_key (\<lambda>i. collate e (via (routers s) (Some i) [] (\<lambda>r. via (devices s) (rtr_device_id r) [] dev_name)))
        (search_ids p (routers s)) of
        [] \<Rightarrow> None | i # is \<Rightarrow> Some i)"

definition choose_router :: "env \<Rightarrow> sys \<Rightarrow> provisioning_job \<Rightarrow> nat option" where
  "choose_router e s job =
     (let r1 = (case job_device_id job of None \<Rightarrow> None
                | Some d \<Rightarrow> first_router e s (\<lambda>_ r. rtr_device_id r = Some d));
          r2 = (if r1 = None then via (subs s) (job_subscription_id job) None sub_router_id else r1)
      in (if r2 = None \<and> via (subs s) (job_subscription_id job) None sub_sector_id \<noteq> None
          then first_router e s (\<lambda>_ r. router_sector s r = via (subs s) (job_subscription_id job) None sub_sector_id)
          else r2))"

definition get_router :: "env \<Rightarrow> nat \<Rightarrow> nat op" where
  "get_router e j = bnd (rd jobs j) (\<lambda>job. bnd (gets (\<lambda>s. choose_router e s job)) (\<lambda>r.
     case r of None \<Rightarrow> raise (UserError ''No MikroTik router found for this job.'')
     | Some i \<Rightarrow> ret i))"

section \<open>Commands\<close>

definition plan_profile :: "sys \<Rightarrow> subscription \<Rightarrow> string" where
  "plan_profile s r = or_str (via (plans s) (sub_plan_id r) None plan_mikrotik_profile) ''default''"

definition routeros_pppoe_ensure_secret :: "env \<Rightarrow> client \<Rightarrow> nat \<Rightarrow> unit op" where
  "routeros_pppoe_ensure_secret e cl i = bnd (rd subs i) (\<lambda>r. bnd (gets (\<lambda>s. plan_profile s r)) (\<lambda>profile.
     try_cmd e cl
       (Cmd ''/ppp/secret/add''
          [(''name'', char_val (sub_pppoe_username r)), (''password'', char_val (sub_pppoe_password r)),
           (''profile'', PStr profile), (''service'', PStr ''pppoe'')])
       (ignore (client_cmd e cl
         (Cmd ''/ppp/secret/set''
          [(''numbers'', char_val (sub_pppoe_username r)), (''password'', char_val (sub_pppoe_password r)),
           (''profile'', PStr profile), (''disabled'', PStr ''no'')])))))"

definition routeros_pppoe_disable :: "env \<Rightarrow> client \<Rightarrow> nat \<Rightarrow> unit op" where
  "routeros_pppoe_disable e cl i = bnd (rd subs i) (\<lambda>r.
     try_cmd e cl (Cmd ''/ppp/secret/set''
       [(''numbers'', char_val (sub_pppoe_username r)), (''disabled'', PStr ''yes'')]) (ret ()))"

definition routeros_pppoe_enable :: "env \<Rightarrow> client \<Rightarrow> nat \<Rightarrow> unit op" where
  "routeros_pppoe_enable e cl i = bnd (rd subs i) (\<lambda>r.
     try_cmd e cl (Cmd ''/ppp/secret/set''
       [(''numbers'', char_val (sub_pppoe_username r)), (''disabled'', PStr ''no'')]) (ret ()))"

definition routeros_dhcp_ensure_lease :: "env \<Rightarrow> client \<Rightarrow> nat \<Rightarrow> unit op" where
  "routeros_dhcp_ensure_lease e cl i = bnd (rd subs i) (\<lambda>r.
     if \<not> set_str (sub_service_ip r) \<or> \<not> set_str (sub_service_mac r) then ret ()
     else try_cmd e cl
       (Cmd ''/ip/dhcp-server/lease/add''
          [(''address'', char_val (sub_service_ip r)), (''mac-address'', char_val (sub_service_mac r)),
           (''comment'', PStr (sub_name r))])
       (ignore (client_cmd e cl
         (Cmd ''/ip/dhcp-server/lease/set''
          [(''numbers'', char_val (sub_service_ip r)), (''comment'', PStr (sub_name r)),
           (''disabled'', PStr ''no'')]))))"

text \<open>\<open>down or 0\<close> in an f-string: a zero rate is the integer \<open>0\<close>.\<close>

definition rate_text :: "env \<Rightarrow> rat \<Rightarrow> string" where
  "rate_text e x = (if x = 0 then ''0'' else text_of e (PFloat x))"

definition max_limit :: "env \<Rightarrow> sys \<Rightarrow> subscription \<Rightarrow> string" where
  "max_limit e s r =
     rate_text e (via (plans s) (sub_plan_id r) 0 plan_download_mbps) @ ''M/'' @
     rate_text e (via (plans s) (sub_plan_id r) 0 plan_upload_mbps) @ ''M''"

definition routeros_queue_ensure :: "env \<Rightarrow> client \<Rightarrow> nat \<Rightarrow> unit op" where
  "routeros_queue_ensure e cl i = bnd (rd subs i) (\<lambda>r.
     if \<not> set_str (sub_service_ip r) then ret ()
     else bnd (gets (\<lambda>s. max_limit e s r)) (\<lambda>limit.
       try_cmd e cl
         (Cmd ''/queue/simple/add''
            [(''name'', PStr (sub_name r)), (''target'', PStr (or_str (sub_service_ip r) [] @ ''/32'')),
             (''max-limit'', PStr limit), (''comment'', PStr (sub_name r))])
         (ignore (client_cmd e cl
           (Cmd ''/queue/simple/set''
            [(''numbers'', PStr (sub_name r)), (''max-limit'', PStr limit), (''disabled'', PStr ''no'')])))))"

definition routeros_queue_disable :: "env \<Rightarrow> client \<Rightarrow> nat \<Rightarrow> unit op" where
  "routeros_queue_disable e cl i = bnd (rd subs i) (\<lambda>r.
     try_cmd e cl (Cmd ''/queue/simple/set''
       [(''numbers'', PStr (sub_name r)), (''disabled'', PStr ''yes'')]) (ret ()))"

definition routeros_queue_remove :: "env \<Rightarrow> client \<Rightarrow> nat \<Rightarrow> unit op" where
  "routeros_queue_remove e cl i = bnd (rd subs i) (\<lambda>r.
     try_cmd e cl (Cmd ''/queue/simple/remove'' [(''numbers'', PStr (sub_name r))]) (ret ()))"

section \<open>Handlers\<close>

text \<open>\<open>if not self.subscription_id: raise ...\<close>, then the subscription.\<close>

definition job_subscription :: "nat \<Rightarrow> nat op" where
  "job_subscription j = bnd (rd jobs j) (\<lambda>job. case job_subscription_id job of
     None \<Rightarrow> raise (UserError ''Subscription is required.'') | Some i \<Rightarrow> ret i)"

definition service_type_of :: "nat \<Rightarrow> service_type option op" where
  "service_type_of i = bnd (rd subs i) (\<lambda>r. gets (\<lambda>s. map_option plan_service_type (deref (plans s) (sub_plan_id r))))"

definition row_get :: "row \<Rightarrow> string \<Rightarrow> pyval" where
  "row_get r k = (case map_of r k of None \<Rightarrow> PNone | Some v \<Rightarrow> v)"

definition router_write :: "nat \<Rightarrow> (router \<Rightarrow> router) \<Rightarrow> unit op" where
  "router_write i f = modify (\<lambda>s. s\<lparr>routers := tupd i f (routers s)\<rparr>)"

definition healthcheck_probe :: "env \<Rightarrow> nat \<Rightarrow> client \<Rightarrow> unit op" where
  "healthcheck_probe e i cl =
     bnd (client_cmd e cl (Cmd ''/system/resource/print'' [])) (\<lambda>resource.
     bnd (client_cmd e cl (Cmd ''/system/identity/print'' [])) (\<lambda>identity.
     bnd (rd routers i) (\<lambda>r.
     andthen
       (case (identity, rtr_device_id r) of
          (ident # _, Some d) \<Rightarrow>
            do_if (truthy (row_get ident ''name''))
              (modify (\<lambda>s. s\<lparr>devices := tupd d (\<lambda>dv. dv\<lparr>dev_name := text_of e (row_get ident ''name'')\<rparr>) (devices s)\<rparr>))
        | _ \<Rightarrow> ret ())
       (router_write i (\<lambda>r. r\<lparr>
          rtr_routeros_version := (case resource of [] \<Rightarrow> PBool False | x # _ \<Rightarrow> row_get x ''version''),
          rtr_last_healthcheck_at := Some (now e),
          rtr_last_healthcheck_status := Some HcOk\<rparr>)))))"

definition handle_mikrotik_healthcheck :: "env \<Rightarrow> nat \<Rightarrow> unit op" where
  "handle_mikrotik_healthcheck e j =
     bnd (get_router e j) (\<lambda>i.
     bnd (get_routeros_client e i) (\<lambda>cl.
     catching (\<lambda>_. True) (healthcheck_probe e i cl)
       (\<lambda>x. andthen (router_write i (\<lambda>r. r\<lparr>rtr_last_healthcheck_at := Some (now e),
               rtr_last_healthcheck_status := Some HcFailed\<rparr>)) (raise x))))"

definition handle_activate_subscription :: "env \<Rightarrow> nat \<Rightarrow> unit op" where
  "handle_activate_subscription e j =
     bnd (job_subscription j) (\<lambda>i.
     andthen (ensure_pppoe_credentials e i)
    (bnd (get_router e j) (\<lambda>rt.
     bnd (get_routeros_client e rt) (\<lambda>cl.
     bnd (service_type_of i) (\<lambda>st.
     andthen (if st = Some STPppoe then routeros_pppoe_ensure_secret e cl i
              else if st = Some STDhcp then routeros_dhcp_ensure_lease e cl i
              else ret ())
    (andthen (routeros_queue_ensure e cl i)
    (bnd (rd subs i) (\<lambda>r.
     sub_write e i [V_state SubActive,
       V_start_date (case sub_start_date r of None \<Rightarrow> Some (today e) | Some d \<Rightarrow> Some d)]))))))))"

definition handle_suspend_subscription :: "env \<Rightarrow> nat \<Rightarrow> unit op" where
  "handle_suspend_subscription e j =
     bnd (job_subscription j) (\<lambda>i.
     bnd (get_router e j) (\<lambda>rt.
     bnd (get_routeros_client e rt) (\<lambda>cl.
     bnd (service_type_of i) (\<lambda>st.
     andthen (do_if (st = Some STPppoe) (routeros_pppoe_disable e cl i))
    (andthen (routeros_queue_disable e cl i)
    (sub_write e i [V_state SubSuspended]))))))"

definition handle_reconnect_subscription :: "env \<Rightarrow> nat \<Rightarrow> unit op" where
  "handle_reconnect_subscription e j =
     bnd (job_subscription j) (\<lambda>i.
     bnd (get_router e j) (\<lambda>rt.
     bnd (get_routeros_client e rt) (\<lambda>cl.
     bnd (service_type_of i) (\<lambda>st.
     andthen (do_if (st = Some STPppoe) (routeros_pppoe_enable e cl i))
    (andthen (routeros_queue_ensure e cl i)
    (sub_write e i [V_state SubActive]))))))"

definition handle_terminate_subscription :: "env \<Rightarrow> nat \<Rightarrow> unit op" where
  "handle_terminate_subscription e j =
     bnd (job_subscription j) (\<lambda>i.
     bnd (get_router e j) (\<lambda>rt.
     bnd (get_routeros_client e rt) (\<lambda>cl.
     bnd (service_type_of i) (\<lambda>st.
     andthen (do_if (st = Some STPppoe) (routeros_pppoe_disable e cl i))
    (andthen (routeros_queue_remove e cl i)
    (sub_write e i [V_state SubTerminated]))))))"

definition handle_change_plan :: "env \<Rightarrow> nat \<Rightarrow> unit op" where
  "handle_change_plan e j =
     bnd (job_subscription j) (\<lambda>i.
     bnd (get_router e j) (\<lambda>rt.
     bnd (get_routeros_client e rt) (\<lambda>cl.
     bnd (service_type_of i) (\<lambda>st.
     andthen (do_if (st = Some STPppoe) (routeros_pppoe_ensure_secret e cl i))
    (routeros_queue_ensure e cl i)))))"

definition handle_disconnect_session :: "env \<Rightarrow> nat \<Rightarrow> unit op" where
  "handle_disconnect_session e j =
     bnd (job_subscription j) (\<lambda>i.
     bnd (get_router e j) (\<lambda>rt.
     bnd (get_routeros_client e rt) (\<lambda>cl.
     bnd (service_type_of i) (\<lambda>st.
     bnd (rd subs i) (\<lambda>r.
     ignore (client_cmd e cl
       (Cmd (if st = Some STPppoe then ''/ppp/active/remove'' else ''/ip/hotspot/active/remove'')
          [(''numbers'', char_val (sub_pppoe_username r))])))))))"

definition handle_activate_pppoe :: "env \<Rightarrow> nat \<Rightarrow> unit op" where
  "handle_activate_pppoe e j =
     bnd (job_subscription j) (\<lambda>i.
     andthen (ensure_pppoe_credentials e i)
    (bnd (get_router e j) (\<lambda>rt.
     bnd (get_routeros_client e rt) (\<lambda>cl.
     routeros_pppoe_ensure_secret e cl i))))"

definition handle_activate_dhcp :: "env \<Rightarrow> nat \<Rightarrow> unit op" where
  "handle_activate_dhcp e j =
     bnd (job_subscription j) (\<lambda>i.
     bnd (get_router e j) (\<lambda>rt.
     bnd (get_routeros_client e rt) (\<lambda>cl.
     routeros_dhcp_ensure_lease e cl i)))"

definition handle_ensure_queue :: "env \<Rightarrow> nat \<Rightarrow> unit op" where
  "handle_ensure_queue e j =
     bnd (job_subscription j) (\<lambda>i.
     bnd (get_router e j) (\<lambda>rt.
     bnd (get_routeros_client e rt) (\<lambda>cl.
     routeros_queue_ensure e cl i)))"

end
