(* ===== verification/Captive.thy ===== *)
theory Captive
  imports Mikrotik_Jobs
begin

text \<open>
  The captive portal (\<open>isp_captive_portal/models\<close> and \<open>controllers/portal.py\<close>): the
  buttons that queue jobs, the job handlers and the values of the login page.
\<close>

section \<open>Buttons\<close>

text \<open>\<open>sector_id\<close> of a captive user and of a walled garden entry is related to its router.\<close>

definition related_sector :: "sys \<Rightarrow> nat option \<Rightarrow> nat option" where
  "related_sector s rt = via (routers s) rt None (\<lambda>r. router_sector s r)"

definition related_device :: "sys \<Rightarrow> nat option \<Rightarrow> nat option" where
  "related_device s rt = via (routers s) rt None rtr_device_id"

definition captive_action :: "env \<Rightarrow> job_type \<Rightarrow> nat list \<Rightarrow> unit op" where
  "captive_action e jt ids = for_each (\<lambda>i. bnd (rd captive_users i) (\<lambda>u.
     bnd (gets (\<lambda>s. (related_sector s (cap_router_id u), related_device s (cap_router_id u)))) (\<lambda>(sec, dev).
     ignore (job_create e jt None dev sec
       (json_dumps e (PDict [(''captive_user_id'', PInt (int i))])))))) ids"

definition captive_action_enable :: "env \<Rightarrow> nat list \<Rightarrow> unit op" where
  "captive_action_enable e ids = captive_action e captive_user_create ids"

definition captive_action_disable :: "env \<Rightarrow> nat list \<Rightarrow> unit op" where
  "captive_action_disable e ids = captive_action e captive_user_disable ids"

definition walled_garden_action_apply :: "env \<Rightarrow> nat list \<Rightarrow> unit op" where
  "walled_garden_action_apply e ids = for_each (\<lambda>i. bnd (rd walled_gardens i) (\<lambda>w.
     bnd (gets (\<lambda>s. (related_sector s (wg_router_id w), related_device s (wg_router_id w)))) (\<lambda>(sec, dev).
     ignore (job_create e walled_garden_apply None dev sec
       (json_dumps e (PDict [(''walled_garden_id'', PInt (int i))])))))) ids"

section \<open>Job handlers\<close>

text \<open>\<open>payload.get(key)\<close>, then \<open>browse\<close> of that id; an empty value raises.\<close>

definition payload_get :: "pyval \<Rightarrow> string \<Rightarrow> pyval op" where
  "payload_get p k = (case p of
      PDict d \<Rightarrow> ret (case map_of d k of None \<Rightarrow> PNone | Some v \<Rightarrow> v)
    | _ \<Rightarrow> raise (OtherError ''object has no attribute get''))"

definition browse_id :: "pyval \<Rightarrow> nat op" where
  "browse_id v = (case v of
      PInt n \<Rightarrow> (if 0 < n then ret (nat n) else raise (MissingError ''Record does not exist''))
    | _ \<Rightarrow> raise (MissingError ''Record does not exist''))"

definition payload_record :: "env \<Rightarrow> nat \<Rightarrow> string \<Rightarrow> nat op" where
  "payload_record e j key =
     bnd (rd jobs j) (\<lambda>job.
     bnd (payload_get (get_payload e job) key) (\<lambda>v.
     if \<not> truthy v then raise (UserError (key @ '' missing in payload.''))
     else browse_id v))"

text \<open>\<open>_get_router_for_captive(rec)\<close> on a record with router \<open>rt\<close>.\<close>

definition get_router_for_captive :: "env \<Rightarrow> nat option \<Rightarrow> nat op" where
  "get_router_for_captive e rt =
     (case rt of
        Some i \<Rightarrow> ret i
      | None \<Rightarrow> bnd (gets (\<lambda>s. related_sector s rt)) (\<lambda>sec.
          bnd (gets (\<lambda>s. if sec = None then None else first_router e s (\<lambda>_ r. router_sector s r = sec))) (\<lambda>found.
          case found of
            Some i \<Rightarrow> ret i
          | None \<Rightarrow> raise (UserError ''No MikroTik router found for captive operation.''))))"

definition captive_write :: "nat \<Rightarrow> (captive_user \<Rightarrow> captive_user) \<Rightarrow> unit op" where
  "captive_write i f = modify (\<lambda>s. s\<lparr>captive_users := tupd i f (captive_users s)\<rparr>)"

definition sector_code :: "sys \<Rightarrow> nat option \<Rightarrow> string" where
  "sector_code s rt = via (sectors s) (related_sector s rt) [] sec_code"

definition handle_captive_user_create :: "env \<Rightarrow> nat \<Rightarrow> unit op" where
  "handle_captive_user_create e j =
     bnd (payload_record e j ''captive_user_id'') (\<lambda>i.
     bnd (rd captive_users i) (\<lambda>u.
     bnd (get_router_for_captive e (cap_router_id u)) (\<lambda>rt.
     bnd (get_routeros_client e rt) (\<lambda>cl.
     bnd (gets (\<lambda>s. sector_code s (cap_router_id u))) (\<lambda>code.
     andthen (try_cmd e cl
        (Cmd ''/ip/hotspot/user/add''
           [(''name'', PStr (cap_username u)), (''password'', PStr (or_str (cap_password u) [])),
            (''profile'', PStr (or_str (cap_profile u) ''default'')), (''disabled'', PStr ''no''),
            (''comment'', PStr code)])
        (ignore (client_cmd e cl
          (Cmd ''/ip/hotspot/user/set''
             [(''numbers'', PStr (cap_username u)), (''profile'', PStr (or_str (cap_profile u) ''default'')),
              (''disabled'', PStr ''no'')]))))
    (captive_write i (\<lambda>u. u\<lparr>cap_state := CapActive\<rparr>)))))))"

text \<open>A handler that returns early when the router refuses: whether the command passed.\<close>

definition try_flag :: "env \<Rightarrow> client \<Rightarrow> cmd \<Rightarrow> bool op" where
  "try_flag e cl c = catching (catches_librouteros e)
     (andthen (client_cmd e cl c) (ret True)) (\<lambda>_. ret False)"

definition handle_captive_user_disable :: "env \<Rightarrow> nat \<Rightarrow> unit op" where
  "handle_captive_user_disable e j =
     bnd (payload_record e j ''captive_user_id'') (\<lambda>i.
     bnd (rd captive_users i) (\<lambda>u.
     bnd (get_router_for_captive e (cap_router_id u)) (\<lambda>rt.
     bnd (get_routeros_client e rt) (\<lambda>cl.
     bnd (try_flag e cl (Cmd ''/ip/hotspot/user/set''
        [(''numbers'', PStr (cap_username u)), (''disabled'', PStr ''yes'')])) (\<lambda>passed.
     do_if passed (captive_write i (\<lambda>u. u\<lparr>cap_state := CapDisabled\<rparr>)))))))"

definition handle_walled_garden_apply :: "env \<Rightarrow> nat \<Rightarrow> unit op" where
  "handle_walled_garden_apply e j =
     bnd (payload_record e j ''walled_garden_id'') (\<lambda>i.
     bnd (rd walled_gardens i) (\<lambda>w.
     bnd (get_router_for_captive e (wg_router_id w)) (\<lambda>rt.
     bnd (get_routeros_client e rt) (\<lambda>cl.
     try_cmd e cl (Cmd ''/ip/hotspot/walled-garden/add''
        [(''dst-host'', PStr (wg_domain w))]) (ret ())))))"

section \<open>The login page\<close>

definition param_alt :: "(string \<Rightarrow> string option) \<Rightarrow> string \<Rightarrow> string \<Rightarrow> string option" where
  "param_alt params a b = (if set_str (params a) then params a else params b)"

definition captive_login_values :: "(string \<Rightarrow> string option) \<Rightarrow> (string \<times> pyval) list" where
  "captive_login_values params =
     (let opt = (\<lambda>v. case v of None \<Rightarrow> PNone | Some x \<Rightarrow> PStr x);
          link_orig = param_alt params ''link-orig'' ''link_orig''
      in [(''link_login'', opt (param_alt params ''link-login'' ''link_login'')),
          (''link_orig'', PStr (or_str link_orig ''/captive/success'')),
          (''chap_id'', opt (param_alt params ''chap-id'' ''chap_id'')),
          (''chap_challenge'', opt (param_alt params ''chap-challenge'' ''chap_challenge'')),
          (''error'', opt (params ''error'')),
          (''mac'', opt (params ''mac'')),
          (''ip'', opt (params ''ip''))])"

end
