(* ===== verification/Job_Runner.thy ===== *)
theory Job_Runner
  imports Captive
begin

text \<open>
  Running jobs: \<open>_dispatch\<close>, \<open>_execute\<close>, \<open>action_run\<close> and the cron worker
  \<open>_cron_run_pending_jobs\<close> of \<open>isp_core/models/provisioning_job.py\<close>, with every
  handler that the installed modules add.
\<close>

text \<open>\<open>getattr(self, "_handle_" + job_type)\<close>.\<close>

fun dispatch_handler :: "env \<Rightarrow> job_type \<Rightarrow> (nat \<Rightarrow> unit op) option" where
  "dispatch_handler e activate_subscription = Some (handle_activate_subscription e)"
| "dispatch_handler e suspend_subscription = Some (handle_suspend_subscription e)"
| "dispatch_handler e reconnect_subscription = Some (handle_reconnect_subscription e)"
| "dispatch_handler e terminate_subscription = Some (handle_terminate_subscription e)"
| "dispatch_handler e change_plan = Some (handle_change_plan e)"
| "dispatch_handler e disconnect_session = Some (handle_disconnect_session e)"
| "dispatch_handler e mikrotik_healthcheck = Some (handle_mikrotik_healthcheck e)"
| "dispatch_handler e captive_user_create = Some (handle_captive_user_create e)"
| "dispatch_handler e captive_user_disable = Some (handle_captive_user_disable e)"
| "dispatch_handler e walled_garden_apply = Some (handle_walled_garden_apply e)"
| "dispatch_handler e export_config_snapshot = None"
| "dispatch_handler e activate_pppoe = Some (handle_activate_pppoe e)"
| "dispatch_handler e activate_dhcp = Some (handle_activate_dhcp e)"
| "dispatch_handler e ensure_queue = Some (handle_ensure_queue e)"

definition dispatch :: "env \<Rightarrow> nat \<Rightarrow> unit op" where
  "dispatch e j = bnd (rd jobs j) (\<lambda>job. case dispatch_handler e (job_type job) of
      None \<Rightarrow> raise (UserError (''No handler for job type: '' @ job_type_str (job_type job)))
    | Some h \<Rightarrow> h j)"

definition job_write :: "nat \<Rightarrow> (provisioning_job \<Rightarrow> provisioning_job) \<Rightarrow> unit op" where
  "job_write j f = modify (\<lambda>s. s\<lparr>jobs := tupd j f (jobs s)\<rparr>)"

definition start_job :: "env \<Rightarrow> provisioning_job \<Rightarrow> provisioning_job" where
  "start_job e job = job\<lparr>job_state := JobRunning, job_attempts := job_attempts job + 1,
     job_executed_at := Some (now e), job_error_message := None, job_traceback := None\<rparr>"

definition execute :: "env \<Rightarrow> nat \<Rightarrow> unit op" where
  "execute e j = bnd (rd jobs j) (\<lambda>job.
     if job_state job \<noteq> JobQueued then ret ()
     else if job_attempts job \<ge> job_max_attempts job
     then job_write j (\<lambda>r. r\<lparr>job_state := JobFailed, job_error_message := Some ''Max attempts reached''\<rparr>)
     else andthen (job_write j (start_job e))
       (catching (\<lambda>_. True)
         (andthen (dispatch e j) (job_write j (\<lambda>r. r\<lparr>job_state := JobSuccess\<rparr>)))
         (\<lambda>x. andthen (job_write j (\<lambda>r. r\<lparr>job_state := JobFailed, job_error_message := Some (exc_str x)\<rparr>))
                (raise x))))"

definition action_run :: "env \<Rightarrow> nat list \<Rightarrow> unit op" where
  "action_run e ids = for_each (execute e) ids"

text \<open>\<open>search([("state", "=", "queued")], limit=20, order="requested_at asc")\<close>.\<close>

definition pending_jobs :: "sys \<Rightarrow> nat list" where
  "pending_jobs s = take 20 (sort_key (\<lambda>i. via (jobs s) (Some i) 0 job_requested_at)
     (search_ids (\<lambda>_ job. job_state job = JobQueued) (jobs s)))"

definition cron_run_pending_jobs :: "env \<Rightarrow> unit op" where
  "cron_run_pending_jobs e = bnd (gets pending_jobs) (\<lambda>ids. for_each (execute e) ids)"

end
