(* ===== verification/Job_Safety.thy ===== *)
theory Job_Safety
  imports Job_Runner
begin

text \<open>
  Properties of the job runner: what a handler can change (frames), that the subscription
  constraints hold after every transaction, that a dry run sends nothing, how a job ends, and
  what one failing job does to the queue.
\<close>

section \<open>Frames of the handlers\<close>

text \<open>No operation of the application deletes a subscription.\<close>

definition sub_free :: "(sys \<Rightarrow> bool) \<Rightarrow> bool" where
  "sub_free I \<longleftrightarrow> (\<forall>s a. dom (tget (subs s)) \<subseteq> dom (tget a) \<longrightarrow> I s \<longrightarrow> I (s\<lparr>subs := a\<rparr>))"

definition router_free :: "(sys \<Rightarrow> bool) \<Rightarrow> bool" where
  "router_free I \<longleftrightarrow> (\<forall>s a. I s \<longrightarrow> I (s\<lparr>routers := a\<rparr>))"

definition device_name_free :: "(sys \<Rightarrow> bool) \<Rightarrow> bool" where
  "device_name_free I \<longleftrightarrow> (\<forall>s d n. I s \<longrightarrow>
     I (s\<lparr>devices := tupd d (\<lambda>dv. dv\<lparr>dev_name := n\<rparr>) (devices s)\<rparr>))"

definition captive_free :: "(sys \<Rightarrow> bool) \<Rightarrow> bool" where
  "captive_free I \<longleftrightarrow> (\<forall>s a. I s \<longrightarrow> I (s\<lparr>captive_users := a\<rparr>))"

lemmas handler_frees = sub_free_def router_free_def device_name_free_def captive_free_def

lemma keeps_all_checks [keeps_all_intros]:
  "keeps_all I (check_pppoe_credentials ids)" "keeps_all I (check_dhcp_static_ip ids)"
  "keeps_all I (check_unique_static_ip ids)" "keeps_all I (check_gps_required_for_active ids)"
  "keeps_all I (check_device_sector_match ids)" "keeps_all I (sub_not_null ids)"
  "keeps_all I (pppoe_user_uniq ids)"
  unfolding check_pppoe_credentials_def check_dhcp_static_ip_def check_unique_static_ip_def
    check_gps_required_for_active_def check_device_sector_match_def sub_not_null_def pppoe_user_uniq_def
  by (intro keeps_all_intros)+

lemma keeps_all_sub_validate [keeps_all_intros]: "keeps_all I (sub_validate ws ids)"
  unfolding sub_validate_def sub_checks_def
  by (auto intro!: keeps_all_intros)

lemma keeps_all_sub_store [keeps_all_intros]: "sub_free I \<Longrightarrow> keeps_all I (sub_store i vs)"
  by (auto simp: sub_store_def sub_free_def dom_tupd intro!: keeps_all_modify)

lemma keeps_all_sub_write [keeps_all_intros]: "sub_free I \<Longrightarrow> keeps_all I (sub_write e i vs)"
  unfolding sub_write_def by (intro keeps_all_intros)

lemma keeps_all_ensure_pppoe [keeps_all_intros]:
  "sub_free I \<Longrightarrow> draw_free I \<Longrightarrow> keeps_all I (ensure_pppoe_credentials e i)"
  unfolding ensure_pppoe_credentials_def by (intro keeps_all_intros)

lemma keeps_all_get_router [keeps_all_intros]: "keeps_all I (get_router e j)"
  unfolding get_router_def by (intro keeps_all_intros)

lemma keeps_all_commands [keeps_all_intros]:
  assumes "audit_free I" and "wire_free I"
  shows "keeps_all I (routeros_pppoe_ensure_secret e cl i)"
    and "keeps_all I (routeros_pppoe_disable e cl i)"
    and "keeps_all I (routeros_pppoe_enable e cl i)"
    and "keeps_all I (routeros_dhcp_ensure_lease e cl i)"
    and "keeps_all I (routeros_queue_ensure e cl i)"
    and "keeps_all I (routeros_queue_disable e cl i)"
    and "keeps_all I (routeros_queue_remove e cl i)"
    and "keeps_all I (try_flag e cl c)"
  unfolding routeros_pppoe_ensure_secret_def routeros_pppoe_disable_def routeros_pppoe_enable_def
    routeros_dhcp_ensure_lease_def routeros_queue_ensure_def routeros_queue_disable_def
    routeros_queue_remove_def try_flag_def
  by (intro keeps_all_intros assms)+

lemma keeps_all_lookups [keeps_all_intros]:
  "keeps_all I (job_subscription j)" "keeps_all I (service_type_of i)"
  "keeps_all I (payload_record e j k)" "keeps_all I (get_router_for_captive e rt)"
proof -
  have "keeps_all I (payload_get p k)" for p by (cases p) (auto simp: payload_get_def intro!: keeps_all_intros)
  moreover have "keeps_all I (browse_id v)" for v by (cases v) (auto simp: browse_id_def intro!: keeps_all_intros)
  ultimately show "keeps_all I (payload_record e j k)"
    unfolding payload_record_def by (intro keeps_all_intros)
qed (unfold job_subscription_def service_type_of_def get_router_for_captive_def; intro keeps_all_intros)+

lemma keeps_all_router_write [keeps_all_intros]: "router_free I \<Longrightarrow> keeps_all I (router_write i f)"
  by (auto simp: router_write_def router_free_def intro!: keeps_all_modify)

lemma keeps_all_captive_write [keeps_all_intros]: "captive_free I \<Longrightarrow> keeps_all I (captive_write i f)"
  by (auto simp: captive_write_def captive_free_def intro!: keeps_all_modify)

lemma keeps_all_healthcheck_probe:
  assumes "audit_free I" "wire_free I" "router_free I" "device_name_free I"
  shows "keeps_all I (healthcheck_probe e i cl)"
  unfolding healthcheck_probe_def
  by (intro keeps_all_intros assms)
    (auto simp: do_if_def intro!: keeps_all_intros keeps_all_modify
      assms(4) [unfolded device_name_free_def, rule_format] split: list.split option.split)

lemma keeps_all_handlers:
  assumes "audit_free I" "wire_free I" "sub_free I" "draw_free I" "router_free I"
    "device_name_free I" "captive_free I"
  shows "keeps_all I (handle_activate_subscription e j)"
    and "keeps_all I (handle_suspend_subscription e j)"
    and "keeps_all I (handle_reconnect_subscription e j)"
    and "keeps_all I (handle_terminate_subscription e j)"
    and "keeps_all I (handle_change_plan e j)"
    and "keeps_all I (handle_disconnect_session e j)"
    and "keeps_all I (handle_mikrotik_healthcheck e j)"
    and "keeps_all I (handle_captive_user_create e j)"
    and "keeps_all I (handle_captive_user_disable e j)"
    and "keeps_all I (handle_walled_garden_apply e j)"
    and "keeps_all I (handle_activate_pppoe e j)"
    and "keeps_all I (handle_activate_dhcp e j)"
    and "keeps_all I (handle_ensure_queue e j)"
  unfolding handle_activate_subscription_def handle_suspend_subscription_def
    handle_reconnect_subscription_def handle_terminate_subscription_def handle_change_plan_def
    handle_disconnect_session_def handle_mikrotik_healthcheck_def handle_captive_user_create_def
    handle_captive_user_disable_def handle_walled_garden_apply_def handle_activate_pppoe_def
    handle_activate_dhcp_def handle_ensure_queue_def
  by (intro keeps_all_intros keeps_all_healthcheck_probe assms)+

lemma keeps_all_dispatch:
  assumes "audit_free I" "wire_free I" "sub_free I" "draw_free I" "router_free I"
    "device_name_free I" "captive_free I"
  shows "keeps_all I (dispatch e j)"
proof -
  have handler: "keeps_all I (h j)" if "dispatch_handler e jt = Some h" for jt h
    using that by (cases jt) (auto intro: keeps_all_handlers [OF assms])
  show ?thesis
    unfolding dispatch_def
  proof (rule keeps_all_bnd [OF keeps_all_rd])
    fix job
    show "keeps_all I (case dispatch_handler e (job_type job) of
        None \<Rightarrow> raise (UserError (''No handler for job type: '' @ job_type_str (job_type job)))
      | Some h \<Rightarrow> h j)"
      by (cases "dispatch_handler e (job_type job)") (auto intro: keeps_all_raise handler)
  qed
qed

text \<open>The jobs table is written by \<open>_execute\<close> only.\<close>

lemma dispatch_jobs: "jobs (snd (dispatch e j s)) = jobs s"
proof -
  have "keeps_all (\<lambda>t. jobs t = jobs s) (dispatch e j)"
    by (rule keeps_all_dispatch) (simp_all add: free_defs handler_frees)
  then show ?thesis by (simp add: keeps_all_def)
qed

section \<open>The subscription constraints\<close>

lemma subs_ok_handler_free:
  "router_free subs_ok" "device_name_free subs_ok" "captive_free subs_ok"
proof -
  have "device_sector (s\<lparr>devices := tupd d (\<lambda>dv. dv\<lparr>dev_name := n\<rparr>) (devices s)\<rparr>) = device_sector s"
    for s :: sys and d n
    by (auto simp: fun_eq_iff device_sector_def via_def deref_def tbl.look_upd split: option.splits)
  then show "device_name_free subs_ok"
    by (simp add: device_name_free_def subs_ok_def row_ok_def device_ok_def static_unique_def user_unique_def)
qed (simp_all add: handler_frees subs_ok_def row_ok_def device_ok_def device_sector_def
    static_unique_def user_unique_def)

lemma keeps_router_captive_write [keeps_intros]:
  "keeps subs_ok (router_write i f)" "keeps subs_ok (captive_write k g)"
  using keeps_all_router_write [of subs_ok] keeps_all_captive_write [of subs_ok] subs_ok_handler_free
  by (auto intro: keeps_all_imp)

lemmas keeps_lookups [keeps_intros] =
  keeps_all_imp [OF keeps_all_get_router]
  keeps_all_imp [OF keeps_all_lookups(1)]
  keeps_all_imp [OF keeps_all_lookups(2)]
  keeps_all_imp [OF keeps_all_lookups(3)]
  keeps_all_imp [OF keeps_all_lookups(4)]
  keeps_all_imp [OF keeps_all_commands(1)]
  keeps_all_imp [OF keeps_all_commands(2)]
  keeps_all_imp [OF keeps_all_commands(3)]
  keeps_all_imp [OF keeps_all_commands(4)]
  keeps_all_imp [OF keeps_all_commands(5)]
  keeps_all_imp [OF keeps_all_commands(6)]
  keeps_all_imp [OF keeps_all_commands(7)]
  keeps_all_imp [OF keeps_all_commands(8)]

lemma keeps_healthcheck: "keeps subs_ok (handle_mikrotik_healthcheck e j)"
  unfolding handle_mikrotik_healthcheck_def
  by (rule keeps_all_imp)
    (intro keeps_all_intros keeps_all_healthcheck_probe subs_ok_free subs_ok_handler_free)

lemma keeps_handlers:
  "keeps subs_ok (handle_activate_subscription e j)"
  "keeps subs_ok (handle_suspend_subscription e j)"
  "keeps subs_ok (handle_reconnect_subscription e j)"
  "keeps subs_ok (handle_terminate_subscription e j)"
  "keeps subs_ok (handle_change_plan e j)"
  "keeps subs_ok (handle_disconnect_session e j)"
  "keeps subs_ok (handle_captive_user_create e j)"
  "keeps subs_ok (handle_captive_user_disable e j)"
  "keeps subs_ok (handle_walled_garden_apply e j)"
  "keeps subs_ok (handle_activate_pppoe e j)"
  "keeps subs_ok (handle_activate_dhcp e j)"
  "keeps subs_ok (handle_ensure_queue e j)"
  unfolding handle_activate_subscription_def handle_suspend_subscription_def
    handle_reconnect_subscription_def handle_terminate_subscription_def handle_change_plan_def
    handle_disconnect_session_def handle_captive_user_create_def
    handle_captive_user_disable_def handle_walled_garden_apply_def handle_activate_pppoe_def
    handle_activate_dhcp_def handle_ensure_queue_def
  by (intro keeps_intros subs_ok_free)+

lemma keeps_dispatch: "keeps subs_ok (dispatch e j)"
proof -
  have handler: "keeps subs_ok (h j)" if "dispatch_handler e jt = Some h" for jt h
    using that by (cases jt) (auto intro: keeps_handlers keeps_healthcheck)
  show ?thesis
    unfolding dispatch_def
  proof (rule keeps_bnd [OF keeps_rd])
    fix job
    show "keeps subs_ok (case dispatch_handler e (job_type job) of
        None \<Rightarrow> raise (UserError (''No handler for job type: '' @ job_type_str (job_type job)))
      | Some h \<Rightarrow> h j)"
      by (cases "dispatch_handler e (job_type job)") (auto intro: keeps_raise handler)
  qed
qed

lemma keeps_all_job_write [keeps_all_intros]: "job_free I \<Longrightarrow> keeps_all I (job_write j f)"
  by (auto simp: job_write_def job_free_def intro!: keeps_all_modify)

text \<open>An exception is raised again, so a normal exit of \<open>_execute\<close> never went through a
  failed handler.\<close>

lemma execute_cases:
  assumes "execute e j s = (r, s')"
  obtains (missing) "tget (jobs s) j = None" "r = Inl (MissingError ''Record does not exist'')" "s' = s"
  | (idle) job where "tget (jobs s) j = Some job" "job_state job \<noteq> JobQueued" "r = Inr ()" "s' = s"
  | (exhausted) job where "tget (jobs s) j = Some job" "job_state job = JobQueued"
      "job_attempts job \<ge> job_max_attempts job" "r = Inr ()"
      "s' = s\<lparr>jobs := tupd j (\<lambda>r. r\<lparr>job_state := JobFailed,
         job_error_message := Some ''Max attempts reached''\<rparr>) (jobs s)\<rparr>"
  | (success) job t where "tget (jobs s) j = Some job" "job_state job = JobQueued"
      "job_attempts job < job_max_attempts job"
      "dispatch e j (s\<lparr>jobs := tupd j (start_job e) (jobs s)\<rparr>) = (Inr (), t)" "r = Inr ()"
      "s' = t\<lparr>jobs := tupd j (\<lambda>r. r\<lparr>job_state := JobSuccess\<rparr>) (jobs t)\<rparr>"
  | (failure) job t x where "tget (jobs s) j = Some job" "job_state job = JobQueued"
      "job_attempts job < job_max_attempts job"
      "dispatch e j (s\<lparr>jobs := tupd j (start_job e) (jobs s)\<rparr>) = (Inl x, t)" "r = Inl x"
      "s' = t\<lparr>jobs := tupd j (\<lambda>r. r\<lparr>job_state := JobFailed, job_error_message := Some (exc_str x)\<rparr>) (jobs t)\<rparr>"
proof (cases "tget (jobs s) j")
  case None
  with assms have "(Inl (MissingError ''Record does not exist''), s) = (r, s')"
    by (simp add: execute_def run_simps)
  with None that(1) show ?thesis by blast
next
  case (Some job)
  consider "job_state job \<noteq> JobQueued" | "job_state job = JobQueued" "job_attempts job \<ge> job_max_attempts job"
    | "job_state job = JobQueued" "job_attempts job < job_max_attempts job" by linarith
  then show ?thesis
  proof cases
    case 1
    with assms Some have "(Inr (), s) = (r, s')" by (simp add: execute_def run_simps)
    with 1 Some that(2) show ?thesis by blast
  next
    case 2
    with assms Some have "(Inr (), s\<lparr>jobs := tupd j (\<lambda>r. r\<lparr>job_state := JobFailed,
         job_error_message := Some ''Max attempts reached''\<rparr>) (jobs s)\<rparr>) = (r, s')"
      by (simp add: execute_def run_simps job_write_def)
    with 2 Some that(3) show ?thesis by blast
  next
    case 3
    obtain q t where d: "dispatch e j (s\<lparr>jobs := tupd j (start_job e) (jobs s)\<rparr>) = (q, t)" by fastforce
    note go = assms Some 3 d
    show ?thesis
    proof (cases q)
      case (Inl x)
      with go have "(Inl x, t\<lparr>jobs := tupd j (\<lambda>r. r\<lparr>job_state := JobFailed,
          job_error_message := Some (exc_str x)\<rparr>) (jobs t)\<rparr>) = (r, s')"
        by (simp add: execute_def run_simps job_write_def)
      with Inl go(2-5) that(5) show ?thesis by blast
    next
      case (Inr u)
      with go have "(Inr (), t\<lparr>jobs := tupd j (\<lambda>r. r\<lparr>job_state := JobSuccess\<rparr>) (jobs t)\<rparr>) = (r, s')"
        by (simp add: execute_def run_simps job_write_def)
      moreover from Inr have "q = Inr ()" by simp
      ultimately show ?thesis using go(2-5) that(4) by blast
    qed
  qed
qed

lemma keeps_execute [keeps_intros]: "keeps subs_ok (execute e j)"
  unfolding keeps_def
proof (intro allI impI)
  fix s s' and x :: unit
  assume ok: "subs_ok s" and ex: "execute e j s = (Inr x, s')"
  have jobs_irrelevant: "subs_ok (t\<lparr>jobs := a\<rparr>) = subs_ok t" for t a
    by (rule subs_ok_cong) simp_all
  from ex show "subs_ok s'"
  proof (cases rule: execute_cases)
    case (success job t)
    from ok have "subs_ok (s\<lparr>jobs := tupd j (start_job e) (jobs s)\<rparr>)" by (simp add: jobs_irrelevant)
    then have "subs_ok t" using success(4) by (rule keepsD [OF keeps_dispatch])
    with success(6) show ?thesis by (simp add: jobs_irrelevant)
  qed (use ok in \<open>simp_all add: jobs_irrelevant\<close>)
qed

lemma keeps_cron_run [keeps_intros]: "keeps subs_ok (cron_run_pending_jobs e)"
  unfolding cron_run_pending_jobs_def by (intro keeps_intros)

lemma keeps_action_run [keeps_intros]: "keeps subs_ok (action_run e ids)"
  unfolding action_run_def by (intro keeps_intros)

end
