(* ===== verification/Job_Facts.thy ===== *)
theory Job_Facts
  imports Job_Safety
begin

text \<open>
  What the job runner and its handlers achieve: how a job ends, what one failing job does to the
  queue, what a dry run sends, and when a subscription or a captive user changes state.
\<close>

section \<open>The runner\<close>

lemma cron_first_raises:
  assumes "pending_jobs s = j # js" and "execute e j s = (Inl x, t)"
  shows "transaction (cron_run_pending_jobs e) s = s\<lparr>wire := wire t\<rparr>"
  using assms by (intro transaction_raises) (auto simp: cron_run_pending_jobs_def run_simps)

lemma execute_no_handler:
  assumes "tget (jobs s) j = Some job" and "job_state job = JobQueued"
    and "job_attempts job < job_max_attempts job" and "job_type job = export_config_snapshot"
  shows "\<exists>t. execute e j s = (Inl (UserError ''No handler for job type: export_config_snapshot''), t) \<and>
    wire t = wire s"
  using assms
  by (simp add: execute_def run_simps job_write_def dispatch_def tbl.look_upd start_job_def)

lemma pending_queued: "j \<in> set (pending_jobs s) \<Longrightarrow> \<exists>job. tget (jobs s) j = Some job \<and> job_state job = JobQueued"
  by (auto simp: pending_jobs_def search_ids_iff dest: in_set_takeD)

text \<open>C9. A queued job of type \<open>export_config_snapshot\<close> has no handler; once it is the oldest
  queued job, every run of the cron worker raises and is rolled back, so the database stays as
  it is for ever: the job is never marked failed, its attempts never count, and no later job
  runs.\<close>

theorem cron_livelock:
  assumes "pending_jobs s = j # js" and "tget (jobs s) j = Some job"
    and "job_type job = export_config_snapshot" and "job_attempts job < job_max_attempts job"
  shows "(transaction (cron_run_pending_jobs e) ^^ n) s = s"
proof (induction n)
  case (Suc n)
  have "job_state job = JobQueued" using pending_queued [of j s] assms(1,2) by auto
  with assms obtain t x where "execute e j s = (Inl x, t)" "wire t = wire s"
    using execute_no_handler by blast
  with cron_first_raises [OF assms(1)] have "transaction (cron_run_pending_jobs e) s = s" by simp
  with Suc show ?case by simp
qed simp

definition snapshot_job :: provisioning_job where
  "snapshot_job = new_job plain_env ''JOB'' export_config_snapshot None None None ''{}''"

theorem cron_livelock_witness:
  "(transaction (cron_run_pending_jobs plain_env) ^^ 5)
     (blank_sys\<lparr>jobs := [(1, snapshot_job), (2, snapshot_job\<lparr>job_type := suspend_subscription\<rparr>)]\<rparr>) =
   blank_sys\<lparr>jobs := [(1, snapshot_job), (2, snapshot_job\<lparr>job_type := suspend_subscription\<rparr>)]\<rparr>"
  by (rule cron_livelock [of _ 1 "[2]" snapshot_job])
    (simp_all add: pending_jobs_def search_ids_def tget_def snapshot_job_def new_job_def plain_env_def via_def deref_def)

text \<open>C18. \<open>_execute\<close> on a queued job with attempts left raises exactly what the handler
  raises. When the handler returns, the job is a success with one more attempt, the time of
  execution and no error; when it raises, the job is failed with the text of the exception. No
  other job changes.\<close>

theorem execute_outcome:
  assumes "tget (jobs s) j = Some job" and "job_state job = JobQueued"
    and "job_attempts job < job_max_attempts job"
  shows "fst (execute e j s) = fst (dispatch e j (s\<lparr>jobs := tupd j (start_job e) (jobs s)\<rparr>)) \<and>
    (\<forall>i. tget (jobs (snd (execute e j s))) i =
      (if i \<noteq> j then tget (jobs s) i
       else Some (job\<lparr>job_state := (case fst (execute e j s) of Inl x \<Rightarrow> JobFailed | Inr u \<Rightarrow> JobSuccess),
         job_attempts := job_attempts job + 1, job_executed_at := Some (now e),
         job_error_message := (case fst (execute e j s) of Inl x \<Rightarrow> Some (exc_str x) | Inr u \<Rightarrow> None),
         job_traceback := None\<rparr>)))"
proof -
  let ?s = "s\<lparr>jobs := tupd j (start_job e) (jobs s)\<rparr>"
  obtain r t where d: "dispatch e j ?s = (r, t)" by fastforce
  have jobs: "jobs t = tupd j (start_job e) (jobs s)" using dispatch_jobs [of e j ?s] d by simp
  show ?thesis
    using assms d jobs
    by (cases r) (simp_all add: execute_def run_simps job_write_def tbl.look_upd start_job_def)
qed

theorem execute_outcome_witness:
  "fst (execute plain_env 1 (blank_sys\<lparr>jobs := [(1, snapshot_job)]\<rparr>)) =
   fst (dispatch plain_env 1 (blank_sys\<lparr>jobs := [(1, start_job plain_env snapshot_job)]\<rparr>))"
  using execute_outcome [of "blank_sys\<lparr>jobs := [(1, snapshot_job)]\<rparr>" 1 snapshot_job plain_env]
  by (simp add: tget_def tupd_def snapshot_job_def new_job_def)

section \<open>Dry run\<close>

lemma dry_client:
  assumes "dry_run e" and "\<And>i. keeps_all (\<lambda>t. wire t = w) (k (DummyRouterOS i))"
  shows "keeps_all (\<lambda>t. wire t = w) (bnd (get_routeros_client e i) k)"
  using assms by (simp add: keeps_all_def bnd_run get_routeros_client_dry)

lemma dummy_keeps_wire [keeps_all_intros]: "keeps_all (\<lambda>t. wire t = w) (client_cmd e (DummyRouterOS i) c)"
  by (simp add: keeps_all_def dummy_cmd_wire)

lemma dummy_try_keeps_wire [keeps_all_intros]:
  "keeps_all (\<lambda>t. wire t = w) h \<Longrightarrow> keeps_all (\<lambda>t. wire t = w) (try_cmd e (DummyRouterOS i) c h)"
  unfolding try_cmd_def by (intro keeps_all_intros)

lemma dummy_commands_keep_wire [keeps_all_intros]:
  "keeps_all (\<lambda>t. wire t = w) (routeros_pppoe_ensure_secret e (DummyRouterOS k) i)"
  "keeps_all (\<lambda>t. wire t = w) (routeros_pppoe_disable e (DummyRouterOS k) i)"
  "keeps_all (\<lambda>t. wire t = w) (routeros_pppoe_enable e (DummyRouterOS k) i)"
  "keeps_all (\<lambda>t. wire t = w) (routeros_dhcp_ensure_lease e (DummyRouterOS k) i)"
  "keeps_all (\<lambda>t. wire t = w) (routeros_queue_ensure e (DummyRouterOS k) i)"
  "keeps_all (\<lambda>t. wire t = w) (routeros_queue_disable e (DummyRouterOS k) i)"
  "keeps_all (\<lambda>t. wire t = w) (routeros_queue_remove e (DummyRouterOS k) i)"
  "keeps_all (\<lambda>t. wire t = w) (try_flag e (DummyRouterOS k) c)"
  unfolding routeros_pppoe_ensure_secret_def routeros_pppoe_disable_def routeros_pppoe_enable_def
    routeros_dhcp_ensure_lease_def routeros_queue_ensure_def routeros_queue_disable_def
    routeros_queue_remove_def try_flag_def
  by (intro keeps_all_intros)+

lemma wire_handler_frees:
  "sub_free (\<lambda>t. wire t = w)" "draw_free (\<lambda>t. wire t = w)" "router_free (\<lambda>t. wire t = w)"
  "device_name_free (\<lambda>t. wire t = w)" "captive_free (\<lambda>t. wire t = w)" "job_free (\<lambda>t. wire t = w)"
  by (simp_all add: free_defs handler_frees job_free_def)

lemma dry_healthcheck_probe [keeps_all_intros]:
  "keeps_all (\<lambda>t. wire t = w) (healthcheck_probe e i (DummyRouterOS k))"
  unfolding healthcheck_probe_def
  by (intro keeps_all_intros wire_handler_frees)
    (auto simp: do_if_def intro!: keeps_all_intros keeps_all_modify split: list.split option.split)

lemma dry_dispatch:
  assumes "dry_run e"
  shows "keeps_all (\<lambda>t. wire t = w) (dispatch e j)"
proof -
  have handler: "keeps_all (\<lambda>t. wire t = w) (h j)" if "dispatch_handler e jt = Some h" for jt h
    using that
    by (cases jt)
      (auto simp: handle_activate_subscription_def handle_suspend_subscription_def
        handle_reconnect_subscription_def handle_terminate_subscription_def handle_change_plan_def
        handle_disconnect_session_def handle_mikrotik_healthcheck_def handle_captive_user_create_def
        handle_captive_user_disable_def handle_walled_garden_apply_def handle_activate_pppoe_def
        handle_activate_dhcp_def handle_ensure_queue_def
        intro!: dry_client [OF assms] keeps_all_intros wire_handler_frees)
  show ?thesis
    unfolding dispatch_def
  proof (rule keeps_all_bnd [OF keeps_all_rd])
    fix job
    show "keeps_all (\<lambda>t. wire t = w) (case dispatch_handler e (job_type job) of
        None \<Rightarrow> raise (UserError (''No handler for job type: '' @ job_type_str (job_type job)))
      | Some h \<Rightarrow> h j)"
      by (cases "dispatch_handler e (job_type job)") (auto intro: keeps_all_raise handler)
  qed
qed

text \<open>C28. With the system parameter \<open>isp_mikrotik.dry_run\<close> set, a run of the cron worker
  sends no command to any router, whatever jobs are queued and whether it succeeds or not.\<close>

theorem dry_run_sends_nothing:
  assumes "dry_run e"
  shows "wire (transaction (cron_run_pending_jobs e) s) = wire s"
proof -
  have ex: "keeps_all (\<lambda>t. wire t = wire s) (execute e j)" for j
    unfolding execute_def by (intro keeps_all_intros dry_dispatch assms wire_handler_frees)
  have "keeps_all (\<lambda>t. wire t = wire s) (cron_run_pending_jobs e)"
    unfolding cron_run_pending_jobs_def by (intro keeps_all_intros ex)
  then have "wire (snd (cron_run_pending_jobs e s)) = wire s" by (simp add: keeps_all_def)
  then show ?thesis
    by (cases "cron_run_pending_jobs e s"; cases "fst (cron_run_pending_jobs e s)")
      (auto simp: transaction_def run_tx_def rollback_def split: sum.split)
qed

theorem dry_run_sends_nothing_witness:
  "wire (transaction (cron_run_pending_jobs (plain_env\<lparr>get_param := (\<lambda>_. Some ''true'')\<rparr>))
     (blank_sys\<lparr>jobs := [(1, snapshot_job\<lparr>job_type := mikrotik_healthcheck\<rparr>)]\<rparr>)) = []"
  using dry_run_sends_nothing [of "plain_env\<lparr>get_param := (\<lambda>_. Some ''true'')\<rparr>"
      "blank_sys\<lparr>jobs := [(1, snapshot_job\<lparr>job_type := mikrotik_healthcheck\<rparr>)]\<rparr>"]
  by (simp add: dry_run_def blank_sys_def)

end
