(* ===== verification/Handler_Facts.thy ===== *)
theory Handler_Facts
  imports Job_Facts
begin

text \<open>
  When the handlers change the state of a subscription or of a captive user, and what the router
  has been told by then.
\<close>

section \<open>Commands through an adapter\<close>

text \<open>A router that answers a command or refuses it with \<open>LibRouterosError\<close>.\<close>

definition speaks :: "env \<Rightarrow> bool" where
  "speaks e \<longleftrightarrow> (\<forall>w i c x. router_api e w i c = Inl x \<longrightarrow> is_librouteros_error x)"

lemma try_cmd_speaks:
  assumes "speaks e"
  shows "try_cmd e (RouterOSAdapter i) c (ret ()) s = (Inr (), s\<lparr>wire := wire s @ [(i, c)]\<rparr>)"
proof (cases "router_api e (wire s) i c")
  case (Inl x)
  with assms have "is_librouteros_error x" by (auto simp: speaks_def)
  with Inl show ?thesis by (simp add: try_cmd_def adapter_cmd_def run_simps catches_librouteros_def)
next
  case (Inr rows)
  then show ?thesis by (simp add: try_cmd_def adapter_cmd_def run_simps)
qed

lemma try_cmd_accepted:
  assumes "try_cmd e (RouterOSAdapter i) c (ignore (client_cmd e (RouterOSAdapter i) c')) s = (Inr (), s')"
  shows "\<exists>w d rows. s' = s\<lparr>wire := w @ [(i, d)]\<rparr> \<and> d \<in> {c, c'} \<and> router_api e w i d = Inr rows"
proof (cases "router_api e (wire s) i c")
  case (Inl x)
  with assms obtain rows where "router_api e (wire s @ [(i, c)]) i c' = Inr rows"
      "s' = s\<lparr>wire := (wire s @ [(i, c)]) @ [(i, c')]\<rparr>"
    by (auto simp: try_cmd_def ignore_def adapter_cmd_def run_simps split: sum.splits if_splits)
  then show ?thesis by blast
next
  case (Inr rows)
  with assms show ?thesis by (auto simp: try_cmd_def adapter_cmd_def run_simps)
qed

lemma try_flag_accepted:
  assumes "try_flag e (RouterOSAdapter i) c s = (Inr b, s')"
  shows "s' = s\<lparr>wire := wire s @ [(i, c)]\<rparr> \<and> (b \<longleftrightarrow> (\<exists>rows. router_api e (wire s) i c = Inr rows))"
  using assms
  by (auto simp: try_flag_def adapter_cmd_def run_simps split: sum.splits if_splits)

section \<open>Changing the state of a subscription\<close>

lemma subs_ok_wire: "subs_ok (s\<lparr>wire := w\<rparr>) = subs_ok s"
  by (rule subs_ok_cong) simp_all

definition suspend_commands :: "service_type option \<Rightarrow> subscription \<Rightarrow> cmd list" where
  "suspend_commands st r =
     (if st = Some STPppoe
      then [Cmd ''/ppp/secret/set'' [(''numbers'', char_val (sub_pppoe_username r)), (''disabled'', PStr ''yes'')]]
      else []) @
     [Cmd ''/queue/simple/set'' [(''numbers'', PStr (sub_name r)), (''disabled'', PStr ''yes'')]]"

lemma suspend_handler_effect:
  assumes "subs_ok s" and "speaks e"
    and "tget (jobs s) j = Some job" and "job_subscription_id job = Some i"
    and "tget (subs s) i = Some r" and "sub_gps_lat r \<noteq> 0" and "sub_gps_lng r \<noteq> 0"
    and "choose_router e s job = Some rt" and "get_routeros_client e rt s = (Inr (RouterOSAdapter rt), s)"
  shows "handle_suspend_subscription e j s =
    (Inr (), s\<lparr>subs := tupd i (\<lambda>r. r\<lparr>sub_state := SubSuspended\<rparr>) (subs s),
       wire := wire s @ map (Pair rt) (suspend_commands
         (map_option plan_service_type (deref (plans s) (sub_plan_id r))) r)\<rparr>)"
proof -
  define st where "st = map_option plan_service_type (deref (plans s) (sub_plan_id r))"
  have wr: "sub_write e i [V_state SubSuspended] (s\<lparr>wire := w\<rparr>) =
      (Inr (), s\<lparr>subs := tupd i (\<lambda>r. r\<lparr>sub_state := SubSuspended\<rparr>) (subs s), wire := w\<rparr>)" for w
    using state_write_returns [of "s\<lparr>wire := w\<rparr>" i r SubSuspended e] assms(1,5-7)
    by (simp add: subs_ok_wire gps_ok_def)
  have run: "handle_suspend_subscription e j s =
     andthen (do_if (st = Some STPppoe) (routeros_pppoe_disable e (RouterOSAdapter rt) i))
     (andthen (routeros_queue_disable e (RouterOSAdapter rt) i)
     (sub_write e i [V_state SubSuspended])) s"
    using assms(3-5,8,9)
    by (simp add: handle_suspend_subscription_def job_subscription_def get_router_def
        service_type_of_def run_simps st_def)
  show ?thesis
  proof (cases "st = Some STPppoe")
    case True
    then show ?thesis
      using assms(5) unfolding run st_def [symmetric]
      by (simp add: routeros_pppoe_disable_def routeros_queue_disable_def suspend_commands_def
          run_simps try_cmd_speaks [OF assms(2)] wr)
  next
    case False
    then show ?thesis
      using assms(5) unfolding run st_def [symmetric]
      by (simp add: routeros_queue_disable_def suspend_commands_def run_simps
          try_cmd_speaks [OF assms(2)] wr)
  qed
qed

text \<open>C23. The suspend handler ignores what the router answers: over a connection, for a router
  that accepts or refuses each command, the subscription ends up suspended. The router has then
  been sent the command that disables the secret (PPPoE plans only) and the one that disables
  the queue, in this order, and nothing else in the database has changed.\<close>

theorem suspend_ignores_refusal:
  assumes "subs_ok s" and "speaks e"
    and "tget (jobs s) j = Some job" and "job_subscription_id job = Some i"
    and "tget (subs s) i = Some r" and "sub_gps_lat r \<noteq> 0" and "sub_gps_lng r \<noteq> 0"
    and "choose_router e s job = Some rt" and "get_routeros_client e rt s = (Inr (RouterOSAdapter rt), s)"
  shows "handle_suspend_subscription e j s =
    (Inr (), s\<lparr>subs := tupd i (\<lambda>r. r\<lparr>sub_state := SubSuspended\<rparr>) (subs s),
       wire := wire s @ map (Pair rt) (suspend_commands
         (map_option plan_service_type (deref (plans s) (sub_plan_id r))) r)\<rparr>)"
  using assms by (rule suspend_handler_effect)

text \<open>The network of the examples: one sector, its router, a PPPoE plan and its subscription.\<close>

definition demo_plan :: service_plan where
  "demo_plan = \<lparr>plan_name = ''Fiber'', plan_service_type = STPppoe, plan_active = True,
     plan_download_mbps = 50, plan_upload_mbps = 10, plan_price_monthly = 25,
     plan_mikrotik_profile = Some ''fiber50'', plan_suspend_after_days = 10, plan_tax_ids = []\<rparr>"

definition demo_sub :: subscription where
  "demo_sub = sub_default\<lparr>sub_name := ''S1'', sub_partner_id := Some 1, sub_plan_id := Some 1,
     sub_sector_id := Some 1, sub_state := SubActive, sub_gps_lat := 1, sub_gps_lng := 1,
     sub_auth_method := AuthPppoe, sub_pppoe_username := Some ''u'', sub_pppoe_password := Some ''p'',
     sub_service_ip := Some ''10.0.0.2''\<rparr>"

definition demo_job :: "job_type \<Rightarrow> provisioning_job" where
  "demo_job jt = new_job plain_env ''JOB'' jt (Some 1) None (Some 1) ''{}''"

definition demo_sys :: "job_type \<Rightarrow> sys" where
  "demo_sys jt = blank_sys\<lparr>plans := [(1, demo_plan)],
     sectors := [(1, \<lparr>sec_name = ''North'', sec_code = ''N'', sec_active = True\<rparr>)],
     devices := [(1, \<lparr>dev_name = ''rt'', dev_device_type = DTMikrotik, dev_sector_id = Some 1,
        dev_mgmt_ip = Some ''10.0.0.1'', dev_mgmt_port = 8728, dev_status = DSActive\<rparr>)],
     routers := [(1, \<lparr>rtr_device_id = Some 1, rtr_api_user = None, rtr_routeros_version = PBool False,
        rtr_last_healthcheck_at = None, rtr_last_healthcheck_status = None\<rparr>)],
     subs := [(1, demo_sub)], jobs := [(1, demo_job jt)]\<rparr>"

lemmas demo_defs = demo_sys_def demo_job_def demo_sub_def demo_plan_def sub_default_def new_job_def
  plain_env_def blank_sys_def

lemma demo_rows:
  "tget (subs (demo_sys jt)) i = (if i = 1 then Some demo_sub else None)"
  "tget (jobs (demo_sys jt)) i = (if i = 1 then Some (demo_job jt) else None)"
  "tget (plans (demo_sys jt)) i = (if i = 1 then Some demo_plan else None)"
  by (simp_all add: demo_sys_def tget_def)

lemma demo_subs_ok: "subs_ok (demo_sys jt)"
  by (auto simp: subs_ok_def demo_rows row_ok_def static_unique_def user_unique_def device_ok_def
      credentials_ok_def has_static_ip_def gps_ok_def required_ok_def device_sector_def via_def
      deref_def set_str_def demo_sub_def sub_default_def)

lemma demo_router:
  "choose_router e (demo_sys jt) (demo_job jt) = Some 1"
  by (simp add: choose_router_def first_router_def search_ids_def router_sector_def device_sector_def
      via_def deref_def tget_def demo_defs)

lemma demo_client:
  "get_routeros_client (plain_env\<lparr>router_api := a\<rparr>) 1 (demo_sys jt) = (Inr (RouterOSAdapter 1), demo_sys jt)"
  by (simp add: get_routeros_client_def open_adapter_def get_connection_info_def dry_run_def run_simps
      via_def deref_def tget_def set_str_def get_api_password_def get_api_user_def demo_defs Let_def
      set_str_def or_str_def)

lemmas demo_facts = demo_subs_ok demo_rows demo_router demo_router [unfolded One_nat_def]
  demo_client demo_client [unfolded One_nat_def]

theorem suspend_ignores_refusal_witness:
  "sub_state (the (tget (subs (snd (handle_suspend_subscription
      (plain_env\<lparr>router_api := (\<lambda>_ _ _. Inl (LibRouterosError ''no such item''))\<rparr>) 1
      (demo_sys suspend_subscription)))) 1)) = SubSuspended"
  by (subst suspend_ignores_refusal [of _ _ 1 "demo_job suspend_subscription" 1 demo_sub 1])
    (simp_all add: demo_facts speaks_def tbl.look_upd,
      simp_all add: demo_defs)

section \<open>Reconnecting\<close>

lemma queue_ensure_accepted:
  assumes "routeros_queue_ensure e (RouterOSAdapter rt) i s = (Inr (), s')"
    and "tget (subs s) i = Some r" and "set_str (sub_service_ip r)"
  shows "\<exists>w c rows. s' = s\<lparr>wire := w @ [(rt, c)]\<rparr> \<and> router_api e w rt c = Inr rows \<and>
    cmd_path c \<in> {''/queue/simple/add'', ''/queue/simple/set''}"
proof -
  from assms obtain c c' where run: "try_cmd e (RouterOSAdapter rt) c
       (ignore (client_cmd e (RouterOSAdapter rt) c')) s = (Inr (), s')"
      and paths: "cmd_path c = ''/queue/simple/add''" "cmd_path c' = ''/queue/simple/set''"
    by (auto simp: routeros_queue_ensure_def run_simps)
  from try_cmd_accepted [OF run] obtain w d rows where
      "s' = s\<lparr>wire := w @ [(rt, d)]\<rparr>" "d \<in> {c, c'}" "router_api e w rt d = Inr rows" by blast
  with paths show ?thesis by auto
qed

lemma keeps_all_commands_subs:
  "subs (snd (do_if b (routeros_pppoe_enable e cl i) s)) = subs s"
proof -
  have "keeps_all (\<lambda>t. subs t = subs s) (do_if b (routeros_pppoe_enable e cl i))"
    by (intro keeps_all_intros) (simp_all add: free_defs)
  then show ?thesis by (simp add: keeps_all_def)
qed

text \<open>Reconnecting does depend on the router: over a connection, a reconnect job of a
  subscription with a service address only returns if the last command sent was the one that
  adds or sets the customer's queue and the router accepted it; the subscription is active then.\<close>

theorem reconnect_needs_queue:
  assumes "handle_reconnect_subscription e j s = (Inr (), s')" and "\<not> dry_run e"
    and "tget (jobs s) j = Some job" and "job_subscription_id job = Some i"
    and "tget (subs s) i = Some r" and "set_str (sub_service_ip r)"
  shows "tget (subs s') i = Some (r\<lparr>sub_state := SubActive\<rparr>) \<and>
    (\<exists>w rt c rows. wire s' = w @ [(rt, c)] \<and> router_api e w rt c = Inr rows \<and>
       cmd_path c \<in> {''/queue/simple/add'', ''/queue/simple/set''})"
proof -
  from assms(1,3-5) obtain rt cl s1 b t1 t2 where
      client: "get_routeros_client e rt s = (Inr cl, s1)"
      and enable: "do_if b (routeros_pppoe_enable e cl i) s1 = (Inr (), t1)"
      and queue: "routeros_queue_ensure e cl i t1 = (Inr (), t2)"
      and wr: "sub_write e i [V_state SubActive] t2 = (Inr (), s')"
    by (auto simp: handle_reconnect_subscription_def job_subscription_def get_router_def
        service_type_of_def rd_run gets_run ret_run raise_run
        elim!: bnd_ok andthen_ok split: option.splits)
  from client assms(2) have cl: "cl = RouterOSAdapter rt" "s1 = s" by (auto dest: get_routeros_client_ok)
  have t1: "tget (subs t1) i = Some r"
    using keeps_all_commands_subs [of b e cl i s1] enable cl assms(5) by simp
  from queue_ensure_accepted [OF queue [unfolded cl] t1 assms(6)]
  obtain w c rows where t2: "t2 = t1\<lparr>wire := w @ [(rt, c)]\<rparr>" and acc: "router_api e w rt c = Inr rows"
      "cmd_path c \<in> {''/queue/simple/add'', ''/queue/simple/set''}" by blast
  have "s' = t2\<lparr>subs := tupd i (fold sub_set [V_state SubActive]) (subs t2)\<rparr>"
    by (rule sub_write_ok(2) [OF wr])
  with t1 t2 acc show ?thesis by (auto simp: tbl.look_upd)
qed

theorem reconnect_needs_queue_witness:
  "\<exists>s'. handle_reconnect_subscription (plain_env\<lparr>router_api := (\<lambda>_ _ _. Inr [])\<rparr>) 1
      (demo_sys reconnect_subscription) = (Inr (), s') \<and>
     tget (subs s') 1 = Some (demo_sub\<lparr>sub_state := SubActive\<rparr>)"
proof -
  let ?e = "plain_env\<lparr>router_api := (\<lambda>_ _ _. Inr [])\<rparr>" and ?s = "demo_sys reconnect_subscription"
  have "sub_write ?e 1 [V_state SubActive] (?s\<lparr>wire := w\<rparr>) =
      (Inr (), ?s\<lparr>wire := w, subs := tupd 1 (\<lambda>r. r\<lparr>sub_state := SubActive\<rparr>) (subs ?s)\<rparr>)" for w
    using state_write_returns [of "?s\<lparr>wire := w\<rparr>" 1 demo_sub SubActive ?e]
    by (simp add: subs_ok_wire demo_facts gps_ok_def demo_sub_def)
  note wr = this this [unfolded One_nat_def]
  have ip: "set_str (sub_service_ip demo_sub)" by (simp add: demo_sub_def set_str_def)
  have "\<exists>s'. handle_reconnect_subscription ?e 1 ?s = (Inr (), s')"
    by (simp add: handle_reconnect_subscription_def job_subscription_def get_router_def service_type_of_def
        run_simps demo_facts demo_job_def [THEN arg_cong, of job_subscription_id] new_job_def
        routeros_pppoe_enable_def routeros_queue_ensure_def try_cmd_def adapter_cmd_def wr ip)
  then obtain s' where run: "handle_reconnect_subscription ?e 1 ?s = (Inr (), s')" ..
  have "tget (subs s') 1 = Some (demo_sub\<lparr>sub_state := SubActive\<rparr>)"
    using reconnect_needs_queue [OF run, of "demo_job reconnect_subscription" 1 demo_sub]
    by (simp add: demo_rows dry_run_def plain_env_def demo_job_def new_job_def demo_sub_def set_str_def)
  with run show ?thesis by blast
qed

section \<open>Captive portal users\<close>

lemma payload_record_same_state: "payload_record e j k s = (r, s') \<Longrightarrow> s' = s"
  using keeps_all_lookups(3) [of "\<lambda>t. t = s" e j k] by (auto simp: keeps_all_def)

lemma captive_router_same_state: "get_router_for_captive e rt s = (r, s') \<Longrightarrow> s' = s"
  using keeps_all_lookups(4) [of "\<lambda>t. t = s" e rt] by (auto simp: keeps_all_def)

text \<open>Disabling a captive user never fails on a refusal of the router: the job succeeds, but
  the user is marked disabled only if the router accepted the command; on a refusal nothing but
  the wire changes. (The suspend handler, in the same situation, does mark the subscription.)\<close>

theorem captive_disable_follows_router:
  assumes "handle_captive_user_disable e j s = (Inr (), s')" and "\<not> dry_run e"
    and "payload_record e j ''captive_user_id'' s = (Inr i, s)" and "tget (captive_users s) i = Some u"
  shows "\<exists>rt. let c = Cmd ''/ip/hotspot/user/set''
                     [(''numbers'', PStr (cap_username u)), (''disabled'', PStr ''yes'')]
    in s' = s\<lparr>wire := wire s @ [(rt, c)],
         captive_users := (case router_api e (wire s) rt c of
            Inl x \<Rightarrow> captive_users s
          | Inr rows \<Rightarrow> tupd i (\<lambda>u. u\<lparr>cap_state := CapDisabled\<rparr>) (captive_users s))\<rparr>"
proof -
  from assms(1,3,4) obtain rt s1 cl s2 b s3 where
      "get_router_for_captive e (cap_router_id u) s = (Inr rt, s1)"
      and client: "get_routeros_client e rt s1 = (Inr cl, s2)"
      and flag: "try_flag e cl (Cmd ''/ip/hotspot/user/set''
         [(''numbers'', PStr (cap_username u)), (''disabled'', PStr ''yes'')]) s2 = (Inr b, s3)"
      and last: "do_if b (captive_write i (\<lambda>u. u\<lparr>cap_state := CapDisabled\<rparr>)) s3 = (Inr (), s')"
    by (auto simp: handle_captive_user_disable_def rd_run elim!: bnd_ok split: option.splits)
  then have "s1 = s" by (auto dest: captive_router_same_state)
  with client assms(2) have cl: "cl = RouterOSAdapter rt" "s2 = s" by (auto dest: get_routeros_client_ok)
  note flag = try_flag_accepted [OF flag [unfolded cl]]
  show ?thesis
  proof (rule exI [of _ rt], unfold Let_def)
    show "s' = s\<lparr>wire := wire s @ [(rt, Cmd ''/ip/hotspot/user/set''
             [(''numbers'', PStr (cap_username u)), (''disabled'', PStr ''yes'')])],
         captive_users := (case router_api e (wire s) rt (Cmd ''/ip/hotspot/user/set''
             [(''numbers'', PStr (cap_username u)), (''disabled'', PStr ''yes'')]) of
            Inl x \<Rightarrow> captive_users s
          | Inr rows \<Rightarrow> tupd i (\<lambda>u. u\<lparr>cap_state := CapDisabled\<rparr>) (captive_users s))\<rparr>"
      using flag last
      by (cases "router_api e (wire s) rt (Cmd ''/ip/hotspot/user/set''
             [(''numbers'', PStr (cap_username u)), (''disabled'', PStr ''yes'')])")
        (auto simp: do_if_run captive_write_def modify_run)
  qed
qed

definition demo_captive :: captive_user where
  "demo_captive = \<lparr>cap_username = ''guest'', cap_password = Some ''pw'', cap_profile = None,
     cap_state = CapActive, cap_router_id = Some 1\<rparr>"

definition demo_captive_env :: env where
  "demo_captive_env = plain_env\<lparr>router_api := (\<lambda>_ _ _. Inl (LibRouterosError ''down'')),
     json_loads := (\<lambda>_. Some (PDict [(''captive_user_id'', PInt 1)]))\<rparr>"

definition demo_captive_sys :: sys where
  "demo_captive_sys = demo_sys captive_user_disable\<lparr>captive_users := [(1, demo_captive)]\<rparr>"

theorem captive_disable_follows_router_witness:
  "\<exists>s'. handle_captive_user_disable demo_captive_env 1 demo_captive_sys = (Inr (), s') \<and>
     captive_users s' = [(1, demo_captive)]"
proof -
  let ?e = demo_captive_env and ?s = demo_captive_sys
  have payload: "payload_record ?e 1 ''captive_user_id'' ?s = (Inr 1, ?s)"
    by (simp add: payload_record_def run_simps get_payload_def payload_get_def browse_id_def
        demo_captive_env_def demo_captive_sys_def demo_rows)
  have row: "tget (captive_users ?s) 1 = Some demo_captive"
    by (simp add: demo_captive_sys_def tget_def)
  have client: "get_routeros_client ?e 1 ?s = (Inr (RouterOSAdapter 1), ?s)"
    by (simp add: get_routeros_client_def open_adapter_def get_connection_info_def dry_run_def
        run_simps via_def deref_def tget_def set_str_def get_api_password_def get_api_user_def
        demo_defs Let_def or_str_def demo_captive_env_def demo_captive_sys_def)
  have "\<exists>s'. handle_captive_user_disable ?e 1 ?s = (Inr (), s')"
    by (simp add: handle_captive_user_disable_def bnd_run payload payload [unfolded One_nat_def] rd_run
        row row [unfolded One_nat_def] client client [unfolded One_nat_def] get_router_for_captive_def
        demo_captive_def [THEN arg_cong, of cap_router_id] ret_run try_flag_def catching_run
        andthen_run adapter_cmd_def do_if_run catches_librouteros_def modify_run captive_write_def
        split: sum.split)
      (auto simp: demo_captive_env_def)
  then obtain s' where run: "handle_captive_user_disable ?e 1 ?s = (Inr (), s')" ..
  have "captive_users s' = [(1, demo_captive)]"
    using captive_disable_follows_router [OF run _ payload row]
    by (auto simp: dry_run_def demo_captive_env_def plain_env_def Let_def demo_captive_sys_def)
  with run show ?thesis by blast
qed

end
