(* ===== verification/Plan_Change.thy ===== *)
theory Plan_Change
  imports Handler_Facts
begin

text \<open>
  Plan change requests (\<open>isp_core/models/plan_change_request.py\<close>): \<open>create\<close> and
  \<open>write\<close> with the two constraints, the effective date, the four buttons and the daily cron
  job. \<open>current_plan_id\<close> and \<open>partner_id\<close> are related to the subscription.
\<close>

datatype pcr_val =
    P_name string
  | P_subscription_id "nat option"
  | P_requested_plan_id "nat option"
  | P_effective_date_mode effective_mode
  | P_requested_by nat
  | P_effective_date "int option"
  | P_state pcr_state
  | P_approved_by "nat option"
  | P_rejection_reason "string option"

fun pcr_field :: "pcr_val \<Rightarrow> string" where
  "pcr_field (P_name x) = ''name''"
| "pcr_field (P_subscription_id x) = ''subscription_id''"
| "pcr_field (P_requested_plan_id x) = ''requested_plan_id''"
| "pcr_field (P_effective_date_mode x) = ''effective_date_mode''"
| "pcr_field (P_requested_by x) = ''requested_by''"
| "pcr_field (P_effective_date x) = ''effective_date''"
| "pcr_field (P_state x) = ''state''"
| "pcr_field (P_approved_by x) = ''approved_by''"
| "pcr_field (P_rejection_reason x) = ''rejection_reason''"

fun pcr_set :: "pcr_val \<Rightarrow> plan_change_request \<Rightarrow> plan_change_request" where
  "pcr_set (P_name x) r = r\<lparr>pcr_name := x\<rparr>"
| "pcr_set (P_subscription_id x) r = r\<lparr>pcr_subscription_id := x\<rparr>"
| "pcr_set (P_requested_plan_id x) r = r\<lparr>pcr_requested_plan_id := x\<rparr>"
| "pcr_set (P_effective_date_mode x) r = r\<lparr>pcr_effective_date_mode := x\<rparr>"
| "pcr_set (P_requested_by x) r = r\<lparr>pcr_requested_by := x\<rparr>"
| "pcr_set (P_effective_date x) r = r\<lparr>pcr_effective_date := x\<rparr>"
| "pcr_set (P_state x) r = r\<lparr>pcr_state := x\<rparr>"
| "pcr_set (P_approved_by x) r = r\<lparr>pcr_approved_by := x\<rparr>"
| "pcr_set (P_rejection_reason x) r = r\<lparr>pcr_rejection_reason := x\<rparr>"

definition pcr_default :: "env \<Rightarrow> plan_change_request" where
  "pcr_default e =
     \<lparr>pcr_name = ''New'', pcr_subscription_id = None, pcr_requested_plan_id = None,
      pcr_effective_date_mode = EffNextCycle, pcr_effective_date = None, pcr_state = PcrDraft,
      pcr_requested_by = env_user e, pcr_approved_by = None, pcr_rejection_reason = None\<rparr>"

section \<open>Constraints, write and create\<close>

definition check_effective_date :: "nat list \<Rightarrow> unit op" where
  "check_effective_date ids = for_each (\<lambda>i. bnd (rd pcrs i) (\<lambda>r.
     assert_that (\<not> (pcr_effective_date_mode r = EffCustom \<and> pcr_effective_date r = None))
       (ValidationError ''Custom effective date is required.''))) ids"

definition pcr_validate :: "env \<Rightarrow> string list \<Rightarrow> nat list \<Rightarrow> unit op" where
  "pcr_validate e written ids =
     andthen (do_if (triggered written [''effective_date_mode'', ''effective_date'']) (check_effective_date ids))
       (do_if (triggered written [''requested_plan_id'', ''current_plan_id'']) (check_plan_diff ids))"

definition pcr_not_null :: "nat list \<Rightarrow> unit op" where
  "pcr_not_null ids = for_each (\<lambda>i. bnd (rd pcrs i) (\<lambda>r.
     assert_that (pcr_subscription_id r \<noteq> None \<and> pcr_requested_plan_id r \<noteq> None)
       (IntegrityError ''null value in a required column''))) ids"

text \<open>The database refuses a reference to a row that does not exist.\<close>

fun pcr_refers :: "sys \<Rightarrow> pcr_val \<Rightarrow> bool" where
  "pcr_refers s (P_subscription_id x) = refers (subs s) x"
| "pcr_refers s (P_requested_plan_id x) = refers (plans s) x"
| "pcr_refers s _ = True"

definition pcr_foreign_keys :: "pcr_val list \<Rightarrow> unit op" where
  "pcr_foreign_keys vs = bnd (gets (\<lambda>s. list_all (pcr_refers s) vs)) (\<lambda>known.
     assert_that known (IntegrityError ''insert or update violates a foreign key constraint''))"

text \<open>Writing \<open>subscription_id\<close> recomputes \<open>current_plan_id\<close>.\<close>

definition pcr_write :: "env \<Rightarrow> nat \<Rightarrow> pcr_val list \<Rightarrow> unit op" where
  "pcr_write e i vs =
     bnd (rd pcrs i) (\<lambda>_.
     andthen (pcr_foreign_keys vs)
    (andthen (modify (\<lambda>s. s\<lparr>pcrs := tupd i (fold pcr_set vs) (pcrs s)\<rparr>))
    (andthen (pcr_not_null [i])
    (andthen (pcr_validate e (map pcr_field vs) [i])
    (do_if (validate_recomputed e \<and> ''subscription_id'' \<in> set (map pcr_field vs))
       (check_plan_diff [i]))))))"

definition ensure_effective_date :: "env \<Rightarrow> nat \<Rightarrow> unit op" where
  "ensure_effective_date e i = bnd (rd pcrs i) (\<lambda>r.
     if pcr_effective_date r \<noteq> None then ret ()
     else (case pcr_effective_date_mode r of
         EffImmediate \<Rightarrow> pcr_write e i [P_effective_date (Some (today_ctx e))]
       | EffNextCycle \<Rightarrow>
           bnd (gets (\<lambda>s. via (subs s) (pcr_subscription_id r) None sub_next_invoice_date)) (\<lambda>next_date.
             pcr_write e i [P_effective_date (Some (case next_date of
               None \<Rightarrow> add_month e (today_ctx e) | Some d \<Rightarrow> d))])
       | EffCustom \<Rightarrow> ret ()))"

definition pcr_insert :: "env \<Rightarrow> pcr_val list \<Rightarrow> nat op" where
  "pcr_insert e vs = andthen (pcr_foreign_keys vs)
     (\<lambda>s. (Inr (fresh_id (pcrs s)), s\<lparr>pcrs := tins (fold pcr_set vs (pcr_default e)) (pcrs s)\<rparr>))"

definition pcr_prepare :: "env \<Rightarrow> pcr_val list \<Rightarrow> pcr_val list op" where
  "pcr_prepare e vs =
     (if pcr_name (fold pcr_set vs (pcr_default e)) = ''New''
      then bnd (next_by_code e ''isp.plan.change.request'' ''PCR'') (\<lambda>n. ret (vs @ [P_name n]))
      else ret vs)"

definition pcr_create :: "env \<Rightarrow> pcr_val list list \<Rightarrow> nat list op" where
  "pcr_create e vals_list =
     bnd (map_each (pcr_prepare e) vals_list) (\<lambda>vals_list.
     bnd (map_each (pcr_insert e) vals_list) (\<lambda>ids.
     andthen (pcr_not_null ids)
    (andthen (pcr_validate e (concat (map (map pcr_field) vals_list) @
        [''name'', ''effective_date_mode'', ''state'', ''requested_by'']) ids)
    (andthen (for_each (ensure_effective_date e) ids)
    (ret ids)))))"

section \<open>Buttons\<close>

definition sub_record :: "sys \<Rightarrow> nat option \<Rightarrow> (string \<times> nat \<times> string) option" where
  "sub_record s i = (case (i, deref (subs s) i) of
     (Some k, Some r) \<Rightarrow> Some (''isp.subscription'', k, sub_name r) | _ \<Rightarrow> None)"

definition plan_text :: "sys \<Rightarrow> nat option \<Rightarrow> string" where
  "plan_text s p = via (plans s) p ''False'' plan_name"

definition pcr_log :: "env \<Rightarrow> nat \<Rightarrow> string \<Rightarrow> (string \<Rightarrow> string) \<Rightarrow> unit op" where
  "pcr_log e i action details = bnd (rd pcrs i) (\<lambda>r.
     bnd (gets (\<lambda>s. (sub_record s (pcr_subscription_id r), plan_text s (pcr_requested_plan_id r)))) (\<lambda>(record, plan).
     log_action e action record (details plan)))"

definition pcr_send :: "env \<Rightarrow> nat \<Rightarrow> string \<Rightarrow> unit op" where
  "pcr_send e i xmlid = bnd (rd pcrs i) (\<lambda>r.
     bnd (gets (\<lambda>s. via (subs s) (pcr_subscription_id r) None sub_partner_id)) (\<lambda>p.
     send_template e xmlid i p))"

definition pcr_action_submit :: "env \<Rightarrow> nat list \<Rightarrow> unit op" where
  "pcr_action_submit e ids = for_each (\<lambda>i. bnd (rd pcrs i) (\<lambda>r.
     if pcr_effective_date_mode r = EffImmediate \<and> \<not> has_group e ''isp_core.group_isp_admin'' \<and>
        \<not> has_group e ''isp_core.group_isp_noc''
     then raise (ValidationError ''Immediate plan changes require Admin or NOC permissions.'')
     else andthen (ensure_effective_date e i)
         (andthen (pcr_write e i [P_state PcrSubmitted])
         (andthen (pcr_log e i ''plan_change_submitted'' ((@) ''Plan change requested to ''))
         (pcr_send e i ''isp_core.mail_template_plan_change_submitted''))))) ids"

definition pcr_apply_one :: "env \<Rightarrow> nat \<Rightarrow> unit op" where
  "pcr_apply_one e i = bnd (rd pcrs i) (\<lambda>r.
     case pcr_subscription_id r of
       None \<Rightarrow> ret ()
     | Some sub \<Rightarrow>
         andthen (sub_write e sub [V_plan_id (pcr_requested_plan_id r)])
        (andthen (ensure_pppoe_credentials e sub)
        (andthen (ignore (queue_job e sub change_plan []))
        (andthen (pcr_write e i [P_state PcrApplied])
        (andthen (pcr_log e i ''plan_change_applied'' ((@) ''Plan changed to ''))
        (pcr_send e i ''isp_core.mail_template_plan_change_applied''))))))"

definition pcr_action_apply :: "env \<Rightarrow> nat list \<Rightarrow> unit op" where
  "pcr_action_apply e ids = for_each (pcr_apply_one e) ids"

definition pcr_action_approve :: "env \<Rightarrow> nat list \<Rightarrow> unit op" where
  "pcr_action_approve e ids = for_each (\<lambda>i.
     andthen (ensure_effective_date e i)
    (andthen (pcr_write e i [P_state PcrApproved])
    (andthen (pcr_write e i [P_approved_by (Some (env_user e))])
    (andthen (pcr_log e i ''plan_change_approved'' ((@) ''Plan change approved to ''))
    (andthen (pcr_send e i ''isp_core.mail_template_plan_change_approved'')
    (bnd (rd pcrs i) (\<lambda>r. case pcr_effective_date r of
        None \<Rightarrow> ret ()
      | Some d \<Rightarrow> do_if (d \<le> today_ctx e) (pcr_action_apply e [i])))))))) ids"

definition pcr_action_reject :: "env \<Rightarrow> nat list \<Rightarrow> unit op" where
  "pcr_action_reject e ids = for_each (\<lambda>i. bnd (rd pcrs i) (\<lambda>r.
     if \<not> set_str (pcr_rejection_reason r)
     then raise (ValidationError ''Rejection reason is required.'')
     else andthen (pcr_write e i [P_state PcrRejected])
         (andthen (pcr_log e i ''plan_change_rejected'' (\<lambda>_. ''Plan change rejected''))
         (pcr_send e i ''isp_core.mail_template_plan_change_rejected'')))) ids"

text \<open>The cron job; the model's order is \<open>id desc\<close>.\<close>

definition pcr_due :: "env \<Rightarrow> plan_change_request \<Rightarrow> bool" where
  "pcr_due e r = (pcr_state r = PcrApproved \<and>
     (case pcr_effective_date r of None \<Rightarrow> False | Some d \<Rightarrow> d \<le> today e))"

definition cron_apply_plan_changes :: "env \<Rightarrow> unit op" where
  "cron_apply_plan_changes e =
     bnd (gets (\<lambda>s. rev (sort (search_ids (\<lambda>_ r. pcr_due e r) (pcrs s))))) (\<lambda>ids.
       for_each (\<lambda>i. pcr_action_apply e [i]) ids)"

end
