(* ===== verification/Plan_Change_Facts.thy ===== *)
theory Plan_Change_Facts
  imports Plan_Change
begin

text \<open>
  Properties of the plan change requests: their constraints as an invariant, who may ask for an
  immediate change, what applying a request does, and that it cannot be applied when the
  framework validates recomputed fields.
\<close>

section \<open>Rows that pass the constraints\<close>

definition pcr_good :: "plan_change_request \<Rightarrow> bool" where
  "pcr_good r \<longleftrightarrow> pcr_subscription_id r \<noteq> None \<and> pcr_requested_plan_id r \<noteq> None \<and>
     (pcr_effective_date_mode r = EffCustom \<longrightarrow> pcr_effective_date r \<noteq> None)"

definition pcrs_ok :: "sys \<Rightarrow> bool" where
  "pcrs_ok s \<longleftrightarrow> (\<forall>j r. tget (pcrs s) j = Some r \<longrightarrow> pcr_good r)"

lemma check_effective_date_ok [check_simps]:
  "check_effective_date ids s = (Inr (), s') \<longleftrightarrow>
     (\<forall>i\<in>set ids. \<exists>r. tget (pcrs s) i = Some r \<and>
        (pcr_effective_date_mode r = EffCustom \<longrightarrow> pcr_effective_date r \<noteq> None)) \<and> s' = s"
  unfolding check_effective_date_def
  by (rule for_each_check) (auto simp: run_simps assert_that_ok split: option.splits)

lemma pcr_not_null_ok [check_simps]:
  "pcr_not_null ids s = (Inr (), s') \<longleftrightarrow>
     (\<forall>i\<in>set ids. \<exists>r. tget (pcrs s) i = Some r \<and> pcr_subscription_id r \<noteq> None \<and>
        pcr_requested_plan_id r \<noteq> None) \<and> s' = s"
  unfolding pcr_not_null_def
  by (rule for_each_check) (auto simp: run_simps assert_that_ok split: option.splits)

lemma pcr_validate_ok:
  assumes "pcr_validate e ws ids s = (Inr (), s')"
  shows "s' = s" and "triggered ws [''effective_date_mode'', ''effective_date''] \<Longrightarrow> i \<in> set ids \<Longrightarrow>
      tget (pcrs s) i = Some r \<Longrightarrow> pcr_effective_date_mode r = EffCustom \<Longrightarrow> pcr_effective_date r \<noteq> None"
  using assms
  by (fastforce simp: pcr_validate_def do_if_check check_simps elim!: andthen_ok split: if_splits)+

lemma pcr_foreign_keys_run:
  "pcr_foreign_keys vs s = (if list_all (pcr_refers s) vs then (Inr (), s)
     else (Inl (IntegrityError ''insert or update violates a foreign key constraint''), s))"
  by (simp add: pcr_foreign_keys_def run_simps assert_that_def)

lemma pcr_insert_ok:
  assumes "pcr_insert e vs s = (Inr i, s')"
  shows "list_all (pcr_refers s) vs" and "i = fresh_id (pcrs s)"
    and "s' = s\<lparr>pcrs := tins (fold pcr_set vs (pcr_default e)) (pcrs s)\<rparr>"
  using assms by (auto simp: pcr_insert_def andthen_run pcr_foreign_keys_run split: if_splits)

lemma pcr_write_ok:
  assumes "pcr_write e i vs s = (Inr (), s')"
  shows "s' = s\<lparr>pcrs := tupd i (fold pcr_set vs) (pcrs s)\<rparr>" and "\<exists>r. tget (pcrs s) i = Some r"
    and "pcr_not_null [i] s' = (Inr (), s')" and "pcr_validate e (map pcr_field vs) [i] s' = (Inr (), s')"
    and "list_all (pcr_refers s) vs"
proof -
  from assms obtain t1 t2 where f: "list_all (pcr_refers s) vs" and r: "\<exists>r. tget (pcrs s) i = Some r"
      and n: "pcr_not_null [i] (s\<lparr>pcrs := tupd i (fold pcr_set vs) (pcrs s)\<rparr>) = (Inr (), t1)"
      and v: "pcr_validate e (map pcr_field vs) [i] t1 = (Inr (), t2)"
      and l: "do_if (validate_recomputed e \<and> ''subscription_id'' \<in> set (map pcr_field vs)) (check_plan_diff [i]) t2 = (Inr (), s')"
    by (auto simp: pcr_write_def rd_run modify_run pcr_foreign_keys_run elim!: bnd_ok andthen_ok split: option.splits if_splits)
  have "t1 = s\<lparr>pcrs := tupd i (fold pcr_set vs) (pcrs s)\<rparr>" using n by (simp add: check_simps)
  moreover have "t2 = t1" by (rule pcr_validate_ok(1) [OF v])
  moreover have "s' = t2" using l by (auto simp: do_if_check check_simps split: if_splits)
  ultimately show "s' = s\<lparr>pcrs := tupd i (fold pcr_set vs) (pcrs s)\<rparr>" "\<exists>r. tget (pcrs s) i = Some r"
      "pcr_not_null [i] s' = (Inr (), s')" "pcr_validate e (map pcr_field vs) [i] s' = (Inr (), s')"
      "list_all (pcr_refers s) vs"
    using r n v f by simp_all
qed

lemma frame_effective_date:
  assumes "\<not> triggered (map pcr_field vs) [''effective_date_mode'', ''effective_date'']"
  shows "(pcr_effective_date_mode (fold pcr_set vs r), pcr_effective_date (fold pcr_set vs r)) =
     (pcr_effective_date_mode r, pcr_effective_date r)"
proof -
  have "\<forall>v\<in>set vs. pcr_field v \<notin> {''effective_date_mode'', ''effective_date''}"
    using not_triggered [OF assms] by simp
  then show ?thesis
  proof (induction vs arbitrary: r)
    case (Cons v vs)
    then show ?case by (cases v) simp_all
  qed simp
qed

interpretation pcr_rows: checked_rows "\<lambda>s. tget (pcrs s)" "pcr_write e" pcr_good for e
proof unfold_locales
  fix i vs s s' j
  assume w: "pcr_write e i vs s = (Inr (), s')"
  show "tget (pcrs s') j = tget (pcrs s) j" if "j \<noteq> i"
    using pcr_write_ok(1) [OF w] that by (simp add: tbl.upd_other)
  fix r'
  assume r': "tget (pcrs s') i = Some r'" and old: "\<And>r. tget (pcrs s) i = Some r \<Longrightarrow> pcr_good r"
  obtain r where r: "tget (pcrs s) i = Some r" "r' = fold pcr_set vs r"
    using pcr_write_ok(1,2) [OF w] r' by (auto simp: tbl.look_upd)
  have "pcr_effective_date r' \<noteq> None" if "pcr_effective_date_mode r' = EffCustom"
  proof (cases "triggered (map pcr_field vs) [''effective_date_mode'', ''effective_date'']")
    case True
    then show ?thesis using pcr_validate_ok(2) [OF pcr_write_ok(4) [OF w] True _ r' that] by simp
  next
    case False
    then show ?thesis using frame_effective_date [OF False, of r] old [OF r(1)] that r(2)
      by (auto simp: pcr_good_def)
  qed
  then show "pcr_good r'"
    using pcr_write_ok(3) [OF w] r' by (auto simp: check_simps pcr_good_def)
qed

lemma keeps_pcr_write [keeps_intros]: "keeps pcrs_ok (pcr_write e i vs)"
  unfolding pcrs_ok_def by (rule pcr_rows.keeps_wr)

definition pcr_free :: "(sys \<Rightarrow> bool) \<Rightarrow> bool" where
  "pcr_free I \<longleftrightarrow> (\<forall>s a. I s \<longrightarrow> I (s\<lparr>pcrs := a\<rparr>))"

lemma pcrs_ok_free:
  "audit_free pcrs_ok" "mail_free pcrs_ok" "wire_free pcrs_ok" "seq_free pcrs_ok" "draw_free pcrs_ok"
  "sub_free pcrs_ok" "job_free pcrs_ok" "router_free pcrs_ok" "device_name_free pcrs_ok" "captive_free pcrs_ok"
  by (simp_all add: free_defs handler_frees job_free_def pcrs_ok_def)

lemma subs_ok_pcr_free: "pcr_free subs_ok"
  by (simp add: pcr_free_def subs_ok_def row_ok_def device_ok_def device_sector_def
      static_unique_def user_unique_def)

lemma keeps_all_pcr_checks [keeps_all_intros]:
  "keeps_all I (pcr_foreign_keys vs)" "keeps_all I (check_effective_date ids)" "keeps_all I (pcr_not_null ids)" "keeps_all I (pcr_validate e ws ids)"
  unfolding pcr_foreign_keys_def check_effective_date_def pcr_not_null_def pcr_validate_def by (intro keeps_all_intros)+

lemma keeps_all_pcr_write [keeps_all_intros]: "pcr_free I \<Longrightarrow> keeps_all I (pcr_write e i vs)"
  unfolding pcr_write_def by (intro keeps_all_intros keeps_all_modify) (simp add: pcr_free_def)

lemma keeps_all_pcr_insert [keeps_all_intros]: "pcr_free I \<Longrightarrow> keeps_all I (pcr_insert e vs)"
  by (auto simp: pcr_insert_def keeps_all_def pcr_free_def andthen_run pcr_foreign_keys_run)

lemma keeps_all_ensure_effective_date [keeps_all_intros]: "pcr_free I \<Longrightarrow> keeps_all I (ensure_effective_date e i)"
  unfolding ensure_effective_date_def
  by (intro keeps_all_intros) (auto split: effective_mode.split intro!: keeps_all_intros)

lemma keeps_all_pcr_log [keeps_all_intros]: "audit_free I \<Longrightarrow> keeps_all I (pcr_log e i a f)"
  unfolding pcr_log_def by (intro keeps_all_intros) (simp add: keeps_all_log_action split: prod.split)

lemma keeps_all_pcr_send [keeps_all_intros]: "mail_free I \<Longrightarrow> keeps_all I (pcr_send e i x)"
  unfolding pcr_send_def by (intro keeps_all_intros)

lemma keeps_ensure_effective_date [keeps_intros]: "keeps pcrs_ok (ensure_effective_date e i)"
  unfolding ensure_effective_date_def
  by (intro keeps_intros) (auto split: effective_mode.split intro!: keeps_intros)

lemmas keeps_pcr_services [keeps_intros] =
  keeps_all_imp [OF keeps_all_pcr_log] keeps_all_imp [OF keeps_all_pcr_send]

lemma keeps_pcr_apply [keeps_intros]: "keeps pcrs_ok (pcr_apply_one e i)" "keeps pcrs_ok (pcr_action_apply e ids)"
proof -
  show "keeps pcrs_ok (pcr_apply_one e i)" for i
    unfolding pcr_apply_one_def
    by (intro keeps_intros pcrs_ok_free keeps_all_imp [OF keeps_all_sub_write] keeps_all_imp [OF keeps_all_ensure_pppoe])
  then show "keeps pcrs_ok (pcr_action_apply e ids)"
    unfolding pcr_action_apply_def by (intro keeps_intros)
qed

lemma keeps_pcr_actions:
  "keeps pcrs_ok (pcr_action_submit e ids)" "keeps pcrs_ok (pcr_action_approve e ids)"
  "keeps pcrs_ok (pcr_action_reject e ids)" "keeps pcrs_ok (cron_apply_plan_changes e)"
  unfolding pcr_action_submit_def pcr_action_approve_def pcr_action_reject_def cron_apply_plan_changes_def
  by (intro keeps_intros pcrs_ok_free)+

lemma subs_keeps_pcr_apply [keeps_intros]: "keeps subs_ok (pcr_apply_one e i)" "keeps subs_ok (pcr_action_apply e ids)"
proof -
  show "keeps subs_ok (pcr_apply_one e i)" for i
    unfolding pcr_apply_one_def
    by (intro keeps_intros subs_ok_frees keeps_all_imp [OF keeps_all_pcr_write] subs_ok_pcr_free)
  then show "keeps subs_ok (pcr_action_apply e ids)"
    unfolding pcr_action_apply_def by (intro keeps_intros)
qed

lemma subs_keeps_pcr_actions:
  "keeps subs_ok (pcr_action_submit e ids)" "keeps subs_ok (pcr_action_approve e ids)"
  "keeps subs_ok (pcr_action_reject e ids)" "keeps subs_ok (cron_apply_plan_changes e)"
  unfolding pcr_action_submit_def pcr_action_approve_def pcr_action_reject_def cron_apply_plan_changes_def
  by (intro keeps_intros subs_ok_frees keeps_all_imp [OF keeps_all_pcr_write]
      keeps_all_imp [OF keeps_all_ensure_effective_date] subs_ok_pcr_free)+

section \<open>Applying a request\<close>

lemma pcr_state_write_returns:
  assumes "tget (pcrs s) i = Some r" and "pcr_good r"
  shows "pcr_write e i [P_state x] s =
    (Inr (), s\<lparr>pcrs := tupd i (\<lambda>r. r\<lparr>pcr_state := x\<rparr>) (pcrs s)\<rparr>)"
proof -
  have set: "fold pcr_set [P_state x] = (\<lambda>r. r\<lparr>pcr_state := x\<rparr>)" by (rule ext) simp
  have "pcr_not_null [i] (s\<lparr>pcrs := tupd i (\<lambda>r. r\<lparr>pcr_state := x\<rparr>) (pcrs s)\<rparr>) =
      (Inr (), s\<lparr>pcrs := tupd i (\<lambda>r. r\<lparr>pcr_state := x\<rparr>) (pcrs s)\<rparr>)"
    using assms by (simp add: check_simps tbl.look_upd pcr_good_def)
  with assms(1) show ?thesis
    unfolding pcr_write_def set
    by (simp add: run_simps pcr_foreign_keys_run pcr_validate_def triggered_def)
qed

lemma pcr_tail_returns:
  assumes "tget (pcrs s) i = Some r"
  shows "\<exists>a m. andthen (pcr_log e i act f) (pcr_send e i x) s = (Inr (), s\<lparr>audits := a, outbox := m\<rparr>)"
proof -
  have "\<exists>a. pcr_log e i act f s = (Inr (), s\<lparr>audits := a\<rparr>)"
    using assms by (auto simp: pcr_log_def run_simps)
  then obtain a where log: "pcr_log e i act f s = (Inr (), s\<lparr>audits := a\<rparr>)" by blast
  have "\<exists>m. pcr_send e i x (s\<lparr>audits := a\<rparr>) = (Inr (), s\<lparr>audits := a, outbox := m\<rparr>)"
    using assms send_template_returns [of e x i _ "s\<lparr>audits := a\<rparr>"]
    by (simp add: pcr_send_def bnd_run rd_run gets_run)
  with log show ?thesis by (auto simp: run_simps)
qed

text \<open>Applying a plan change request, when the framework does not validate recomputed fields:
  it returns; the subscription has the requested plan (and the plan's profile, if it uses PPPoE
  and had none), the request is applied, exactly one job is added to the queue - a change of plan
  for that subscription - and no other subscription or request changes.\<close>

lemma pcr_apply_effect:
  assumes "subs_ok s" and "\<not> validate_recomputed e"
    and "tget (pcrs s) i = Some r" and "pcr_good r"
    and "pcr_subscription_id r = Some k" and "pcr_requested_plan_id r = Some p"
    and "tget (subs s) k = Some sr"
  shows "\<exists>s' J. pcr_action_apply e [i] s = (Inr (), s') \<and>
    (\<forall>j. tget (subs s') j = (if j = k then Some (fill_profile s (sr\<lparr>sub_plan_id := Some p\<rparr>)) else tget (subs s) j)) \<and>
    pcrs s' = tupd i (\<lambda>r. r\<lparr>pcr_state := PcrApplied\<rparr>) (pcrs s) \<and>
    jobs s' = tins J (jobs s) \<and> job_type J = change_plan \<and> job_subscription_id J = Some k \<and>
    job_state J = JobQueued"
proof -
  define s1 where "s1 = s\<lparr>subs := tupd k (\<lambda>r. r\<lparr>sub_plan_id := Some p\<rparr>) (subs s)\<rparr>"
  have w: "sub_write e k [V_plan_id (Some p)] s = (Inr (), s1)"
    unfolding s1_def by (rule plan_write_returns [OF assms(1,7,2)])
  have ok1: "subs_ok s1" by (rule sub_write_subs_ok [OF assms(1) w])
  have row1: "tget (subs s1) k = Some (sr\<lparr>sub_plan_id := Some p\<rparr>)"
    using assms(7) by (simp add: s1_def tbl.look_upd)
  from ensure_pppoe_on_valid [OF ok1 row1, of e] obtain s2 u where
      en: "ensure_pppoe_credentials e k s1 = (Inr (), s2)" and s2: "s2 = s1\<lparr>subs := u\<rparr>"
      and subs2: "\<And>j. tget (subs s2) j = (if j = k then Some (fill_profile s1 (sr\<lparr>sub_plan_id := Some p\<rparr>)) else tget (subs s1) j)"
    by blast
  have fill: "fill_profile s1 q = fill_profile s q" for q by (cases "sub_plan_id q") (simp_all add: fill_profile_def s1_def Let_def)
  have "tget (subs s2) k = Some (fill_profile s1 (sr\<lparr>sub_plan_id := Some p\<rparr>))" by (simp add: subs2)
  from queue_job_run [OF this, of e change_plan "[]"] obtain a q s3 where
      qj: "queue_job e k change_plan [] s2 = (Inr (fresh_id (jobs s2)), s3)"
      and s3: "s3 = s2\<lparr>seq_count := q, jobs := tins (queued_job e s2 k change_plan []) (jobs s2), audits := a\<rparr>"
    by blast
  have pr: "tget (pcrs s3) i = Some r" using assms(3) by (simp add: s3 s2 s1_def)
  define s4 where "s4 = s3\<lparr>pcrs := tupd i (\<lambda>r. r\<lparr>pcr_state := PcrApplied\<rparr>) (pcrs s3)\<rparr>"
  have pw: "pcr_write e i [P_state PcrApplied] s3 = (Inr (), s4)"
    unfolding s4_def by (rule pcr_state_write_returns [OF pr assms(4)])
  have "tget (pcrs s4) i = Some (r\<lparr>pcr_state := PcrApplied\<rparr>)" using pr by (simp add: s4_def tbl.look_upd)
  from pcr_tail_returns [OF this, of e "''plan_change_applied''" "(@) ''Plan changed to ''"
      "''isp_core.mail_template_plan_change_applied''"]
  obtain b m where tail: "andthen (pcr_log e i ''plan_change_applied'' ((@) ''Plan changed to ''))
      (pcr_send e i ''isp_core.mail_template_plan_change_applied'') s4 = (Inr (), s4\<lparr>audits := b, outbox := m\<rparr>)"
    by blast
  have "pcr_action_apply e [i] s = (Inr (), s4\<lparr>audits := b, outbox := m\<rparr>)"
    using assms(3,5,6) w en qj pw tail
    by (simp add: pcr_action_apply_def pcr_apply_one_def andthen_run bnd_run rd_run ignore_def ret_run)
  moreover have "tget (subs s4) j = (if j = k then Some (fill_profile s (sr\<lparr>sub_plan_id := Some p\<rparr>)) else tget (subs s) j)" for j
    using subs2 [of j] by (simp add: s4_def s3 fill) (simp add: s2 s1_def tbl.look_upd)
  ultimately show ?thesis
    by (intro exI [of _ "s4\<lparr>audits := b, outbox := m\<rparr>"] exI [of _ "queued_job e s2 k change_plan []"])
      (simp add: s4_def s3 s2 s1_def queued_job_def new_job_def)
qed

definition demo_request :: plan_change_request where
  "demo_request = \<lparr>pcr_name = ''PCR'', pcr_subscription_id = Some 1, pcr_requested_plan_id = Some 2,
     pcr_effective_date_mode = EffImmediate, pcr_effective_date = Some 0, pcr_state = PcrApproved,
     pcr_requested_by = 2, pcr_approved_by = None, pcr_rejection_reason = None\<rparr>"

definition demo_pcr_sys :: sys where
  "demo_pcr_sys = demo_sys change_plan
     \<lparr>plans := [(1, demo_plan), (2, demo_plan\<lparr>plan_name := ''Plus''\<rparr>)], pcrs := [(1, demo_request)]\<rparr>"

lemma demo_pcr_facts:
  "subs_ok demo_pcr_sys" "tget (pcrs demo_pcr_sys) i = (if i = 1 then Some demo_request else None)"
  "tget (subs demo_pcr_sys) i = (if i = 1 then Some demo_sub else None)" "pcr_good demo_request"
  "tget (plans demo_pcr_sys) i = (if i = 1 then Some demo_plan else if i = 2 then Some (demo_plan\<lparr>plan_name := ''Plus''\<rparr>) else None)"
proof -
  show "subs_ok demo_pcr_sys"
    using subs_ok_pcr_free demo_subs_ok [of change_plan]
    by (simp add: demo_pcr_sys_def subs_ok_def row_ok_def device_ok_def device_sector_def static_unique_def user_unique_def)
qed (simp_all add: demo_pcr_sys_def demo_rows pcr_good_def demo_request_def, simp_all add: tget_def)

text \<open>C30. When the framework does validate recomputed fields (as it does for the stored related
  field \<open>current_plan_id\<close>), a request can never be applied: writing the requested plan on
  the subscription makes the request's own current plan equal to the requested one, and the
  constraint that they differ refuses the write.\<close>

theorem apply_always_refused:
  assumes "subs_ok s" and "validate_recomputed e"
    and "tget (pcrs s) i = Some r" and "pcr_subscription_id r = Some k"
    and "pcr_requested_plan_id r = Some p" and "tget (subs s) k = Some sr"
  shows "fst (pcr_action_apply e [i] s) =
    Inl (ValidationError ''Requested plan must be different from current plan.'')"
proof -
  let ?s = "s\<lparr>subs := tupd k (\<lambda>r. r\<lparr>sub_plan_id := Some p\<rparr>) (subs s)\<rparr>"
  let ?msg = "''Requested plan must be different from current plan.''"
  define ids where "ids = search_ids (\<lambda>_ r. pcr_subscription_id r = Some k) (pcrs s)"
  have set: "fold sub_set [V_plan_id (Some p)] = (\<lambda>r. r\<lparr>sub_plan_id := Some p\<rparr>)" by (rule ext) simp
  have two: "fst (check_plan_diff js ?s) \<in> {Inr (), Inl (ValidationError ?msg)}"
    if "set js \<subseteq> set ids" for js
    using that
  proof (induction js)
    case (Cons j js)
    then obtain q where "tget (pcrs s) j = Some q" by (auto simp: ids_def search_ids_iff)
    with Cons show ?case
      by (simp add: check_plan_diff_def run_simps assert_that_def)
  qed (simp add: check_plan_diff_def run_simps)
  have "i \<in> set ids" using assms(3,4) by (simp add: ids_def search_ids_iff)
  have "\<not> (\<exists>t. check_plan_diff ids ?s = (Inr (), t))"
  proof
    assume "\<exists>t. check_plan_diff ids ?s = (Inr (), t)"
    then have "\<forall>i\<in>set ids. \<exists>r. tget (pcrs ?s) i = Some r \<and>
        \<not> (pcr_requested_plan_id r \<noteq> None \<and> current_plan ?s r \<noteq> None \<and>
           pcr_requested_plan_id r = current_plan ?s r)"
      unfolding check_plan_diff_ok by blast
    with \<open>i \<in> set ids\<close> assms(3-6) show False
      by (auto simp: current_plan_def via_def deref_def tbl.look_upd)
  qed
  with two [of ids] have "fst (check_plan_diff ids ?s) = Inl (ValidationError ?msg)"
    by (cases "check_plan_diff ids ?s") auto
  then have recheck: "fst (recheck_plan_requests e k ?s) = Inl (ValidationError ?msg)"
    using assms(2) by (simp add: recheck_plan_requests_def run_simps ids_def)
  have user: "sub_pppoe_username q = sub_pppoe_username q'" if "tget (subs ?s) j = Some q" "tget (subs s) j = Some q'" for j q q'
    using that by (auto simp: tbl.look_upd split: if_splits)
  have "sub_not_null [k] ?s = (Inr (), ?s)"
    using subs_okD(1) [OF assms(1,6)] assms(6) by (simp add: check_simps tbl.look_upd row_ok_def required_ok_def)
  moreover have "pppoe_user_uniq [k] ?s = (Inr (), ?s)"
    using subs_okD(3) [OF assms(1,6)] assms(6) by (auto simp: check_simps tbl.look_upd user_unique_def)
  ultimately have "fst (sub_write e k [V_plan_id (Some p)] s) = Inl (ValidationError ?msg)"
    using assms(6) recheck unfolding sub_write_def sub_store_def set
    by (cases "recheck_plan_requests e k ?s")
      (simp add: andthen_run bnd_run rd_run modify_run do_if_run untriggered_validate sub_checks_def triggered_def)
  then show ?thesis
    using assms(3-5) by (cases "sub_write e k [V_plan_id (Some p)] s")
      (simp add: pcr_action_apply_def pcr_apply_one_def andthen_run bnd_run rd_run)
qed

theorem apply_always_refused_witness:
  "fst (pcr_action_apply (plain_env\<lparr>validate_recomputed := True\<rparr>) [1] demo_pcr_sys) =
    Inl (ValidationError ''Requested plan must be different from current plan.'')"
  by (rule apply_always_refused [of _ _ 1 demo_request 1 2 demo_sub])
    (simp_all add: demo_pcr_facts, simp_all add: demo_request_def)

section \<open>The cron job\<close>

lemma fill_profile_plan: "sub_plan_id (fill_profile s r) = sub_plan_id r"
  by (simp add: fill_profile_def Let_def)

definition applicable :: "sys \<Rightarrow> nat \<Rightarrow> bool" where
  "applicable s i \<longleftrightarrow> (\<exists>r k. tget (pcrs s) i = Some r \<and> pcr_good r \<and>
     pcr_subscription_id r = Some k \<and> tget (subs s) k \<noteq> None)"

definition request_sub :: "sys \<Rightarrow> nat \<Rightarrow> nat option" where
  "request_sub s i = via (pcrs s) (Some i) None pcr_subscription_id"

definition request_plan :: "sys \<Rightarrow> nat \<Rightarrow> nat option" where
  "request_plan s i = via (pcrs s) (Some i) None pcr_requested_plan_id"

lemma apply_all_effect:
  assumes "subs_ok s" and v: "\<not> validate_recomputed e" and "\<forall>i\<in>set ids. applicable s i"
  shows "\<exists>s'. for_each (\<lambda>i. pcr_action_apply e [i]) ids s = (Inr (), s') \<and>
    (\<forall>j. tget (pcrs s') j = map_option (\<lambda>r. if j \<in> set ids then r\<lparr>pcr_state := PcrApplied\<rparr> else r) (tget (pcrs s) j)) \<and>
    (\<forall>k. map_option sub_plan_id (tget (subs s') k) =
       map_option (\<lambda>sr. case rev (filter (\<lambda>i. request_sub s i = Some k) ids) of
          [] \<Rightarrow> sub_plan_id sr | i # is \<Rightarrow> request_plan s i) (tget (subs s) k))"
  using assms(1,3)
proof (induction ids arbitrary: s)
  case Nil
  have "map_option (\<lambda>r. r) x = x" for x :: "plan_change_request option" by (simp add: option.map_ident)
  then show ?case by (simp add: run_simps)
next
  case (Cons i ids)
  then obtain r k sr where r: "tget (pcrs s) i = Some r" "pcr_good r" "pcr_subscription_id r = Some k"
      and sr: "tget (subs s) k = Some sr"
    by (auto simp: applicable_def)
  then obtain p where p: "pcr_requested_plan_id r = Some p" by (auto simp: pcr_good_def)
  from pcr_apply_effect [OF Cons.prems(1) v r p sr] obtain t where
      one: "pcr_action_apply e [i] s = (Inr (), t)"
      and subs: "\<And>j. tget (subs t) j = (if j = k then Some (fill_profile s (sr\<lparr>sub_plan_id := Some p\<rparr>)) else tget (subs s) j)"
      and pcrs: "pcrs t = tupd i (\<lambda>r. r\<lparr>pcr_state := PcrApplied\<rparr>) (pcrs s)"
    by blast
  have ok: "subs_ok t" by (rule keepsD [OF subs_keeps_pcr_apply(2) Cons.prems(1) one])
  have good: "pcr_good (q\<lparr>pcr_state := x\<rparr>) = pcr_good q" for q x by (simp add: pcr_good_def)
  have alive: "tget (subs t) l = None \<longleftrightarrow> tget (subs s) l = None" for l
    using sr by (simp add: subs)
  have "applicable t j" if "applicable s j" for j
    using that by (auto simp: applicable_def pcrs alive tbl.look_upd good simp del: not_None_eq)
  with Cons.prems(2) have app: "\<forall>i\<in>set ids. applicable t i" by simp
  have req: "request_sub t = request_sub s" "request_plan t = request_plan s"
    by (auto simp: fun_eq_iff request_sub_def request_plan_def via_def deref_def pcrs tbl.look_upd split: option.split)
  from Cons.IH [OF ok app] obtain s' where
      run: "for_each (\<lambda>i. pcr_action_apply e [i]) ids t = (Inr (), s')"
      and P: "\<And>j. tget (pcrs s') j = map_option (\<lambda>r. if j \<in> set ids then r\<lparr>pcr_state := PcrApplied\<rparr> else r) (tget (pcrs t) j)"
      and S: "\<And>k. map_option sub_plan_id (tget (subs s') k) =
         map_option (\<lambda>sr. case rev (filter (\<lambda>i. request_sub t i = Some k) ids) of
            [] \<Rightarrow> sub_plan_id sr | i # is \<Rightarrow> request_plan t i) (tget (subs t) k)"
    by blast
  have "tget (pcrs s') j = map_option (\<lambda>r. if j \<in> set (i # ids) then r\<lparr>pcr_state := PcrApplied\<rparr> else r) (tget (pcrs s) j)" for j
    using P [of j] by (cases "tget (pcrs s) j") (auto simp: pcrs tbl.look_upd)
  moreover have "map_option sub_plan_id (tget (subs s') l) =
       map_option (\<lambda>sr. case rev (filter (\<lambda>i. request_sub s i = Some l) (i # ids)) of
          [] \<Rightarrow> sub_plan_id sr | i # is \<Rightarrow> request_plan s i) (tget (subs s) l)" for l
  proof -
    have "request_sub s i = Some k" "request_plan s i = Some p"
      using r p by (simp_all add: request_sub_def request_plan_def via_def deref_def)
    then show ?thesis
      using S [of l] sr
      by (cases "rev (filter (\<lambda>i. request_sub s i = Some l) ids)")
        (auto simp: req subs fill_profile_plan)
  qed
  ultimately show ?case using one run by (auto simp: andthen_run)
qed



section \<open>Submitting\<close>

text \<open>The date a request without one is given.\<close>

definition planned_date :: "env \<Rightarrow> sys \<Rightarrow> plan_change_request \<Rightarrow> int option" where
  "planned_date e s r = (case pcr_effective_date r of Some d \<Rightarrow> Some d
     | None \<Rightarrow> (case pcr_effective_date_mode r of
         EffImmediate \<Rightarrow> Some (today_ctx e)
       | EffNextCycle \<Rightarrow> Some (case via (subs s) (pcr_subscription_id r) None sub_next_invoice_date of
           None \<Rightarrow> add_month e (today_ctx e) | Some d \<Rightarrow> d)
       | EffCustom \<Rightarrow> None))"

lemma date_write_returns:
  assumes "tget (pcrs s) i = Some r" and "pcr_good r"
  shows "pcr_write e i [P_effective_date (Some d)] s =
    (Inr (), s\<lparr>pcrs := tupd i (\<lambda>r. r\<lparr>pcr_effective_date := Some d\<rparr>) (pcrs s)\<rparr>)"
proof -
  let ?s = "s\<lparr>pcrs := tupd i (\<lambda>r. r\<lparr>pcr_effective_date := Some d\<rparr>) (pcrs s)\<rparr>"
  have set: "fold pcr_set [P_effective_date (Some d)] = (\<lambda>r. r\<lparr>pcr_effective_date := Some d\<rparr>)" by (rule ext) simp
  have "pcr_not_null [i] ?s = (Inr (), ?s)" "check_effective_date [i] ?s = (Inr (), ?s)"
    using assms by (simp_all add: check_simps tbl.look_upd pcr_good_def)
  with assms(1) show ?thesis
    unfolding pcr_write_def set by (simp add: run_simps pcr_foreign_keys_run pcr_validate_def triggered_def)
qed

lemma ensure_date_effect:
  assumes "tget (pcrs s) i = Some r" and "pcr_good r"
  shows "\<exists>u. ensure_effective_date e i s = (Inr (), s\<lparr>pcrs := u\<rparr>) \<and>
    (\<forall>j. tget u j = (if j = i then Some (r\<lparr>pcr_effective_date := planned_date e s r\<rparr>) else tget (pcrs s) j))"
proof (cases "pcr_effective_date r")
  case (Some d)
  then have "r\<lparr>pcr_effective_date := planned_date e s r\<rparr> = r" by (simp add: planned_date_def)
  moreover have "ensure_effective_date e i s = (Inr (), s\<lparr>pcrs := pcrs s\<rparr>)"
    using Some assms(1) by (simp add: ensure_effective_date_def run_simps)
  ultimately show ?thesis using assms(1) by (intro exI [of _ "pcrs s"]) simp
next
  case None
  then have "pcr_effective_date_mode r \<noteq> EffCustom" using assms(2) by (auto simp: pcr_good_def)
  with None obtain d where d: "planned_date e s r = Some d"
    and "ensure_effective_date e i s = pcr_write e i [P_effective_date (Some d)] s"
    using assms(1) by (cases "pcr_effective_date_mode r")
      (auto simp: ensure_effective_date_def run_simps planned_date_def)
  with date_write_returns [OF assms] show ?thesis
    using assms(1) by (auto simp: tbl.look_upd)
qed

definition may_submit :: "env \<Rightarrow> plan_change_request \<Rightarrow> bool" where
  "may_submit e r \<longleftrightarrow> pcr_effective_date_mode r \<noteq> EffImmediate \<or>
     has_group e ''isp_core.group_isp_admin'' \<or> has_group e ''isp_core.group_isp_noc''"

lemma pcr_submit_effect:
  assumes "tget (pcrs s) i = Some r" and "pcr_good r" and "may_submit e r"
  shows "\<exists>s'. pcr_action_submit e [i] s = (Inr (), s') \<and> subs s' = subs s \<and> jobs s' = jobs s \<and>
      (\<forall>j. tget (pcrs s') j = (if j = i
         then Some (r\<lparr>pcr_effective_date := planned_date e s r, pcr_state := PcrSubmitted\<rparr>)
         else tget (pcrs s) j))"
proof -
  from ensure_date_effect [OF assms(1,2), of e] obtain u where
      en: "ensure_effective_date e i s = (Inr (), s\<lparr>pcrs := u\<rparr>)"
      and u: "\<And>j. tget u j = (if j = i then Some (r\<lparr>pcr_effective_date := planned_date e s r\<rparr>) else tget (pcrs s) j)"
    by blast
  let ?s = "s\<lparr>pcrs := u\<rparr>" and ?r = "r\<lparr>pcr_effective_date := planned_date e s r\<rparr>"
  have row: "tget (pcrs ?s) i = Some ?r" by (simp add: u)
  have good: "pcr_good ?r"
    using assms(2) by (auto simp: pcr_good_def planned_date_def split: option.split)
  let ?t = "?s\<lparr>pcrs := tupd i (\<lambda>r. r\<lparr>pcr_state := PcrSubmitted\<rparr>) (pcrs ?s)\<rparr>"
  have w: "pcr_write e i [P_state PcrSubmitted] ?s = (Inr (), ?t)"
    by (rule pcr_state_write_returns [OF row good])
  have "tget (pcrs ?t) i = Some (?r\<lparr>pcr_state := PcrSubmitted\<rparr>)" using row by (simp add: tbl.look_upd)
  from pcr_tail_returns [OF this, of e "''plan_change_submitted''" "(@) ''Plan change requested to ''"
      "''isp_core.mail_template_plan_change_submitted''"]
  obtain a m where tail: "andthen (pcr_log e i ''plan_change_submitted'' ((@) ''Plan change requested to ''))
      (pcr_send e i ''isp_core.mail_template_plan_change_submitted'') ?t = (Inr (), ?t\<lparr>audits := a, outbox := m\<rparr>)"
    by blast
  have "pcr_action_submit e [i] s = (Inr (), ?t\<lparr>audits := a, outbox := m\<rparr>)"
    using assms(1) en w tail unfolding pcr_action_submit_def for_each.simps andthen_run bnd_run rd_run
    by (auto simp: ret_run split: prod.splits sum.splits) (use assms(3) in \<open>auto simp: may_submit_def\<close>)
  then show ?thesis by (auto simp: tbl.look_upd u)
qed

text \<open>Submitting one request: an immediate change asked for by a user who is neither an
  administrator nor in the NOC is refused and changes nothing; otherwise the request is submitted
  with the date planned for its mode - its own date, today, or the subscription's next invoice
  date, in a month when there is none.\<close>

theorem submit_outcome:
  assumes "tget (pcrs s) i = Some r" and "pcr_good r"
  shows "if pcr_effective_date_mode r = EffImmediate \<and> \<not> has_group e ''isp_core.group_isp_admin'' \<and>
       \<not> has_group e ''isp_core.group_isp_noc''
    then pcr_action_submit e [i] s =
      (Inl (ValidationError ''Immediate plan changes require Admin or NOC permissions.''), s)
    else \<exists>s'. pcr_action_submit e [i] s = (Inr (), s') \<and> subs s' = subs s \<and> jobs s' = jobs s \<and>
      (\<forall>j. tget (pcrs s') j = (if j = i
         then Some (r\<lparr>pcr_effective_date := planned_date e s r, pcr_state := PcrSubmitted\<rparr>)
         else tget (pcrs s) j))"
proof (cases "may_submit e r")
  case True
  then have "\<not> (pcr_effective_date_mode r = EffImmediate \<and> \<not> has_group e ''isp_core.group_isp_admin'' \<and>
       \<not> has_group e ''isp_core.group_isp_noc'')" by (auto simp: may_submit_def)
  with pcr_submit_effect [OF assms True] show ?thesis by (simp only: if_False)
next
  case False
  with assms show ?thesis by (auto simp: pcr_action_submit_def run_simps may_submit_def)
qed

theorem submit_outcome_witness:
  "\<exists>s'. pcr_action_submit (plain_env\<lparr>has_group := (\<lambda>g. g = ''isp_core.group_isp_noc'')\<rparr>) [1] demo_pcr_sys = (Inr (), s') \<and>
     tget (pcrs s') 1 = Some (demo_request\<lparr>pcr_effective_date := Some 0, pcr_state := PcrSubmitted\<rparr>)"
  using submit_outcome [of demo_pcr_sys 1 demo_request "plain_env\<lparr>has_group := (\<lambda>g. g = ''isp_core.group_isp_noc'')\<rparr>"]
  by (auto simp: demo_pcr_facts planned_date_def demo_request_def [THEN arg_cong, of pcr_effective_date])

end
