(* ===== verification/Fault_Ticket.thy ===== *)
theory Fault_Ticket
  imports Plan_Change_Facts
begin

text \<open>
  Fault tickets (\<open>isp_core/models/fault_ticket.py\<close>): \<open>create\<close>, the override of
  \<open>write\<close> that stamps the closing time, the computed fields and the four buttons; then how
  long a ticket took, over any sequence of buttons.
\<close>

datatype flt_val =
    F_name string
  | F_partner_id "nat option"
  | F_subscription_id "nat option"
  | F_gps_lat rat
  | F_gps_lng rat
  | F_fault_type fault_type
  | F_priority priority
  | F_state fault_state
  | F_opened_at "int option"
  | F_closed_at "int option"

fun flt_set :: "flt_val \<Rightarrow> fault_ticket \<Rightarrow> fault_ticket" where
  "flt_set (F_name x) r = r\<lparr>flt_name := x\<rparr>"
| "flt_set (F_partner_id x) r = r\<lparr>flt_partner_id := x\<rparr>"
| "flt_set (F_subscription_id x) r = r\<lparr>flt_subscription_id := x\<rparr>"
| "flt_set (F_gps_lat x) r = r\<lparr>flt_gps_lat := x\<rparr>"
| "flt_set (F_gps_lng x) r = r\<lparr>flt_gps_lng := x\<rparr>"
| "flt_set (F_fault_type x) r = r\<lparr>flt_fault_type := x\<rparr>"
| "flt_set (F_priority x) r = r\<lparr>flt_priority := x\<rparr>"
| "flt_set (F_state x) r = r\<lparr>flt_state := x\<rparr>"
| "flt_set (F_opened_at x) r = r\<lparr>flt_opened_at := x\<rparr>"
| "flt_set (F_closed_at x) r = r\<lparr>flt_closed_at := x\<rparr>"

fun writes_state :: "flt_val \<Rightarrow> bool" where
  "writes_state (F_state x) = True"
| "writes_state _ = False"

definition flt_default :: fault_ticket where
  "flt_default =
     \<lparr>flt_name = ''New'', flt_partner_id = None, flt_subscription_id = None, flt_gps_lat = 0,
      flt_gps_lng = 0, flt_fault_type = FltOutage, flt_priority = PrioNormal, flt_state = FltNew,
      flt_opened_at = None, flt_closed_at = None\<rparr>"

section \<open>write and create\<close>

definition flt_not_null :: "nat list \<Rightarrow> unit op" where
  "flt_not_null ids = for_each (\<lambda>i. bnd (rd faults i) (\<lambda>r.
     assert_that (flt_partner_id r \<noteq> None) (IntegrityError ''null value in a required column''))) ids"

text \<open>\<open>super().write(vals)\<close>.\<close>

definition flt_store :: "nat \<Rightarrow> flt_val list \<Rightarrow> unit op" where
  "flt_store i vs =
     bnd (rd faults i) (\<lambda>_.
     andthen (modify (\<lambda>s. s\<lparr>faults := tupd i (fold flt_set vs) (faults s)\<rparr>))
       (flt_not_null [i]))"

definition stamp_closed :: "env \<Rightarrow> nat \<Rightarrow> unit op" where
  "stamp_closed e i = bnd (rd faults i) (\<lambda>r.
     do_if (flt_closed_at r = None) (flt_store i [F_closed_at (Some (now e))]))"

definition flt_write :: "env \<Rightarrow> nat \<Rightarrow> flt_val list \<Rightarrow> unit op" where
  "flt_write e i vs = andthen (flt_store i vs)
     (do_if (list_ex writes_state vs)
       (bnd (rd faults i) (\<lambda>r.
          do_if (flt_state r = FltResolved \<or> flt_state r = FltClosed) (stamp_closed e i))))"

definition flt_send :: "env \<Rightarrow> nat \<Rightarrow> string \<Rightarrow> unit op" where
  "flt_send e i xmlid = bnd (rd faults i) (\<lambda>r. send_template e xmlid i (flt_partner_id r))"

definition flt_prepare :: "env \<Rightarrow> flt_val list \<Rightarrow> flt_val list op" where
  "flt_prepare e vs =
     (let stamped = (\<lambda>vs. if flt_opened_at (fold flt_set vs flt_default) = None
                          then vs @ [F_opened_at (Some (now e))] else vs)
      in if flt_name (fold flt_set vs flt_default) = ''New''
         then bnd (next_by_code e ''isp.fault.ticket'' ''FLT'') (\<lambda>n. ret (stamped (vs @ [F_name n])))
         else ret (stamped vs))"

definition flt_insert :: "flt_val list \<Rightarrow> nat op" where
  "flt_insert vs = (\<lambda>s. (Inr (fresh_id (faults s)), s\<lparr>faults := tins (fold flt_set vs flt_default) (faults s)\<rparr>))"

definition flt_locate :: "env \<Rightarrow> nat \<Rightarrow> unit op" where
  "flt_locate e i = bnd (rd faults i) (\<lambda>r. bnd (gets (\<lambda>s. deref (subs s) (flt_subscription_id r))) (\<lambda>sub.
     case sub of
       None \<Rightarrow> ret ()
     | Some sr \<Rightarrow> andthen (flt_write e i [F_gps_lat (sub_gps_lat sr)])
                         (flt_write e i [F_gps_lng (sub_gps_lng sr)])))"

definition flt_create :: "env \<Rightarrow> flt_val list list \<Rightarrow> nat list op" where
  "flt_create e vals_list =
     bnd (map_each (flt_prepare e) vals_list) (\<lambda>vals_list.
     bnd (map_each flt_insert vals_list) (\<lambda>ids.
     andthen (flt_not_null ids)
    (andthen (for_each (\<lambda>i. andthen (flt_locate e i) (flt_send e i ''isp_core.mail_template_fault_created'')) ids)
    (ret ids))))"

section \<open>Computed fields\<close>

definition resolution_time_hours :: "fault_ticket \<Rightarrow> rat" where
  "resolution_time_hours r = (case (flt_opened_at r, flt_closed_at r) of
     (Some a, Some b) \<Rightarrow> of_int (b - a) / 3600 | _ \<Rightarrow> 0)"

definition sla_target_hours :: "priority \<Rightarrow> rat" where
  "sla_target_hours p = (case p of PrioLow \<Rightarrow> 72 | PrioNormal \<Rightarrow> 48 | PrioHigh \<Rightarrow> 24 | PrioUrgent \<Rightarrow> 8)"

section \<open>Buttons\<close>

definition flt_action_start :: "env \<Rightarrow> nat list \<Rightarrow> unit op" where
  "flt_action_start e ids = for_each (\<lambda>i. flt_write e i [F_state FltInProgress]) ids"

definition flt_action_waiting :: "env \<Rightarrow> nat list \<Rightarrow> unit op" where
  "flt_action_waiting e ids = for_each (\<lambda>i. flt_write e i [F_state FltWaiting]) ids"

definition flt_action_resolve :: "env \<Rightarrow> nat list \<Rightarrow> unit op" where
  "flt_action_resolve e ids = for_each (\<lambda>i.
     andthen (flt_write e i [F_state FltResolved])
    (andthen (bnd (rd faults i) (\<lambda>r. do_if (flt_closed_at r = None) (flt_write e i [F_closed_at (Some (now e))])))
    (flt_send e i ''isp_core.mail_template_fault_resolved''))) ids"

definition flt_action_close :: "env \<Rightarrow> nat list \<Rightarrow> unit op" where
  "flt_action_close e ids = for_each (\<lambda>i.
     andthen (flt_write e i [F_state FltClosed])
    (andthen (bnd (rd faults i) (\<lambda>r. do_if (flt_closed_at r = None) (flt_write e i [F_closed_at (Some (now e))])))
    (flt_send e i ''isp_core.mail_template_fault_closed''))) ids"

section \<open>Priorities\<close>

instantiation priority :: linorder
begin

fun priority_rank :: "priority \<Rightarrow> nat" where
  "priority_rank PrioLow = 0"
| "priority_rank PrioNormal = 1"
| "priority_rank PrioHigh = 2"
| "priority_rank PrioUrgent = 3"

definition less_eq_priority :: "priority \<Rightarrow> priority \<Rightarrow> bool" where
  "less_eq_priority p q \<longleftrightarrow> priority_rank p \<le> priority_rank q"

definition less_priority :: "priority \<Rightarrow> priority \<Rightarrow> bool" where
  "less_priority p q \<longleftrightarrow> priority_rank p < priority_rank q"

instance
proof
  fix p q :: priority
  show "p = q" if "p \<le> q" "q \<le> p"
    using that by (cases p; cases q) (simp_all add: less_eq_priority_def)
qed (auto simp: less_eq_priority_def less_priority_def)

end

lemma sla_antimono: "p < q \<longleftrightarrow> sla_target_hours q < sla_target_hours p" for p q :: priority
  by (cases p; cases q) (simp_all add: less_priority_def sla_target_hours_def)

section \<open>Closing time over a history of buttons\<close>

datatype flt_button = ButtonStart | ButtonWaiting | ButtonResolve | ButtonClose

fun press :: "nat \<Rightarrow> env \<times> flt_button \<Rightarrow> unit op" where
  "press i (e, ButtonStart) = flt_action_start e [i]"
| "press i (e, ButtonWaiting) = flt_action_waiting e [i]"
| "press i (e, ButtonResolve) = flt_action_resolve e [i]"
| "press i (e, ButtonClose) = flt_action_close e [i]"

definition button_state :: "flt_button \<Rightarrow> fault_state" where
  "button_state b = (case b of ButtonStart \<Rightarrow> FltInProgress | ButtonWaiting \<Rightarrow> FltWaiting
     | ButtonResolve \<Rightarrow> FltResolved | ButtonClose \<Rightarrow> FltClosed)"

text \<open>The abstract ticket: a button sets the state, and closing stamps the time once.\<close>

definition press_spec :: "env \<times> flt_button \<Rightarrow> fault_ticket \<Rightarrow> fault_ticket" where
  "press_spec eb r = r\<lparr>flt_state := button_state (snd eb),
     flt_closed_at := (if flt_closed_at r = None \<and> snd eb \<in> {ButtonResolve, ButtonClose}
        then Some (now (fst eb)) else flt_closed_at r)\<rparr>"

lemma flt_not_null_ok [check_simps]:
  "flt_not_null ids s = (Inr (), s') \<longleftrightarrow>
     (\<forall>i\<in>set ids. \<exists>r. tget (faults s) i = Some r \<and> flt_partner_id r \<noteq> None) \<and> s' = s"
  unfolding flt_not_null_def
  by (rule for_each_check) (auto simp: run_simps assert_that_ok split: option.splits)

lemma flt_store_returns:
  assumes "tget (faults s) i = Some r" and "flt_partner_id (fold flt_set vs r) \<noteq> None"
  shows "flt_store i vs s = (Inr (), s\<lparr>faults := tupd i (fold flt_set vs) (faults s)\<rparr>)"
proof -
  have "flt_not_null [i] (s\<lparr>faults := tupd i (fold flt_set vs) (faults s)\<rparr>) =
      (Inr (), s\<lparr>faults := tupd i (fold flt_set vs) (faults s)\<rparr>)"
    using assms by (simp add: check_simps tbl.look_upd)
  with assms(1) show ?thesis by (simp add: flt_store_def run_simps)
qed

lemma flt_store_row:
  assumes "tget (faults s) i = Some r" and "flt_partner_id (fold flt_set vs r) \<noteq> None"
  shows "\<exists>u. flt_store i vs s = (Inr (), s\<lparr>faults := u\<rparr>) \<and> tget u i = Some (fold flt_set vs r) \<and>
    (\<forall>j. j \<noteq> i \<longrightarrow> tget u j = tget (faults s) j)"
  using flt_store_returns [OF assms] assms(1) by (auto simp: tbl.look_upd)

lemma stamp_closed_row:
  assumes "tget (faults s) i = Some r" and "flt_partner_id r \<noteq> None"
  shows "\<exists>u. stamp_closed e i s = (Inr (), s\<lparr>faults := u\<rparr>) \<and>
    tget u i = Some (r\<lparr>flt_closed_at := (if flt_closed_at r = None then Some (now e) else flt_closed_at r)\<rparr>) \<and>
    (\<forall>j. j \<noteq> i \<longrightarrow> tget u j = tget (faults s) j)"
proof (cases "flt_closed_at r = None")
  case True
  with flt_store_row [OF assms(1), of "[F_closed_at (Some (now e))]"] assms show ?thesis
    by (simp add: stamp_closed_def run_simps)
next
  case False
  then have "stamp_closed e i s = (Inr (), s\<lparr>faults := faults s\<rparr>)" using assms(1) by (auto simp: stamp_closed_def run_simps)
  then show ?thesis using False assms(1) by (intro exI [of _ "faults s"]) auto
qed

lemma flt_state_write_row:
  assumes "tget (faults s) i = Some r" and "flt_partner_id r \<noteq> None"
  shows "\<exists>u. flt_write e i [F_state x] s = (Inr (), s\<lparr>faults := u\<rparr>) \<and>
    tget u i = Some (r\<lparr>flt_state := x, flt_closed_at :=
      (if flt_closed_at r = None \<and> x \<in> {FltResolved, FltClosed} then Some (now e) else flt_closed_at r)\<rparr>) \<and>
    (\<forall>j. j \<noteq> i \<longrightarrow> tget u j = tget (faults s) j)"
proof -
  from flt_store_row [OF assms(1), of "[F_state x]"] assms(2) obtain u where
      st: "flt_store i [F_state x] s = (Inr (), s\<lparr>faults := u\<rparr>)" and u: "tget u i = Some (r\<lparr>flt_state := x\<rparr>)"
      "\<forall>j. j \<noteq> i \<longrightarrow> tget u j = tget (faults s) j"
    by auto
  show ?thesis
  proof (cases "x \<in> {FltResolved, FltClosed}")
    case True
    from stamp_closed_row [of "s\<lparr>faults := u\<rparr>" i "r\<lparr>flt_state := x\<rparr>" e] u(1) assms(2) obtain w where
        "stamp_closed e i (s\<lparr>faults := u\<rparr>) = (Inr (), s\<lparr>faults := w\<rparr>)"
        "tget w i = Some (r\<lparr>flt_state := x, flt_closed_at :=
           (if flt_closed_at r = None then Some (now e) else flt_closed_at r)\<rparr>)"
        "\<forall>j. j \<noteq> i \<longrightarrow> tget w j = tget u j"
      by auto
    with True st u show ?thesis
      by (intro exI [of _ w]) (auto simp: flt_write_def run_simps)
  next
    case False
    with st u show ?thesis by (intro exI [of _ u]) (auto simp: flt_write_def run_simps)
  qed
qed

lemma flt_send_returns:
  "tget (faults s) i = Some r \<Longrightarrow> \<exists>m. flt_send e i x s = (Inr (), s\<lparr>outbox := m\<rparr>)"
  using send_template_returns [of e x i "flt_partner_id r" s] by (simp add: flt_send_def run_simps)

text \<open>A button does what the abstract ticket says.\<close>

lemma press_refines:
  assumes "tget (faults s) i = Some r" and "flt_partner_id r \<noteq> None"
  shows "\<exists>s'. press i eb s = (Inr (), s') \<and> tget (faults s') i = Some (press_spec eb r)"
proof (cases eb)
  case (Pair e b)
  from flt_state_write_row [OF assms, of e "button_state b"] obtain u where
      w: "flt_write e i [F_state (button_state b)] s = (Inr (), s\<lparr>faults := u\<rparr>)"
      and u: "tget u i = Some (r\<lparr>flt_state := button_state b, flt_closed_at :=
        (if flt_closed_at r = None \<and> button_state b \<in> {FltResolved, FltClosed} then Some (now e) else flt_closed_at r)\<rparr>)"
    by blast
  have spec: "r\<lparr>flt_state := button_state b, flt_closed_at :=
        (if flt_closed_at r = None \<and> button_state b \<in> {FltResolved, FltClosed} then Some (now e) else flt_closed_at r)\<rparr>
      = press_spec eb r"
    by (cases b) (simp_all add: press_spec_def Pair button_state_def)
  have row: "tget (faults (s\<lparr>faults := u\<rparr>)) i = Some (press_spec eb r)" using u unfolding spec by simp
  note send = flt_send_returns [OF row, of e]
  show ?thesis
  proof (cases b)
    case ButtonResolve
    have "flt_closed_at (press_spec eb r) \<noteq> None" by (simp add: press_spec_def Pair ButtonResolve)
    with send [of "''isp_core.mail_template_fault_resolved''"] row w show ?thesis
      by (auto simp: Pair ButtonResolve flt_action_resolve_def button_state_def run_simps)
  next
    case ButtonClose
    have "flt_closed_at (press_spec eb r) \<noteq> None" by (simp add: press_spec_def Pair ButtonClose)
    with send [of "''isp_core.mail_template_fault_closed''"] row w show ?thesis
      by (auto simp: Pair ButtonClose flt_action_close_def button_state_def run_simps)
  qed (use row w in \<open>auto simp: Pair flt_action_start_def flt_action_waiting_def button_state_def run_simps\<close>)
qed

lemma press_all_refines:
  assumes "tget (faults s) i = Some r" and "flt_partner_id r \<noteq> None"
  shows "\<exists>s'. for_each (press i) history s = (Inr (), s') \<and>
    tget (faults s') i = Some (fold press_spec history r)"
  using assms
proof (induction history arbitrary: s r)
  case (Cons eb history)
  from press_refines [OF Cons.prems, of eb] obtain t where
      one: "press i eb s = (Inr (), t)" "tget (faults t) i = Some (press_spec eb r)" by blast
  moreover have "flt_partner_id (press_spec eb r) \<noteq> None" using Cons.prems(2) by (simp add: press_spec_def)
  ultimately show ?case using Cons.IH [OF one(2)] by (auto simp: run_simps)
qed (simp add: run_simps)

lemma closed_at_fold:
  "flt_closed_at (fold press_spec history r) = (case flt_closed_at r of
     Some t \<Rightarrow> Some t
   | None \<Rightarrow> (case filter (\<lambda>(e, b). b \<in> {ButtonResolve, ButtonClose}) history of
       [] \<Rightarrow> None | eb # ebs \<Rightarrow> Some (now (fst eb))))"
proof (induction history arbitrary: r)
  case (Cons eb history)
  then show ?case
    by (cases "flt_closed_at r"; cases eb) (auto simp: press_spec_def split: list.split)
qed (simp split: option.split)

lemma opened_at_fold: "flt_opened_at (fold press_spec history r) = flt_opened_at r"
  by (induction history arbitrary: r) (simp_all add: press_spec_def)

text \<open>C32. Over any sequence of the ticket's buttons, pressed at any times: the buttons never fail,
  the closing time of an open ticket is the time of the first Resolve or Close, and it is never
  replaced - a ticket that is started again and resolved later still reports the resolution time
  of its first resolution.\<close>

theorem resolution_time_is_first:
  assumes "tget (faults s) i = Some r" and "flt_partner_id r \<noteq> None"
    and "flt_opened_at r = Some t0" and "flt_closed_at r = None"
    and "\<forall>eb\<in>set before. snd eb \<in> {ButtonStart, ButtonWaiting}"
    and "snd eb \<in> {ButtonResolve, ButtonClose}"
  shows "\<exists>s' r'. for_each (press i) (before @ eb # after) s = (Inr (), s') \<and> tget (faults s') i = Some r' \<and>
    flt_closed_at r' = Some (now (fst eb)) \<and>
    resolution_time_hours r' = of_int (now (fst eb) - t0) / 3600"
proof -
  let ?h = "before @ eb # after"
  have none: "filter (\<lambda>(e, b). b \<in> {ButtonResolve, ButtonClose}) before = []"
    using assms(5) by (auto simp: filter_empty_conv)
  have "filter (\<lambda>(e, b). b \<in> {ButtonResolve, ButtonClose}) ?h =
      eb # filter (\<lambda>(e, b). b \<in> {ButtonResolve, ButtonClose}) after"
    unfolding filter_append none using assms(6) by (cases eb) auto
  then have "flt_closed_at (fold press_spec ?h r) = Some (now (fst eb))"
    unfolding closed_at_fold assms(4) by simp
  moreover have "flt_opened_at (fold press_spec ?h r) = Some t0"
    unfolding opened_at_fold by (rule assms(3))
  ultimately show ?thesis
    using press_all_refines [OF assms(1,2), of ?h] by (auto simp: resolution_time_hours_def)
qed

theorem resolution_time_is_first_witness:
  "\<exists>s' r'. for_each (press 1) [(plain_env\<lparr>now := 3600\<rparr>, ButtonStart), (plain_env\<lparr>now := 7200\<rparr>, ButtonResolve),
       (plain_env\<lparr>now := 8000\<rparr>, ButtonStart), (plain_env\<lparr>now := 90000\<rparr>, ButtonClose)]
     (blank_sys\<lparr>faults := [(1, flt_default\<lparr>flt_partner_id := Some 1, flt_opened_at := Some 0\<rparr>)]\<rparr>) = (Inr (), s') \<and>
   tget (faults s') 1 = Some r' \<and> flt_closed_at r' = Some 7200 \<and> resolution_time_hours r' = 2"
  using resolution_time_is_first [of "blank_sys\<lparr>faults := [(1, flt_default\<lparr>flt_partner_id := Some 1, flt_opened_at := Some 0\<rparr>)]\<rparr>"
      1 "flt_default\<lparr>flt_partner_id := Some 1, flt_opened_at := Some 0\<rparr>" 0 "[(plain_env\<lparr>now := 3600\<rparr>, ButtonStart)]"
      "(plain_env\<lparr>now := 7200\<rparr>, ButtonResolve)" "[(plain_env\<lparr>now := 8000\<rparr>, ButtonStart), (plain_env\<lparr>now := 90000\<rparr>, ButtonClose)]"]
  by (simp add: tget_def flt_default_def)

end
