(* ===== verification/Transfer_Payment.thy ===== *)
theory Transfer_Payment
  imports Fault_Ticket
begin

text \<open>
  Bank transfer payments (\<open>isp_billing/models/bank_transfer_payment.py\<close>): \<open>create\<close>
  and \<open>write\<close> with the attachment constraint, the review deadlines, the three buttons, the
  booking of the payment in accounting, and the cron job that flags late reviews. What the
  accounting application answers is a function of the operations asked of it so far.
\<close>

datatype trf_val =
    T_name string
  | T_partner_id "nat option"
  | T_subscription_id "nat option"
  | T_invoice_ids "nat list"
  | T_bank_name string
  | T_reference string
  | T_amount rat
  | T_transfer_datetime "int option"
  | T_attachment_ids "nat list"
  | T_state transfer_state
  | T_reviewer_id "nat option"
  | T_review_deadline "int option"
  | T_attention_deadline "int option"
  | T_rejection_reason "string option"
  | T_accounting_payment_id "nat option"
  | T_needs_attention bool

fun trf_field :: "trf_val \<Rightarrow> string" where
  "trf_field (T_name x) = ''name''"
| "trf_field (T_partner_id x) = ''partner_id''"
| "trf_field (T_subscription_id x) = ''subscription_id''"
| "trf_field (T_invoice_ids x) = ''invoice_ids''"
| "trf_field (T_bank_name x) = ''bank_name''"
| "trf_field (T_reference x) = ''reference''"
| "trf_field (T_amount x) = ''amount''"
| "trf_field (T_transfer_datetime x) = ''transfer_datetime''"
| "trf_field (T_attachment_ids x) = ''attachment_ids''"
| "trf_field (T_state x) = ''state''"
| "trf_field (T_reviewer_id x) = ''reviewer_id''"
| "trf_field (T_review_deadline x) = ''review_deadline''"
| "trf_field (T_attention_deadline x) = ''attention_deadline''"
| "trf_field (T_rejection_reason x) = ''rejection_reason''"
| "trf_field (T_accounting_payment_id x) = ''accounting_payment_id''"
| "trf_field (T_needs_attention x) = ''needs_attention''"

fun trf_set :: "trf_val \<Rightarrow> transfer_payment \<Rightarrow> transfer_payment" where
  "trf_set (T_name x) r = r\<lparr>trf_name := x\<rparr>"
| "trf_set (T_partner_id x) r = r\<lparr>trf_partner_id := x\<rparr>"
| "trf_set (T_subscription_id x) r = r\<lparr>trf_subscription_id := x\<rparr>"
| "trf_set (T_invoice_ids x) r = r\<lparr>trf_invoice_ids := x\<rparr>"
| "trf_set (T_bank_name x) r = r\<lparr>trf_bank_name := x\<rparr>"
| "trf_set (T_reference x) r = r\<lparr>trf_reference := x\<rparr>"
| "trf_set (T_amount x) r = r\<lparr>trf_amount := x\<rparr>"
| "trf_set (T_transfer_datetime x) r = r\<lparr>trf_transfer_datetime := x\<rparr>"
| "trf_set (T_attachment_ids x) r = r\<lparr>trf_attachment_ids := x\<rparr>"
| "trf_set (T_state x) r = r\<lparr>trf_state := x\<rparr>"
| "trf_set (T_reviewer_id x) r = r\<lparr>trf_reviewer_id := x\<rparr>"
| "trf_set (T_review_deadline x) r = r\<lparr>trf_review_deadline := x\<rparr>"
| "trf_set (T_attention_deadline x) r = r\<lparr>trf_attention_deadline := x\<rparr>"
| "trf_set (T_rejection_reason x) r = r\<lparr>trf_rejection_reason := x\<rparr>"
| "trf_set (T_accounting_payment_id x) r = r\<lparr>trf_accounting_payment_id := x\<rparr>"
| "trf_set (T_needs_attention x) r = r\<lparr>trf_needs_attention := x\<rparr>"

text \<open>The defaults of a new row; the company's currency is the one of the environment.\<close>

definition trf_default :: "env \<Rightarrow> nat option \<Rightarrow> transfer_payment" where
  "trf_default e currency =
     \<lparr>trf_name = ''New'', trf_partner_id = None, trf_subscription_id = None, trf_invoice_ids = [],
      trf_bank_name = [], trf_reference = [], trf_amount = 0, trf_currency_id = currency,
      trf_transfer_datetime = Some (now e), trf_attachment_ids = [], trf_state = TrfDraft,
      trf_reviewer_id = None, trf_review_deadline = None, trf_attention_deadline = None,
      trf_rejection_reason = None, trf_accounting_payment_id = None, trf_needs_attention = False\<rparr>"

section \<open>Constraint, write and create\<close>

definition check_attachments :: "nat list \<Rightarrow> unit op" where
  "check_attachments ids = for_each (\<lambda>i. bnd (rd transfers i) (\<lambda>r.
     assert_that (\<not> (trf_state r \<noteq> TrfDraft \<and> trf_attachment_ids r = []))
       (ValidationError ''Transfer payments require at least one attachment.''))) ids"

definition trf_not_null :: "nat list \<Rightarrow> unit op" where
  "trf_not_null ids = for_each (\<lambda>i. bnd (rd transfers i) (\<lambda>r.
     assert_that (trf_partner_id r \<noteq> None) (IntegrityError ''null value in a required column''))) ids"

definition trf_validate :: "string list \<Rightarrow> nat list \<Rightarrow> unit op" where
  "trf_validate written ids = do_if (triggered written [''state'', ''attachment_ids'']) (check_attachments ids)"

definition trf_write :: "nat \<Rightarrow> trf_val list \<Rightarrow> unit op" where
  "trf_write i vs =
     bnd (rd transfers i) (\<lambda>_.
     andthen (modify (\<lambda>s. s\<lparr>transfers := tupd i (fold trf_set vs) (transfers s)\<rparr>))
    (andthen (trf_not_null [i])
    (trf_validate (map trf_field vs) [i])))"

definition set_review_deadline :: "env \<Rightarrow> nat list \<Rightarrow> unit op" where
  "set_review_deadline e ids =
     bnd (int_param e ''isp_billing.transfer_review_hours'' ''48'') (\<lambda>review_hours.
     bnd (int_param e ''isp_billing.transfer_attention_hours'' ''24'') (\<lambda>attention_hours.
     for_each (\<lambda>i. bnd (rd transfers i) (\<lambda>r.
       let base_dt = (case trf_transfer_datetime r of None \<Rightarrow> now e | Some d \<Rightarrow> d)
       in andthen (trf_write i [T_review_deadline (Some (base_dt + review_hours * 3600))])
                  (trf_write i [T_attention_deadline (Some (base_dt + attention_hours * 3600))]))) ids))"

definition trf_prepare :: "env \<Rightarrow> nat option \<Rightarrow> trf_val list \<Rightarrow> trf_val list op" where
  "trf_prepare e currency vs =
     (if trf_name (fold trf_set vs (trf_default e currency)) = ''New''
      then bnd (next_by_code e ''isp.bank.transfer.payment'' ''BTP'') (\<lambda>n. ret (vs @ [T_name n]))
      else ret vs)"

definition trf_insert :: "env \<Rightarrow> nat option \<Rightarrow> trf_val list \<Rightarrow> nat op" where
  "trf_insert e currency vs = (\<lambda>s. (Inr (fresh_id (transfers s)),
     s\<lparr>transfers := tins (fold trf_set vs (trf_default e currency)) (transfers s)\<rparr>))"

definition trf_create :: "env \<Rightarrow> nat option \<Rightarrow> trf_val list list \<Rightarrow> nat list op" where
  "trf_create e currency vals_list =
     bnd (map_each (trf_prepare e currency) vals_list) (\<lambda>vals_list.
     bnd (map_each (trf_insert e currency) vals_list) (\<lambda>ids.
     andthen (trf_not_null ids)
    (andthen (trf_validate (concat (map (map trf_field) vals_list) @
        [''name'', ''currency_id'', ''transfer_datetime'', ''state'', ''needs_attention'']) ids)
    (andthen (for_each (\<lambda>i. set_review_deadline e [i]) ids)
    (ret ids)))))"

section \<open>Buttons\<close>

definition trf_log :: "env \<Rightarrow> nat \<Rightarrow> string \<Rightarrow> string \<Rightarrow> unit op" where
  "trf_log e i action prefix = bnd (rd transfers i) (\<lambda>r.
     log_action e action (Some (''isp.bank.transfer.payment'', i, trf_name r)) (prefix @ trf_name r))"

definition trf_send :: "env \<Rightarrow> nat \<Rightarrow> string \<Rightarrow> unit op" where
  "trf_send e i xmlid = bnd (rd transfers i) (\<lambda>r. send_template e xmlid i (trf_partner_id r))"

definition trf_action_submit :: "env \<Rightarrow> nat list \<Rightarrow> unit op" where
  "trf_action_submit e ids = for_each (\<lambda>i.
     andthen (set_review_deadline e [i])
    (andthen (trf_write i [T_state TrfInReview])
    (andthen (trf_log e i ''transfer_submitted'' ''Transfer submitted '')
    (trf_send e i ''isp_billing.mail_template_transfer_submitted'')))) ids"

definition trf_action_reject :: "env \<Rightarrow> nat list \<Rightarrow> unit op" where
  "trf_action_reject e ids = for_each (\<lambda>i. bnd (rd transfers i) (\<lambda>r.
     if \<not> set_str (trf_rejection_reason r) then raise (ValidationError ''Rejection reason is required.'')
     else andthen (trf_write i [T_state TrfRejected])
         (andthen (trf_write i [T_reviewer_id (Some (env_user e))])
         (andthen (trf_log e i ''transfer_rejected'' ''Transfer rejected '')
         (trf_send e i ''isp_billing.mail_template_transfer_rejected''))))) ids"

text \<open>The accounting operation a transfer asks for, on journal \<open>j\<close>.\<close>

definition payment_op :: "env \<Rightarrow> transfer_payment \<Rightarrow> nat \<Rightarrow> acct_op" where
  "payment_op e r j =
     (if trf_invoice_ids r \<noteq> [] then RegisterPayments (trf_invoice_ids r) (trf_amount r) j (today_ctx e)
      else PostPayment (trf_partner_id r) (trf_amount r) (trf_currency_id r) j (method_line e)
             (today_ctx e) (trf_reference r))"

text \<open>\<open>wizard._create_payments()\<close>, or \<open>create\<close> and \<open>action_post\<close>: the payments made.\<close>

definition book_payment :: "env \<Rightarrow> acct_op \<Rightarrow> nat list op" where
  "book_payment e p =
     andthen (modify (\<lambda>s. s\<lparr>acct := acct s @ [p]\<rparr>))
      (bnd (gets acct) (\<lambda>ops.
       case p of
         RegisterPayments is a j d \<Rightarrow>
           (case wizard_payments e ops of Inl x \<Rightarrow> raise x | Inr payments \<Rightarrow> ret payments)
       | PostPayment pa a c j m d t \<Rightarrow>
           (case posted_payment e ops of Inl x \<Rightarrow> raise x | Inr payment \<Rightarrow> ret [payment])))"

definition create_and_apply_payment :: "env \<Rightarrow> nat list \<Rightarrow> unit op" where
  "create_and_apply_payment e ids = for_each (\<lambda>i. bnd (rd transfers i) (\<lambda>r.
     if trf_accounting_payment_id r \<noteq> None then trf_write i [T_state TrfApplied]
     else (case journal e of
         None \<Rightarrow> raise (ValidationError ''No suitable journal found for inbound payments.'')
       | Some j \<Rightarrow>
           bnd (book_payment e (payment_op e r j)) (\<lambda>payments.
           andthen (case payments of [] \<Rightarrow> ret ()
                    | p # ps \<Rightarrow> trf_write i [T_accounting_payment_id (Some p)])
           (trf_write i [T_state TrfApplied]))))) ids"

definition trf_action_approve :: "env \<Rightarrow> nat list \<Rightarrow> unit op" where
  "trf_action_approve e ids = for_each (\<lambda>i.
     andthen (trf_write i [T_reviewer_id (Some (env_user e))])
    (andthen (trf_write i [T_state TrfApproved])
    (andthen (create_and_apply_payment e [i])
    (andthen (trf_log e i ''transfer_approved'' ''Transfer approved '')
    (trf_send e i ''isp_billing.mail_template_transfer_approved''))))) ids"

section \<open>Cron\<close>

definition review_late :: "env \<Rightarrow> transfer_payment \<Rightarrow> bool" where
  "review_late e r = (trf_state r = TrfInReview \<and>
     (case trf_attention_deadline r of None \<Rightarrow> False | Some d \<Rightarrow> d \<le> now e))"

definition cron_transfer_deadlines :: "env \<Rightarrow> unit op" where
  "cron_transfer_deadlines e =
     bnd (gets (\<lambda>s. rev (sort (search_ids (\<lambda>_ r. review_late e r) (transfers s))))) (\<lambda>ids.
       for_each (\<lambda>i. trf_write i [T_needs_attention True]) ids)"

end
