(* ===== verification/Transfer_Facts.thy ===== *)
theory Transfer_Facts
  imports Transfer_Payment
begin

text \<open>
  Properties of the transfer payments: the attachment constraint as an invariant, the deadlines
  of a submitted transfer, what approving books in accounting and how often, and what the missing
  state guards allow.
\<close>

section \<open>Writes\<close>

definition trf_good :: "transfer_payment \<Rightarrow> bool" where
  "trf_good r \<longleftrightarrow> trf_partner_id r \<noteq> None \<and> (trf_state r \<noteq> TrfDraft \<longrightarrow> trf_attachment_ids r \<noteq> [])"

definition transfers_ok :: "sys \<Rightarrow> bool" where
  "transfers_ok s \<longleftrightarrow> (\<forall>j r. tget (transfers s) j = Some r \<longrightarrow> trf_good r)"

lemma check_attachments_ok [check_simps]:
  "check_attachments ids s = (Inr (), s') \<longleftrightarrow>
     (\<forall>i\<in>set ids. \<exists>r. tget (transfers s) i = Some r \<and>
        (trf_state r \<noteq> TrfDraft \<longrightarrow> trf_attachment_ids r \<noteq> [])) \<and> s' = s"
  unfolding check_attachments_def
  by (rule for_each_check) (auto simp: run_simps assert_that_ok split: option.splits)

lemma trf_not_null_ok [check_simps]:
  "trf_not_null ids s = (Inr (), s') \<longleftrightarrow>
     (\<forall>i\<in>set ids. \<exists>r. tget (transfers s) i = Some r \<and> trf_partner_id r \<noteq> None) \<and> s' = s"
  unfolding trf_not_null_def
  by (rule for_each_check) (auto simp: run_simps assert_that_ok split: option.splits)

lemma frame_attachments:
  assumes "\<not> triggered (map trf_field vs) [''state'', ''attachment_ids'']"
  shows "(trf_state (fold trf_set vs r), trf_attachment_ids (fold trf_set vs r)) =
     (trf_state r, trf_attachment_ids r)"
proof -
  have "\<forall>v\<in>set vs. trf_field v \<notin> {''state'', ''attachment_ids''}"
    using not_triggered [OF assms] by simp
  then show ?thesis
  proof (induction vs arbitrary: r)
    case (Cons v vs)
    then show ?case by (cases v) simp_all
  qed simp
qed

text \<open>A write of good values returns, and it stores exactly them.\<close>

lemma trf_write_row:
  assumes "tget (transfers s) i = Some r" and "trf_good (fold trf_set vs r)"
  shows "\<exists>u. trf_write i vs s = (Inr (), s\<lparr>transfers := u\<rparr>) \<and> tget u i = Some (fold trf_set vs r) \<and>
    (\<forall>j. j \<noteq> i \<longrightarrow> tget u j = tget (transfers s) j)"
proof -
  let ?s = "s\<lparr>transfers := tupd i (fold trf_set vs) (transfers s)\<rparr>"
  have "trf_not_null [i] ?s = (Inr (), ?s)" "check_attachments [i] ?s = (Inr (), ?s)"
    using assms by (simp_all add: check_simps tbl.look_upd trf_good_def)
  then have "trf_write i vs s = (Inr (), ?s)"
    using assms(1) by (simp add: trf_write_def trf_validate_def run_simps)
  with assms(1) show ?thesis by (auto simp: tbl.look_upd)
qed

lemma trf_write_ok:
  assumes "trf_write i vs s = (Inr (), s')"
  shows "s' = s\<lparr>transfers := tupd i (fold trf_set vs) (transfers s)\<rparr>"
    and "\<exists>r. tget (transfers s) i = Some r \<and> trf_partner_id (fold trf_set vs r) \<noteq> None \<and>
      (triggered (map trf_field vs) [''state'', ''attachment_ids''] \<longrightarrow> trf_good (fold trf_set vs r))"
proof -
  let ?s = "s\<lparr>transfers := tupd i (fold trf_set vs) (transfers s)\<rparr>"
  from assms obtain r t where r: "tget (transfers s) i = Some r" and n: "trf_not_null [i] ?s = (Inr (), t)"
      and v: "trf_validate (map trf_field vs) [i] t = (Inr (), s')"
    by (auto simp: trf_write_def rd_run modify_run elim!: bnd_ok andthen_ok split: option.splits)
  have t: "t = ?s" using n by (simp add: check_simps)
  show s': "s' = ?s"
    using v t by (auto simp: trf_validate_def do_if_check check_simps split: if_splits)
  show "\<exists>r. tget (transfers s) i = Some r \<and> trf_partner_id (fold trf_set vs r) \<noteq> None \<and>
      (triggered (map trf_field vs) [''state'', ''attachment_ids''] \<longrightarrow> trf_good (fold trf_set vs r))"
    using r n v unfolding t
    by (auto simp: check_simps trf_validate_def do_if_check tbl.look_upd trf_good_def split: if_splits)
qed

interpretation trf_rows: checked_rows "\<lambda>s. tget (transfers s)" trf_write trf_good
proof unfold_locales
  fix i vs s s' j
  assume w: "trf_write i vs s = (Inr (), s')"
  show "tget (transfers s') j = tget (transfers s) j" if "j \<noteq> i"
    using trf_write_ok(1) [OF w] that by (simp add: tbl.upd_other)
  fix r'
  assume r': "tget (transfers s') i = Some r'" and old: "\<And>r. tget (transfers s) i = Some r \<Longrightarrow> trf_good r"
  from trf_write_ok(2) [OF w] obtain r where r: "tget (transfers s) i = Some r"
      "trf_partner_id (fold trf_set vs r) \<noteq> None"
      "triggered (map trf_field vs) [''state'', ''attachment_ids''] \<longrightarrow> trf_good (fold trf_set vs r)" by blast
  have "r' = fold trf_set vs r" using trf_write_ok(1) [OF w] r' r(1) by (simp add: tbl.look_upd)
  then show "trf_good r'"
    using r old [OF r(1)] frame_attachments [of vs r] by (auto simp: trf_good_def)
qed

lemma keeps_trf_write [keeps_intros]: "keeps transfers_ok (trf_write i vs)"
  unfolding transfers_ok_def by (rule trf_rows.keeps_wr)

section \<open>Deadlines\<close>

lemma deadlines_row:
  assumes "tget (transfers s) i = Some r" and "trf_good r"
    and "py_int (param_or e ''isp_billing.transfer_review_hours'' ''48'') = Some rh"
    and "py_int (param_or e ''isp_billing.transfer_attention_hours'' ''24'') = Some ah"
  shows "\<exists>u. set_review_deadline e [i] s = (Inr (), s\<lparr>transfers := u\<rparr>) \<and>
    tget u i = Some (let base = (case trf_transfer_datetime r of None \<Rightarrow> now e | Some d \<Rightarrow> d)
      in r\<lparr>trf_review_deadline := Some (base + rh * 3600), trf_attention_deadline := Some (base + ah * 3600)\<rparr>) \<and>
    (\<forall>j. j \<noteq> i \<longrightarrow> tget u j = tget (transfers s) j)"
proof -
  define base where "base = (case trf_transfer_datetime r of None \<Rightarrow> now e | Some d \<Rightarrow> d)"
  from trf_write_row [OF assms(1), of "[T_review_deadline (Some (base + rh * 3600))]"] assms(2)
  obtain u where one: "trf_write i [T_review_deadline (Some (base + rh * 3600))] s = (Inr (), s\<lparr>transfers := u\<rparr>)"
      and u: "tget u i = Some (r\<lparr>trf_review_deadline := Some (base + rh * 3600)\<rparr>)"
        "\<forall>j. j \<noteq> i \<longrightarrow> tget u j = tget (transfers s) j"
    by (auto simp: trf_good_def)
  from trf_write_row [of "s\<lparr>transfers := u\<rparr>" i, OF _, of "r\<lparr>trf_review_deadline := Some (base + rh * 3600)\<rparr>"
      "[T_attention_deadline (Some (base + ah * 3600))]"] u(1) assms(2)
  obtain w where two: "trf_write i [T_attention_deadline (Some (base + ah * 3600))] (s\<lparr>transfers := u\<rparr>) =
       (Inr (), s\<lparr>transfers := w\<rparr>)"
      and w: "tget w i = Some (r\<lparr>trf_review_deadline := Some (base + rh * 3600),
          trf_attention_deadline := Some (base + ah * 3600)\<rparr>)"
        "\<forall>j. j \<noteq> i \<longrightarrow> tget w j = tget u j"
    by (auto simp: trf_good_def)
  have "set_review_deadline e [i] s = (Inr (), s\<lparr>transfers := w\<rparr>)"
    using assms(1,3,4) one two
    by (simp add: set_review_deadline_def int_param_def run_simps base_def [symmetric] Let_def)
  with w u show ?thesis by (auto simp: base_def Let_def)
qed

lemma trf_tail_returns:
  assumes "tget (transfers s) i = Some r"
  shows "\<exists>a m. andthen (trf_log e i act p) (trf_send e i x) s = (Inr (), s\<lparr>audits := a, outbox := m\<rparr>)"
proof -
  let ?s = "s\<lparr>audits := tins (audit_row e act (Some (''isp.bank.transfer.payment'', i, trf_name r))
    (p @ trf_name r)) (audits s)\<rparr>"
  obtain m where "send_template e x i (trf_partner_id r) ?s = (Inr (), ?s\<lparr>outbox := m\<rparr>)"
    using send_template_returns by blast
  with assms show ?thesis by (auto simp: trf_log_def trf_send_def run_simps)
qed

lemma trf_submit_effect:
  assumes "tget (transfers s) i = Some r" and "trf_good r" and "trf_attachment_ids r \<noteq> []"
    and "py_int (param_or e ''isp_billing.transfer_review_hours'' ''48'') = Some rh"
    and "py_int (param_or e ''isp_billing.transfer_attention_hours'' ''24'') = Some ah"
  shows "\<exists>s'. trf_action_submit e [i] s = (Inr (), s') \<and> acct s' = acct s \<and>
    (\<forall>j. tget (transfers s') j = (if j = i then Some (
       let base = (case trf_transfer_datetime r of None \<Rightarrow> now e | Some d \<Rightarrow> d)
       in r\<lparr>trf_review_deadline := Some (base + rh * 3600), trf_attention_deadline := Some (base + ah * 3600),
            trf_state := TrfInReview\<rparr>)
     else tget (transfers s) j))"
proof -
  define base where "base = (case trf_transfer_datetime r of None \<Rightarrow> now e | Some d \<Rightarrow> d)"
  let ?r = "r\<lparr>trf_review_deadline := Some (base + rh * 3600), trf_attention_deadline := Some (base + ah * 3600)\<rparr>"
  from deadlines_row [OF assms(1,2,4,5)] obtain u where
      dl: "set_review_deadline e [i] s = (Inr (), s\<lparr>transfers := u\<rparr>)" and u: "tget u i = Some ?r"
      "\<forall>j. j \<noteq> i \<longrightarrow> tget u j = tget (transfers s) j"
    unfolding base_def Let_def by blast
  from trf_write_row [of "s\<lparr>transfers := u\<rparr>" i ?r "[T_state TrfInReview]"] u(1) assms(2,3)
  obtain w where wr: "trf_write i [T_state TrfInReview] (s\<lparr>transfers := u\<rparr>) = (Inr (), s\<lparr>transfers := w\<rparr>)"
      and w: "tget w i = Some (?r\<lparr>trf_state := TrfInReview\<rparr>)" "\<forall>j. j \<noteq> i \<longrightarrow> tget w j = tget u j"
    by (auto simp: trf_good_def)
  from trf_tail_returns [of "s\<lparr>transfers := w\<rparr>" i _ e "''transfer_submitted''" "''Transfer submitted ''"
      "''isp_billing.mail_template_transfer_submitted''"] w(1)
  obtain a m where tail: "andthen (trf_log e i ''transfer_submitted'' ''Transfer submitted '')
      (trf_send e i ''isp_billing.mail_template_transfer_submitted'') (s\<lparr>transfers := w\<rparr>) =
      (Inr (), s\<lparr>transfers := w, audits := a, outbox := m\<rparr>)"
    by auto
  have "trf_action_submit e [i] s = (Inr (), s\<lparr>transfers := w, audits := a, outbox := m\<rparr>)"
    using dl wr tail by (simp add: trf_action_submit_def andthen_run ret_run)
  with u w show ?thesis by (auto simp: base_def Let_def)
qed

text \<open>Submitting a transfer that has an attachment, whatever its state was: it goes into review
  with deadlines counted from the date of the transfer (from now, if it has none) in the hours
  that the two parameters give, 48 and 24 by default; nothing is booked.\<close>

theorem transfer_submit_deadlines:
  assumes "tget (transfers s) i = Some r" and "trf_good r" and "trf_attachment_ids r \<noteq> []"
    and "py_int (param_or e ''isp_billing.transfer_review_hours'' ''48'') = Some rh"
    and "py_int (param_or e ''isp_billing.transfer_attention_hours'' ''24'') = Some ah"
  shows "\<exists>s'. trf_action_submit e [i] s = (Inr (), s') \<and> acct s' = acct s \<and>
    (\<forall>j. tget (transfers s') j = (if j = i then Some (
       let base = (case trf_transfer_datetime r of None \<Rightarrow> now e | Some d \<Rightarrow> d)
       in r\<lparr>trf_review_deadline := Some (base + rh * 3600), trf_attention_deadline := Some (base + ah * 3600),
            trf_state := TrfInReview\<rparr>)
     else tget (transfers s) j))"
  by (rule trf_submit_effect [OF assms])

definition demo_transfer :: transfer_payment where
  "demo_transfer = (trf_default plain_env None)\<lparr>trf_name := ''BTP1'', trf_partner_id := Some 1,
     trf_bank_name := ''B'', trf_reference := ''R'', trf_amount := 25, trf_attachment_ids := [7],
     trf_rejection_reason := Some ''duplicate''\<rparr>"

definition demo_trf_sys :: sys where
  "demo_trf_sys = blank_sys\<lparr>transfers := [(1, demo_transfer)]\<rparr>"

lemma demo_transfer_facts:
  "tget (transfers demo_trf_sys) i = (if i = 1 then Some demo_transfer else None)"
  "trf_good demo_transfer" "trf_attachment_ids demo_transfer = [7]"
  "trf_transfer_datetime demo_transfer = Some 0" "trf_accounting_payment_id demo_transfer = None"
  "trf_invoice_ids demo_transfer = []" "acct demo_trf_sys = []"
  by (simp_all add: demo_trf_sys_def demo_transfer_def tget_def trf_good_def trf_default_def
      plain_env_def blank_sys_def)

theorem transfer_submit_deadlines_witness:
  "\<exists>s' r'. trf_action_submit plain_env [1] demo_trf_sys = (Inr (), s') \<and>
     tget (transfers s') 1 = Some r' \<and> trf_state r' = TrfInReview \<and>
     trf_review_deadline r' = Some 172800 \<and> trf_attention_deadline r' = Some 86400"
proof -
  have "py_int (param_or plain_env ''isp_billing.transfer_review_hours'' ''48'') = Some 48"
    "py_int (param_or plain_env ''isp_billing.transfer_attention_hours'' ''24'') = Some 24"
    by (simp_all add: param_or_def plain_env_def py_int_def py_strip_def is_space_def digit_val_def digit_chars_def)
  from transfer_submit_deadlines [of demo_trf_sys 1 demo_transfer, OF _ _ _ this] show ?thesis
    by (auto simp: demo_transfer_facts)
qed

section \<open>Booking\<close>

text \<open>What accounting answers to operation \<open>p\<close> as the last of \<open>ops\<close>.\<close>

definition booked :: "env \<Rightarrow> acct_op list \<Rightarrow> acct_op \<Rightarrow> exc + nat list" where
  "booked e ops p = (case p of
     RegisterPayments is a j d \<Rightarrow> wizard_payments e ops
   | PostPayment pa a c j m d t \<Rightarrow> map_sum id (\<lambda>x. [x]) (posted_payment e ops))"

lemma book_payment_run:
  "book_payment e p s = (booked e (acct s @ [p]) p, s\<lparr>acct := acct s @ [p]\<rparr>)"
  by (cases p) (auto simp: book_payment_def run_simps booked_def split: sum.split)

lemma payment_op_cong:
  "payment_op e (r\<lparr>trf_state := x, trf_reviewer_id := y\<rparr>) j = payment_op e r j"
  by (simp add: payment_op_def)

lemma approve_first_writes:
  assumes "tget (transfers s) i = Some r" and "trf_good r" and "trf_attachment_ids r \<noteq> []"
  shows "\<exists>u. andthen (trf_write i [T_reviewer_id (Some v)]) (trf_write i [T_state TrfApproved]) s =
      (Inr (), s\<lparr>transfers := u\<rparr>) \<and>
    tget u i = Some (r\<lparr>trf_reviewer_id := Some v, trf_state := TrfApproved\<rparr>)"
proof -
  from trf_write_row [OF assms(1), of "[T_reviewer_id (Some v)]"] assms(2) obtain u where
      one: "trf_write i [T_reviewer_id (Some v)] s = (Inr (), s\<lparr>transfers := u\<rparr>)"
      and u: "tget u i = Some (r\<lparr>trf_reviewer_id := Some v\<rparr>)"
    by (auto simp: trf_good_def)
  from trf_write_row [of "s\<lparr>transfers := u\<rparr>" i "r\<lparr>trf_reviewer_id := Some v\<rparr>" "[T_state TrfApproved]"] u assms(2,3)
  show ?thesis using one by (auto simp: trf_good_def andthen_run)
qed

lemma apply_payment_booked:
  assumes "tget (transfers s) i = Some r" and "trf_good r" and "trf_attachment_ids r \<noteq> []"
    and "trf_accounting_payment_id r = None" and "journal e = Some j"
    and "booked e (acct s @ [payment_op e r j]) (payment_op e r j) = Inr ps"
  shows "\<exists>u. create_and_apply_payment e [i] s =
      (Inr (), s\<lparr>acct := acct s @ [payment_op e r j], transfers := u\<rparr>) \<and>
    tget u i = Some (r\<lparr>trf_accounting_payment_id := (case ps of [] \<Rightarrow> None | p # _ \<Rightarrow> Some p),
      trf_state := TrfApplied\<rparr>)"
proof -
  let ?s = "s\<lparr>acct := acct s @ [payment_op e r j]\<rparr>"
  let ?pay = "case ps of [] \<Rightarrow> ret () | p # _ \<Rightarrow> trf_write i [T_accounting_payment_id (Some p)]"
  have "\<exists>u. ?pay ?s = (Inr (), ?s\<lparr>transfers := u\<rparr>) \<and>
      tget u i = Some (r\<lparr>trf_accounting_payment_id := (case ps of [] \<Rightarrow> None | p # _ \<Rightarrow> Some p)\<rparr>)"
  proof (cases ps)
    case Nil
    have "r\<lparr>trf_accounting_payment_id := None\<rparr> = r" using assms(4) by simp
    then show ?thesis using Nil assms(1) by (intro exI [of _ "transfers s"]) (simp add: run_simps)
  next
    case (Cons p qs)
    with trf_write_row [of ?s i r "[T_accounting_payment_id (Some p)]"] assms(1,2) show ?thesis
      by (auto simp: trf_good_def)
  qed
  then obtain u where pay: "?pay ?s = (Inr (), ?s\<lparr>transfers := u\<rparr>)"
      and u: "tget u i = Some (r\<lparr>trf_accounting_payment_id := (case ps of [] \<Rightarrow> None | p # _ \<Rightarrow> Some p)\<rparr>)" by blast
  from trf_write_row [of "?s\<lparr>transfers := u\<rparr>" i _ "[T_state TrfApplied]"] u assms(2,3) obtain w where
      wr: "trf_write i [T_state TrfApplied] (?s\<lparr>transfers := u\<rparr>) = (Inr (), ?s\<lparr>transfers := w\<rparr>)"
      and w: "tget w i = Some (r\<lparr>trf_accounting_payment_id := (case ps of [] \<Rightarrow> None | p # _ \<Rightarrow> Some p),
        trf_state := TrfApplied\<rparr>)"
    by (auto simp: trf_good_def)
  have "create_and_apply_payment e [i] s = (Inr (), ?s\<lparr>transfers := w\<rparr>)"
    using assms(1,4,5,6) pay wr
    by (simp add: create_and_apply_payment_def andthen_run bnd_run rd_run ret_run book_payment_run)
  with w show ?thesis by blast
qed

lemma approve_books:
  assumes "tget (transfers s) i = Some r" and "trf_good r" and "trf_attachment_ids r \<noteq> []"
    and "trf_accounting_payment_id r = None" and "journal e = Some j"
    and "booked e (acct s @ [payment_op e r j]) (payment_op e r j) = Inr ps"
  shows "\<exists>s'. trf_action_approve e [i] s = (Inr (), s') \<and> acct s' = acct s @ [payment_op e r j] \<and>
    tget (transfers s') i = Some (r\<lparr>trf_reviewer_id := Some (env_user e), trf_state := TrfApplied,
      trf_accounting_payment_id := (case ps of [] \<Rightarrow> None | p # _ \<Rightarrow> Some p)\<rparr>)"
proof -
  let ?r = "r\<lparr>trf_reviewer_id := Some (env_user e), trf_state := TrfApproved\<rparr>"
  from approve_first_writes [OF assms(1-3), of "env_user e"] obtain u where
      first: "andthen (trf_write i [T_reviewer_id (Some (env_user e))]) (trf_write i [T_state TrfApproved]) s =
        (Inr (), s\<lparr>transfers := u\<rparr>)" and u: "tget u i = Some ?r" by blast
  have op: "payment_op e ?r j = payment_op e r j" by (simp add: payment_op_def)
  from apply_payment_booked [of "s\<lparr>transfers := u\<rparr>" i ?r e j ps] u assms(2-6) op
  obtain w where pay: "create_and_apply_payment e [i] (s\<lparr>transfers := u\<rparr>) =
      (Inr (), s\<lparr>acct := acct s @ [payment_op e r j], transfers := w\<rparr>)"
      and w: "tget w i = Some (r\<lparr>trf_reviewer_id := Some (env_user e), trf_state := TrfApplied,
      trf_accounting_payment_id := (case ps of [] \<Rightarrow> None | p # _ \<Rightarrow> Some p)\<rparr>)"
    by (auto simp: trf_good_def)
  let ?t = "s\<lparr>acct := acct s @ [payment_op e r j], transfers := w\<rparr>"
  from trf_tail_returns [of ?t i _ e "''transfer_approved''" "''Transfer approved ''"
      "''isp_billing.mail_template_transfer_approved''"] w
  obtain a m where tail: "andthen (trf_log e i ''transfer_approved'' ''Transfer approved '')
      (trf_send e i ''isp_billing.mail_template_transfer_approved'') ?t = (Inr (), ?t\<lparr>audits := a, outbox := m\<rparr>)"
    by auto
  have "trf_action_approve e [i] s = (Inr (), ?t\<lparr>audits := a, outbox := m\<rparr>)"
    using first pay tail
    by (auto simp: trf_action_approve_def andthen_run ret_run split: prod.splits sum.splits)
  with w show ?thesis by simp
qed

lemma approve_paid:
  assumes "tget (transfers s) i = Some r" and "trf_good r" and "trf_attachment_ids r \<noteq> []"
    and "trf_accounting_payment_id r = Some p"
  shows "\<exists>s'. trf_action_approve e [i] s = (Inr (), s') \<and> acct s' = acct s \<and>
    tget (transfers s') i = Some (r\<lparr>trf_reviewer_id := Some (env_user e), trf_state := TrfApplied\<rparr>)"
proof -
  let ?r = "r\<lparr>trf_reviewer_id := Some (env_user e), trf_state := TrfApproved\<rparr>"
  from approve_first_writes [OF assms(1-3), of "env_user e"] obtain u where
      first: "andthen (trf_write i [T_reviewer_id (Some (env_user e))]) (trf_write i [T_state TrfApproved]) s =
        (Inr (), s\<lparr>transfers := u\<rparr>)" and u: "tget u i = Some ?r" by blast
  from trf_write_row [of "s\<lparr>transfers := u\<rparr>" i ?r "[T_state TrfApplied]"] u assms(2,3) obtain w where
      wr: "trf_write i [T_state TrfApplied] (s\<lparr>transfers := u\<rparr>) = (Inr (), s\<lparr>transfers := w\<rparr>)"
      and w: "tget w i = Some (r\<lparr>trf_reviewer_id := Some (env_user e), trf_state := TrfApplied\<rparr>)"
    by (auto simp: trf_good_def)
  from trf_tail_returns [of "s\<lparr>transfers := w\<rparr>" i _ e "''transfer_approved''" "''Transfer approved ''"
      "''isp_billing.mail_template_transfer_approved''"] w
  obtain a m where tail: "andthen (trf_log e i ''transfer_approved'' ''Transfer approved '')
      (trf_send e i ''isp_billing.mail_template_transfer_approved'') (s\<lparr>transfers := w\<rparr>) =
      (Inr (), s\<lparr>transfers := w, audits := a, outbox := m\<rparr>)"
    by auto
  have "create_and_apply_payment e [i] (s\<lparr>transfers := u\<rparr>) = (Inr (), s\<lparr>transfers := w\<rparr>)"
    using u assms(4) wr by (simp add: create_and_apply_payment_def andthen_run bnd_run rd_run ret_run)
  then have "trf_action_approve e [i] s = (Inr (), s\<lparr>transfers := w, audits := a, outbox := m\<rparr>)"
    using first tail
    by (auto simp: trf_action_approve_def andthen_run ret_run split: prod.splits sum.splits)
  with w show ?thesis by simp
qed

text \<open>C14. Approving a transfer that has an attachment and no payment yet, when accounting makes at
  least one payment: it returns, books exactly one operation - the payment wizard on the linked
  invoices, a posted customer payment when there are none - and leaves the transfer applied,
  linked to the first payment. Approving it again, by anyone at any time, books nothing.\<close>

theorem approve_books_once:
  assumes "tget (transfers s) i = Some r" and "trf_good r" and "trf_attachment_ids r \<noteq> []"
    and "trf_accounting_payment_id r = None" and "journal e = Some j"
    and "booked e (acct s @ [payment_op e r j]) (payment_op e r j) = Inr (p # ps)"
  shows "\<exists>s' s''. trf_action_approve e [i] s = (Inr (), s') \<and> acct s' = acct s @ [payment_op e r j] \<and>
    tget (transfers s') i = Some (r\<lparr>trf_reviewer_id := Some (env_user e), trf_state := TrfApplied,
      trf_accounting_payment_id := Some p\<rparr>) \<and>
    trf_action_approve e' [i] s' = (Inr (), s'') \<and> acct s'' = acct s' \<and>
    tget (transfers s'') i = Some (r\<lparr>trf_reviewer_id := Some (env_user e'), trf_state := TrfApplied,
      trf_accounting_payment_id := Some p\<rparr>)"
proof -
  from approve_books [OF assms] obtain s' where
      one: "trf_action_approve e [i] s = (Inr (), s')" "acct s' = acct s @ [payment_op e r j]"
      and row: "tget (transfers s') i = Some (r\<lparr>trf_reviewer_id := Some (env_user e), trf_state := TrfApplied,
        trf_accounting_payment_id := Some p\<rparr>)" by auto
  from approve_paid [OF row, of p e'] assms(2,3) obtain s'' where
      "trf_action_approve e' [i] s' = (Inr (), s'')" "acct s'' = acct s'"
      "tget (transfers s'') i = Some (r\<lparr>trf_reviewer_id := Some (env_user e'), trf_state := TrfApplied,
        trf_accounting_payment_id := Some p\<rparr>)"
    by (auto simp: trf_good_def)
  with one row show ?thesis by blast
qed

theorem approve_books_once_witness:
  "\<exists>s' s''. trf_action_approve plain_env [1] demo_trf_sys = (Inr (), s') \<and> length (acct s') = 1 \<and>
     trf_action_approve plain_env [1] s' = (Inr (), s'') \<and> acct s'' = acct s'"
proof -
  have "journal plain_env = Some 1" by (simp add: plain_env_def)
  moreover have "booked plain_env (acct demo_trf_sys @ [payment_op plain_env demo_transfer 1])
      (payment_op plain_env demo_transfer 1) = Inr (1 # [])"
    by (simp add: booked_def payment_op_def demo_transfer_facts plain_env_def)
  ultimately show ?thesis
    using approve_books_once [of demo_trf_sys 1 demo_transfer plain_env 1 1 "[]" plain_env]
    by (auto simp: demo_transfer_facts)
qed

text \<open>When the payment wizard returns no payment, the transfer is applied without a link to one;
  a second approval asks accounting for the same operation again.\<close>

theorem approve_without_payment_repeats:
  assumes "tget (transfers s) i = Some r" and "trf_good r" and "trf_attachment_ids r \<noteq> []"
    and "trf_accounting_payment_id r = None" and "trf_invoice_ids r \<noteq> []" and "journal e = Some j"
    and "\<And>ops. wizard_payments e ops = Inr []"
  shows "\<exists>s' s''. trf_action_approve e [i] s = (Inr (), s') \<and> trf_action_approve e [i] s' = (Inr (), s'') \<and>
    acct s'' = acct s @ [payment_op e r j, payment_op e r j] \<and>
    map_option trf_state (tget (transfers s') i) = Some TrfApplied"
proof -
  have op: "booked e (ops @ [payment_op e q j]) (payment_op e q j) = Inr []" if "trf_invoice_ids q \<noteq> []" for ops q
    using assms(7) that by (simp add: booked_def payment_op_def)
  from approve_books [OF assms(1-4,6) op [OF assms(5)]] obtain s' where
      one: "trf_action_approve e [i] s = (Inr (), s')" "acct s' = acct s @ [payment_op e r j]"
      and row: "tget (transfers s') i = Some (r\<lparr>trf_reviewer_id := Some (env_user e), trf_state := TrfApplied,
        trf_accounting_payment_id := None\<rparr>)" by auto
  let ?r = "r\<lparr>trf_reviewer_id := Some (env_user e), trf_state := TrfApplied, trf_accounting_payment_id := None\<rparr>"
  have same: "payment_op e ?r j = payment_op e r j" by (simp add: payment_op_def)
  from approve_books [OF row _ _ _ assms(6) op, of ] assms(2,3,5) same obtain s'' where
      "trf_action_approve e [i] s' = (Inr (), s'')" "acct s'' = acct s' @ [payment_op e r j]"
    by (auto simp: trf_good_def)
  with one row show ?thesis by auto
qed

theorem approve_without_payment_repeats_witness:
  "\<exists>s' s''. trf_action_approve plain_env [1] (blank_sys\<lparr>transfers := [(1, demo_transfer\<lparr>trf_invoice_ids := [4]\<rparr>)]\<rparr>) = (Inr (), s') \<and>
     trf_action_approve plain_env [1] s' = (Inr (), s'') \<and> length (acct s'') = 2"
proof -
  have "journal plain_env = Some 1" "wizard_payments plain_env ops = Inr []" for ops by (simp_all add: plain_env_def)
  moreover have "trf_good (demo_transfer\<lparr>trf_invoice_ids := [4]\<rparr>)"
    using demo_transfer_facts(2) by (simp add: trf_good_def)
  ultimately show ?thesis
    using approve_without_payment_repeats [of "blank_sys\<lparr>transfers := [(1, demo_transfer\<lparr>trf_invoice_ids := [4]\<rparr>)]\<rparr>"
        1 "demo_transfer\<lparr>trf_invoice_ids := [4]\<rparr>" plain_env 1]
    by (fastforce simp: demo_transfer_facts tget_def blank_sys_def)
qed

text \<open>Rejecting has no state guard: a transfer that was applied, its payment booked, can still
  be rejected; the payment stays booked and linked.\<close>

theorem applied_can_be_rejected:
  assumes "tget (transfers s) i = Some r" and "trf_good r" and "trf_state r = TrfApplied"
    and "trf_accounting_payment_id r = Some p" and "set_str (trf_rejection_reason r)"
  shows "\<exists>s'. trf_action_reject e [i] s = (Inr (), s') \<and> acct s' = acct s \<and>
    tget (transfers s') i = Some (r\<lparr>trf_state := TrfRejected, trf_reviewer_id := Some (env_user e)\<rparr>)"
proof -
  have att: "trf_attachment_ids r \<noteq> []" using assms(2,3) by (simp add: trf_good_def)
  from trf_write_row [OF assms(1), of "[T_state TrfRejected]"] assms(2) att obtain u where
      one: "trf_write i [T_state TrfRejected] s = (Inr (), s\<lparr>transfers := u\<rparr>)"
      and u: "tget u i = Some (r\<lparr>trf_state := TrfRejected\<rparr>)"
    by (auto simp: trf_good_def)
  from trf_write_row [of "s\<lparr>transfers := u\<rparr>" i "r\<lparr>trf_state := TrfRejected\<rparr>" "[T_reviewer_id (Some (env_user e))]"]
    u assms(2) att
  obtain w where two: "trf_write i [T_reviewer_id (Some (env_user e))] (s\<lparr>transfers := u\<rparr>) = (Inr (), s\<lparr>transfers := w\<rparr>)"
      and w: "tget w i = Some (r\<lparr>trf_state := TrfRejected, trf_reviewer_id := Some (env_user e)\<rparr>)"
    by (auto simp: trf_good_def)
  from trf_tail_returns [of "s\<lparr>transfers := w\<rparr>" i _ e "''transfer_rejected''" "''Transfer rejected ''"
      "''isp_billing.mail_template_transfer_rejected''"] w
  obtain a m where tail: "andthen (trf_log e i ''transfer_rejected'' ''Transfer rejected '')
      (trf_send e i ''isp_billing.mail_template_transfer_rejected'') (s\<lparr>transfers := w\<rparr>) =
      (Inr (), s\<lparr>transfers := w, audits := a, outbox := m\<rparr>)"
    by auto
  have "trf_action_reject e [i] s = (Inr (), s\<lparr>transfers := w, audits := a, outbox := m\<rparr>)"
    using assms(1,5) one two tail by (simp add: trf_action_reject_def andthen_run bnd_run rd_run ret_run)
  with w show ?thesis by simp
qed

theorem applied_can_be_rejected_witness:
  "\<exists>s'. trf_action_reject plain_env [1] (blank_sys\<lparr>transfers := [(1, demo_transfer\<lparr>trf_state := TrfApplied,
       trf_accounting_payment_id := Some 9\<rparr>)]\<rparr>) = (Inr (), s') \<and> acct s' = []"
  using applied_can_be_rejected [of "blank_sys\<lparr>transfers := [(1, demo_transfer\<lparr>trf_state := TrfApplied,
       trf_accounting_payment_id := Some 9\<rparr>)]\<rparr>" 1 "demo_transfer\<lparr>trf_state := TrfApplied,
       trf_accounting_payment_id := Some 9\<rparr>" 9 plain_env]
  by (auto simp: tget_def blank_sys_def trf_good_def demo_transfer_def trf_default_def set_str_def)

section \<open>The cron job\<close>

lemma flag_all:
  assumes "\<forall>i\<in>set ids. \<exists>r. tget (transfers s) i = Some r \<and> trf_good r"
  shows "\<exists>s'. for_each (\<lambda>i. trf_write i [T_needs_attention True]) ids s = (Inr (), s') \<and>
    (\<forall>j. tget (transfers s') j =
       map_option (\<lambda>r. if j \<in> set ids then r\<lparr>trf_needs_attention := True\<rparr> else r) (tget (transfers s) j))"
  using assms
proof (induction ids arbitrary: s)
  case Nil
  have "map_option (\<lambda>r. r) x = x" for x :: "transfer_payment option" by (simp add: option.map_ident)
  then show ?case by (simp add: run_simps)
next
  case (Cons i ids)
  then obtain r where r: "tget (transfers s) i = Some r" "trf_good r" by auto
  from trf_write_row [OF r(1), of "[T_needs_attention True]"] r(2) obtain u where
      one: "trf_write i [T_needs_attention True] s = (Inr (), s\<lparr>transfers := u\<rparr>)"
      and u: "tget u i = Some (r\<lparr>trf_needs_attention := True\<rparr>)" "\<forall>j. j \<noteq> i \<longrightarrow> tget u j = tget (transfers s) j"
    by (auto simp: trf_good_def)
  have "\<forall>k\<in>set ids. \<exists>q. tget (transfers (s\<lparr>transfers := u\<rparr>)) k = Some q \<and> trf_good q"
  proof
    fix k
    assume "k \<in> set ids"
    with Cons.prems obtain q where "tget (transfers s) k = Some q" "trf_good q" by auto
    with u r show "\<exists>q. tget (transfers (s\<lparr>transfers := u\<rparr>)) k = Some q \<and> trf_good q"
      by (cases "k = i") (auto simp: trf_good_def)
  qed
  from Cons.IH [OF this] obtain s' where
      run: "for_each (\<lambda>i. trf_write i [T_needs_attention True]) ids (s\<lparr>transfers := u\<rparr>) = (Inr (), s')"
      and rows: "\<And>j. tget (transfers s') j =
         map_option (\<lambda>r. if j \<in> set ids then r\<lparr>trf_needs_attention := True\<rparr> else r) (tget u j)"
    by auto
  have "tget (transfers s') j =
       map_option (\<lambda>r. if j \<in> set (i # ids) then r\<lparr>trf_needs_attention := True\<rparr> else r) (tget (transfers s) j)" for j
    using rows [of j] u r by (cases "j = i") auto
  with one run show ?case by (auto simp: andthen_run)
qed

text \<open>The cron job of the deadlines returns, flags exactly the transfers in review whose
  attention deadline has come, and changes nothing else of any transfer.\<close>

theorem cron_flags_late_reviews:
  assumes "transfers_ok s"
  shows "\<exists>s'. cron_transfer_deadlines e s = (Inr (), s') \<and> (\<forall>j. tget (transfers s') j =
    map_option (\<lambda>r. if review_late e r then r\<lparr>trf_needs_attention := True\<rparr> else r) (tget (transfers s) j))"
proof -
  define ids where "ids = rev (sort (search_ids (\<lambda>_ r. review_late e r) (transfers s)))"
  have mem: "i \<in> set ids \<longleftrightarrow> (\<exists>r. tget (transfers s) i = Some r \<and> review_late e r)" for i
    by (simp add: ids_def search_ids_iff)
  have "\<forall>i\<in>set ids. \<exists>r. tget (transfers s) i = Some r \<and> trf_good r"
    using assms by (auto simp: mem transfers_ok_def)
  from flag_all [OF this] obtain s' where run: "for_each (\<lambda>i. trf_write i [T_needs_attention True]) ids s = (Inr (), s')"
      and rows: "\<And>j. tget (transfers s') j =
         map_option (\<lambda>r. if j \<in> set ids then r\<lparr>trf_needs_attention := True\<rparr> else r) (tget (transfers s) j)"
    by blast
  have "tget (transfers s') j =
    map_option (\<lambda>r. if review_late e r then r\<lparr>trf_needs_attention := True\<rparr> else r) (tget (transfers s) j)" for j
    using rows [of j] by (cases "tget (transfers s) j") (simp_all add: mem)
  with run show ?thesis by (auto simp: cron_transfer_deadlines_def run_simps ids_def)
qed

theorem cron_flags_late_reviews_witness:
  "\<exists>s'. cron_transfer_deadlines (plain_env\<lparr>now := 90000\<rparr>) (blank_sys\<lparr>transfers := [(1, demo_transfer\<lparr>trf_state := TrfInReview,
       trf_attention_deadline := Some 86400\<rparr>)]\<rparr>) = (Inr (), s') \<and>
     map_option trf_needs_attention (tget (transfers s') 1) = Some True"
proof -
  let ?r = "demo_transfer\<lparr>trf_state := TrfInReview, trf_attention_deadline := Some 86400\<rparr>"
  have "transfers_ok (blank_sys\<lparr>transfers := [(1, ?r)]\<rparr>)"
    by (auto simp: transfers_ok_def tget_def trf_good_def demo_transfer_def split: if_splits)
  moreover have "review_late (plain_env\<lparr>now := 90000\<rparr>) ?r" by (simp add: review_late_def)
  ultimately show ?thesis
    using cron_flags_late_reviews [of "blank_sys\<lparr>transfers := [(1, ?r)]\<rparr>" "plain_env\<lparr>now := 90000\<rparr>"]
    by (fastforce simp: tget_def)
qed

end
