(* ===== verification/Billing.thy ===== *)
theory Billing
  imports Transfer_Facts
begin

text \<open>
  Billing (\<open>isp_billing/models/subscription.py\<close> and \<open>dashboard.py\<close>): invoices, the
  three cron jobs, the status shown in the portal and the dashboard's metrics. Accounting itself
  (posting, totals, the order of its moves) is in the environment.
\<close>

section \<open>Invoices\<close>

definition invoice_for :: "env \<Rightarrow> sys \<Rightarrow> nat \<Rightarrow> subscription \<Rightarrow> account_move" where
  "invoice_for e s i r =
     \<lparr>mv_move_type = OutInvoice, mv_name = None, mv_partner_id = sub_partner_id r, mv_state = MvDraft,
      mv_payment_state = NotPaid, mv_invoice_date = Some (today e), mv_invoice_date_due = Some (today e),
      mv_subscription_id = Some i, mv_line_name = via (plans s) (sub_plan_id r) [] plan_name,
      mv_price_unit = via (plans s) (sub_plan_id r) 0 plan_price_monthly,
      mv_tax_ids = via (plans s) (sub_plan_id r) [] plan_tax_ids\<rparr>"

text \<open>\<open>try: move.action_post() except Exception: pass\<close>.\<close>

definition try_post :: "env \<Rightarrow> account_move \<Rightarrow> account_move" where
  "try_post e m = (case post_move e m of None \<Rightarrow> m | Some posted \<Rightarrow> posted)"

definition generate_invoice :: "env \<Rightarrow> nat \<Rightarrow> unit op" where
  "generate_invoice e i = bnd (rd subs i) (\<lambda>r.
     if sub_partner_id r = None then ret ()
     else bnd (gets (\<lambda>s. (fresh_id (moves s), try_post e (invoice_for e s i r)))) (\<lambda>(mid, m).
       andthen (modify (\<lambda>s. s\<lparr>moves := tins m (moves s)\<rparr>))
      (andthen (sub_write e i [V_last_invoice_id (Some mid)])
      (andthen (sub_write e i [V_next_invoice_date (Some (add_month e
          (case sub_next_invoice_date r of None \<Rightarrow> today e | Some d \<Rightarrow> d)))])
      (log_action e ''invoice_generated'' (Some (''isp.subscription'', i, sub_name r))
        (''Invoice '' @ or_str (mv_name m) (nat_str mid) @ '' generated''))))))"

definition action_generate_invoice :: "env \<Rightarrow> nat list \<Rightarrow> unit op" where
  "action_generate_invoice e ids = for_each (generate_invoice e) ids"

definition invoice_due :: "env \<Rightarrow> subscription \<Rightarrow> bool" where
  "invoice_due e r = (sub_state r = SubActive \<and>
     (case sub_next_invoice_date r of None \<Rightarrow> False | Some d \<Rightarrow> d \<le> today e))"

text \<open>\<open>search(domain)\<close> on subscriptions: the model's order is \<open>id desc\<close>.\<close>

definition subs_where :: "(subscription \<Rightarrow> bool) \<Rightarrow> sys \<Rightarrow> nat list" where
  "subs_where p s = rev (sort (search_ids (\<lambda>_ r. p r) (subs s)))"

definition cron_generate_invoices :: "env \<Rightarrow> unit op" where
  "cron_generate_invoices e = bnd (gets (subs_where (invoice_due e))) (\<lambda>ids. for_each (generate_invoice e) ids)"

section \<open>Suspending and reconnecting\<close>

definition open_move :: "account_move \<Rightarrow> bool" where
  "open_move m = (mv_state m = MvPosted \<and> mv_payment_state m \<noteq> Paid \<and> mv_payment_state m \<noteq> InPayment)"

definition moves_where :: "env \<Rightarrow> (account_move \<Rightarrow> bool) \<Rightarrow> sys \<Rightarrow> nat list" where
  "moves_where e p s = sort_key (move_order e) (search_ids (\<lambda>_ m. p m) (moves s))"

text \<open>The subscription a move suspends, if it is overdue.\<close>

definition overdue_sub :: "env \<Rightarrow> int \<Rightarrow> sys \<Rightarrow> account_move \<Rightarrow> nat option" where
  "overdue_sub e suspend_param s m =
     (case deref (subs s) (mv_subscription_id m) of
        None \<Rightarrow> None
      | Some r \<Rightarrow>
          if sub_state r \<noteq> SubActive then None
          else let plan_days = via (plans s) (sub_plan_id r) 0 plan_suspend_after_days;
                   days = (if plan_days = 0 then suspend_param else plan_days);
                   due_date = (if mv_invoice_date_due m = None then mv_invoice_date m else mv_invoice_date_due m)
               in (case due_date of None \<Rightarrow> None
                   | Some d \<Rightarrow> if today e \<ge> d + days then mv_subscription_id m else None))"

definition cron_suspend_overdue :: "env \<Rightarrow> unit op" where
  "cron_suspend_overdue e =
     bnd (int_param e ''isp_billing.suspend_after_days'' ''10'') (\<lambda>suspend_param.
     bnd (gets (moves_where e (\<lambda>m. mv_subscription_id m \<noteq> None \<and> open_move m))) (\<lambda>ms.
     for_each (\<lambda>i. bnd (rd moves i) (\<lambda>m. bnd (gets (\<lambda>s. overdue_sub e suspend_param s m)) (\<lambda>sub.
       case sub of None \<Rightarrow> ret () | Some k \<Rightarrow> ignore (queue_job e k suspend_subscription [])))) ms))"

definition open_count :: "sys \<Rightarrow> nat \<Rightarrow> nat" where
  "open_count s i = length (search_ids (\<lambda>_ m. mv_subscription_id m = Some i \<and> open_move m) (moves s))"

definition cron_reconnect_on_payment :: "env \<Rightarrow> unit op" where
  "cron_reconnect_on_payment e =
     bnd (gets (subs_where (\<lambda>r. sub_state r = SubSuspended))) (\<lambda>ids.
     for_each (\<lambda>i. bnd (gets (\<lambda>s. open_count s i)) (\<lambda>n.
       do_if (n = 0) (ignore (queue_job e i reconnect_subscription [])))) ids)"

section \<open>The status shown in the portal\<close>

definition dated_open :: "nat \<Rightarrow> account_move \<Rightarrow> bool" where
  "dated_open i m = (mv_subscription_id m = Some i \<and> open_move m \<and> mv_invoice_date_due m \<noteq> None)"

definition in_grace :: "env \<Rightarrow> int \<Rightarrow> account_move \<Rightarrow> bool" where
  "in_grace e grace_days m = (case mv_invoice_date_due m of None \<Rightarrow> False | Some d \<Rightarrow> d + grace_days \<ge> today e)"

definition portal_status :: "env \<Rightarrow> int \<Rightarrow> sys \<Rightarrow> nat \<Rightarrow> subscription \<Rightarrow> string" where
  "portal_status e grace_days s i r =
     (case sub_state r of
        SubSuspended \<Rightarrow> ''Suspended''
      | SubDraft \<Rightarrow> ''Draft''
      | SubTerminated \<Rightarrow> ''Terminated''
      | SubActive \<Rightarrow>
          let overdue = moves_where e (dated_open i) s;
              is_in_grace = list_ex (\<lambda>k. via (moves s) (Some k) False (in_grace e grace_days)) overdue
          in (if overdue \<noteq> [] \<and> \<not> is_in_grace then ''In arrears''
              else if overdue \<noteq> [] then ''Grace period'' else ''Up to date''))"

definition compute_portal_status :: "env \<Rightarrow> nat \<Rightarrow> string op" where
  "compute_portal_status e i =
     bnd (int_param e ''isp_billing.grace_days'' ''5'') (\<lambda>grace_days.
     bnd (rd subs i) (\<lambda>r. gets (\<lambda>s. portal_status e grace_days s i r)))"

section \<open>Dashboard\<close>

datatype dash_status = UpToDate | Grace | InArrears

text \<open>One round of the loop over the open moves of the active subscriptions.\<close>

definition status_step :: "env \<Rightarrow> int \<Rightarrow> account_move \<Rightarrow> (nat \<rightharpoonup> dash_status) \<Rightarrow> (nat \<rightharpoonup> dash_status)" where
  "status_step e grace_days m st =
     (case (mv_subscription_id m, mv_invoice_date_due m) of
        (Some k, Some d) \<Rightarrow>
          if d + grace_days \<ge> today e
          then (if st k \<noteq> Some InArrears then st(k \<mapsto> Grace) else st)
          else st(k \<mapsto> InArrears)
      | _ \<Rightarrow> st)"

definition subscription_status_map :: "env \<Rightarrow> int \<Rightarrow> sys \<Rightarrow> nat \<Rightarrow> dash_status option" where
  "subscription_status_map e grace_days s =
     (let active = subs_where (\<lambda>r. sub_state r = SubActive) s;
          start = (\<lambda>k. if k \<in> set active then Some UpToDate else None);
          ms = moves_where e (\<lambda>m. (case mv_subscription_id m of None \<Rightarrow> False | Some k \<Rightarrow> k \<in> set active) \<and>
                 open_move m \<and> mv_invoice_date_due m \<noteq> None) s
      in fold (\<lambda>i st. case tget (moves s) i of None \<Rightarrow> st | Some m \<Rightarrow> status_step e grace_days m st) ms start)"

record dashboard =
  active_subscriptions :: nat
  up_to_date_subscriptions :: nat
  suspended_subscriptions :: nat
  overdue_subscriptions :: nat
  grace_subscriptions :: nat
  mrr :: rat
  invoices_month :: rat
  transfer_pending :: nat
  transfer_attention :: nat
  faults_open :: nat
  faults_closed :: nat
  avg_resolution_hours :: rat

text \<open>\<open>records.mapped("plan_id.price")\<close>: the plans are a record set, so each counts once.\<close>

definition mapped_plan_price :: "sys \<Rightarrow> nat list \<Rightarrow> rat list" where
  "mapped_plan_price s ids =
     map (\<lambda>p. via (plans s) (Some p) 0 plan_price_monthly)
       (remdups (List.map_filter (\<lambda>i. via (subs s) (Some i) None sub_plan_id) ids))"

definition mrr_total :: "sys \<Rightarrow> rat" where
  "mrr_total s = sum_list (mapped_plan_price s (subs_where (\<lambda>r. sub_state r = SubActive) s))"

definition count_status :: "env \<Rightarrow> int \<Rightarrow> sys \<Rightarrow> dash_status \<Rightarrow> nat" where
  "count_status e grace_days s x =
     length (filter (\<lambda>i. subscription_status_map e grace_days s i = Some x)
       (subs_where (\<lambda>r. sub_state r = SubActive) s))"

definition fault_done :: "fault_ticket \<Rightarrow> bool" where
  "fault_done r = (flt_state r = FltResolved \<or> flt_state r = FltClosed)"

definition average :: "rat list \<Rightarrow> rat" where
  "average xs = (if xs = [] then 0 else sum_list xs / of_nat (length xs))"

definition compute_metrics :: "env \<Rightarrow> dashboard op" where
  "compute_metrics e =
     bnd (int_param e ''isp_billing.grace_days'' ''5'') (\<lambda>grace_days. gets (\<lambda>s.
       \<lparr>active_subscriptions = length (subs_where (\<lambda>r. sub_state r = SubActive) s),
        up_to_date_subscriptions = count_status e grace_days s UpToDate,
        suspended_subscriptions = length (subs_where (\<lambda>r. sub_state r = SubSuspended) s),
        overdue_subscriptions = count_status e grace_days s InArrears,
        grace_subscriptions = count_status e grace_days s Grace,
        mrr = mrr_total s,
        invoices_month = (let (first, last) = month_bounds e (today e) in
          sum_list (map (\<lambda>i. via (moves s) (Some i) 0 (amount_total e))
            (moves_where e (\<lambda>m. mv_move_type m = OutInvoice \<and> mv_state m = MvPosted \<and>
               (case mv_invoice_date m of None \<Rightarrow> False | Some d \<Rightarrow> first \<le> d \<and> d \<le> last)) s))),
        transfer_pending = length (search_ids (\<lambda>_ r. trf_state r = TrfInReview) (transfers s)),
        transfer_attention = length (search_ids (\<lambda>_ r. trf_state r = TrfInReview \<and> trf_needs_attention r) (transfers s)),
        faults_open = length (search_ids (\<lambda>_ r. \<not> fault_done r) (faults s)),
        faults_closed = length (search_ids (\<lambda>_ r. fault_done r) (faults s)),
        avg_resolution_hours = average (map (\<lambda>i. via (faults s) (Some i) 0 resolution_time_hours)
          (search_ids (\<lambda>_ r. fault_done r \<and> resolution_time_hours r > 0) (faults s)))\<rparr>))"

end
