(* ===== verification/Billing_Facts.thy ===== *)
theory Billing_Facts
  imports Billing
begin

text \<open>
  Properties of billing: what an invoice run does, which jobs the two cron jobs queue and how
  many, that the dashboard's loop computes its specification, and where the dashboard, the portal
  and the monthly revenue differ from one another.
\<close>

section \<open>Loops that queue jobs\<close>

definition job_key :: "nat \<times> provisioning_job \<Rightarrow> job_type \<times> nat option \<times> job_state" where
  "job_key j = (job_type (snd j), job_subscription_id (snd j), job_state (snd j))"

definition same_ledger :: "sys \<Rightarrow> sys \<Rightarrow> bool" where
  "same_ledger s t \<longleftrightarrow> subs t = subs s \<and> moves t = moves s \<and> plans t = plans s"

lemma queue_one:
  assumes "tget (subs s) k \<noteq> None"
  shows "\<exists>s'. ignore (queue_job e k jt []) s = (Inr (), s') \<and> same_ledger s s' \<and>
    map job_key (jobs s') = map job_key (jobs s) @ [(jt, Some k, JobQueued)]"
proof -
  from assms obtain r where "tget (subs s) k = Some r" by blast
  from queue_job_run [OF this, of e jt "[]"] show ?thesis
    by (simp add: ignore_def bnd_run ret_run same_ledger_def tins_def job_key_def queued_job_def new_job_def)
qed

lemma map_filter_if: "List.map_filter (\<lambda>k. if P k then Some k else None) xs = filter P xs"
  by (induction xs) (simp_all add: List.map_filter_def)

lemma queue_loop:
  assumes "\<And>x t. x \<in> set xs \<Longrightarrow> same_ledger s t \<Longrightarrow>
      body x t = (case f x of None \<Rightarrow> (Inr (), t) | Some k \<Rightarrow> ignore (queue_job e k jt []) t)"
    and "\<And>x k. x \<in> set xs \<Longrightarrow> f x = Some k \<Longrightarrow> tget (subs s) k \<noteq> None"
  shows "\<exists>s'. for_each body xs s = (Inr (), s') \<and> same_ledger s s' \<and>
    map job_key (jobs s') = map job_key (jobs s) @ map (\<lambda>k. (jt, Some k, JobQueued)) (List.map_filter f xs)"
  using assms
proof (induction xs arbitrary: s)
  case Nil
  then show ?case by (simp add: run_simps same_ledger_def List.map_filter_def)
next
  case (Cons x xs)
  have refl: "same_ledger s s" by (simp add: same_ledger_def)
  have rest: "\<exists>s'. for_each body xs t = (Inr (), s') \<and> same_ledger t s' \<and>
    map job_key (jobs s') = map job_key (jobs t) @ map (\<lambda>k. (jt, Some k, JobQueued)) (List.map_filter f xs)"
    if t: "same_ledger s t" for t
  proof (rule Cons.IH)
    show "body y u = (case f y of None \<Rightarrow> (Inr (), u) | Some k \<Rightarrow> ignore (queue_job e k jt []) u)"
      if "y \<in> set xs" "same_ledger t u" for y u
      using Cons.prems(1) [of y u] that t by (simp add: same_ledger_def)
    show "tget (subs t) k \<noteq> None" if "y \<in> set xs" "f y = Some k" for y k
      using Cons.prems(2) [of y k] that t by (simp add: same_ledger_def)
  qed
  show ?case
  proof (cases "f x")
    case None
    with Cons.prems(1) [OF _ refl, of x] rest [OF refl] show ?thesis
      by (auto simp: andthen_run List.map_filter_def)
  next
    case (Some k)
    with Cons.prems(2) [of x k] obtain t where
        one: "ignore (queue_job e k jt []) s = (Inr (), t)" "same_ledger s t"
          "map job_key (jobs t) = map job_key (jobs s) @ [(jt, Some k, JobQueued)]"
      using queue_one [of s k e jt] by auto
    from rest [OF one(2)] obtain s' where "for_each body xs t = (Inr (), s')" "same_ledger t s'"
        "map job_key (jobs s') = map job_key (jobs t) @ map (\<lambda>k. (jt, Some k, JobQueued)) (List.map_filter f xs)"
      by blast
    with one Some Cons.prems(1) [OF _ refl, of x] show ?thesis
      by (auto simp: andthen_run List.map_filter_def same_ledger_def)
  qed
qed

section \<open>Suspension\<close>

lemma suspend_cron_effect:
  assumes "py_int (param_or e ''isp_billing.suspend_after_days'' ''10'') = Some days"
  shows "\<exists>s'. cron_suspend_overdue e s = (Inr (), s') \<and> subs s' = subs s \<and>
    map job_key (jobs s') = map job_key (jobs s) @ map (\<lambda>k. (suspend_subscription, Some k, JobQueued))
      (List.map_filter (\<lambda>i. overdue_sub e days s (the (tget (moves s) i)))
        (moves_where e (\<lambda>m. mv_subscription_id m \<noteq> None \<and> open_move m) s))"
proof -
  let ?ms = "moves_where e (\<lambda>m. mv_subscription_id m \<noteq> None \<and> open_move m) s"
  let ?f = "\<lambda>i. overdue_sub e days s (the (tget (moves s) i))"
  let ?body = "\<lambda>i. bnd (rd moves i) (\<lambda>m. bnd (gets (\<lambda>s. overdue_sub e days s m)) (\<lambda>sub.
       case sub of None \<Rightarrow> ret () | Some k \<Rightarrow> ignore (queue_job e k suspend_subscription [])))"
  have mem: "\<exists>m. tget (moves s) i = Some m" if "i \<in> set ?ms" for i
    using that by (auto simp: moves_where_def search_ids_iff)
  have cong: "overdue_sub e days t m = overdue_sub e days s m" if "same_ledger s t" for t m
  proof -
    from that have eqs: "subs t = subs s" "plans t = plans s" by (simp_all add: same_ledger_def)
    show ?thesis unfolding overdue_sub_def eqs ..
  qed
  have "\<exists>s'. for_each ?body ?ms s = (Inr (), s') \<and> same_ledger s s' \<and>
    map job_key (jobs s') = map job_key (jobs s) @ map (\<lambda>k. (suspend_subscription, Some k, JobQueued))
      (List.map_filter ?f ?ms)"
  proof (rule queue_loop)
    fix i t
    assume "i \<in> set ?ms" "same_ledger s t"
    then show "?body i t = (case ?f i of None \<Rightarrow> (Inr (), t) | Some k \<Rightarrow> ignore (queue_job e k suspend_subscription []) t)"
      using mem [of i] cong [of t] by (auto simp: bnd_run rd_run gets_run ret_run same_ledger_def split: option.split)
  next
    fix i k
    assume "i \<in> set ?ms" "?f i = Some k"
    then show "tget (subs s) k \<noteq> None"
      by (auto simp: overdue_sub_def deref_def Let_def split: option.splits if_splits)
  qed
  then show ?thesis
    using assms by (auto simp: cron_suspend_overdue_def int_param_def run_simps same_ledger_def)
qed


definition demo_invoice :: account_move where
  "demo_invoice = \<lparr>mv_move_type = OutInvoice, mv_name = Some ''INV1'', mv_partner_id = Some 1,
     mv_state = MvPosted, mv_payment_state = NotPaid, mv_invoice_date = Some 0,
     mv_invoice_date_due = Some 0, mv_subscription_id = Some 1, mv_line_name = ''Fiber'',
     mv_price_unit = 25, mv_tax_ids = []\<rparr>"

definition demo_bill_sys :: sys where
  "demo_bill_sys = (demo_sys change_plan)\<lparr>jobs := [], moves := [(1, demo_invoice), (2, demo_invoice)]\<rparr>"

lemma demo_bill_rows:
  "tget (moves demo_bill_sys) i = (if i = 1 \<or> i = 2 then Some demo_invoice else None)"
  "tget (subs demo_bill_sys) i = (if i = 1 then Some demo_sub else None)"
  "tget (plans demo_bill_sys) i = (if i = 1 then Some demo_plan else None)"
  "map fst (moves demo_bill_sys) = [1, 2]" "jobs demo_bill_sys = []"
  by (simp_all add: demo_bill_sys_def demo_rows) (simp add: tget_def)

lemma default_days: "py_int (param_or plain_env ''isp_billing.suspend_after_days'' ''10'') = Some 10"
  by (simp add: param_or_def plain_env_def py_int_def py_strip_def is_space_def digit_val_def digit_chars_def)


text \<open>The reconnection cron job returns and queues one reconnect job for exactly the suspended
  subscriptions that have no open posted move left, newest first, whatever jobs are already
  queued for them; it changes no subscription.\<close>

lemma reconnect_cron_effect:
  shows "\<exists>s'. cron_reconnect_on_payment e s = (Inr (), s') \<and> subs s' = subs s \<and>
    map job_key (jobs s') = map job_key (jobs s) @ map (\<lambda>k. (reconnect_subscription, Some k, JobQueued))
      (filter (\<lambda>k. \<nexists>i m. tget (moves s) i = Some m \<and> mv_subscription_id m = Some k \<and> open_move m)
        (subs_where (\<lambda>r. sub_state r = SubSuspended) s))"
proof -
  let ?ids = "subs_where (\<lambda>r. sub_state r = SubSuspended) s"
  let ?f = "\<lambda>k. if open_count s k = 0 then Some k else None"
  let ?body = "\<lambda>i. bnd (gets (\<lambda>s. open_count s i)) (\<lambda>n.
       do_if (n = 0) (ignore (queue_job e i reconnect_subscription [])))"
  have "\<exists>s'. for_each ?body ?ids s = (Inr (), s') \<and> same_ledger s s' \<and>
    map job_key (jobs s') = map job_key (jobs s) @ map (\<lambda>k. (reconnect_subscription, Some k, JobQueued))
      (List.map_filter ?f ?ids)"
  proof (rule queue_loop)
    fix k t
    assume "k \<in> set ?ids" "same_ledger s t"
    then have "open_count t k = open_count s k" by (simp add: open_count_def same_ledger_def)
    then show "?body k t = (case ?f k of None \<Rightarrow> (Inr (), t) | Some k \<Rightarrow> ignore (queue_job e k reconnect_subscription []) t)"
      by (simp add: bnd_run gets_run do_if_run)
  next
    fix k l
    assume "k \<in> set ?ids" "?f k = Some l"
    then show "tget (subs s) l \<noteq> None"
      by (auto simp: subs_where_def search_ids_iff split: if_splits)
  qed
  moreover have "List.map_filter ?f ?ids =
      filter (\<lambda>k. \<nexists>i m. tget (moves s) i = Some m \<and> mv_subscription_id m = Some k \<and> open_move m) ?ids"
    unfolding map_filter_if by (auto simp: open_count_def search_ids_empty intro!: filter_cong)
  ultimately show ?thesis
    by (auto simp: cron_reconnect_on_payment_def run_simps same_ledger_def)
qed

section \<open>Invoices\<close>

lemma invoice_write_returns:
  assumes ok: "subs_ok s" and r: "tget (subs s) i = Some r"
    and vs: "vs = [V_last_invoice_id x] \<or> vs = [V_next_invoice_date y]"
  shows "sub_write e i vs s = (Inr (), s\<lparr>subs := tupd i (fold sub_set vs) (subs s)\<rparr>)"
  using write_returns [OF ok r, of vs e] subs_okD(1) [OF ok r] vs
  by (auto simp: row_ok_def required_ok_def untriggered_validate sub_checks_def triggered_def)

lemma subs_ok_moves: "subs_ok (t\<lparr>moves := a\<rparr>) = subs_ok t"
  by (rule subs_ok_cong) simp_all

lemma generate_invoice_effect:
  assumes ok: "subs_ok s" and r: "tget (subs s) i = Some r"
  shows "\<exists>s'. generate_invoice e i s = (Inr (), s') \<and>
    moves s' = tins (try_post e (invoice_for e s i r)) (moves s) \<and> jobs s' = jobs s \<and> plans s' = plans s \<and>
    (\<forall>j. tget (subs s') j = (if j = i then Some (r\<lparr>sub_last_invoice_id := Some (fresh_id (moves s)),
        sub_next_invoice_date := Some (add_month e (case sub_next_invoice_date r of None \<Rightarrow> today e | Some d \<Rightarrow> d))\<rparr>)
      else tget (subs s) j))"
proof -
  let ?mid = "fresh_id (moves s)" and ?m = "try_post e (invoice_for e s i r)"
  let ?next = "Some (add_month e (case sub_next_invoice_date r of None \<Rightarrow> today e | Some d \<Rightarrow> d))"
  have partner: "sub_partner_id r \<noteq> None" using subs_okD(1) [OF ok r] by (simp add: row_ok_def required_ok_def)
  define s1 where "s1 = s\<lparr>moves := tins ?m (moves s)\<rparr>"
  have ok1: "subs_ok s1" using ok by (simp add: s1_def subs_ok_moves)
  have r1: "tget (subs s1) i = Some r" using r by (simp add: s1_def)
  define s2 where "s2 = s1\<lparr>subs := tupd i (fold sub_set [V_last_invoice_id (Some ?mid)]) (subs s1)\<rparr>"
  have w1: "sub_write e i [V_last_invoice_id (Some ?mid)] s1 = (Inr (), s2)"
    unfolding s2_def by (rule invoice_write_returns [OF ok1 r1]) blast
  have ok2: "subs_ok s2" by (rule sub_write_subs_ok [OF ok1 w1])
  have r2: "tget (subs s2) i = Some (r\<lparr>sub_last_invoice_id := Some ?mid\<rparr>)" using r1 by (simp add: s2_def tbl.look_upd)
  define s3 where "s3 = s2\<lparr>subs := tupd i (fold sub_set [V_next_invoice_date ?next]) (subs s2)\<rparr>"
  have w2: "sub_write e i [V_next_invoice_date ?next] s2 = (Inr (), s3)"
    unfolding s3_def by (rule invoice_write_returns [OF ok2 r2]) blast
  obtain a where "generate_invoice e i s = (Inr (), s3\<lparr>audits := a\<rparr>)"
    using r partner w1 w2
    by (auto simp: generate_invoice_def bnd_run rd_run gets_run andthen_run modify_run log_action_run s1_def)
  then show ?thesis
    using r by (intro exI [of _ "s3\<lparr>audits := a\<rparr>"]) (simp add: s3_def s2_def s1_def tbl.look_upd)
qed

lemma invoice_run:
  assumes "subs_ok s" and "\<forall>i\<in>set ids. tget (subs s) i \<noteq> None" and "distinct ids"
  shows "\<exists>s'. for_each (generate_invoice e) ids s = (Inr (), s') \<and> plans s' = plans s \<and>
    map (mv_subscription_id \<circ> snd) (moves s') =
      map (mv_subscription_id \<circ> snd) (moves s) @ map (\<lambda>i. mv_subscription_id (try_post e (invoice_for e s i (the (tget (subs s) i))))) ids \<and>
    (\<forall>j. map_option sub_next_invoice_date (tget (subs s') j) = map_option (\<lambda>r. if j \<in> set ids
        then Some (add_month e (case sub_next_invoice_date r of None \<Rightarrow> today e | Some d \<Rightarrow> d))
        else sub_next_invoice_date r) (tget (subs s) j))"
  using assms
proof (induction ids arbitrary: s)
  case Nil
  then show ?case by (simp add: run_simps)
next
  case (Cons i ids)
  then obtain r where r: "tget (subs s) i = Some r" by auto
  from generate_invoice_effect [OF Cons.prems(1) r] obtain t where
      one: "generate_invoice e i s = (Inr (), t)"
      and moves: "moves t = tins (try_post e (invoice_for e s i r)) (moves s)" and plans: "plans t = plans s"
      and subs: "\<And>j. tget (subs t) j = (if j = i then Some (r\<lparr>sub_last_invoice_id := Some (fresh_id (moves s)),
        sub_next_invoice_date := Some (add_month e (case sub_next_invoice_date r of None \<Rightarrow> today e | Some d \<Rightarrow> d))\<rparr>)
      else tget (subs s) j)"
    by blast
  have ok: "subs_ok t"
  proof -
    have "keeps subs_ok (generate_invoice e i)"
      unfolding generate_invoice_def
      by (intro keeps_intros subs_ok_free keeps_modify) (simp add: subs_ok_moves)
    then show ?thesis using Cons.prems(1) one by (rule keepsD)
  qed
  have "\<forall>j\<in>set ids. tget (subs t) j \<noteq> None" "distinct ids" using Cons.prems(2,3) by (simp_all add: subs)
  from Cons.IH [OF ok this] obtain s' where run: "for_each (generate_invoice e) ids t = (Inr (), s')" "plans s' = plans t"
      and M: "map (mv_subscription_id \<circ> snd) (moves s') = map (mv_subscription_id \<circ> snd) (moves t) @
        map (\<lambda>i. mv_subscription_id (try_post e (invoice_for e t i (the (tget (subs t) i))))) ids"
      and N: "\<And>j. map_option sub_next_invoice_date (tget (subs s') j) = map_option (\<lambda>r. if j \<in> set ids
        then Some (add_month e (case sub_next_invoice_date r of None \<Rightarrow> today e | Some d \<Rightarrow> d))
        else sub_next_invoice_date r) (tget (subs t) j)"
    by blast
  have "invoice_for e t j (the (tget (subs t) j)) = invoice_for e s j (the (tget (subs s) j))" if "j \<in> set ids" for j
    using that Cons.prems(3) by (auto simp: invoice_for_def plans subs)
  then have "map (mv_subscription_id \<circ> snd) (moves s') = map (mv_subscription_id \<circ> snd) (moves s) @
      map (\<lambda>i. mv_subscription_id (try_post e (invoice_for e s i (the (tget (subs s) i))))) (i # ids)"
    unfolding M using r by (simp add: moves tins_def)
  moreover have "map_option sub_next_invoice_date (tget (subs s') j) = map_option (\<lambda>r. if j \<in> set (i # ids)
        then Some (add_month e (case sub_next_invoice_date r of None \<Rightarrow> today e | Some d \<Rightarrow> d))
        else sub_next_invoice_date r) (tget (subs s) j)" for j
    using N [of j] r Cons.prems(3) by (cases "j = i") (auto simp: subs)
  moreover have "for_each (generate_invoice e) (i # ids) s = (Inr (), s')" "plans s' = plans s"
    using one run plans by (simp_all add: andthen_run)
  ultimately show ?case by blast
qed

text \<open>C31. The invoicing cron job returns; it creates exactly one invoice for each active
  subscription whose invoice date has come, whether or not the invoice can be posted, and advances
  that date by one month; the date of no other subscription changes. (Posting is assumed to keep
  the move's subscription.)\<close>

theorem cron_invoices_each_due_once:
  assumes "subs_ok s" and "\<forall>m m'. post_move e m = Some m' \<longrightarrow> mv_subscription_id m' = mv_subscription_id m"
  shows "\<exists>s'. cron_generate_invoices e s = (Inr (), s') \<and>
    map (mv_subscription_id \<circ> snd) (moves s') =
      map (mv_subscription_id \<circ> snd) (moves s) @ map Some (subs_where (invoice_due e) s) \<and>
    (\<forall>j. map_option sub_next_invoice_date (tget (subs s') j) = map_option (\<lambda>r. if invoice_due e r
        then map_option (add_month e) (sub_next_invoice_date r) else sub_next_invoice_date r) (tget (subs s) j))"
proof -
  let ?ids = "subs_where (invoice_due e) s"
  have mem: "i \<in> set ?ids \<longleftrightarrow> (\<exists>r. tget (subs s) i = Some r \<and> invoice_due e r)" for i
    by (simp add: subs_where_def search_ids_iff)
  have dist: "distinct ?ids" by (simp add: subs_where_def distinct_search_ids)
  have sub: "mv_subscription_id (try_post e (invoice_for e s i r)) = Some i" for i r
    using assms(2) by (auto simp: try_post_def invoice_for_def split: option.split)
  from invoice_run [OF assms(1) _ dist] obtain s' where
      run: "for_each (generate_invoice e) ?ids s = (Inr (), s')"
      and M: "map (mv_subscription_id \<circ> snd) (moves s') = map (mv_subscription_id \<circ> snd) (moves s) @
        map (\<lambda>i. mv_subscription_id (try_post e (invoice_for e s i (the (tget (subs s) i))))) ?ids"
      and N: "\<And>j. map_option sub_next_invoice_date (tget (subs s') j) = map_option (\<lambda>r. if j \<in> set ?ids
        then Some (add_month e (case sub_next_invoice_date r of None \<Rightarrow> today e | Some d \<Rightarrow> d))
        else sub_next_invoice_date r) (tget (subs s) j)"
    using mem by blast
  have "map_option sub_next_invoice_date (tget (subs s') j) = map_option (\<lambda>r. if invoice_due e r
        then map_option (add_month e) (sub_next_invoice_date r) else sub_next_invoice_date r) (tget (subs s) j)" for j
    using N [of j] by (cases "tget (subs s) j") (auto simp: mem invoice_due_def split: option.splits)
  then show ?thesis
    using run M by (auto simp: cron_generate_invoices_def run_simps sub)
qed

theorem cron_invoices_each_due_once_witness:
  "\<exists>s'. cron_generate_invoices plain_env (demo_bill_sys\<lparr>subs := [(1, demo_sub\<lparr>sub_next_invoice_date := Some 0\<rparr>)]\<rparr>) = (Inr (), s') \<and>
     map (mv_subscription_id \<circ> snd) (moves s') = [Some 1, Some 1, Some 1]"
proof -
  let ?s = "demo_bill_sys\<lparr>subs := [(1, demo_sub\<lparr>sub_next_invoice_date := Some 0\<rparr>)]\<rparr>"
  have "subs_ok ?s"
    by (auto simp: subs_ok_def tget_def row_ok_def static_unique_def user_unique_def device_ok_def
      credentials_ok_def has_static_ip_def gps_ok_def required_ok_def device_sector_def via_def
      deref_def set_str_def demo_sub_def sub_default_def demo_bill_sys_def demo_sys_def split: if_splits)
  moreover have "\<forall>m m'. post_move plain_env m = Some m' \<longrightarrow> mv_subscription_id m' = mv_subscription_id m"
    by (simp add: plain_env_def)
  moreover have "subs_where (invoice_due plain_env) ?s = [1]"
    by (simp add: subs_where_def search_ids_def tget_def invoice_due_def demo_sub_def plain_env_def)
  ultimately show ?thesis
    using cron_invoices_each_due_once [of ?s plain_env]
    by (fastforce simp: demo_bill_sys_def demo_invoice_def)
qed

section \<open>Statuses\<close>

definition past_grace :: "env \<Rightarrow> int \<Rightarrow> account_move \<Rightarrow> bool" where
  "past_grace e g m \<longleftrightarrow> mv_invoice_date_due m \<noteq> None \<and> \<not> in_grace e g m"

definition dated_where :: "sys \<Rightarrow> nat \<Rightarrow> (account_move \<Rightarrow> bool) \<Rightarrow> bool" where
  "dated_where s k P \<longleftrightarrow> (\<exists>j m. tget (moves s) j = Some m \<and> dated_open k m \<and> P m)"

lemma status_fold:
  assumes "\<forall>i\<in>set ms. \<exists>m d. tget (moves s) i = Some m \<and> mv_invoice_date_due m = Some d"
  shows "fold (\<lambda>i st. case tget (moves s) i of None \<Rightarrow> st | Some m \<Rightarrow> status_step e g m st) ms st k =
    (if st k = Some InArrears \<or> (\<exists>i\<in>set ms. \<exists>m. tget (moves s) i = Some m \<and> mv_subscription_id m = Some k \<and> past_grace e g m)
     then Some InArrears
     else if \<exists>i\<in>set ms. \<exists>m. tget (moves s) i = Some m \<and> mv_subscription_id m = Some k then Some Grace
     else st k)"
  using assms
proof (induction ms arbitrary: st)
  case (Cons i ms)
  then obtain m d where m: "tget (moves s) i = Some m" "mv_invoice_date_due m = Some d" by auto
  have step: "status_step e g m st k =
      (if mv_subscription_id m \<noteq> Some k then st k
       else if past_grace e g m \<or> st k = Some InArrears then Some InArrears else Some Grace)"
    using m(2) by (auto simp: status_step_def past_grace_def in_grace_def split: option.split)
  show ?case
    using Cons.IH [of "status_step e g m st"] Cons.prems m(1) unfolding step by auto
qed simp

lemma status_map_spec:
  assumes "tget (subs s) k = Some r" and "sub_state r = SubActive"
  shows "subscription_status_map e g s k =
    Some (if dated_where s k (past_grace e g) then InArrears
          else if dated_where s k (\<lambda>_. True) then Grace else UpToDate)"
proof -
  let ?active = "subs_where (\<lambda>r. sub_state r = SubActive) s"
  let ?ms = "moves_where e (\<lambda>m. (case mv_subscription_id m of None \<Rightarrow> False | Some k \<Rightarrow> k \<in> set ?active) \<and>
                 open_move m \<and> mv_invoice_date_due m \<noteq> None) s"
  have act: "k \<in> set ?active" using assms by (simp add: subs_where_def search_ids_iff)
  have dated: "\<forall>i\<in>set ?ms. \<exists>m d. tget (moves s) i = Some m \<and> mv_invoice_date_due m = Some d"
    by (auto simp: moves_where_def search_ids_iff)
  have mem: "(\<exists>i\<in>set ?ms. \<exists>m. tget (moves s) i = Some m \<and> mv_subscription_id m = Some k \<and> P m) \<longleftrightarrow> dated_where s k P" for P
    using act by (fastforce simp: moves_where_def search_ids_iff dated_where_def dated_open_def)
  show ?thesis
    unfolding subscription_status_map_def Let_def status_fold [OF dated] mem
    using mem [of "\<lambda>_. True"] act by simp
qed

lemma sort_key_empty: "sort_key f xs = [] \<longleftrightarrow> xs = []"
  by (metis set_empty set_sort)

lemma portal_status_spec:
  assumes "sub_state r = SubActive"
  shows "portal_status e g s k r =
    (if \<not> dated_where s k (\<lambda>_. True) then ''Up to date''
     else if dated_where s k (in_grace e g) then ''Grace period'' else ''In arrears'')"
proof -
  let ?ms = "moves_where e (dated_open k) s"
  have empty: "?ms = [] \<longleftrightarrow> \<not> dated_where s k (\<lambda>_. True)"
    using search_ids_empty [of "\<lambda>_. dated_open k" "moves s"]
    by (simp add: moves_where_def dated_where_def sort_key_empty)
  have grace: "list_ex (\<lambda>i. via (moves s) (Some i) False (in_grace e g)) ?ms \<longleftrightarrow> dated_where s k (in_grace e g)"
    by (auto simp: list_ex_iff moves_where_def search_ids_iff dated_where_def via_def deref_def;
      force simp: search_ids_iff)
  show ?thesis
    using assms unfolding portal_status_def Let_def empty grace by auto
qed

text \<open>C25. The dashboard's loop over the open invoices computes, in whatever order accounting lists
  them: an active subscription is in arrears if some open dated invoice is past its grace period,
  in grace if it has open dated invoices but none past it, up to date otherwise.\<close>

theorem dashboard_status_spec:
  assumes "tget (subs s) k = Some r" and "sub_state r = SubActive"
  shows "subscription_status_map e g s k = Some (
    if \<exists>j m. tget (moves s) j = Some m \<and> dated_open k m \<and> \<not> in_grace e g m then InArrears
    else if \<exists>j m. tget (moves s) j = Some m \<and> dated_open k m then Grace else UpToDate)"
  using status_map_spec [OF assms, of e g]
  by (auto simp: dated_where_def past_grace_def dated_open_def)

theorem dashboard_status_spec_witness:
  "subscription_status_map (plain_env\<lparr>today := 10\<rparr>) 5 demo_bill_sys 1 = Some InArrears"
  using dashboard_status_spec [of demo_bill_sys 1 demo_sub "plain_env\<lparr>today := 10\<rparr>" 5]
  by (force simp: demo_bill_rows demo_sub_def dated_open_def open_move_def demo_invoice_def in_grace_def)

text \<open>C26. The portal and the dashboard agree on an active subscription - in arrears in one exactly
  when in arrears in the other - unless it has an open invoice past its grace period and another
  one still within it: then the portal shows the grace period and the dashboard arrears.\<close>

theorem portal_dashboard_agreement:
  assumes "tget (subs s) k = Some r" and "sub_state r = SubActive"
  shows "(portal_status e g s k r = ''In arrears'') = (subscription_status_map e g s k = Some InArrears) \<longleftrightarrow>
    \<not> ((\<exists>j m. tget (moves s) j = Some m \<and> dated_open k m \<and> \<not> in_grace e g m) \<and>
       (\<exists>j m. tget (moves s) j = Some m \<and> dated_open k m \<and> in_grace e g m))"
proof -
  have dated: "mv_invoice_date_due m \<noteq> None" if "dated_open k m" for m using that by (simp add: dated_open_def)
  have past: "dated_where s k (past_grace e g) \<longleftrightarrow> (\<exists>j m. tget (moves s) j = Some m \<and> dated_open k m \<and> \<not> in_grace e g m)"
    by (auto simp: dated_where_def past_grace_def dated_open_def)
  have grace: "dated_where s k (in_grace e g) \<longleftrightarrow> (\<exists>j m. tget (moves s) j = Some m \<and> dated_open k m \<and> in_grace e g m)"
    by (simp add: dated_where_def)
  have "dated_where s k (\<lambda>_. True) \<longleftrightarrow> dated_where s k (past_grace e g) \<or> dated_where s k (in_grace e g)"
    unfolding dated_where_def past_grace_def using dated by blast
  then show ?thesis
    unfolding past [symmetric] grace [symmetric]
    using status_map_spec [OF assms, of e g] portal_status_spec [OF assms(2), of e g s k] by simp
qed

theorem portal_dashboard_agreement_witness:
  "\<not> ((portal_status (plain_env\<lparr>today := 10\<rparr>) 5 (demo_bill_sys\<lparr>moves := [(1, demo_invoice),
        (2, demo_invoice\<lparr>mv_invoice_date_due := Some 9\<rparr>)]\<rparr>) 1 demo_sub = ''In arrears'') =
     (subscription_status_map (plain_env\<lparr>today := 10\<rparr>) 5 (demo_bill_sys\<lparr>moves := [(1, demo_invoice),
        (2, demo_invoice\<lparr>mv_invoice_date_due := Some 9\<rparr>)]\<rparr>) 1 = Some InArrears))"
proof -
  let ?s = "demo_bill_sys\<lparr>moves := [(1, demo_invoice), (2, demo_invoice\<lparr>mv_invoice_date_due := Some 9\<rparr>)]\<rparr>"
  have "tget (subs ?s) 1 = Some demo_sub" "sub_state demo_sub = SubActive"
    using demo_bill_rows(2) by (simp_all add: demo_sub_def)
  moreover have "tget (moves ?s) 1 = Some demo_invoice"
    "tget (moves ?s) 2 = Some (demo_invoice\<lparr>mv_invoice_date_due := Some 9\<rparr>)" by (simp_all add: tget_def)
  moreover have "dated_open 1 demo_invoice" "dated_open 1 (demo_invoice\<lparr>mv_invoice_date_due := Some 9\<rparr>)"
    "\<not> in_grace (plain_env\<lparr>today := 10\<rparr>) 5 demo_invoice"
    "in_grace (plain_env\<lparr>today := 10\<rparr>) 5 (demo_invoice\<lparr>mv_invoice_date_due := Some 9\<rparr>)"
    by (simp_all add: dated_open_def open_move_def demo_invoice_def in_grace_def)
  ultimately show ?thesis
    using portal_dashboard_agreement [of ?s 1 demo_sub "plain_env\<lparr>today := 10\<rparr>" 5] by blast
qed

section \<open>Monthly revenue\<close>

text \<open>The dashboard's monthly recurring revenue adds the price of each plan once, however many
  active subscriptions have it: it is the sum over the set of the plans in use.\<close>

theorem mrr_counts_each_plan_once:
  "mrr_total s = (\<Sum>p\<in>{p. \<exists>i r. tget (subs s) i = Some r \<and> sub_state r = SubActive \<and> sub_plan_id r = Some p}.
     via (plans s) (Some p) 0 plan_price_monthly)"
proof -
  let ?ids = "subs_where (\<lambda>r. sub_state r = SubActive) s"
  let ?ps = "List.map_filter (\<lambda>i. via (subs s) (Some i) None sub_plan_id) ?ids"
  have "set ?ps = {p. \<exists>i r. tget (subs s) i = Some r \<and> sub_state r = SubActive \<and> sub_plan_id r = Some p}"
    by (force simp: List.map_filter_def subs_where_def search_ids_iff via_def deref_def)
  then show ?thesis
    unfolding mrr_total_def mapped_plan_price_def
    by (simp add: sum_list_distinct_conv_sum_set)
qed

end
