(* ===== verification/Onu_Assignment.thy ===== *)
theory Onu_Assignment
  imports Billing_Facts
begin

text \<open>
  ONU assignments (\<open>isp_onu/models/assignment.py\<close>): \<open>create\<close>, the override of
  \<open>write\<close> that stamps the dates, and the two constraints; then the invariant they keep: an ONU
  is active on at most one subscription, and a subscription has at most one active ONU.
\<close>

datatype asg_val =
    A_onu_id "nat option"
  | A_subscription_id "nat option"
  | A_active bool
  | A_assigned_at "int option"
  | A_unassigned_at "int option"

fun asg_field :: "asg_val \<Rightarrow> string" where
  "asg_field (A_onu_id x) = ''onu_id''"
| "asg_field (A_subscription_id x) = ''subscription_id''"
| "asg_field (A_active x) = ''active''"
| "asg_field (A_assigned_at x) = ''assigned_at''"
| "asg_field (A_unassigned_at x) = ''unassigned_at''"

fun asg_set :: "asg_val \<Rightarrow> onu_assignment \<Rightarrow> onu_assignment" where
  "asg_set (A_onu_id x) r = r\<lparr>asg_onu_id := x\<rparr>"
| "asg_set (A_subscription_id x) r = r\<lparr>asg_subscription_id := x\<rparr>"
| "asg_set (A_active x) r = r\<lparr>asg_active := x\<rparr>"
| "asg_set (A_assigned_at x) r = r\<lparr>asg_assigned_at := x\<rparr>"
| "asg_set (A_unassigned_at x) r = r\<lparr>asg_unassigned_at := x\<rparr>"

definition asg_default :: onu_assignment where
  "asg_default = \<lparr>asg_onu_id = None, asg_subscription_id = None, asg_active = True,
     asg_assigned_at = None, asg_unassigned_at = None\<rparr>"

section \<open>Constraints\<close>

definition same_onu :: "nat \<Rightarrow> onu_assignment \<Rightarrow> nat \<Rightarrow> onu_assignment \<Rightarrow> bool" where
  "same_onu i r j r' = (asg_onu_id r' = asg_onu_id r \<and> asg_active r' \<and> j \<noteq> i)"

definition check_one_active_per_onu :: "nat list \<Rightarrow> unit op" where
  "check_one_active_per_onu ids = for_each (\<lambda>i. bnd (rd assignments i) (\<lambda>r.
     if asg_active r
     then bnd (gets (\<lambda>s. length (search_ids (same_onu i r) (assignments s)))) (\<lambda>count.
       assert_that (count = 0) (ValidationError ''ONU already has an active assignment.''))
     else ret ())) ids"

definition same_subscription :: "nat \<Rightarrow> onu_assignment \<Rightarrow> nat \<Rightarrow> onu_assignment \<Rightarrow> bool" where
  "same_subscription i r j r' = (asg_subscription_id r' = asg_subscription_id r \<and> asg_active r' \<and> j \<noteq> i)"

definition check_one_active_per_subscription :: "nat list \<Rightarrow> unit op" where
  "check_one_active_per_subscription ids = for_each (\<lambda>i. bnd (rd assignments i) (\<lambda>r.
     if asg_active r
     then bnd (gets (\<lambda>s. length (search_ids (same_subscription i r) (assignments s)))) (\<lambda>count.
       assert_that (count = 0) (ValidationError ''Subscription already has an active ONU.''))
     else ret ())) ids"

definition asg_validate :: "string list \<Rightarrow> nat list \<Rightarrow> unit op" where
  "asg_validate written ids =
     andthen (do_if (triggered written [''onu_id'', ''active'']) (check_one_active_per_onu ids))
       (do_if (triggered written [''subscription_id'', ''active'']) (check_one_active_per_subscription ids))"

definition asg_not_null :: "nat list \<Rightarrow> unit op" where
  "asg_not_null ids = for_each (\<lambda>i. bnd (rd assignments i) (\<lambda>r.
     assert_that (asg_onu_id r \<noteq> None \<and> asg_subscription_id r \<noteq> None)
       (IntegrityError ''null value in a required column''))) ids"

section \<open>write and create\<close>

text \<open>\<open>super().write(vals)\<close>.\<close>

definition asg_store :: "nat \<Rightarrow> asg_val list \<Rightarrow> unit op" where
  "asg_store i vs =
     bnd (rd assignments i) (\<lambda>_.
     andthen (modify (\<lambda>s. s\<lparr>assignments := tupd i (fold asg_set vs) (assignments s)\<rparr>))
    (andthen (asg_not_null [i])
    (asg_validate (map asg_field vs) [i])))"

definition asg_write :: "env \<Rightarrow> nat \<Rightarrow> asg_val list \<Rightarrow> unit op" where
  "asg_write e i vs = andthen (asg_store i vs)
     (do_if (''active'' \<in> set (map asg_field vs))
       (andthen (bnd (rd assignments i) (\<lambda>r.
          do_if (asg_active r \<and> asg_assigned_at r = None) (asg_store i [A_assigned_at (Some (now e))])))
        (bnd (rd assignments i) (\<lambda>r.
          do_if (\<not> asg_active r \<and> asg_unassigned_at r = None) (asg_store i [A_unassigned_at (Some (now e))])))))"

definition asg_prepare :: "env \<Rightarrow> asg_val list \<Rightarrow> asg_val list" where
  "asg_prepare e vs = (let r = fold asg_set vs asg_default in
     if asg_active r \<and> asg_assigned_at r = None then vs @ [A_assigned_at (Some (now e))] else vs)"

definition asg_insert :: "asg_val list \<Rightarrow> nat op" where
  "asg_insert vs = (\<lambda>s. (Inr (fresh_id (assignments s)),
     s\<lparr>assignments := tins (fold asg_set vs asg_default) (assignments s)\<rparr>))"

definition asg_create :: "env \<Rightarrow> asg_val list list \<Rightarrow> nat list op" where
  "asg_create e vals_list =
     bnd (map_each asg_insert (map (asg_prepare e) vals_list)) (\<lambda>ids.
     andthen (asg_not_null ids)
    (andthen (asg_validate (concat (map (map asg_field \<circ> asg_prepare e) vals_list) @ [''active'']) ids)
    (ret ids)))"

section \<open>One active assignment per ONU and per subscription\<close>

definition asgs_ok :: "sys \<Rightarrow> bool" where
  "asgs_ok s \<longleftrightarrow> (\<forall>i r. tget (assignments s) i = Some r \<longrightarrow> asg_active r \<longrightarrow>
     (\<forall>j r'. tget (assignments s) j = Some r' \<longrightarrow> asg_active r' \<longrightarrow> j \<noteq> i \<longrightarrow>
        asg_onu_id r' \<noteq> asg_onu_id r \<and> asg_subscription_id r' \<noteq> asg_subscription_id r))"

lemma check_onu_ok [check_simps]:
  "check_one_active_per_onu ids s = (Inr (), s') \<longleftrightarrow>
     (\<forall>i\<in>set ids. \<exists>r. tget (assignments s) i = Some r \<and> (asg_active r \<longrightarrow>
        (\<forall>j r'. tget (assignments s) j = Some r' \<longrightarrow> asg_active r' \<longrightarrow> j \<noteq> i \<longrightarrow> asg_onu_id r' \<noteq> asg_onu_id r))) \<and> s' = s"
  unfolding check_one_active_per_onu_def
  by (rule for_each_check)
    (auto simp: run_simps assert_that_ok same_onu_def search_ids_empty split: option.splits)

lemma check_subscription_ok [check_simps]:
  "check_one_active_per_subscription ids s = (Inr (), s') \<longleftrightarrow>
     (\<forall>i\<in>set ids. \<exists>r. tget (assignments s) i = Some r \<and> (asg_active r \<longrightarrow>
        (\<forall>j r'. tget (assignments s) j = Some r' \<longrightarrow> asg_active r' \<longrightarrow> j \<noteq> i \<longrightarrow>
           asg_subscription_id r' \<noteq> asg_subscription_id r))) \<and> s' = s"
  unfolding check_one_active_per_subscription_def
  by (rule for_each_check)
    (auto simp: run_simps assert_that_ok same_subscription_def search_ids_empty split: option.splits)

lemma asg_not_null_ok [check_simps]:
  "asg_not_null ids s = (Inr (), s') \<longleftrightarrow>
     (\<forall>i\<in>set ids. \<exists>r. tget (assignments s) i = Some r \<and> asg_onu_id r \<noteq> None \<and> asg_subscription_id r \<noteq> None) \<and> s' = s"
  unfolding asg_not_null_def
  by (rule for_each_check) (auto simp: run_simps assert_that_ok split: option.splits)

lemma asg_validate_ok:
  assumes "asg_validate ws ids s = (Inr (), s')"
  shows "s' = s"
    and "triggered ws [''onu_id'', ''active''] \<Longrightarrow> check_one_active_per_onu ids s = (Inr (), s)"
    and "triggered ws [''subscription_id'', ''active''] \<Longrightarrow> check_one_active_per_subscription ids s = (Inr (), s)"
proof -
  from assms obtain t where
      a: "do_if (triggered ws [''onu_id'', ''active'']) (check_one_active_per_onu ids) s = (Inr (), t)"
      and b: "do_if (triggered ws [''subscription_id'', ''active'']) (check_one_active_per_subscription ids) t = (Inr (), s')"
    by (auto simp: asg_validate_def elim!: andthen_ok)
  have t: "t = s" using a check_onu_ok [of ids s t] by (auto simp: do_if_check split: if_splits)
  have s': "s' = t" using b check_subscription_ok [of ids t s'] by (auto simp: do_if_check split: if_splits)
  show "s' = s" using t s' by simp
  show "check_one_active_per_onu ids s = (Inr (), s)" if "triggered ws [''onu_id'', ''active'']"
    using a that t by (simp add: do_if_check)
  show "check_one_active_per_subscription ids s = (Inr (), s)" if "triggered ws [''subscription_id'', ''active'']"
    using b that t s' by (simp add: do_if_check)
qed

lemma frame_asg:
  assumes "\<not> triggered (map asg_field vs) F" and "''active'' \<in> set F"
  shows "asg_active (fold asg_set vs r) = asg_active r"
    and "''onu_id'' \<in> set F \<Longrightarrow> asg_onu_id (fold asg_set vs r) = asg_onu_id r"
    and "''subscription_id'' \<in> set F \<Longrightarrow> asg_subscription_id (fold asg_set vs r) = asg_subscription_id r"
proof -
  have free: "\<forall>v\<in>set vs. asg_field v \<notin> set F" by (rule not_triggered [OF assms(1)])
  have *: "asg_active (fold asg_set vs r) = asg_active r \<and>
     (''onu_id'' \<in> set F \<longrightarrow> asg_onu_id (fold asg_set vs r) = asg_onu_id r) \<and>
     (''subscription_id'' \<in> set F \<longrightarrow> asg_subscription_id (fold asg_set vs r) = asg_subscription_id r)" for r
    using free
  proof (induction vs arbitrary: r)
    case (Cons v vs)
    from Cons.IH [of "asg_set v r"] Cons.prems assms(2) show ?case by (cases v) auto
  qed simp
  show "asg_active (fold asg_set vs r) = asg_active r"
    and "''onu_id'' \<in> set F \<Longrightarrow> asg_onu_id (fold asg_set vs r) = asg_onu_id r"
    and "''subscription_id'' \<in> set F \<Longrightarrow> asg_subscription_id (fold asg_set vs r) = asg_subscription_id r"
    using * [of r] by blast+
qed

text \<open>What a check on the written rows says about all pairs of rows, by column.\<close>

definition clash_free :: "sys \<Rightarrow> (onu_assignment \<Rightarrow> nat option) \<Rightarrow> nat \<Rightarrow> nat \<Rightarrow> bool" where
  "clash_free s col i j \<longleftrightarrow> (\<forall>r r'. tget (assignments s) i = Some r \<longrightarrow> asg_active r \<longrightarrow>
     tget (assignments s) j = Some r' \<longrightarrow> asg_active r' \<longrightarrow> j \<noteq> i \<longrightarrow> col r' \<noteq> col r)"

lemma clash_free_sym: "clash_free s col i j \<Longrightarrow> clash_free s col j i"
  unfolding clash_free_def by metis

lemma asgs_ok_clash: "asgs_ok s \<longleftrightarrow> (\<forall>i j. clash_free s asg_onu_id i j \<and> clash_free s asg_subscription_id i j)"
  unfolding asgs_ok_def clash_free_def by blast

lemma asg_store_ok:
  assumes "asg_store i vs s = (Inr (), s')"
  shows "s' = s\<lparr>assignments := tupd i (fold asg_set vs) (assignments s)\<rparr>"
    and "asg_validate (map asg_field vs) [i] s' = (Inr (), s')"
proof -
  let ?s = "s\<lparr>assignments := tupd i (fold asg_set vs) (assignments s)\<rparr>"
  from assms obtain t where n: "asg_not_null [i] ?s = (Inr (), t)"
      and v: "asg_validate (map asg_field vs) [i] t = (Inr (), s')"
    by (auto simp: asg_store_def rd_run modify_run elim!: bnd_ok andthen_ok split: option.splits)
  have "t = ?s" using n asg_not_null_ok [of "[i]" ?s t] by blast
  moreover have "s' = t" by (rule asg_validate_ok(1) [OF v])
  ultimately show "s' = ?s" "asg_validate (map asg_field vs) [i] s' = (Inr (), s')" using v by simp_all
qed

lemma keeps_asg_store [keeps_intros]: "keeps asgs_ok (asg_store i vs)"
  unfolding keeps_def
proof (intro allI impI)
  fix s s' and x :: unit
  assume ok: "asgs_ok s" and "asg_store i vs s = (Inr x, s')"
  then have w: "asg_store i vs s = (Inr (), s')" by simp
  note s' = asg_store_ok(1) [OF w] and val = asg_validate_ok [OF asg_store_ok(2) [OF w]]
  have row: "tget (assignments s') j = (if j = i then map_option (fold asg_set vs) (tget (assignments s) i)
      else tget (assignments s) j)" for j
    by (simp add: s' tbl.look_upd)
  have old: "clash_free s asg_onu_id j k" "clash_free s asg_subscription_id j k" for j k
    using ok by (auto simp: asgs_ok_clash)
  have col: "clash_free s' c i k"
    if "triggered (map asg_field vs) F \<Longrightarrow> clash_free s' c i k"
      and "\<not> triggered (map asg_field vs) F \<Longrightarrow> (\<forall>r. asg_active (fold asg_set vs r) = asg_active r \<and> c (fold asg_set vs r) = c r)"
      and "clash_free s c i k" for c k F
    using that by (cases "triggered (map asg_field vs) F") (auto simp: clash_free_def row split: if_splits)
  have onu: "clash_free s' asg_onu_id i k" for k
    by (rule col [of "[''onu_id'', ''active'']"])
      (use val(2) check_onu_ok [of "[i]" s' s'] frame_asg [of vs "[''onu_id'', ''active'']"] old in
        \<open>auto simp: clash_free_def\<close>)
  have sub: "clash_free s' asg_subscription_id i k" for k
    by (rule col [of "[''subscription_id'', ''active'']"])
      (use val(3) check_subscription_ok [of "[i]" s' s'] frame_asg [of vs "[''subscription_id'', ''active'']"] old in
        \<open>auto simp: clash_free_def\<close>)
  have rest: "clash_free s' c j k" if "j \<noteq> i" "k \<noteq> i" "clash_free s c j k" for c j k
    using that by (simp add: clash_free_def row)
  show "asgs_ok s'"
    unfolding asgs_ok_clash using onu sub rest old clash_free_sym by metis
qed

lemma keeps_asg_write [keeps_intros]: "keeps asgs_ok (asg_write e i vs)"
  unfolding asg_write_def by (intro keeps_intros)

lemma asg_insert_rows:
  assumes "map_each asg_insert vl s = (Inr ids, s')"
  shows "\<forall>j r. tget (assignments s') j = Some r \<longrightarrow> tget (assignments s) j = Some r \<or> j \<in> set ids"
  using inserted_rows [of asg_insert assignments "\<lambda>t s. s\<lparr>assignments := t\<rparr>" "\<lambda>vs. fold asg_set vs asg_default",
      OF _ _ assms]
  by (auto simp: asg_insert_def)

lemma keeps_asg_create [keeps_intros]: "keeps asgs_ok (asg_create e vl)"
  unfolding keeps_def
proof (intro allI impI)
  fix s s' ids0
  assume ok: "asgs_ok s" and run: "asg_create e vl s = (Inr ids0, s')"
  from run obtain ids s1 s2 where ins: "map_each asg_insert (map (asg_prepare e) vl) s = (Inr ids, s1)"
      and n: "asg_not_null ids s1 = (Inr (), s2)"
      and v: "asg_validate (concat (map (map asg_field \<circ> asg_prepare e) vl) @ [''active'']) ids s2 = (Inr (), s')"
    by (auto simp: asg_create_def ret_run elim!: bnd_ok andthen_ok)
  have eqs: "s2 = s1" "s' = s1"
    using n asg_not_null_ok [of ids s1 s2] asg_validate_ok(1) [OF v] by auto
  have trig: "triggered (ws @ [''active'']) [f, ''active'']" for ws f by (simp add: triggered_def)
  have onu: "clash_free s1 asg_onu_id i k" if "i \<in> set ids" for i k
    using asg_validate_ok(2) [OF v trig] that eqs check_onu_ok [of ids s1 s1] by (fastforce simp: clash_free_def)
  have sub: "clash_free s1 asg_subscription_id i k" if "i \<in> set ids" for i k
    using asg_validate_ok(3) [OF v trig] that eqs check_subscription_ok [of ids s1 s1] by (fastforce simp: clash_free_def)
  have rest: "clash_free s1 c j k" if "j \<notin> set ids" "k \<notin> set ids" "clash_free s c j k" for c j k
    using that asg_insert_rows [OF ins] unfolding clash_free_def by blast
  have old: "clash_free s asg_onu_id j k" "clash_free s asg_subscription_id j k" for j k
    using ok by (auto simp: asgs_ok_clash)
  show "asgs_ok s'"
    unfolding asgs_ok_clash eqs using onu sub rest old clash_free_sym by metis
qed

section \<open>Dates\<close>

lemma asg_store_plain:
  assumes "tget (assignments s) i = Some r" and "asg_onu_id r \<noteq> None" and "asg_subscription_id r \<noteq> None"
    and "vs = [A_assigned_at x] \<or> vs = [A_unassigned_at y]"
  shows "\<exists>u. asg_store i vs s = (Inr (), s\<lparr>assignments := u\<rparr>) \<and> tget u i = Some (fold asg_set vs r)"
proof -
  let ?s = "s\<lparr>assignments := tupd i (fold asg_set vs) (assignments s)\<rparr>"
  have "asg_not_null [i] ?s = (Inr (), ?s)"
    using assms asg_not_null_ok [of "[i]" ?s ?s] by (auto simp: tbl.look_upd)
  moreover have "asg_validate (map asg_field vs) [i] ?s = (Inr (), ?s)"
    using assms(4) by (auto simp: asg_validate_def triggered_def run_simps)
  ultimately have "asg_store i vs s = (Inr (), ?s)"
    using assms(1) by (simp add: asg_store_def run_simps)
  with assms(1) show ?thesis by (auto simp: tbl.look_upd)
qed

lemma deactivate_row:
  assumes "tget (assignments s) i = Some r" and "asg_onu_id r \<noteq> None" and "asg_subscription_id r \<noteq> None"
  shows "\<exists>u. asg_write e i [A_active False] s = (Inr (), s\<lparr>assignments := u\<rparr>) \<and>
    tget u i = Some (r\<lparr>asg_active := False, asg_unassigned_at :=
      (case asg_unassigned_at r of None \<Rightarrow> Some (now e) | Some t \<Rightarrow> Some t)\<rparr>)"
proof -
  let ?s = "s\<lparr>assignments := tupd i (fold asg_set [A_active False]) (assignments s)\<rparr>" and ?r = "r\<lparr>asg_active := False\<rparr>"
  have row: "tget (assignments ?s) i = Some ?r" using assms(1) by (simp add: tbl.look_upd)
  have "asg_not_null [i] ?s = (Inr (), ?s)" "check_one_active_per_onu [i] ?s = (Inr (), ?s)"
    "check_one_active_per_subscription [i] ?s = (Inr (), ?s)"
    using row assms(2,3) asg_not_null_ok [of "[i]" ?s ?s] check_onu_ok [of "[i]" ?s ?s] check_subscription_ok [of "[i]" ?s ?s]
    by auto
  then have store: "asg_store i [A_active False] s = (Inr (), ?s)"
    using assms(1) by (simp add: asg_store_def asg_validate_def triggered_def andthen_run bnd_run rd_run modify_run do_if_run)
  show ?thesis
  proof (cases "asg_unassigned_at r")
    case None
    from asg_store_plain [OF row, of "[A_unassigned_at (Some (now e))]"] assms(2,3) obtain u where
        "asg_store i [A_unassigned_at (Some (now e))] ?s = (Inr (), s\<lparr>assignments := u\<rparr>)"
        "tget u i = Some (?r\<lparr>asg_unassigned_at := Some (now e)\<rparr>)"
      by auto
    with store row None show ?thesis
      by (auto simp: asg_write_def andthen_run bnd_run rd_run do_if_run)
  next
    case (Some t)
    have "r\<lparr>asg_active := False, asg_unassigned_at := Some t\<rparr> = ?r" using Some by simp
    moreover have "asg_write e i [A_active False] s = (Inr (), ?s)"
      using store row Some by (auto simp: asg_write_def andthen_run bnd_run rd_run do_if_run)
    ultimately show ?thesis
      using row Some by (intro exI [of _ "tupd i (fold asg_set [A_active False]) (assignments s)"]) auto
  qed
qed

lemma reactivate_row:
  assumes "asg_write e i [A_active True] s = (Inr (), s')" and "tget (assignments s) i = Some r"
    and "asg_assigned_at r = Some t"
  shows "tget (assignments s') i = Some (r\<lparr>asg_active := True\<rparr>)"
proof -
  from assms(1) obtain s1 where st: "asg_store i [A_active True] s = (Inr (), s1)"
      and rest: "andthen (bnd (rd assignments i) (\<lambda>r.
          do_if (asg_active r \<and> asg_assigned_at r = None) (asg_store i [A_assigned_at (Some (now e))])))
        (bnd (rd assignments i) (\<lambda>r.
          do_if (\<not> asg_active r \<and> asg_unassigned_at r = None) (asg_store i [A_unassigned_at (Some (now e))]))) s1 =
        (Inr (), s')"
    by (auto simp: asg_write_def do_if_run elim!: andthen_ok)
  have row: "tget (assignments s1) i = Some (r\<lparr>asg_active := True\<rparr>)"
    using asg_store_ok(1) [OF st] assms(2) by (simp add: tbl.look_upd)
  with rest assms(3) have "s' = s1" by (simp add: andthen_run bnd_run rd_run do_if_run)
  with row show ?thesis by simp
qed

text \<open>An assignment keeps the date of its first end: when it is ended, taken up again and ended
  a second time, it still reports the first date - and, in between, an active assignment reports
  that it was unassigned.\<close>

theorem unassigned_date_is_first:
  assumes "tget (assignments s) i = Some r" and "asg_onu_id r \<noteq> None" and "asg_subscription_id r \<noteq> None"
    and "asg_assigned_at r = Some t" and "asg_unassigned_at r = None"
    and "asg_write e1 i [A_active False] s = (Inr (), s1)" and "asg_write e2 i [A_active True] s1 = (Inr (), s2)"
  shows "\<exists>s3. asg_write e3 i [A_active False] s2 = (Inr (), s3) \<and>
    tget (assignments s2) i = Some (r\<lparr>asg_active := True, asg_unassigned_at := Some (now e1)\<rparr>) \<and>
    tget (assignments s3) i = Some (r\<lparr>asg_active := False, asg_unassigned_at := Some (now e1)\<rparr>)"
proof -
  have r1: "tget (assignments s1) i = Some (r\<lparr>asg_active := False, asg_unassigned_at := Some (now e1)\<rparr>)"
    using deactivate_row [OF assms(1-3), of e1] assms(5,6) by auto
  from reactivate_row [OF assms(7) r1] assms(4)
  have r2: "tget (assignments s2) i = Some (r\<lparr>asg_active := True, asg_unassigned_at := Some (now e1)\<rparr>)" by simp
  from deactivate_row [OF r2, of e3] assms(2,3) r2 show ?thesis by auto
qed

definition demo_asg :: onu_assignment where
  "demo_asg = \<lparr>asg_onu_id = Some 1, asg_subscription_id = Some 1, asg_active = True,
     asg_assigned_at = Some 0, asg_unassigned_at = None\<rparr>"

theorem unassigned_date_is_first_witness:
  "\<exists>s1 s2 s3. asg_write (plain_env\<lparr>now := 5\<rparr>) 1 [A_active False] (blank_sys\<lparr>assignments := [(1, demo_asg)]\<rparr>) = (Inr (), s1) \<and>
     asg_write (plain_env\<lparr>now := 6\<rparr>) 1 [A_active True] s1 = (Inr (), s2) \<and>
     asg_write (plain_env\<lparr>now := 7\<rparr>) 1 [A_active False] s2 = (Inr (), s3) \<and>
     map_option asg_unassigned_at (tget (assignments s3) 1) = Some (Some 5)"
proof -
  let ?s = "blank_sys\<lparr>assignments := [(1, demo_asg)]\<rparr>"
  let ?d = "demo_asg\<lparr>asg_active := False, asg_unassigned_at := Some 5\<rparr>"
  let ?u = "?d\<lparr>asg_active := True\<rparr>"
  have one: "asg_write (plain_env\<lparr>now := 5\<rparr>) 1 [A_active False] ?s = (Inr (), ?s\<lparr>assignments := [(1, ?d)]\<rparr>)"
    by (simp add: asg_write_def asg_store_def run_simps tget_def tupd_def asg_not_null_def assert_that_def
        asg_validate_def triggered_def check_one_active_per_onu_def check_one_active_per_subscription_def demo_asg_def)
  have two: "asg_write (plain_env\<lparr>now := 6\<rparr>) 1 [A_active True] (?s\<lparr>assignments := [(1, ?d)]\<rparr>) =
      (Inr (), ?s\<lparr>assignments := [(1, ?u)]\<rparr>)"
    by (simp add: asg_write_def asg_store_def run_simps tget_def tupd_def asg_not_null_def assert_that_def
        asg_validate_def triggered_def check_one_active_per_onu_def check_one_active_per_subscription_def
        search_ids_def same_onu_def same_subscription_def demo_asg_def)
  have row: "tget (assignments ?s) 1 = Some demo_asg" by (simp add: tget_def)
  from unassigned_date_is_first [OF row _ _ _ _ one two, of 0 "plain_env\<lparr>now := 7\<rparr>"] one two show ?thesis
    by (fastforce simp: demo_asg_def)
qed

end
