(* ===== verification/Mac_Onboarding.thy ===== *)
theory Mac_Onboarding
  imports Onu_Assignment
begin

text \<open>
  The MAC onboarding endpoint (\<open>isp_core/controllers/mac_onboarding.py\<close>) and
  \<open>normalize_mac\<close> (\<open>isp_core/models/mac_profile.py\<close>): what a router's DHCP lease script
  or call-home script reports, and the subscription, captive user and job created from it. The
  three optional modules are installed.
\<close>

datatype response = Response (resp_text: string) (resp_status: nat)

definition normalize_mac :: "string \<Rightarrow> string" where
  "normalize_mac mac = py_upper (py_strip mac)"

text \<open>\<open>search([("code", "=", code)], limit=1)\<close>: archived sectors are not searched.\<close>

definition first_sector :: "env \<Rightarrow> sys \<Rightarrow> string \<Rightarrow> nat option" where
  "first_sector e s code =
     (case sort_key (\<lambda>i. collate e (via (sectors s) (Some i) [] sec_name))
        (search_ids (\<lambda>_ r. sec_code r = code \<and> sec_active r) (sectors s)) of
        [] \<Rightarrow> None | i # is \<Rightarrow> Some i)"

definition first_id :: "nat list \<Rightarrow> nat option" where
  "first_id ids = (case ids of [] \<Rightarrow> None | i # is \<Rightarrow> Some i)"

text \<open>The profile of a MAC address: the written values, on top of what it had.\<close>

definition mac_values :: "env \<Rightarrow> string \<Rightarrow> nat option \<Rightarrow> string option \<Rightarrow> string option \<Rightarrow> string \<Rightarrow>
    mac_profile \<Rightarrow> mac_profile" where
  "mac_values e norm_mac sector_id ip hostname bound p =
     p\<lparr>mac_mac_address := norm_mac, mac_sector_id := sector_id, mac_last_seen_ip := ip,
       mac_last_seen_at := now e, mac_hostname := hostname,
       mac_state := (if py_lower bound \<in> {''0'', ''false'', ''no''} then MacOffline else MacOnline)\<rparr>"

definition blank_profile :: mac_profile where
  "blank_profile = \<lparr>mac_mac_address = [], mac_sector_id = None, mac_plan_id = None,
     mac_partner_id = None, mac_subscription_id = None, mac_state = MacOnline,
     mac_last_seen_ip = None, mac_last_seen_at = 0, mac_hostname = None\<rparr>"

definition upsert_profile :: "string \<Rightarrow> (mac_profile \<Rightarrow> mac_profile) \<Rightarrow> nat op" where
  "upsert_profile norm_mac values = bnd (gets (\<lambda>s.
       first_id (search_ids (\<lambda>_ p. mac_mac_address p = norm_mac) (mac_profiles s)))) (\<lambda>found.
     case found of
       Some i \<Rightarrow> andthen (modify (\<lambda>s. s\<lparr>mac_profiles := tupd i values (mac_profiles s)\<rparr>)) (ret i)
     | None \<Rightarrow> bnd (gets (\<lambda>s. fresh_id (mac_profiles s))) (\<lambda>i.
         andthen (modify (\<lambda>s. s\<lparr>mac_profiles := tins (values blank_profile) (mac_profiles s)\<rparr>)) (ret i)))"

definition is_on :: "string option \<Rightarrow> bool" where
  "is_on v = (v \<in> {Some ''1'', Some ''true'', Some ''True''})"

definition sector_router :: "env \<Rightarrow> sys \<Rightarrow> nat option \<Rightarrow> nat option" where
  "sector_router e s sector_id =
     (if sector_id = None then None else first_router e s (\<lambda>_ r. router_sector s r = sector_id))"

definition profile_partner :: "nat \<Rightarrow> string \<Rightarrow> nat op" where
  "profile_partner prof norm_mac = bnd (rd mac_profiles prof) (\<lambda>p. case mac_partner_id p of
     Some partner \<Rightarrow> ret partner
   | None \<Rightarrow> bnd (gets (\<lambda>s. fresh_id (partners s))) (\<lambda>partner.
       andthen (modify (\<lambda>s. s\<lparr>partners := tins \<lparr>par_name = ''Auto '' @ norm_mac, par_email = None,
                  par_is_isp_customer = True\<rparr> (partners s)\<rparr>))
      (andthen (modify (\<lambda>s. s\<lparr>mac_profiles := tupd prof (\<lambda>p. p\<lparr>mac_partner_id := Some partner\<rparr>) (mac_profiles s)\<rparr>))
       (ret partner))))"

text \<open>\<open>plan_id and str(plan_id).isdigit()\<close>, then \<open>int(plan_id)\<close>.\<close>

definition default_plan :: "env \<Rightarrow> nat option" where
  "default_plan e = (case get_param e ''isp_core.mac_default_plan_id'' of
     None \<Rightarrow> None
   | Some t \<Rightarrow> if py_isdigit t then map_option nat (py_int t) else None)"

text \<open>\<open>None\<close>: go on; \<open>Some r\<close>: the request ends with that response.\<close>

definition auto_subscribe :: "env \<Rightarrow> nat \<Rightarrow> string \<Rightarrow> nat option \<Rightarrow> string option \<Rightarrow> response option op" where
  "auto_subscribe e prof norm_mac sector_id ip = bnd (rd mac_profiles prof) (\<lambda>p.
     if \<not> (is_on (get_param e ''isp_core.mac_auto_create'') \<and> mac_subscription_id p = None) then ret None
     else (case default_plan e of
       None \<Rightarrow> ret None
     | Some plan \<Rightarrow>
         let sector_for_sub = (if sector_id \<noteq> None then sector_id else mac_sector_id p)
         in if sector_for_sub = None then ret (Some (Response ''sector required for auto-create'' 400))
         else bnd (profile_partner prof norm_mac) (\<lambda>partner.
              bnd (gets (\<lambda>s. sector_router e s sector_id)) (\<lambda>router_id.
              bnd (sub_create e [[V_partner_id (Some partner), V_plan_id (Some plan),
                   V_sector_id sector_for_sub, V_service_mac (Some norm_mac), V_service_ip ip,
                   V_state SubDraft] @ (if router_id \<noteq> None then [V_router_id router_id] else [])]) (\<lambda>ids.
              andthen (modify (\<lambda>s. s\<lparr>mac_profiles := tupd prof (\<lambda>p.
                   p\<lparr>mac_subscription_id := first_id ids, mac_plan_id := Some plan\<rparr>) (mac_profiles s)\<rparr>))
              (ret None))))))"

definition auto_captive :: "env \<Rightarrow> string \<Rightarrow> nat option \<Rightarrow> unit op" where
  "auto_captive e norm_mac sector_id =
     (if \<not> is_on (get_param e ''isp_core.mac_auto_create_captive_user'') then ret ()
      else let username = ''onu_'' @ py_lower (py_replace CHR '':'' [] norm_mac)
      in bnd (gets (\<lambda>s. first_id (search_ids (\<lambda>_ u. cap_username u = username) (captive_users s)))) (\<lambda>captive.
         if captive \<noteq> None then ret ()
         else bnd (draw_token e 4) (\<lambda>password.
              bnd (gets (\<lambda>s. sector_router e s sector_id)) (\<lambda>router_id.
              bnd (gets (\<lambda>s. fresh_id (captive_users s))) (\<lambda>cid.
              andthen (modify (\<lambda>s. s\<lparr>captive_users := tins
                   \<lparr>cap_username = username, cap_password = Some password,
                    cap_profile = Some (or_str (get_param e ''isp_core.mac_captive_default_profile'') ''default''),
                    cap_state = CapDisabled, cap_router_id = router_id\<rparr> (captive_users s)\<rparr>))
              (do_if (is_on (get_param e ''isp_core.mac_auto_provision_captive'') \<and> router_id \<noteq> None)
                (bnd (gets (\<lambda>s. via (routers s) router_id None rtr_device_id)) (\<lambda>dev.
                 ignore (job_create e captive_user_create None dev sector_id
                   (json_dumps e (PDict [(''captive_user_id'', PInt (int cid))]))))))))))) "

text \<open>The endpoint: \<open>kw\<close> are the request's parameters, \<open>header\<close> its \<open>X-ISP-TOKEN\<close>.\<close>

definition onboard_profile :: "env \<Rightarrow> (string \<Rightarrow> string option) \<Rightarrow> string \<Rightarrow> response op" where
  "onboard_profile e kw mac =
     (let ip = param_alt kw ''ip'' ''leaseActIP'';
          bound = or_str (param_alt kw ''bound'' ''leaseBound'') ''1'';
          norm_mac = normalize_mac mac
      in bnd (gets (\<lambda>s. if set_str (kw ''sector'') then first_sector e s (or_str (kw ''sector'') []) else None)) (\<lambda>sector_id.
         bnd (upsert_profile norm_mac (mac_values e norm_mac sector_id ip (kw ''hostname'') bound)) (\<lambda>prof.
         bnd (auto_subscribe e prof norm_mac sector_id ip) (\<lambda>early.
         case early of
           Some r \<Rightarrow> ret r
         | None \<Rightarrow> andthen (auto_captive e norm_mac sector_id) (ret (Response ''ok'' 200))))))"

definition mac_onboarding :: "env \<Rightarrow> (string \<Rightarrow> string option) \<Rightarrow> string option \<Rightarrow> response op" where
  "mac_onboarding e kw header =
     (let token = (if set_str (kw ''token'') then kw ''token'' else header);
          expected = get_param e ''isp_core.mac_onboarding_token''
      in if \<not> set_str expected then ret (Response ''mac_onboarding_token not configured'' 403)
         else if token \<noteq> expected then ret (Response ''unauthorized'' 401)
         else (let mac = param_alt kw ''mac'' ''leaseActMAC''
               in if \<not> set_str mac then ret (Response ''mac required'' 400)
                  else onboard_profile e kw (or_str mac [])))"

section \<open>Properties\<close>

lemma normalize_mac_idem: "normalize_mac (normalize_mac m) = normalize_mac m"
  by (simp add: normalize_mac_def strip_upper py_strip_idem py_upper_idem)

text \<open>C33. The endpoint changes nothing - no profile, subscription, captive user or job - unless a
  token is configured and the request carries exactly that token, in the parameter or, when the
  parameter is empty, in the header.\<close>

theorem onboarding_needs_token:
  assumes "\<not> set_str (get_param e ''isp_core.mac_onboarding_token'') \<or>
    (if set_str (kw ''token'') then kw ''token'' else header) \<noteq> get_param e ''isp_core.mac_onboarding_token''"
  shows "\<exists>r. mac_onboarding e kw header s = (Inr r, s) \<and> resp_status r \<in> {401, 403}"
  using assms by (auto simp: mac_onboarding_def Let_def run_simps)

theorem onboarding_needs_token_witness:
  "\<exists>r. mac_onboarding plain_env (\<lambda>_. None) None blank_sys = (Inr r, blank_sys) \<and> resp_status r \<in> {401, 403}"
  by (rule onboarding_needs_token) (simp add: plain_env_def)

lemma upsert_profile_row:
  obtains i t where "upsert_profile m f s = (Inr i, s\<lparr>mac_profiles := t\<rparr>)"
    and "tget t i = Some (f (case tget (mac_profiles s) i of None \<Rightarrow> blank_profile | Some p \<Rightarrow> p))"
    and "\<And>j. j \<noteq> i \<Longrightarrow> tget t j = tget (mac_profiles s) j"
    and "\<And>p. tget (mac_profiles s) i = Some p \<Longrightarrow> mac_mac_address p = m"
    and "\<And>j p. tget (mac_profiles s) i = None \<Longrightarrow> tget (mac_profiles s) j = Some p \<Longrightarrow> mac_mac_address p \<noteq> m"
proof (cases "search_ids (\<lambda>_ p. mac_mac_address p = m) (mac_profiles s)")
  case Nil
  let ?i = "fresh_id (mac_profiles s)" and ?t = "tins (f blank_profile) (mac_profiles s)"
  show ?thesis
  proof (rule that [of ?i ?t])
    show "upsert_profile m f s = (Inr ?i, s\<lparr>mac_profiles := ?t\<rparr>)"
      using Nil by (simp add: upsert_profile_def first_id_def run_simps)
    show "mac_mac_address p \<noteq> m" if "tget (mac_profiles s) j = Some p" for j p
      using Nil that by (simp add: search_ids_empty)
  qed (simp_all add: tbl.look_ins tbl.look_new)
next
  case (Cons i js)
  then have "i \<in> set (search_ids (\<lambda>_ p. mac_mac_address p = m) (mac_profiles s))" by simp
  then obtain p where p: "tget (mac_profiles s) i = Some p" "mac_mac_address p = m" by (auto simp: search_ids_iff)
  show ?thesis
  proof (rule that [of i "tupd i f (mac_profiles s)"])
    show "upsert_profile m f s = (Inr i, s\<lparr>mac_profiles := tupd i f (mac_profiles s)\<rparr>)"
      using Cons by (simp add: upsert_profile_def first_id_def run_simps)
  qed (use p in \<open>simp_all add: tbl.look_upd\<close>)
qed

definition mac_of :: "sys \<Rightarrow> nat \<Rightarrow> string option" where
  "mac_of s i = map_option mac_mac_address (tget (mac_profiles s) i)"

definition one_profile_per_mac :: "sys \<Rightarrow> bool" where
  "one_profile_per_mac s \<longleftrightarrow> (\<forall>i j m. mac_of s i = Some m \<longrightarrow> mac_of s j = Some m \<longrightarrow> i = j) \<and>
     (\<forall>i m. mac_of s i = Some m \<longrightarrow> normalize_mac m = m)"

lemma one_profile_cong: "mac_of t = mac_of s \<Longrightarrow> one_profile_per_mac t = one_profile_per_mac s"
  by (simp add: one_profile_per_mac_def)

lemma upsert_one_profile:
  assumes "one_profile_per_mac s" and "\<And>p. mac_mac_address (f p) = normalize_mac m"
    and "upsert_profile (normalize_mac m) f s = (Inr i, s')"
  shows "one_profile_per_mac s'"
proof -
  obtain k t where row: "upsert_profile (normalize_mac m) f s = (Inr k, s\<lparr>mac_profiles := t\<rparr>)"
      and new: "tget t k = Some (f (case tget (mac_profiles s) k of None \<Rightarrow> blank_profile | Some p \<Rightarrow> p))"
      and other: "\<And>j. j \<noteq> k \<Longrightarrow> tget t j = tget (mac_profiles s) j"
      and old: "\<And>p. tget (mac_profiles s) k = Some p \<Longrightarrow> mac_mac_address p = normalize_mac m"
      and fresh: "\<And>j p. tget (mac_profiles s) k = None \<Longrightarrow> tget (mac_profiles s) j = Some p \<Longrightarrow>
        mac_mac_address p \<noteq> normalize_mac m"
    by (rule upsert_profile_row [of "normalize_mac m" f s]) blast
  from row assms(3) have k: "k = i" and s': "s' = s\<lparr>mac_profiles := t\<rparr>" by simp_all
  have here: "mac_of s' j = (if j = i then Some (normalize_mac m) else mac_of s j)" for j
    using new other [of j] assms(2) unfolding k by (auto simp: mac_of_def s')
  have free: "mac_of s j \<noteq> Some (normalize_mac m)" if "j \<noteq> i" for j
  proof (cases "tget (mac_profiles s) i")
    case None
    with fresh k show ?thesis by (auto simp: mac_of_def)
  next
    case (Some p)
    with old k have "mac_of s i = Some (normalize_mac m)" by (simp add: mac_of_def)
    with assms(1) that show ?thesis by (auto simp: one_profile_per_mac_def)
  qed
  show ?thesis
    using assms(1) free unfolding one_profile_per_mac_def here
    by (auto simp: normalize_mac_idem split: if_splits)
qed

section \<open>The rest of the endpoint\<close>

lemma keeps_all_sub_insert: "sub_free I \<Longrightarrow> keeps_all I (sub_insert vs)"
  by (simp add: sub_insert_def keeps_all_def sub_free_def dom_tins subset_insertI)

lemma keeps_all_sub_create [keeps_all_intros]:
  assumes "sub_free I" "seq_free I" "draw_free I"
  shows "keeps_all I (sub_create e vl)"
proof -
  have "keeps_all I (sub_prepare_auth vs)" for vs
    unfolding sub_prepare_auth_def by (intro keeps_all_intros)
  moreover have "keeps_all I (sub_prepare_name e vs)" for vs
    unfolding sub_prepare_name_def by (intro keeps_all_intros assms)
  ultimately show ?thesis
    unfolding sub_create_def by (intro keeps_all_intros keeps_all_sub_insert assms)
qed

lemma keeps_profile_steps [keeps_intros]:
  "keeps (\<lambda>t. mac_of t = M) (profile_partner prof m)"
  "keeps (\<lambda>t. mac_of t = M) (auto_subscribe e prof m sec ip)"
  "keeps (\<lambda>t. mac_of t = M) (auto_captive e m sec)"
proof -
  have upd: "mac_of (t\<lparr>mac_profiles := tupd i f (mac_profiles t)\<rparr>) = mac_of t"
    if "\<And>p. mac_mac_address (f p) = mac_mac_address p" for t i f
    using that by (auto simp: mac_of_def fun_eq_iff tbl.look_upd option.map_comp comp_def)
  have other: "mac_of (t\<lparr>partners := a\<rparr>) = mac_of t" "mac_of (t\<lparr>captive_users := b\<rparr>) = mac_of t" for t a b
    by (simp_all add: mac_of_def fun_eq_iff)
  have free: "sub_free (\<lambda>t. mac_of t = M)" "seq_free (\<lambda>t. mac_of t = M)" "draw_free (\<lambda>t. mac_of t = M)"
      "job_free (\<lambda>t. mac_of t = M)"
    by (simp_all add: sub_free_def seq_free_def draw_free_def job_free_def mac_of_def fun_eq_iff)
  show partner: "keeps (\<lambda>t. mac_of t = M) (profile_partner prof m)" for prof m
    unfolding profile_partner_def by (intro keeps_intros keeps_modify) (simp_all add: upd other)
  show "keeps (\<lambda>t. mac_of t = M) (auto_subscribe e prof m sec ip)"
    unfolding auto_subscribe_def Let_def
    by (intro keeps_intros partner keeps_modify keeps_all_imp [OF keeps_all_sub_create] free) (simp add: upd)
  show "keeps (\<lambda>t. mac_of t = M) (auto_captive e m sec)"
    unfolding auto_captive_def Let_def
    by (intro keeps_intros keeps_modify free) (simp add: other)
qed

lemma keeps_one_profile: "keeps one_profile_per_mac (mac_onboarding e kw header)"
proof -
  have inv: "keeps one_profile_per_mac op" if "\<And>M. keeps (\<lambda>t. mac_of t = M) op" for op :: "'a op"
    using that unfolding keeps_def by (metis one_profile_cong)
  have ups: "keeps one_profile_per_mac (upsert_profile (normalize_mac m) f)"
    if "\<And>p. mac_mac_address (f p) = normalize_mac m" for m f
    unfolding keeps_def using upsert_one_profile [of _ f m, OF _ that] by blast
  have steps: "keeps one_profile_per_mac (auto_subscribe e prof m sec ip)"
    "keeps one_profile_per_mac (auto_captive e m sec)" for prof m sec ip
    by (intro inv keeps_profile_steps)+
  have "keeps one_profile_per_mac (onboard_profile e kw mac)" for mac
    unfolding onboard_profile_def Let_def
    by (intro keeps_intros ups steps) (simp add: mac_values_def)
  then show ?thesis
    unfolding mac_onboarding_def Let_def by (intro keeps_intros)
qed

text \<open>The endpoint keeps one profile per MAC address, however the address is written: reports
  that differ only in case or surrounding blanks are about the same profile.\<close>

theorem onboarding_keeps_one_profile:
  assumes "one_profile_per_mac s"
  shows "one_profile_per_mac (transaction (mac_onboarding e kw header) s)"
  by (rule keeps_transaction [OF keeps_one_profile assms])
    (use assms in \<open>simp add: one_profile_per_mac_def mac_of_def\<close>)

theorem onboarding_keeps_one_profile_witness:
  "one_profile_per_mac (transaction (mac_onboarding (plain_env\<lparr>get_param := (\<lambda>_. Some ''1'')\<rparr>)
     (\<lambda>k. if k = ''mac'' then Some '' aa:bb '' else None) (Some ''1'')) blank_sys)"
  by (rule onboarding_keeps_one_profile) (simp add: one_profile_per_mac_def mac_of_def blank_sys_def tget_def)

text \<open>What a request with the token and a MAC address amounts to.\<close>

lemma onboarding_accepted:
  assumes "get_param e ''isp_core.mac_onboarding_token'' = Some tok" and "tok \<noteq> []"
    and "(if set_str (kw ''token'') then kw ''token'' else header) = Some tok"
    and "param_alt kw ''mac'' ''leaseActMAC'' = Some mac" and "mac \<noteq> []"
  shows "mac_onboarding e kw header = onboard_profile e kw mac"
  using assms by (simp add: mac_onboarding_def Let_def)

lemma upsert_known:
  assumes "one_profile_per_mac s" and "tget (mac_profiles s) i = Some p" and "mac_mac_address p = m"
  shows "upsert_profile m f s = (Inr i, s\<lparr>mac_profiles := tupd i f (mac_profiles s)\<rparr>)"
proof -
  have "i \<in> set (search_ids (\<lambda>_ p. mac_mac_address p = m) (mac_profiles s))"
    using assms(2,3) by (simp add: search_ids_iff)
  then obtain k ks where ks: "search_ids (\<lambda>_ p. mac_mac_address p = m) (mac_profiles s) = k # ks"
    by (cases "search_ids (\<lambda>_ p. mac_mac_address p = m) (mac_profiles s)") auto
  then have "k \<in> set (search_ids (\<lambda>_ p. mac_mac_address p = m) (mac_profiles s))" by simp
  then have "mac_of s k = Some m" by (auto simp: search_ids_iff mac_of_def)
  moreover have "mac_of s i = Some m" using assms(2,3) by (simp add: mac_of_def)
  ultimately have "k = i" using assms(1) by (auto simp: one_profile_per_mac_def)
  with ks show ?thesis by (simp add: upsert_profile_def first_id_def run_simps)
qed

text \<open>Reporting a known MAC address again - its profile has a subscription, and its captive user
  exists or is not wanted - answers \<open>ok\<close> and changes only that profile, to the reported
  values: no second subscription, captive user or job is created.\<close>

theorem known_mac_is_only_refreshed:
  assumes "get_param e ''isp_core.mac_onboarding_token'' = Some tok" and "tok \<noteq> []"
    and "(if set_str (kw ''token'') then kw ''token'' else header) = Some tok"
    and "param_alt kw ''mac'' ''leaseActMAC'' = Some mac" and "mac \<noteq> []"
    and "one_profile_per_mac s" and "tget (mac_profiles s) i = Some p"
    and "mac_mac_address p = normalize_mac mac" and "mac_subscription_id p = Some sub"
    and "is_on (get_param e ''isp_core.mac_auto_create_captive_user'') \<Longrightarrow> \<exists>c u. tget (captive_users s) c = Some u \<and>
      cap_username u = ''onu_'' @ py_lower (py_replace CHR '':'' [] (normalize_mac mac))"
  shows "mac_onboarding e kw header s = (Inr (Response ''ok'' 200),
    s\<lparr>mac_profiles := tupd i (mac_values e (normalize_mac mac)
       (if set_str (kw ''sector'') then first_sector e s (or_str (kw ''sector'') []) else None)
       (param_alt kw ''ip'' ''leaseActIP'') (kw ''hostname'') (or_str (param_alt kw ''bound'' ''leaseBound'') ''1''))
     (mac_profiles s)\<rparr>)"
proof -
  let ?sec = "if set_str (kw ''sector'') then first_sector e s (or_str (kw ''sector'') []) else None"
  let ?f = "mac_values e (normalize_mac mac) ?sec (param_alt kw ''ip'' ''leaseActIP'') (kw ''hostname'')
    (or_str (param_alt kw ''bound'' ''leaseBound'') ''1'')"
  let ?s = "s\<lparr>mac_profiles := tupd i ?f (mac_profiles s)\<rparr>"
  have row: "tget (mac_profiles ?s) i = Some (?f p)" using assms(7) by (simp add: tbl.look_upd)
  have "mac_subscription_id (?f p) = Some sub" using assms(9) by (simp add: mac_values_def)
  then have auto: "auto_subscribe e i (normalize_mac mac) ?sec (param_alt kw ''ip'' ''leaseActIP'') ?s = (Inr None, ?s)"
    using row by (simp add: auto_subscribe_def run_simps)
  have cap: "auto_captive e (normalize_mac mac) ?sec ?s = (Inr (), ?s)"
  proof (cases "is_on (get_param e ''isp_core.mac_auto_create_captive_user'')")
    case True
    let ?u = "''onu_'' @ py_lower (py_replace CHR '':'' [] (normalize_mac mac))"
    from assms(10) [OF True] have "search_ids (\<lambda>_ u. cap_username u = ?u) (captive_users ?s) \<noteq> []"
      by (auto simp: search_ids_empty)
    then have "first_id (search_ids (\<lambda>_ u. cap_username u = ?u) (captive_users ?s)) \<noteq> None"
      by (auto simp: first_id_def split: list.split)
    with True show ?thesis by (simp add: auto_captive_def Let_def run_simps)
  qed (simp add: auto_captive_def run_simps)
  show ?thesis
    unfolding onboarding_accepted [OF assms(1-5)] onboard_profile_def Let_def
    using upsert_known [OF assms(6,7,8), of ?f] auto cap by (simp add: bnd_run gets_run andthen_run ret_run)
qed

definition demo_profile :: mac_profile where
  "demo_profile = blank_profile\<lparr>mac_mac_address := ''AA:BB'', mac_sector_id := Some 1, mac_subscription_id := Some 1\<rparr>"

definition demo_mac_sys :: sys where
  "demo_mac_sys = (demo_sys change_plan)\<lparr>mac_profiles := [(1, demo_profile)]\<rparr>"

lemma demo_mac_facts: "one_profile_per_mac demo_mac_sys" "tget (mac_profiles demo_mac_sys) 1 = Some demo_profile"
  "normalize_mac ''aa:bb'' = ''AA:BB''"
proof -
  show n: "normalize_mac ''aa:bb'' = ''AA:BB''"
    by (simp add: normalize_mac_def py_strip_def is_space_def py_upper_def map_char_def lower_letters_def upper_letters_def)
  have "normalize_mac ''AA:BB'' = ''AA:BB''" using normalize_mac_idem [of "''aa:bb''"] by (simp add: n)
  then show "one_profile_per_mac demo_mac_sys"
    by (auto simp: one_profile_per_mac_def mac_of_def demo_mac_sys_def tget_def demo_profile_def)
qed (simp add: demo_mac_sys_def tget_def)

theorem known_mac_is_only_refreshed_witness:
  "map_option mac_sector_id (tget (mac_profiles (snd (mac_onboarding
     (plain_env\<lparr>get_param := (\<lambda>k. if k = ''isp_core.mac_onboarding_token'' then Some ''T'' else None)\<rparr>)
     (\<lambda>k. if k = ''mac'' then Some ''aa:bb'' else None) (Some ''T'') demo_mac_sys))) 1) = Some None"
  by (subst known_mac_is_only_refreshed [of _ "''T''" _ _ "''aa:bb''" _ 1 demo_profile 1])
    (simp_all add: demo_mac_facts demo_mac_facts [unfolded One_nat_def] is_on_def param_alt_def tbl.look_upd,
      simp_all add: demo_profile_def mac_values_def)

text \<open>A report that names no sector erases the sector the profile had; with the automatic
  subscription on, it is then answered with an error, although the sector was known before, and
  the erased sector stays erased.\<close>

theorem report_without_sector_erases_it:
  assumes "get_param e ''isp_core.mac_onboarding_token'' = Some tok" and "tok \<noteq> []"
    and "(if set_str (kw ''token'') then kw ''token'' else header) = Some tok"
    and "param_alt kw ''mac'' ''leaseActMAC'' = Some mac" and "mac \<noteq> []" and "\<not> set_str (kw ''sector'')"
    and "one_profile_per_mac s" and "tget (mac_profiles s) i = Some p"
    and "mac_mac_address p = normalize_mac mac" and "mac_subscription_id p = None"
    and "is_on (get_param e ''isp_core.mac_auto_create'')" and "default_plan e = Some plan"
  shows "mac_onboarding e kw header s = (Inr (Response ''sector required for auto-create'' 400),
    s\<lparr>mac_profiles := tupd i (mac_values e (normalize_mac mac) None
       (param_alt kw ''ip'' ''leaseActIP'') (kw ''hostname'') (or_str (param_alt kw ''bound'' ''leaseBound'') ''1''))
     (mac_profiles s)\<rparr>)"
proof -
  let ?f = "mac_values e (normalize_mac mac) None (param_alt kw ''ip'' ''leaseActIP'') (kw ''hostname'')
    (or_str (param_alt kw ''bound'' ''leaseBound'') ''1'')"
  let ?s = "s\<lparr>mac_profiles := tupd i ?f (mac_profiles s)\<rparr>"
  have row: "tget (mac_profiles ?s) i = Some (?f p)" using assms(8) by (simp add: tbl.look_upd)
  have "mac_subscription_id (?f p) = None" "mac_sector_id (?f p) = None" using assms(10) by (simp_all add: mac_values_def)
  then have "auto_subscribe e i (normalize_mac mac) None (param_alt kw ''ip'' ''leaseActIP'') ?s =
      (Inr (Some (Response ''sector required for auto-create'' 400)), ?s)"
    using row assms(11,12) by (simp add: auto_subscribe_def run_simps Let_def)
  then show ?thesis
    unfolding onboarding_accepted [OF assms(1-5)] onboard_profile_def Let_def
    using upsert_known [OF assms(7,8,9), of ?f] assms(6) by (simp add: bnd_run gets_run ret_run)
qed

definition demo_auto_env :: env where
  "demo_auto_env = plain_env\<lparr>get_param := (\<lambda>k. if k = ''isp_core.mac_onboarding_token'' then Some ''T''
     else if k = ''isp_core.mac_auto_create'' then Some ''1''
     else if k = ''isp_core.mac_default_plan_id'' then Some ''1'' else None)\<rparr>"

lemma demo_auto_plan: "default_plan demo_auto_env = Some 1"
  by (simp add: default_plan_def demo_auto_env_def py_isdigit_def digit_chars_def py_int_def py_strip_def
      is_space_def digit_val_def)

theorem report_without_sector_erases_it_witness:
  "fst (mac_onboarding demo_auto_env (\<lambda>k. if k = ''mac'' then Some ''aa:bb'' else None) (Some ''T'')
     (demo_mac_sys\<lparr>mac_profiles := [(1, demo_profile\<lparr>mac_subscription_id := None\<rparr>)]\<rparr>)) =
   Inr (Response ''sector required for auto-create'' 400)"
proof -
  have ok: "one_profile_per_mac (demo_mac_sys\<lparr>mac_profiles := [(1, demo_profile\<lparr>mac_subscription_id := None\<rparr>)]\<rparr>)"
    by (subst one_profile_cong [of _ demo_mac_sys])
      (rule ext, simp add: mac_of_def demo_mac_sys_def tget_def, rule demo_mac_facts(1))
  have tok: "get_param demo_auto_env ''isp_core.mac_onboarding_token'' = Some ''T''"
    and auto: "is_on (get_param demo_auto_env ''isp_core.mac_auto_create'')"
    by (simp_all add: demo_auto_env_def is_on_def)
  show ?thesis
    by (subst report_without_sector_erases_it [OF tok _ _ _ _ _ ok, of _ _ "''aa:bb''" 1
          "demo_profile\<lparr>mac_subscription_id := None\<rparr>" 1])
      (simp_all add: auto demo_auto_plan [simplified] demo_mac_facts(3) param_alt_def tget_def,
        simp_all add: demo_profile_def)
qed

end
