(* ===== verification/Preconfig.thy ===== *)
theory Preconfig
  imports Mac_Onboarding
begin

text \<open>
  Preconfiguration profiles (\<open>isp_mikrotik/models/preconfig.py\<close>): the constraint on default
  profiles, the comma-separated lists, the payload the preloader receives and the choice of the
  profile for a sector.
\<close>

section \<open>Rows and their constraint\<close>

text \<open>A written value; \<open>Q_settings\<close> stands for the columns that no rule looks at.\<close>

datatype pc_val =
    Q_active bool
  | Q_sequence int
  | Q_sector_id "nat option"
  | Q_is_default bool
  | Q_settings "preconfig \<Rightarrow> preconfig"

fun pc_set :: "pc_val \<Rightarrow> preconfig \<Rightarrow> preconfig" where
  "pc_set (Q_active x) r = r\<lparr>pc_active := x\<rparr>"
| "pc_set (Q_sequence x) r = r\<lparr>pc_sequence := x\<rparr>"
| "pc_set (Q_sector_id x) r = r\<lparr>pc_sector_id := x\<rparr>"
| "pc_set (Q_is_default x) r = r\<lparr>pc_is_default := x\<rparr>"
| "pc_set (Q_settings f) r = (f r)\<lparr>pc_active := pc_active r, pc_sequence := pc_sequence r,
     pc_sector_id := pc_sector_id r, pc_is_default := pc_is_default r\<rparr>"

fun watched_by_default :: "pc_val \<Rightarrow> bool" where
  "watched_by_default (Q_sector_id x) = True"
| "watched_by_default (Q_is_default x) = True"
| "watched_by_default _ = False"

definition pc_default :: preconfig where
  "pc_default = \<lparr>pc_name = None, pc_active = True, pc_sequence = 10, pc_sector_id = None,
     pc_is_default = False, pc_mgmt_subnet = None, pc_target_mac = None,
     pc_bootstrap_user = Some ''admin'', pc_bootstrap_pass = None, pc_api_port = 8728,
     pc_routeros_mgmt_user = Some ''odoo_noc'', pc_routeros_mgmt_pass_env = Some ''MIKROTIK_MGMT_PASS'',
     pc_routeros_mgmt_pass_value = None,
     pc_discovery_interfaces = Some ''ether2,ether3,ether4,wlan1'', pc_allowed_mgmt_ips = None,
     pc_apply_sector_config = True, pc_wan_interface = Some ''ether2'', pc_lan_bridge = Some ''br-pon'',
     pc_lan_ports = Some ''ether3,ether4,wlan1'', pc_lan_address = Some ''10.10.10.1/24'',
     pc_dhcp_pool = Some ''pon_pool'', pc_dhcp_range = Some ''10.10.10.100-10.10.10.200'',
     pc_dhcp_server = Some ''pon_dhcp'', pc_dhcp_lease_time = Some ''1h'',
     pc_dhcp_network = Some ''10.10.10.0/24'', pc_dns_server = Some ''10.10.10.1'',
     pc_enable_dhcp_client_wan = True, pc_enable_nat = True, pc_enable_hotspot = False,
     pc_hotspot_profile = Some ''hs_prof'', pc_hotspot_server = Some ''hs1'', pc_hotspot_dns_name = None,
     pc_hotspot_walled_garden = None, pc_hotspot_login_by = Some ''http-pap'',
     pc_hotspot_html_dir = Some ''hotspot'', pc_call_home_enabled = True, pc_call_home_url = None,
     pc_call_home_token_value = None, pc_call_home_interval = Some ''5m'',
     pc_call_home_ip_lookup_url = Some ''http://api.ipify.org'',
     pc_call_home_script_name = Some ''isp_checkin'', pc_call_home_scheduler_name = Some ''isp_checkin'',
     pc_call_home_check_certificate = False, pc_call_home_mac_interface = None,
     pc_webhook_enabled = False, pc_webhook_url = None, pc_webhook_token_value = None,
     pc_webhook_clear_lease_script_on_disable = True, pc_identity_prefix = Some ''MT-'',
     pc_identity_format = Some ''{prefix}{sector}-{ip_last_octet}''\<rparr>"

definition check_default :: "nat list \<Rightarrow> unit op" where
  "check_default ids = for_each (\<lambda>i. bnd (rd preconfigs i) (\<lambda>r.
     assert_that (\<not> (pc_is_default r \<and> pc_sector_id r \<noteq> None))
       (ValidationError ''El perfil default no debe estar asociado a un sector.''))) ids"

text \<open>The required columns.\<close>

definition pc_not_null :: "nat list \<Rightarrow> unit op" where
  "pc_not_null ids = for_each (\<lambda>i. bnd (rd preconfigs i) (\<lambda>r.
     assert_that (list_all (\<lambda>f. f r \<noteq> None) [pc_name, pc_wan_interface, pc_lan_bridge, pc_lan_address,
         pc_dhcp_pool, pc_dhcp_range, pc_dhcp_server, pc_dhcp_network])
       (IntegrityError ''null value in a required column''))) ids"

definition pc_write :: "nat \<Rightarrow> pc_val list \<Rightarrow> unit op" where
  "pc_write i vs = bnd (rd preconfigs i) (\<lambda>_.
     andthen (modify (\<lambda>s. s\<lparr>preconfigs := tupd i (fold pc_set vs) (preconfigs s)\<rparr>))
    (andthen (pc_not_null [i])
       (do_if (list_ex watched_by_default vs) (check_default [i]))))"

definition pc_create :: "pc_val list \<Rightarrow> nat op" where
  "pc_create vs = bnd (gets (\<lambda>s. fresh_id (preconfigs s))) (\<lambda>i.
     andthen (modify (\<lambda>s. s\<lparr>preconfigs := tins (fold pc_set vs pc_default) (preconfigs s)\<rparr>))
    (andthen (pc_not_null [i])
    (andthen (check_default [i])
       (ret i))))"

section \<open>The payload\<close>

definition parse_csv :: "string option \<Rightarrow> string list" where
  "parse_csv value = filter (\<lambda>v. v \<noteq> []) (map py_strip (py_split CHR '','' (or_str value [])))"

definition parse_csv_or_none :: "string option \<Rightarrow> pyval" where
  "parse_csv_or_none value =
     (let items = parse_csv value in if items \<noteq> [] then PList (map PStr items) else PNone)"

definition lan_ports_list :: "preconfig \<Rightarrow> pyval" where
  "lan_ports_list r = PList (map PStr (parse_csv (pc_lan_ports r)))"

text \<open>\<open>self.field or None\<close>.\<close>

definition or_none :: "string option \<Rightarrow> pyval" where
  "or_none v = (if set_str v then PStr (or_str v []) else PNone)"

definition to_routeros_config :: "preconfig \<Rightarrow> pyval" where
  "to_routeros_config r = PDict
     [(''wan_interface'', char_val (pc_wan_interface r)),
      (''lan_bridge'', char_val (pc_lan_bridge r)),
      (''lan_ports'', lan_ports_list r),
      (''lan_address'', char_val (pc_lan_address r)),
      (''dhcp_pool'', char_val (pc_dhcp_pool r)),
      (''dhcp_range'', char_val (pc_dhcp_range r)),
      (''dhcp_server'', char_val (pc_dhcp_server r)),
      (''dhcp_lease_time'', char_val (pc_dhcp_lease_time r)),
      (''dhcp_network'', char_val (pc_dhcp_network r)),
      (''dns_server'', char_val (pc_dns_server r)),
      (''enable_dhcp_client_wan'', PBool (pc_enable_dhcp_client_wan r)),
      (''enable_nat'', PBool (pc_enable_nat r)),
      (''enable_hotspot'', PBool (pc_enable_hotspot r)),
      (''hotspot_profile'', char_val (pc_hotspot_profile r)),
      (''hotspot_server'', char_val (pc_hotspot_server r)),
      (''hotspot_dns_name'', char_val (pc_hotspot_dns_name r)),
      (''hotspot_walled_garden'', char_val (pc_hotspot_walled_garden r)),
      (''hotspot_login_by'', char_val (pc_hotspot_login_by r)),
      (''hotspot_html_dir'', char_val (pc_hotspot_html_dir r))]"

definition to_preloader_payload :: "preconfig \<Rightarrow> (string \<times> pyval) list" where
  "to_preloader_payload r =
     [(''mgmt_subnet'', or_none (pc_mgmt_subnet r)),
      (''target_mac'', or_none (pc_target_mac r)),
      (''bootstrap'', PDict
         [(''user'', or_none (pc_bootstrap_user r)),
          (''pass'', or_none (pc_bootstrap_pass r))]),
      (''routeros'', PDict
         [(''api_port'', PInt (pc_api_port r)),
          (''mgmt_user'', or_none (pc_routeros_mgmt_user r)),
          (''mgmt_pass_env'', or_none (pc_routeros_mgmt_pass_env r)),
          (''mgmt_pass_value'', or_none (pc_routeros_mgmt_pass_value r)),
          (''discovery_interfaces'', parse_csv_or_none (pc_discovery_interfaces r)),
          (''allowed_mgmt_ips'', parse_csv_or_none (pc_allowed_mgmt_ips r)),
          (''apply_sector_config'', PBool (pc_apply_sector_config r)),
          (''config'', to_routeros_config r)]),
      (''call_home'', PDict
         [(''enabled'', PBool (pc_call_home_enabled r)),
          (''url'', or_none (pc_call_home_url r)),
          (''token_value'', or_none (pc_call_home_token_value r)),
          (''interval'', or_none (pc_call_home_interval r)),
          (''ip_lookup_url'', or_none (pc_call_home_ip_lookup_url r)),
          (''script_name'', or_none (pc_call_home_script_name r)),
          (''scheduler_name'', or_none (pc_call_home_scheduler_name r)),
          (''check_certificate'', PBool (pc_call_home_check_certificate r)),
          (''mac_interface'', or_none (pc_call_home_mac_interface r))]),
      (''webhook'', PDict
         [(''enabled'', PBool (pc_webhook_enabled r)),
          (''url'', or_none (pc_webhook_url r)),
          (''token_value'', or_none (pc_webhook_token_value r)),
          (''clear_lease_script_on_disable'', PBool (pc_webhook_clear_lease_script_on_disable r))]),
      (''naming'', PDict
         [(''identity_prefix'', or_none (pc_identity_prefix r)),
          (''identity_format'', or_none (pc_identity_format r))])]"

section \<open>The profile of a sector\<close>

text \<open>\<open>search(domain, limit=1)\<close> in the model's order, \<open>sequence, id desc\<close>.\<close>

definition preconfig_order :: "sys \<Rightarrow> (preconfig \<Rightarrow> bool) \<Rightarrow> nat list" where
  "preconfig_order s p = sort_key (\<lambda>i. via (preconfigs s) (Some i) 0 pc_sequence)
     (rev (sort (search_ids (\<lambda>_ r. pc_active r \<and> p r) (preconfigs s))))"

definition sector_of_code :: "env \<Rightarrow> sys \<Rightarrow> string option \<Rightarrow> nat option" where
  "sector_of_code e s code = (if set_str code then first_sector e s (or_str code []) else None)"

definition choose_preconfig :: "env \<Rightarrow> sys \<Rightarrow> string option \<Rightarrow> nat option" where
  "choose_preconfig e s code =
     (let of_sector = (case sector_of_code e s code of
            None \<Rightarrow> None
          | Some k \<Rightarrow> first_id (preconfig_order s (\<lambda>r. pc_sector_id r = Some k)))
      in if of_sector \<noteq> None then of_sector else first_id (preconfig_order s pc_is_default))"

definition get_preconfig_for_sector :: "env \<Rightarrow> string option \<Rightarrow> (string \<times> pyval) list op" where
  "get_preconfig_for_sector e code = bnd (gets (\<lambda>s. choose_preconfig e s code)) (\<lambda>found.
     case found of
       None \<Rightarrow> ret []
     | Some i \<Rightarrow> bnd (rd preconfigs i) (\<lambda>r. ret (to_preloader_payload r)))"

section \<open>Comma-separated lists\<close>

definition clean_item :: "string \<Rightarrow> bool" where
  "clean_item w \<longleftrightarrow> w \<noteq> [] \<and> py_strip w = w \<and> CHR '','' \<notin> set w"

lemma parse_csv_clean: "w \<in> set (parse_csv v) \<Longrightarrow> clean_item w"
  using set_py_strip py_split_no_sep by (fastforce simp: parse_csv_def clean_item_def py_strip_idem)

lemma parse_csv_join:
  assumes "\<And>w. w \<in> set ws \<Longrightarrow> clean_item w"
  shows "parse_csv (Some (py_join '','' ws)) = ws"
proof (cases ws)
  case Nil
  then show ?thesis by (simp add: parse_csv_def py_strip_def)
next
  case (Cons w vs)
  have "or_str (Some (py_join '','' ws)) [] = py_join '','' ws"
    by (simp add: or_str_def)
  moreover have "py_split CHR '','' (py_join '','' ws) = ws"
    by (rule py_split_join) (use Cons assms in \<open>auto simp: clean_item_def\<close>)
  moreover have "map py_strip ws = ws" "filter (\<lambda>v. v \<noteq> []) ws = ws"
    using assms by (auto simp: clean_item_def intro!: map_idI filter_True)
  ultimately show ?thesis by (simp add: parse_csv_def)
qed

text \<open>Splitting a comma-separated setting is a normal form: every item is non-empty, free of
  commas and of blanks at its ends, and writing the items back with commas and splitting again gives
  the same items.\<close>

theorem csv_normal_form:
  "list_all clean_item (parse_csv v) \<and> parse_csv (Some (py_join '','' (parse_csv v))) = parse_csv v"
  using parse_csv_clean parse_csv_join by (simp add: list_all_iff)

section \<open>Which profile is chosen\<close>

lemma first_of_order:
  fixes f :: "nat \<Rightarrow> int"
  assumes "first_id (sort_key f (rev (sort xs))) = Some i" and "j \<in> set xs"
  shows "i \<in> set xs \<and> (f i < f j \<or> f i = f j \<and> j \<le> i)"
proof -
  let ?ys = "rev (sort xs)" and ?at = "\<lambda>k. f k = f i"
  obtain rest where L: "sort_key f ?ys = i # rest"
    using assms(1) by (auto simp: first_id_def split: list.splits)
  then have i: "i \<in> set xs" by (metis list.set_intros(1) set_rev set_sort)
  have "j \<in> set (i # rest)" using assms(2) by (metis L set_rev set_sort)
  moreover have "sorted (map f (i # rest))" by (metis L sorted_sort_key)
  ultimately have le: "f i \<le> f j" by auto
  have same: "filter ?at ?ys = filter ?at (i # rest)"
    by (metis L sort_key_stable)
  have "sorted_wrt (\<ge>) ?ys" by (simp add: sorted_wrt_rev)
  then have "sorted_wrt (\<ge>) (filter ?at ?ys)" by (rule sorted_wrt_filter)
  then have "sorted_wrt (\<ge>) (i # filter ?at rest)" unfolding same by simp
  moreover have "j \<in> set (i # filter ?at rest)" if "f i = f j"
  proof -
    from that assms(2) have "j \<in> set (filter ?at ?ys)" by simp
    then show ?thesis unfolding same by simp
  qed
  ultimately show ?thesis using i le by fastforce
qed

text \<open>\<open>i\<close> comes first, in the model's order, among the active profiles that satisfy
  \<open>p\<close>.\<close>

definition first_profile :: "sys \<Rightarrow> (preconfig \<Rightarrow> bool) \<Rightarrow> nat \<Rightarrow> bool" where
  "first_profile s p i \<longleftrightarrow> (\<exists>r. tget (preconfigs s) i = Some r \<and> pc_active r \<and> p r \<and>
     (\<forall>j r'. tget (preconfigs s) j = Some r' \<longrightarrow> pc_active r' \<longrightarrow> p r' \<longrightarrow>
        pc_sequence r < pc_sequence r' \<or> pc_sequence r = pc_sequence r' \<and> j \<le> i))"

lemma first_preconfig:
  assumes "first_id (preconfig_order s p) = Some i"
  shows "first_profile s p i"
proof -
  let ?xs = "search_ids (\<lambda>_ r. pc_active r \<and> p r) (preconfigs s)"
  let ?f = "\<lambda>i. via (preconfigs s) (Some i) 0 pc_sequence"
  have o: "first_id (sort_key ?f (rev (sort ?xs))) = Some i"
    using assms by (simp add: preconfig_order_def)
  then have "?xs \<noteq> []" by (auto simp: first_id_def)
  then obtain j where "j \<in> set ?xs" by (metis list.set_intros(1) neq_Nil_conv)
  with first_of_order [OF o this] have "i \<in> set ?xs" by blast
  then obtain r where r: "tget (preconfigs s) i = Some r" "pc_active r" "p r" by (auto simp: search_ids_iff)
  have "pc_sequence r < pc_sequence r' \<or> pc_sequence r = pc_sequence r' \<and> j \<le> i"
    if "tget (preconfigs s) j = Some r'" "pc_active r'" "p r'" for j r'
    using first_of_order [OF o, of j] that r by (auto simp: search_ids_iff via_def deref_def)
  with r show ?thesis unfolding first_profile_def by blast
qed

lemma no_preconfig:
  "first_id (preconfig_order s p) = None \<longleftrightarrow>
     (\<forall>j r. tget (preconfigs s) j = Some r \<longrightarrow> pc_active r \<longrightarrow> \<not> p r)"
proof -
  have "set (preconfig_order s p) = set (search_ids (\<lambda>_ r. pc_active r \<and> p r) (preconfigs s))"
    by (simp add: preconfig_order_def)
  then have same: "preconfig_order s p = [] \<longleftrightarrow> search_ids (\<lambda>_ r. pc_active r \<and> p r) (preconfigs s) = []"
    by (simp flip: set_empty)
  have "first_id (preconfig_order s p) = None \<longleftrightarrow> preconfig_order s p = []"
    by (simp add: first_id_def split: list.splits)
  also note same
  finally show ?thesis by (auto simp: search_ids_empty)
qed

definition defaults_ok :: "sys \<Rightarrow> bool" where
  "defaults_ok s \<longleftrightarrow> (\<forall>i r. tget (preconfigs s) i = Some r \<longrightarrow> \<not> (pc_is_default r \<and> pc_sector_id r \<noteq> None))"

lemma defaults_okD: "defaults_ok s \<Longrightarrow> tget (preconfigs s) i = Some r \<Longrightarrow> pc_is_default r \<Longrightarrow> pc_sector_id r = None"
  by (auto simp: defaults_ok_def)

text \<open>The profile served for a sector code is the first active one of that sector, in the order
  of their sequence and then newest first; only when the code is unknown or its sector has no active
  profile it is the first active default profile, which belongs to no sector.\<close>

theorem preconfig_choice:
  assumes "defaults_ok s" and "choose_preconfig e s code = Some i"
  shows "(\<exists>k. sector_of_code e s code = Some k \<and> first_profile s (\<lambda>r. pc_sector_id r = Some k) i) \<or>
    (\<forall>k j r. sector_of_code e s code = Some k \<longrightarrow> tget (preconfigs s) j = Some r \<longrightarrow> pc_active r \<longrightarrow>
        pc_sector_id r \<noteq> Some k) \<and>
    first_profile s (\<lambda>r. pc_is_default r \<and> pc_sector_id r = None) i"
proof -
  have default: "first_profile s (\<lambda>r. pc_is_default r \<and> pc_sector_id r = None) i"
    if "first_id (preconfig_order s pc_is_default) = Some i"
    using first_preconfig [OF that] defaults_okD [OF assms(1)] unfolding first_profile_def by blast
  show ?thesis
  proof (cases "sector_of_code e s code")
    case None
    with assms(2) default show ?thesis by (simp add: choose_preconfig_def)
  next
    case (Some k)
    show ?thesis
    proof (cases "first_id (preconfig_order s (\<lambda>r. pc_sector_id r = Some k))")
      case None
      with Some assms(2) have "first_id (preconfig_order s pc_is_default) = Some i"
        by (simp add: choose_preconfig_def)
      with None Some default show ?thesis by (simp add: no_preconfig)
    next
      case (Some i')
      with \<open>sector_of_code e s code = Some k\<close> assms(2) have "i' = i" by (simp add: choose_preconfig_def)
      with Some \<open>sector_of_code e s code = Some k\<close> first_preconfig show ?thesis by blast
    qed
  qed
qed

definition demo_preconfigs :: sys where
  "demo_preconfigs = blank_sys\<lparr>sectors := [(1, \<lparr>sec_name = ''North'', sec_code = ''N'', sec_active = True\<rparr>)],
     preconfigs := [(1, pc_default\<lparr>pc_is_default := True\<rparr>), (2, pc_default\<lparr>pc_sector_id := Some 1\<rparr>),
       (3, pc_default\<lparr>pc_sector_id := Some 1, pc_active := False\<rparr>)]\<rparr>"

lemma demo_preconfigs_eval:
  "defaults_ok demo_preconfigs" "choose_preconfig plain_env demo_preconfigs (Some ''N'') = Some 2"
  "choose_preconfig plain_env demo_preconfigs (Some ''X'') = Some 1"
  by (simp_all add: defaults_ok_def demo_preconfigs_def pc_default_def tget_def choose_preconfig_def
      sector_of_code_def first_sector_def search_ids_def preconfig_order_def first_id_def blank_sys_def
      via_def deref_def)

theorem preconfig_choice_witness:
  "choose_preconfig plain_env demo_preconfigs (Some ''N'') = Some 2 \<and>
   ((\<exists>k. sector_of_code plain_env demo_preconfigs (Some ''N'') = Some k \<and>
        first_profile demo_preconfigs (\<lambda>r. pc_sector_id r = Some k) 2) \<or>
    (\<forall>k j r. sector_of_code plain_env demo_preconfigs (Some ''N'') = Some k \<longrightarrow>
        tget (preconfigs demo_preconfigs) j = Some r \<longrightarrow> pc_active r \<longrightarrow> pc_sector_id r \<noteq> Some k) \<and>
    first_profile demo_preconfigs (\<lambda>r. pc_is_default r \<and> pc_sector_id r = None) 2)"
  using preconfig_choice [OF demo_preconfigs_eval(1,2)] demo_preconfigs_eval(2) by blast

section \<open>Default profiles belong to no sector\<close>

lemma check_default_ok [check_simps]:
  "check_default ids s = (Inr (), s') \<longleftrightarrow>
     (\<forall>i\<in>set ids. \<exists>r. tget (preconfigs s) i = Some r \<and> \<not> (pc_is_default r \<and> pc_sector_id r \<noteq> None)) \<and> s' = s"
  unfolding check_default_def
  by (rule for_each_check) (auto simp: run_simps assert_that_ok split: option.splits)

lemma pc_not_null_state: "pc_not_null ids s = (r, s') \<Longrightarrow> s' = s"
proof -
  have "keeps_all (\<lambda>t. t = s) (pc_not_null ids)"
    unfolding pc_not_null_def by (intro keeps_all_intros)
  then show "pc_not_null ids s = (r, s') \<Longrightarrow> s' = s" by (auto simp: keeps_all_def)
qed

lemma pc_set_unwatched:
  "\<not> list_ex watched_by_default vs \<Longrightarrow>
   pc_is_default (fold pc_set vs r) = pc_is_default r \<and> pc_sector_id (fold pc_set vs r) = pc_sector_id r"
proof (induction vs arbitrary: r)
  case (Cons v vs)
  then show ?case by (cases v) auto
qed simp

interpretation preconfig_rows: checked_rows "\<lambda>s i. tget (preconfigs s) i" pc_write
  "\<lambda>r. \<not> (pc_is_default r \<and> pc_sector_id r \<noteq> None)"
proof
  fix i j vs and s s' :: sys
  assume w: "pc_write i vs s = (Inr (), s')"
  let ?t = "s\<lparr>preconfigs := tupd i (fold pc_set vs) (preconfigs s)\<rparr>"
  from w obtain row where row: "tget (preconfigs s) i = Some row"
      and rest: "andthen (pc_not_null [i]) (do_if (list_ex watched_by_default vs) (check_default [i])) ?t = (Inr (), s')"
    by (auto simp: pc_write_def run_simps split: option.splits)
  from rest obtain x t where n: "pc_not_null [i] ?t = (Inr x, t)"
      and c: "do_if (list_ex watched_by_default vs) (check_default [i]) t = (Inr (), s')"
    by (rule andthen_ok)
  from n have t: "t = ?t" by (rule pc_not_null_state)
  have s': "s' = ?t"
    using c unfolding t by (auto simp: run_simps check_simps split: if_splits)
  show "tget (preconfigs s') j = tget (preconfigs s) j" if "j \<noteq> i"
    using that by (simp add: s' tbl.look_upd)
  show "\<not> (pc_is_default r' \<and> pc_sector_id r' \<noteq> None)"
    if "tget (preconfigs s') i = Some r'"
      and "\<And>r. tget (preconfigs s) i = Some r \<Longrightarrow> \<not> (pc_is_default r \<and> pc_sector_id r \<noteq> None)" for r'
  proof (cases "list_ex watched_by_default vs")
    case True
    with c that(1) show ?thesis by (auto simp: t s' run_simps check_simps)
  next
    case False
    with that row pc_set_unwatched [OF False, of row] show ?thesis
      by (auto simp: s' tbl.look_upd)
  qed
qed

lemma keeps_pc_write [keeps_intros]: "keeps defaults_ok (pc_write i vs)"
  unfolding defaults_ok_def by (rule preconfig_rows.keeps_wr)

lemma keeps_pc_create [keeps_intros]: "keeps defaults_ok (pc_create vs)"
  unfolding keeps_def
proof (intro allI impI)
  fix s s' :: sys and i
  let ?r = "fold pc_set vs pc_default"
  let ?t = "s\<lparr>preconfigs := tins ?r (preconfigs s)\<rparr>" and ?i = "fresh_id (preconfigs s)"
  assume ok: "defaults_ok s" and c: "pc_create vs s = (Inr i, s')"
  from c obtain x y t where n: "pc_not_null [?i] ?t = (Inr x, t)"
      and d: "check_default [?i] t = (Inr y, s')"
    by (auto simp: pc_create_def run_simps split: prod.splits sum.splits)
  from n have "t = ?t" by (rule pc_not_null_state)
  with d have s': "s' = ?t" and good: "\<not> (pc_is_default ?r \<and> pc_sector_id ?r \<noteq> None)"
    by (auto simp: check_simps tbl.ins_new)
  show "defaults_ok s'"
    unfolding defaults_ok_def s'
    using ok good by (auto simp: defaults_ok_def tbl.look_ins split: if_splits)
qed

end
