(* ===== verification/Portal.thy ===== *)
theory Portal
  imports Preconfig
begin

text \<open>
  The customer portal (\<open>isp_portal/controllers/portal.py\<close>): the counters of the home page,
  the paged list of services, the plan change form and the bank transfer form with its uploads.
  Access rights are those of the framework; here the session's user may do what the code asks.
  \<open>b64encode\<close> is the standard library's, as is the decoder \<open>b64decode\<close> that the
  examples put in the place of the framework's.
\<close>

section \<open>Base 64\<close>

definition b64_alphabet :: string where
  "b64_alphabet = ''ABCDEFGHIJKLMNOPQRSTUVWXYZabcdefghijklmnopqrstuvwxyz0123456789+/''"

definition b64_char :: "nat \<Rightarrow> char" where
  "b64_char n = b64_alphabet ! n"

fun b64_bytes :: "nat list \<Rightarrow> string" where
  "b64_bytes [] = []"
| "b64_bytes [a] = [b64_char (a div 4), b64_char (a mod 4 * 16), CHR ''='', CHR ''='']"
| "b64_bytes [a, b] =
     [b64_char (a div 4), b64_char (a mod 4 * 16 + b div 16), b64_char (b mod 16 * 4), CHR ''='']"
| "b64_bytes (a # b # c # bs) =
     b64_char (a div 4) # b64_char (a mod 4 * 16 + b div 16) # b64_char (b mod 16 * 4 + c div 64) #
     b64_char (c mod 64) # b64_bytes bs"

definition b64encode :: "string \<Rightarrow> string" where
  "b64encode s = b64_bytes (map of_char s)"

definition b64_val :: "char \<Rightarrow> nat option" where
  "b64_val c = map_of (zip b64_alphabet [0..<64]) c"

text \<open>
  The lenient decoder: characters outside the alphabet are skipped; \<open>q\<close> is the position in
  the group of four, \<open>l\<close> the bits left over, \<open>p\<close> the padding seen. \<open>None\<close>: an error.
\<close>

fun b64_dec :: "nat \<Rightarrow> nat \<Rightarrow> nat \<Rightarrow> string \<Rightarrow> nat list option" where
  "b64_dec q l p [] = (if q = 0 then Some [] else None)"
| "b64_dec q l p (c # s) =
     (if c = CHR ''='' then
        (if q \<ge> 2 then (if q + p + 1 \<ge> 4 then Some [] else b64_dec q l (p + 1) s) else b64_dec q l p s)
      else (case b64_val c of
          None \<Rightarrow> b64_dec q l p s
        | Some v \<Rightarrow>
            if q = 0 then b64_dec 1 v 0 s
            else if q = 1 then map_option (Cons (l * 4 + v div 16)) (b64_dec 2 (v mod 16) 0 s)
            else if q = 2 then map_option (Cons (l * 16 + v div 4)) (b64_dec 3 (v mod 4) 0 s)
            else map_option (Cons (l * 64 + v)) (b64_dec 0 0 0 s)))"

definition b64decode :: "string \<Rightarrow> string option" where
  "b64decode s = map_option (map char_of) (b64_dec 0 0 0 s)"

section \<open>Form values\<close>

text \<open>\<open>int(post.get(key))\<close>; \<open>int(None)\<close> is a \<open>TypeError\<close>.\<close>

definition int_arg :: "string option \<Rightarrow> int op" where
  "int_arg v = (case v of
      None \<Rightarrow> raise (OtherError ''int() argument must be a string'')
    | Some t \<Rightarrow> (case py_int t of
          None \<Rightarrow> raise (ValueError ''invalid literal for int()'')
        | Some i \<Rightarrow> ret i))"

text \<open>
  \<open>float(s)\<close>: digits with an optional point and exponent; the value is the exact decimal. The
  special values \<open>inf\<close> and \<open>nan\<close> are not numbers here and count as errors.
\<close>

definition digit_like :: "char \<Rightarrow> bool" where
  "digit_like c = (c \<in> set digit_chars \<or> c = CHR ''_'')"

definition count_digits :: "string \<Rightarrow> nat" where
  "count_digits s = length (filter (\<lambda>c. c \<noteq> CHR ''_'') s)"

definition digits_or_zero :: "string \<Rightarrow> int option" where
  "digits_or_zero s = (if s = [] then Some 0 else digits_int 0 False s)"

fun signed_digits :: "string \<Rightarrow> int option" where
  "signed_digits [] = None"
| "signed_digits (c # s) =
     (if c = CHR ''-'' then map_option uminus (digits_int 0 False s)
      else if c = CHR ''+'' then digits_int 0 False s
      else digits_int 0 False (c # s))"

definition exponent :: "string \<Rightarrow> int option" where
  "exponent s = (case s of [] \<Rightarrow> Some 0
     | c # t \<Rightarrow> if c = CHR ''e'' \<or> c = CHR ''E'' then signed_digits t else None)"

definition scale10 :: "rat \<Rightarrow> int \<Rightarrow> rat" where
  "scale10 x n = (if n < 0 then x / 10 ^ nat (- n) else x * 10 ^ nat n)"

definition unsigned_float :: "string \<Rightarrow> rat option" where
  "unsigned_float u =
     (let whole = takeWhile digit_like u; rest = dropWhile digit_like u;
          point = (rest \<noteq> [] \<and> hd rest = CHR ''.'');
          frac = (if point then takeWhile digit_like (tl rest) else []);
          tail = (if point then dropWhile digit_like (tl rest) else rest)
      in if whole = [] \<and> frac = [] then None
         else (case (digits_or_zero whole, digits_or_zero frac, exponent tail) of
             (Some w, Some f, Some n) \<Rightarrow> Some (scale10 (of_int w + of_int f / 10 ^ count_digits frac) n)
           | _ \<Rightarrow> None))"

definition py_float :: "string \<Rightarrow> rat option" where
  "py_float s = (case py_strip s of
      [] \<Rightarrow> None
    | c # t \<Rightarrow>
        (if c = CHR ''-'' then map_option uminus (unsigned_float t)
         else if c = CHR ''+'' then unsigned_float t else unsigned_float (c # t)))"

definition float_arg :: "string option \<Rightarrow> rat op" where
  "float_arg v = (case v of
      None \<Rightarrow> raise (OtherError ''float() argument must be a string or a real number'')
    | Some t \<Rightarrow> (case py_float t of
          None \<Rightarrow> raise (ValueError ''could not convert string to float'')
        | Some x \<Rightarrow> ret x))"

section \<open>Home page and list of services\<close>

definition own_subscriptions :: "env \<Rightarrow> sys \<Rightarrow> nat list" where
  "own_subscriptions e s = search_ids (\<lambda>_ r. sub_partner_id r = user_partner e) (subs s)"

definition prepare_home_portal_values :: "env \<Rightarrow> sys \<Rightarrow> string list \<Rightarrow> (string \<times> nat) list" where
  "prepare_home_portal_values e s counters =
     (if ''isp_subscription_count'' \<in> set counters
      then [(''isp_subscription_count'', length (own_subscriptions e s))] else []) @
     (if ''isp_ticket_count'' \<in> set counters
      then [(''isp_ticket_count'',
             length (search_ids (\<lambda>_ r. flt_partner_id r = user_partner e) (faults s)))] else [])"

definition sub_state_str :: "sub_state \<Rightarrow> string" where
  "sub_state_str x = (case x of SubDraft \<Rightarrow> ''draft'' | SubActive \<Rightarrow> ''active''
     | SubSuspended \<Rightarrow> ''suspended'' | SubTerminated \<Rightarrow> ''terminated'')"

text \<open>\<open>searchbar_sortings[sortby]["order"]\<close>, applied to a search.\<close>

definition portal_order :: "env \<Rightarrow> sys \<Rightarrow> string \<Rightarrow> (nat list \<Rightarrow> nat list) option" where
  "portal_order e s sortby =
     (if sortby = ''date'' then Some (sort_key (\<lambda>i. - created_at e i))
      else if sortby = ''name'' then Some (sort_key (\<lambda>i. collate e (via (subs s) (Some i) [] sub_name)))
      else if sortby = ''state''
      then Some (sort_key (\<lambda>i. collate e (via (subs s) (Some i) [] (\<lambda>r. sub_state_str (sub_state r)))))
      else None)"

definition portal_my_isp_subscriptions :: "env \<Rightarrow> int \<Rightarrow> string option \<Rightarrow> nat list op" where
  "portal_my_isp_subscriptions e page sortby = (\<lambda>s.
     case portal_order e s (or_str sortby ''date'') of
       None \<Rightarrow> (Inl (KeyError (or_str sortby [])), s)
     | Some arrange \<Rightarrow>
         let n_rows = length (own_subscriptions e s)
         in (Inr (take 10 (drop (pager_offset e n_rows page 10) (arrange (own_subscriptions e s)))), s))"

section \<open>Plan change\<close>

datatype page = Redirect string

definition portal_plan_change_submit :: "env \<Rightarrow> (string \<Rightarrow> string option) \<Rightarrow> page op" where
  "portal_plan_change_submit e post =
     bnd (int_arg (post ''subscription_id'')) (\<lambda>sub_id.
     bnd (int_arg (post ''plan_id'')) (\<lambda>plan_id.
     bnd (browse_id (PInt sub_id)) (\<lambda>i.
     bnd (rd subs i) (\<lambda>r.
     if sub_partner_id r \<noteq> user_partner e then ret (Redirect ''/my'')
     else bnd (browse_id (PInt plan_id)) (\<lambda>p.
          bnd (pcr_create e [[P_subscription_id (Some i), P_requested_plan_id (Some p),
                 P_effective_date_mode EffNextCycle, P_requested_by (env_user e)]]) (\<lambda>ids.
          andthen (pcr_action_submit e ids)
          (ret (Redirect (''/my/isp/service/'' @ int_str sub_id @ ''?msg=plan_change_submitted''))))))))) "

section \<open>Bank transfer\<close>

text \<open>The invoices the form offers.\<close>

definition portal_invoices :: "env \<Rightarrow> sys \<Rightarrow> nat list" where
  "portal_invoices e s = moves_where e (\<lambda>m. mv_partner_id m = user_partner e \<and> mv_move_type m = OutInvoice \<and>
     (mv_payment_state m = NotPaid \<or> mv_payment_state m = Partial) \<and> mv_state m = MvPosted) s"

text \<open>\<open>ir.attachment.create\<close>: the framework decodes \<open>datas\<close>.\<close>

definition create_attachment :: "env \<Rightarrow> string \<Rightarrow> string \<Rightarrow> nat \<Rightarrow> nat op" where
  "create_attachment e name datas res_id = (case decode_datas e datas of
      None \<Rightarrow> raise (ValueError ''Incorrect padding'')
    | Some raw \<Rightarrow> (\<lambda>s. (Inr (fresh_id (attachments s)),
        s\<lparr>attachments := tins \<lparr>att_name = name, att_raw = raw,
            att_res_model = ''isp.bank.transfer.payment'', att_res_id = res_id\<rparr> (attachments s)\<rparr>)))"

definition datetime_arg :: "env \<Rightarrow> string option \<Rightarrow> int option op" where
  "datetime_arg e v = (case v of
      None \<Rightarrow> ret None
    | Some t \<Rightarrow> (case parse_datetime e t of
          None \<Rightarrow> raise (ValueError ''time data does not match format'')
        | Some d \<Rightarrow> ret (Some d)))"

definition required_text :: "string option \<Rightarrow> string op" where
  "required_text v = (case v of None \<Rightarrow> raise (IntegrityError ''null value in a required column'') | Some t \<Rightarrow> ret t)"

text \<open>\<open>(6, 0, ids)\<close> on \<open>invoice_ids\<close>: the moves must exist, whoever they belong to.\<close>

definition set_invoices :: "nat \<Rightarrow> string list \<Rightarrow> unit op" where
  "set_invoices pid texts =
     bnd (map_each (\<lambda>t. bnd (int_arg (Some t)) (\<lambda>k. browse_id (PInt k))) texts) (\<lambda>ids.
     andthen (for_each (\<lambda>k. bnd (rd moves k) (\<lambda>_. ret ())) ids)
       (trf_write pid [T_invoice_ids ids]))"

text \<open>The first loop uploads the raw bytes as \<open>datas\<close>; the second one encodes and links them.\<close>

definition upload_raw :: "env \<Rightarrow> nat \<Rightarrow> string \<times> string \<Rightarrow> unit op" where
  "upload_raw e pid f = ignore (create_attachment e (fst f) (snd f) pid)"

definition upload_encoded :: "env \<Rightarrow> nat \<Rightarrow> string \<times> string \<Rightarrow> unit op" where
  "upload_encoded e pid f = do_if (fst f \<noteq> [])
     (bnd (create_attachment e (fst f) (b64encode (snd f)) pid) (\<lambda>a.
      bnd (rd transfers pid) (\<lambda>r. trf_write pid [T_attachment_ids (trf_attachment_ids r @ [a])])))"

definition portal_transfer_submit :: "env \<Rightarrow> nat option \<Rightarrow> (string \<Rightarrow> string option) \<Rightarrow>
    string list \<Rightarrow> (string \<times> string) list \<Rightarrow> page op" where
  "portal_transfer_submit e currency post invoice_ids files =
     bnd (float_arg (post ''amount'')) (\<lambda>amount.
     bnd (datetime_arg e (post ''date'')) (\<lambda>date.
     bnd (required_text (post ''bank_name'')) (\<lambda>bank_name.
     bnd (required_text (post ''reference'')) (\<lambda>reference.
     bnd (trf_create e currency [[T_partner_id (user_partner e), T_bank_name bank_name,
            T_reference reference, T_amount amount, T_transfer_datetime date, T_state TrfDraft]]) (\<lambda>ids.
     bnd (case ids of [] \<Rightarrow> raise (ValueError ''Expected singleton'') | i # is \<Rightarrow> ret i) (\<lambda>pid.
     andthen (do_if (invoice_ids \<noteq> []) (set_invoices pid invoice_ids))
    (andthen (for_each (upload_raw e pid) files)
    (andthen (for_each (upload_encoded e pid) files)
    (andthen (trf_action_submit e [pid])
       (ret (Redirect ''/my/isp?msg=transfer_submitted''))))))))))) "

section \<open>Decoding what was encoded\<close>

lemma b64_val_char: "n < 64 \<Longrightarrow> b64_val (b64_char n) = Some n"
proof -
  have "distinct b64_alphabet" "length b64_alphabet = 64" by (simp_all add: b64_alphabet_def)
  moreover assume "n < 64"
  ultimately show ?thesis unfolding b64_val_def b64_char_def
    by (auto simp: map_of_zip_nth)
qed

lemma b64_char_no_pad: "n < 64 \<Longrightarrow> b64_char n \<noteq> CHR ''=''"
proof -
  assume "n < 64"
  moreover have "length b64_alphabet = 64" by (simp add: b64_alphabet_def)
  ultimately have "b64_char n \<in> set b64_alphabet" unfolding b64_char_def by simp
  moreover have "CHR ''='' \<notin> set b64_alphabet" by (simp add: b64_alphabet_def)
  ultimately show ?thesis by metis
qed

lemma b64_dec_end: "b64_dec 0 l p [] = Some []"
  "b64_dec q l p (CHR ''='' # s) =
     (if q \<ge> 2 then (if q + p + 1 \<ge> 4 then Some [] else b64_dec q l (p + 1) s) else b64_dec q l p s)"
  by simp_all

lemma b64_dec_char: "n < 64 \<Longrightarrow> b64_dec q l p (b64_char n # s) =
   (if q = 0 then b64_dec 1 n 0 s
    else if q = 1 then map_option (Cons (l * 4 + n div 16)) (b64_dec 2 (n mod 16) 0 s)
    else if q = 2 then map_option (Cons (l * 16 + n div 4)) (b64_dec 3 (n mod 4) 0 s)
    else map_option (Cons (l * 64 + n)) (b64_dec 0 0 0 s))"
  by (simp add: b64_val_char b64_char_no_pad)

lemma b64_pieces:
  fixes a b c :: nat
  assumes "a < 256" and "b < 256" and "c < 256"
  shows "a div 4 < 64" "a mod 4 * 16 < 64" "a mod 4 * 16 + b div 16 < 64" "b mod 16 * 4 < 64"
    "b mod 16 * 4 + c div 64 < 64" "c mod 64 < 64"
    "a div 4 * 4 + a mod 4 * 16 div 16 = a" "a div 4 * 4 + (a mod 4 * 16 + b div 16) div 16 = a"
    "(a mod 4 * 16 + b div 16) mod 16 = b div 16" "b div 16 * 16 + b mod 16 * 4 div 4 = b"
    "b div 16 * 16 + (b mod 16 * 4 + c div 64) div 4 = b" "(b mod 16 * 4 + c div 64) mod 4 = c div 64"
    "c div 64 * 64 + c mod 64 = c" "b div 16 mod 16 * 16 + b mod 16 = b"
proof -
  have q: "b div 16 < 16" "c div 64 < 4" "a mod 4 < 4" "b mod 16 < 16" using assms by auto
  show "a div 4 < 64" "c mod 64 < 64" using assms by auto
  show "a mod 4 * 16 < 64" "b mod 16 * 4 < 64" "a mod 4 * 16 + b div 16 < 64" "b mod 16 * 4 + c div 64 < 64"
    using q by linarith+
  show "a div 4 * 4 + a mod 4 * 16 div 16 = a" by simp
  show "a div 4 * 4 + (a mod 4 * 16 + b div 16) div 16 = a" using q by simp
  show "(a mod 4 * 16 + b div 16) mod 16 = b div 16" using q by simp
  show "b div 16 * 16 + b mod 16 * 4 div 4 = b" by simp
  show "b div 16 * 16 + (b mod 16 * 4 + c div 64) div 4 = b" using q by simp
  show "(b mod 16 * 4 + c div 64) mod 4 = c div 64" using q by simp
  show "c div 64 * 64 + c mod 64 = c" by simp
  show "b div 16 mod 16 * 16 + b mod 16 = b" using q by simp
qed

declare b64_dec.simps [simp del]

lemma b64_dec_bytes: "list_all (\<lambda>b. b < 256) bs \<Longrightarrow> b64_dec 0 0 0 (b64_bytes bs) = Some bs"
proof (induction bs rule: b64_bytes.induct)
  case (2 a)
  then show ?case using b64_pieces [of a 0 0] by (simp add: b64_dec_char b64_dec_end)
next
  case (3 a b)
  then show ?case using b64_pieces [of a b 0] by (simp add: b64_dec_char b64_dec_end)
next
  case (4 a b c bs)
  then show ?case using b64_pieces [of a b c] by (simp add: b64_dec_char b64_dec_end)
qed (simp add: b64_dec_end)

lemma b64_round_trip: "b64decode (b64encode s) = Some s"
proof -
  have "list_all (\<lambda>b. b < 256) (map of_char s :: nat list)"
    by (simp add: list_all_iff of_char_def)
  from b64_dec_bytes [OF this] show ?thesis
    by (simp add: b64decode_def b64encode_def comp_def)
qed

end
