(* ===== verification/Frames.thy ===== *)
theory Frames
  imports Portal
begin

text \<open>
  What the operations can touch: for every operation of the program, the tables it writes, as
  \<open>keeps_all\<close> rules whose premises say that an invariant does not look at them. Each
  operation keeps every invariant of the tables it leaves alone, whether it returns or raises.
\<close>

definition flt_free :: "(sys \<Rightarrow> bool) \<Rightarrow> bool" where
  "flt_free I \<longleftrightarrow> (\<forall>s a. I s \<longrightarrow> I (s\<lparr>faults := a\<rparr>))"

definition trf_free :: "(sys \<Rightarrow> bool) \<Rightarrow> bool" where
  "trf_free I \<longleftrightarrow> (\<forall>s a. I s \<longrightarrow> I (s\<lparr>transfers := a\<rparr>))"

definition asg_free :: "(sys \<Rightarrow> bool) \<Rightarrow> bool" where
  "asg_free I \<longleftrightarrow> (\<forall>s a. I s \<longrightarrow> I (s\<lparr>assignments := a\<rparr>))"

definition profile_free :: "(sys \<Rightarrow> bool) \<Rightarrow> bool" where
  "profile_free I \<longleftrightarrow> (\<forall>s a. I s \<longrightarrow> I (s\<lparr>mac_profiles := a\<rparr>))"

definition partner_free :: "(sys \<Rightarrow> bool) \<Rightarrow> bool" where
  "partner_free I \<longleftrightarrow> (\<forall>s a. I s \<longrightarrow> I (s\<lparr>partners := a\<rparr>))"

definition move_free :: "(sys \<Rightarrow> bool) \<Rightarrow> bool" where
  "move_free I \<longleftrightarrow> (\<forall>s a. I s \<longrightarrow> I (s\<lparr>moves := a\<rparr>))"

definition acct_free :: "(sys \<Rightarrow> bool) \<Rightarrow> bool" where
  "acct_free I \<longleftrightarrow> (\<forall>s a. I s \<longrightarrow> I (s\<lparr>acct := a\<rparr>))"

definition attach_free :: "(sys \<Rightarrow> bool) \<Rightarrow> bool" where
  "attach_free I \<longleftrightarrow> (\<forall>s a. I s \<longrightarrow> I (s\<lparr>attachments := a\<rparr>))"

definition preconfig_free :: "(sys \<Rightarrow> bool) \<Rightarrow> bool" where
  "preconfig_free I \<longleftrightarrow> (\<forall>s a. I s \<longrightarrow> I (s\<lparr>preconfigs := a\<rparr>))"

lemmas table_frees = flt_free_def trf_free_def asg_free_def profile_free_def partner_free_def
  move_free_def acct_free_def attach_free_def preconfig_free_def

lemmas all_frees = free_defs handler_frees job_free_def queue_free_def pcr_free_def table_frees

section \<open>Subscriptions and jobs\<close>

lemma keeps_all_action_activate [keeps_all_intros]:
  assumes "sub_free I" "draw_free I" "audit_free I" "seq_free I" "queue_free e I"
  shows "keeps_all I (action_activate e ids)"
  unfolding action_activate_def by (intro assms keeps_all_intros)

lemma keeps_all_captive_buttons [keeps_all_intros]:
  assumes "seq_free I" "queue_free e I"
  shows "keeps_all I (captive_action_enable e ids)" "keeps_all I (captive_action_disable e ids)"
    "keeps_all I (walled_garden_action_apply e ids)"
proof -
  have "keeps_all I (captive_action e jt ids)" if "free_job jt" for jt
    unfolding captive_action_def by (intro assms that keeps_all_intros)
  then show "keeps_all I (captive_action_enable e ids)" "keeps_all I (captive_action_disable e ids)"
    by (simp_all add: captive_action_enable_def captive_action_disable_def)
  show "keeps_all I (walled_garden_action_apply e ids)"
    unfolding walled_garden_action_apply_def by (intro assms keeps_all_intros)
qed

lemma keeps_all_execute:
  assumes "audit_free I" "wire_free I" "sub_free I" "draw_free I" "router_free I"
    "device_name_free I" "captive_free I" "job_free I"
  shows "keeps_all I (execute e j)" "keeps_all I (action_run e ids)" "keeps_all I (cron_run_pending_jobs e)"
proof -
  show ex: "keeps_all I (execute e j)" for j
    unfolding execute_def by (intro assms keeps_all_intros keeps_all_dispatch)
  show "keeps_all I (action_run e ids)" "keeps_all I (cron_run_pending_jobs e)"
    unfolding action_run_def cron_run_pending_jobs_def by (intro ex keeps_all_intros)+
qed

section \<open>Plan change requests\<close>

lemma keeps_all_pcr_create [keeps_all_intros]:
  assumes "seq_free I" "pcr_free I"
  shows "keeps_all I (pcr_create e vl)"
proof -
  have "keeps_all I (pcr_prepare e vs)" for vs
    unfolding pcr_prepare_def by (intro assms keeps_all_intros)
  then show ?thesis unfolding pcr_create_def by (intro assms keeps_all_intros)
qed

lemma keeps_all_pcr_buttons [keeps_all_intros]:
  assumes "pcr_free I" "audit_free I" "mail_free I"
  shows "keeps_all I (pcr_action_submit e ids)" "keeps_all I (pcr_action_reject e ids)"
  unfolding pcr_action_submit_def pcr_action_reject_def by (intro assms keeps_all_intros)+

lemma keeps_all_pcr_apply [keeps_all_intros]:
  assumes "pcr_free I" "audit_free I" "mail_free I" "sub_free I" "draw_free I" "seq_free I" "queue_free e I"
  shows "keeps_all I (pcr_action_apply e ids)" "keeps_all I (pcr_action_approve e ids)"
    "keeps_all I (cron_apply_plan_changes e)"
proof -
  have "keeps_all I (pcr_apply_one e i)" for i
    unfolding pcr_apply_one_def by (intro assms keeps_all_intros)
  then show apply_all: "keeps_all I (pcr_action_apply e ids)" for ids
    unfolding pcr_action_apply_def by (intro keeps_all_intros)
  show "keeps_all I (pcr_action_approve e ids)" "keeps_all I (cron_apply_plan_changes e)"
    unfolding pcr_action_approve_def cron_apply_plan_changes_def
    by (intro assms apply_all keeps_all_intros)+
qed

section \<open>Fault tickets\<close>

lemma keeps_all_flt_store [keeps_all_intros]: "flt_free I \<Longrightarrow> keeps_all I (flt_store i vs)"
  unfolding flt_store_def flt_not_null_def
  by (intro keeps_all_intros keeps_all_modify) (simp_all add: flt_free_def)

lemma keeps_all_flt_write [keeps_all_intros]: "flt_free I \<Longrightarrow> keeps_all I (flt_write e i vs)"
  unfolding flt_write_def stamp_closed_def by (intro keeps_all_intros)

lemma keeps_all_flt_send [keeps_all_intros]: "mail_free I \<Longrightarrow> keeps_all I (flt_send e i x)"
  unfolding flt_send_def by (intro keeps_all_intros)

lemma keeps_all_flt_buttons [keeps_all_intros]:
  assumes "flt_free I" "mail_free I"
  shows "keeps_all I (flt_action_start e ids)" "keeps_all I (flt_action_waiting e ids)"
    "keeps_all I (flt_action_resolve e ids)" "keeps_all I (flt_action_close e ids)"
  unfolding flt_action_start_def flt_action_waiting_def flt_action_resolve_def flt_action_close_def
  by (intro assms keeps_all_intros)+

lemma keeps_all_flt_create [keeps_all_intros]:
  assumes "flt_free I" "mail_free I" "seq_free I"
  shows "keeps_all I (flt_create e vl)"
proof -
  have "keeps_all I (flt_insert vs)" for vs
    using assms(1) by (auto simp: flt_insert_def keeps_all_def flt_free_def)
  moreover have "keeps_all I (flt_prepare e vs)" for vs
    unfolding flt_prepare_def Let_def by (intro assms keeps_all_intros)
  moreover have "keeps_all I (flt_locate e i)" for i
    unfolding flt_locate_def by (intro assms keeps_all_intros)
  moreover have "keeps_all I (flt_not_null ids)" for ids
    unfolding flt_not_null_def by (intro keeps_all_intros)
  ultimately show ?thesis unfolding flt_create_def by (intro assms keeps_all_intros)
qed

section \<open>Bank transfers\<close>

lemma keeps_all_trf_checks [keeps_all_intros]:
  "keeps_all I (trf_not_null ids)" "keeps_all I (trf_validate ws ids)"
  unfolding trf_not_null_def trf_validate_def check_attachments_def by (intro keeps_all_intros)+

lemma keeps_all_trf_write [keeps_all_intros]: "trf_free I \<Longrightarrow> keeps_all I (trf_write i vs)"
  unfolding trf_write_def by (intro keeps_all_intros keeps_all_modify) (simp_all add: trf_free_def)

lemma keeps_all_trf_deadline [keeps_all_intros]: "trf_free I \<Longrightarrow> keeps_all I (set_review_deadline e ids)"
  unfolding set_review_deadline_def Let_def by (intro keeps_all_intros)

lemma keeps_all_trf_services [keeps_all_intros]:
  "audit_free I \<Longrightarrow> keeps_all I (trf_log e i a p)" "mail_free I \<Longrightarrow> keeps_all I (trf_send e i x)"
  unfolding trf_log_def trf_send_def by (intro keeps_all_intros; assumption)+

lemma keeps_all_trf_create [keeps_all_intros]:
  assumes "trf_free I" "seq_free I"
  shows "keeps_all I (trf_create e cur vl)"
proof -
  have "keeps_all I (trf_insert e cur vs)" for vs
    using assms(1) by (auto simp: trf_insert_def keeps_all_def trf_free_def)
  moreover have "keeps_all I (trf_prepare e cur vs)" for vs
    unfolding trf_prepare_def by (intro assms keeps_all_intros)
  ultimately show ?thesis unfolding trf_create_def by (intro assms keeps_all_intros)
qed

lemma keeps_all_trf_buttons [keeps_all_intros]:
  assumes "trf_free I" "audit_free I" "mail_free I"
  shows "keeps_all I (trf_action_submit e ids)" "keeps_all I (trf_action_reject e ids)"
    "keeps_all I (cron_transfer_deadlines e)"
  unfolding trf_action_submit_def trf_action_reject_def cron_transfer_deadlines_def
  by (intro assms keeps_all_intros)+

lemma keeps_all_trf_approve [keeps_all_intros]:
  assumes "trf_free I" "audit_free I" "mail_free I" "acct_free I"
  shows "keeps_all I (trf_action_approve e ids)"
proof -
  have "keeps_all I (book_payment e p)" for p
    unfolding book_payment_def
    by (intro keeps_all_intros keeps_all_modify)
      (use assms(4) in \<open>auto simp: acct_free_def intro!: keeps_all_intros split: acct_op.split sum.split\<close>)
  then have "keeps_all I (create_and_apply_payment e ids)" for ids
    unfolding create_and_apply_payment_def
    by (intro assms keeps_all_intros)
      (auto intro!: keeps_all_intros assms split: list.split)
  then show ?thesis unfolding trf_action_approve_def by (intro assms keeps_all_intros)
qed

section \<open>Billing\<close>

lemma keeps_all_invoices [keeps_all_intros]:
  assumes "move_free I" "sub_free I" "audit_free I"
  shows "keeps_all I (generate_invoice e i)" "keeps_all I (action_generate_invoice e ids)"
    "keeps_all I (cron_generate_invoices e)"
proof -
  show one: "keeps_all I (generate_invoice e i)" for i
    unfolding generate_invoice_def
    by (intro assms keeps_all_intros keeps_all_modify) (use assms(1) in \<open>simp add: move_free_def\<close>)
  show "keeps_all I (action_generate_invoice e ids)" "keeps_all I (cron_generate_invoices e)"
    unfolding action_generate_invoice_def cron_generate_invoices_def by (intro one keeps_all_intros)+
qed

lemma keeps_all_billing_crons [keeps_all_intros]:
  assumes "audit_free I" "seq_free I" "queue_free e I"
  shows "keeps_all I (cron_suspend_overdue e)" "keeps_all I (cron_reconnect_on_payment e)"
  unfolding cron_suspend_overdue_def cron_reconnect_on_payment_def by (intro assms keeps_all_intros)+

section \<open>Assignments, onboarding, preconfiguration\<close>

lemma keeps_all_asg_store [keeps_all_intros]: "asg_free I \<Longrightarrow> keeps_all I (asg_store i vs)"
  unfolding asg_store_def asg_not_null_def asg_validate_def check_one_active_per_onu_def
    check_one_active_per_subscription_def
  by (intro keeps_all_intros keeps_all_modify) (simp_all add: asg_free_def)

lemma keeps_all_asg [keeps_all_intros]:
  assumes "asg_free I"
  shows "keeps_all I (asg_write e i vs)" "keeps_all I (asg_create e vl)"
proof -
  have "keeps_all I (asg_insert vs)" for vs
    using assms by (auto simp: asg_insert_def keeps_all_def asg_free_def)
  then show "keeps_all I (asg_write e i vs)" "keeps_all I (asg_create e vl)"
    unfolding asg_write_def asg_create_def asg_not_null_def asg_validate_def check_one_active_per_onu_def
      check_one_active_per_subscription_def
    by (intro assms keeps_all_intros; assumption)+
qed

lemma keeps_all_onboarding [keeps_all_intros]:
  assumes "profile_free I" "partner_free I" "sub_free I" "seq_free I" "draw_free I" "captive_free I" "queue_free e I"
  shows "keeps_all I (mac_onboarding e kw h)"
proof -
  have profile: "keeps_all I (modify (\<lambda>s. s\<lparr>mac_profiles := f s\<rparr>))" for f
    using assms(1) by (auto simp: profile_free_def intro: keeps_all_modify)
  have other: "keeps_all I (modify (\<lambda>s. s\<lparr>partners := f s\<rparr>))" "keeps_all I (modify (\<lambda>s. s\<lparr>captive_users := g s\<rparr>))" for f g
    using assms(2,6) by (auto simp: partner_free_def captive_free_def intro: keeps_all_modify)
  have "keeps_all I (upsert_profile m v)" for m v
    unfolding upsert_profile_def by (intro profile keeps_all_intros)
  moreover have "keeps_all I (auto_subscribe e p m k ip)" for p m k ip
    unfolding auto_subscribe_def profile_partner_def Let_def by (intro profile other assms keeps_all_intros)
  moreover have "keeps_all I (auto_captive e m k)" for m k
    unfolding auto_captive_def Let_def by (intro other assms keeps_all_intros)
  ultimately have "keeps_all I (onboard_profile e kw m)" for m
    unfolding onboard_profile_def Let_def by (intro keeps_all_intros)
  then show ?thesis unfolding mac_onboarding_def Let_def by (intro keeps_all_intros)
qed

lemma keeps_all_preconfig [keeps_all_intros]:
  assumes "preconfig_free I"
  shows "keeps_all I (pc_write i vs)" "keeps_all I (pc_create vs)"
  unfolding pc_write_def pc_create_def pc_not_null_def check_default_def
  by (intro keeps_all_intros keeps_all_modify; use assms in \<open>simp add: preconfig_free_def\<close>)+

section \<open>Portal\<close>

lemma keeps_all_args [keeps_all_intros]:
  "keeps_all I (int_arg v)" "keeps_all I (float_arg v)" "keeps_all I (datetime_arg e v)"
  "keeps_all I (required_text v)"
  unfolding int_arg_def float_arg_def datetime_arg_def required_text_def
  by (intro keeps_all_intros)+

lemma keeps_all_browse_id [keeps_all_intros]: "keeps_all I (browse_id x)"
  by (cases x) (auto simp: browse_id_def intro!: keeps_all_intros)

lemma keeps_all_create_attachment [keeps_all_intros]: "attach_free I \<Longrightarrow> keeps_all I (create_attachment e n d k)"
  unfolding create_attachment_def
  by (auto simp: keeps_all_def attach_free_def run_simps split: option.split)

lemma keeps_all_portal_plan [keeps_all_intros]:
  assumes "pcr_free I" "seq_free I" "audit_free I" "mail_free I"
  shows "keeps_all I (portal_plan_change_submit e post)"
  unfolding portal_plan_change_submit_def by (intro assms keeps_all_intros)

lemma keeps_all_portal_transfer [keeps_all_intros]:
  assumes "trf_free I" "seq_free I" "audit_free I" "mail_free I" "attach_free I"
  shows "keeps_all I (portal_transfer_submit e cur post ts files)"
proof -
  have "keeps_all I (set_invoices pid ts)" for pid
    unfolding set_invoices_def by (intro assms keeps_all_intros)
  moreover have "keeps_all I (upload_raw e pid f)" "keeps_all I (upload_encoded e pid f)" for pid f
    unfolding upload_raw_def upload_encoded_def by (intro assms keeps_all_intros)+
  moreover have "keeps_all I (case ids of [] \<Rightarrow> raise x | i # is \<Rightarrow> ret i)" for ids :: "nat list" and x
    by (cases ids) (simp_all add: keeps_all_ret keeps_all_raise)
  ultimately show ?thesis
    unfolding portal_transfer_submit_def by (intro assms keeps_all_intros)
qed

end
