(* ===== verification/Portal_Facts.thy ===== *)
theory Portal_Facts
  imports Frames "HOL-Library.Multiset"
begin

text \<open>
  What the portal does: the pages of the list, the outcome of a plan change request, and what a
  bank transfer report stores, or why it stores nothing.
\<close>

section \<open>Pages\<close>

lemma take_drop_pages:
  "concat (map (\<lambda>p. take k (drop ((p - 1) * k) xs)) [1..<Suc n]) = take (n * k) xs"
proof (induction n)
  case (Suc n)
  have "concat (map (\<lambda>p. take k (drop ((p - 1) * k) xs)) [1..<Suc (Suc n)]) =
      take (n * k) xs @ take k (drop (n * k) xs)"
    using Suc by (simp add: upt_Suc_append del: upt_Suc)
  also have "\<dots> = take (n * k + k) xs" by (simp add: take_add)
  finally show ?case by (simp add: algebra_simps)
qed simp

definition page_count :: "nat \<Rightarrow> nat" where
  "page_count n_rows = (n_rows + 9) div 10"

definition page_content :: "env \<Rightarrow> string option \<Rightarrow> sys \<Rightarrow> nat \<Rightarrow> nat list" where
  "page_content e sortby s p = (case portal_my_isp_subscriptions e (int p) sortby s of
     (Inr ids, _) \<Rightarrow> ids | _ \<Rightarrow> [])"

lemma portal_order_perm:
  assumes "portal_order e s sortby = Some arrange"
  shows "mset (arrange xs) = mset xs"
  using assms by (auto simp: portal_order_def split: if_splits)



section \<open>Plan change requests\<close>

definition pcr_name_of :: "env \<Rightarrow> sys \<Rightarrow> string" where
  "pcr_name_of e s = next_name e s ''isp.plan.change.request'' ''PCR''"

definition new_request :: "env \<Rightarrow> sys \<Rightarrow> pcr_val list \<Rightarrow> plan_change_request" where
  "new_request e s vs = fold pcr_set (vs @ [P_name (pcr_name_of e s)]) (pcr_default e)"

lemma planned_date_cong: "subs t = subs s \<Longrightarrow> planned_date e t r = planned_date e s r"
  unfolding planned_date_def by (erule ssubst) (rule refl)

lemma pcr_refers_cong: "subs t = subs s \<Longrightarrow> plans t = plans s \<Longrightarrow> pcr_refers t v = pcr_refers s v"
  by (cases v) simp_all

lemma pcr_refers_seq [simp]: "list_all (pcr_refers (s\<lparr>seq_count := q\<rparr>)) vs = list_all (pcr_refers s) vs"
  using pcr_refers_cong [of "s\<lparr>seq_count := q\<rparr>" s] by (simp add: list_all_iff)

lemma pcr_create_unknown:
  assumes "pcr_name (fold pcr_set vs (pcr_default e)) = ''New''" and "\<not> list_all (pcr_refers s) vs"
  shows "pcr_create e [vs] s = (Inl (IntegrityError ''insert or update violates a foreign key constraint''),
    s\<lparr>seq_count := bump_seq ''isp.plan.change.request'' s\<rparr>)"
  using assms by (simp add: pcr_create_def pcr_prepare_def pcr_insert_def run_simps pcr_foreign_keys_run)

lemma pcr_create_one:
  assumes "pcr_name (fold pcr_set vs (pcr_default e)) = ''New''"
    and "list_all (pcr_refers s) vs" and "pcr_good (new_request e s vs)"
    and "current_plan s (new_request e s vs) \<noteq> pcr_requested_plan_id (new_request e s vs)"
  shows "\<exists>u. pcr_create e [vs] s = (Inr [fresh_id (pcrs s)],
      s\<lparr>seq_count := bump_seq ''isp.plan.change.request'' s, pcrs := u\<rparr>) \<and>
    (\<forall>j. tget u j = (if j = fresh_id (pcrs s) then Some ((new_request e s vs)\<lparr>pcr_effective_date := planned_date e s (new_request e s vs)\<rparr>)
       else tget (pcrs s) j))"
proof -
  let ?r = "new_request e s vs"
  let ?i = "fresh_id (pcrs s)" and ?s = "s\<lparr>seq_count := bump_seq ''isp.plan.change.request'' s\<rparr>"
  let ?t = "?s\<lparr>pcrs := tins ?r (pcrs s)\<rparr>"
  have row: "tget (pcrs ?t) ?i = Some ?r" by (simp add: tbl.ins_new)
  have "pcr_not_null [?i] ?t = (Inr (), ?t)" "check_effective_date [?i] ?t = (Inr (), ?t)"
    using assms(3) row by (simp_all add: check_simps pcr_good_def)
  moreover have "current_plan ?t ?r = current_plan s ?r" by (simp add: current_plan_def)
  with assms(4) row have "check_plan_diff [?i] ?t = (Inr (), ?t)" by (simp add: check_simps)
  ultimately have checks: "pcr_not_null [?i] ?t = (Inr (), ?t)" "pcr_validate e ws [?i] ?t = (Inr (), ?t)" for ws
    by (simp_all add: pcr_validate_def run_simps)
  from ensure_date_effect [OF row assms(3), of e] obtain u where
      u: "ensure_effective_date e ?i ?t = (Inr (), ?t\<lparr>pcrs := u\<rparr>)"
        "\<And>j. tget u j = (if j = ?i then Some (?r\<lparr>pcr_effective_date := planned_date e ?t ?r\<rparr>) else tget (pcrs ?t) j)"
    by blast
  have "planned_date e ?t ?r = planned_date e s ?r" by (rule planned_date_cong) simp
  moreover have "pcr_create e [vs] s = (Inr [?i], ?t\<lparr>pcrs := u\<rparr>)"
    using assms(1,2) checks u(1)
    by (simp add: pcr_create_def pcr_prepare_def pcr_insert_def pcr_foreign_keys_run run_simps pcr_name_of_def new_request_def)
  ultimately show ?thesis using u(2) by (auto simp: tbl.look_ins split: if_splits)
qed

lemma pcr_create_same_plan:
  assumes "pcr_name (fold pcr_set vs (pcr_default e)) = ''New''"
    and "list_all (pcr_refers s) vs" and "pcr_good (new_request e s vs)"
    and "current_plan s (new_request e s vs) = pcr_requested_plan_id (new_request e s vs)"
    and "''requested_plan_id'' \<in> set (map pcr_field vs)"
  shows "\<exists>s'. pcr_create e [vs] s =
    (Inl (ValidationError ''Requested plan must be different from current plan.''), s') \<and> wire s' = wire s"
proof -
  let ?r = "new_request e s vs"
  let ?i = "fresh_id (pcrs s)" and ?s = "s\<lparr>seq_count := bump_seq ''isp.plan.change.request'' s\<rparr>"
  let ?t = "?s\<lparr>pcrs := tins ?r (pcrs s)\<rparr>"
  have row: "tget (pcrs ?t) ?i = Some ?r" by (simp add: tbl.ins_new)
  have checks: "pcr_not_null [?i] ?t = (Inr (), ?t)" "check_effective_date [?i] ?t = (Inr (), ?t)"
    using assms(3) row by (simp_all add: check_simps pcr_good_def)
  have "current_plan ?t ?r = pcr_requested_plan_id ?r" using assms(4) by (simp add: current_plan_def)
  with row assms(3) have "check_plan_diff [?i] ?t =
      (Inl (ValidationError ''Requested plan must be different from current plan.''), ?t)"
    by (auto simp: check_plan_diff_def run_simps assert_that_def pcr_good_def)
  with checks assms(1,2,5) have "pcr_create e [vs] s =
      (Inl (ValidationError ''Requested plan must be different from current plan.''), ?t)"
    by (simp add: pcr_create_def pcr_prepare_def pcr_insert_def pcr_foreign_keys_run run_simps pcr_name_of_def new_request_def pcr_validate_def
        triggered_def)
  then show ?thesis by simp
qed

lemma no_wire_rollback: "m s = (Inl x, s') \<Longrightarrow> wire s' = wire s \<Longrightarrow> transaction m s = s"
  by (simp add: transaction_raises)

text \<open>The values the form creates a request with, and the request it becomes.\<close>

definition portal_vals :: "env \<Rightarrow> nat \<Rightarrow> nat \<Rightarrow> pcr_val list" where
  "portal_vals e i p = [P_subscription_id (Some i), P_requested_plan_id (Some p),
     P_effective_date_mode EffNextCycle, P_requested_by (env_user e)]"

definition filed :: "env \<Rightarrow> sys \<Rightarrow> nat \<Rightarrow> nat \<Rightarrow> int option \<Rightarrow> pcr_state \<Rightarrow> plan_change_request" where
  "filed e s i p d st = \<lparr>pcr_name = pcr_name_of e s, pcr_subscription_id = Some i, pcr_requested_plan_id = Some p,
     pcr_effective_date_mode = EffNextCycle, pcr_effective_date = d, pcr_state = st,
     pcr_requested_by = env_user e, pcr_approved_by = None, pcr_rejection_reason = None\<rparr>"

definition cycle_date :: "env \<Rightarrow> subscription \<Rightarrow> int" where
  "cycle_date e sr = (case sub_next_invoice_date sr of None \<Rightarrow> add_month e (today_ctx e) | Some d \<Rightarrow> d)"

lemma portal_vals_request:
  "new_request e s (portal_vals e i p) = filed e s i p None PcrDraft"
  "pcr_name (fold pcr_set (portal_vals e i p) (pcr_default e)) = ''New''"
  "pcr_good (filed e s i p d st)" "may_submit e (filed e s i p d st)"
  by (simp_all add: new_request_def portal_vals_def filed_def pcr_default_def pcr_good_def may_submit_def)

lemma portal_vals_context:
  assumes "tget (subs s) i = Some sr"
  shows "current_plan s (filed e t i p d st) = sub_plan_id sr"
    and "list_all (pcr_refers s) (portal_vals e i p) \<longleftrightarrow> tget (plans s) p \<noteq> None"
    and "planned_date e s (filed e t i p None st) = Some (cycle_date e sr)"
  using assms by (simp_all add: current_plan_def planned_date_def cycle_date_def via_def deref_def filed_def portal_vals_def)

lemma portal_request_refused:
  assumes "tget (subs s) i = Some sr" and "tget (plans s) p = None \<or> sub_plan_id sr = Some p"
  shows "\<exists>s'. pcr_create e [portal_vals e i p] s = (Inl (if tget (plans s) p = None
      then IntegrityError ''insert or update violates a foreign key constraint''
      else ValidationError ''Requested plan must be different from current plan.''), s') \<and> wire s' = wire s"
proof (cases "tget (plans s) p")
  case None
  then have "\<not> list_all (pcr_refers s) (portal_vals e i p)" by (simp add: portal_vals_context [OF assms(1)])
  from pcr_create_unknown [OF portal_vals_request(2) this] None show ?thesis by simp
next
  case (Some pl)
  then have "list_all (pcr_refers s) (portal_vals e i p)" by (simp add: portal_vals_context [OF assms(1)])
  moreover have "pcr_good (new_request e s (portal_vals e i p))" by (simp only: portal_vals_request)
  moreover have "current_plan s (new_request e s (portal_vals e i p)) =
      pcr_requested_plan_id (new_request e s (portal_vals e i p))"
    using Some assms(2) by (simp add: portal_vals_request portal_vals_context [OF assms(1)]) (simp add: filed_def)
  ultimately show ?thesis
    using pcr_create_same_plan [OF portal_vals_request(2)] Some by (simp add: portal_vals_def)
qed

lemma portal_request_filed:
  assumes "tget (subs s) i = Some sr" and "tget (plans s) p \<noteq> None" and "sub_plan_id sr \<noteq> Some p"
  shows "\<exists>t s'. pcr_create e [portal_vals e i p] s = (Inr [fresh_id (pcrs s)], t) \<and>
    pcr_action_submit e [fresh_id (pcrs s)] t = (Inr (), s') \<and> subs s' = subs s \<and> jobs s' = jobs s \<and>
    (\<forall>j. tget (pcrs s') j = (if j = fresh_id (pcrs s) then Some (filed e s i p (Some (cycle_date e sr)) PcrSubmitted)
       else tget (pcrs s) j))"
proof -
  let ?full = "filed e s i p (Some (cycle_date e sr)) PcrDraft"
  have known: "list_all (pcr_refers s) (portal_vals e i p)"
    using assms(2) by (simp add: portal_vals_context [OF assms(1)])
  have good: "pcr_good (new_request e s (portal_vals e i p))" by (simp only: portal_vals_request)
  have other: "current_plan s (new_request e s (portal_vals e i p)) \<noteq>
      pcr_requested_plan_id (new_request e s (portal_vals e i p))"
    using assms(3) by (simp add: portal_vals_request portal_vals_context [OF assms(1)]) (simp add: filed_def)
  have dated: "(new_request e s (portal_vals e i p))\<lparr>pcr_effective_date :=
      planned_date e s (new_request e s (portal_vals e i p))\<rparr> = ?full"
    by (simp add: portal_vals_request portal_vals_context [OF assms(1)]) (simp add: filed_def)
  from pcr_create_one [OF portal_vals_request(2) known good other] obtain u where
      c: "pcr_create e [portal_vals e i p] s = (Inr [fresh_id (pcrs s)],
           s\<lparr>seq_count := bump_seq ''isp.plan.change.request'' s, pcrs := u\<rparr>)" (is "_ = (_, ?t)")
      and u: "\<And>j. tget u j = (if j = fresh_id (pcrs s) then Some ?full else tget (pcrs s) j)"
    unfolding dated by blast
  have "tget (pcrs ?t) (fresh_id (pcrs s)) = Some ?full" by (simp add: u)
  from pcr_submit_effect [OF this portal_vals_request(3,4)] obtain s' where
      "pcr_action_submit e [fresh_id (pcrs s)] ?t = (Inr (), s')" "subs s' = subs ?t" "jobs s' = jobs ?t"
      "\<And>j. tget (pcrs s') j = (if j = fresh_id (pcrs s)
         then Some (?full\<lparr>pcr_effective_date := planned_date e ?t ?full, pcr_state := PcrSubmitted\<rparr>)
         else tget (pcrs ?t) j)" by blast
  moreover have "?full\<lparr>pcr_effective_date := planned_date e ?t ?full, pcr_state := PcrSubmitted\<rparr> =
      filed e s i p (Some (cycle_date e sr)) PcrSubmitted"
    by (simp add: filed_def planned_date_def)
  ultimately show ?thesis using c by (intro exI [of _ ?t] exI [of _ s']) (simp add: u)
qed

lemma submit_args:
  assumes "post ''subscription_id'' = Some a" and "py_int a = Some (int i)" and "0 < i"
    and "post ''plan_id'' = Some b" and "py_int b = Some (int p)" and "0 < p"
    and "tget (subs s) i = Some sr"
  shows "portal_plan_change_submit e post s =
    (if sub_partner_id sr \<noteq> user_partner e then (Inr (Redirect ''/my''), s)
     else bnd (pcr_create e [portal_vals e i p]) (\<lambda>ids.
          andthen (pcr_action_submit e ids)
          (ret (Redirect (''/my/isp/service/'' @ int_str (int i) @ ''?msg=plan_change_submitted'')))) s)"
  using assms
  by (simp add: portal_plan_change_submit_def portal_vals_def int_arg_def browse_id_def run_simps)

text \<open>C16. A plan change asked for in the portal. For a subscription of another customer nothing
  happens; for a plan that does not exist, and for the plan the subscription already has, the request is
  refused - in the first case with a bare database error - and nothing is stored; otherwise exactly
  one request appears, submitted by the customer for the next billing cycle - the mode in the form is
  ignored, so a customer can never obtain an immediate change - and neither the subscription nor the
  job queue is touched.\<close>

theorem portal_plan_change_outcome:
  assumes "post ''subscription_id'' = Some a" and "py_int a = Some (int i)" and "0 < i"
    and "post ''plan_id'' = Some b" and "py_int b = Some (int p)" and "0 < p"
    and "tget (subs s) i = Some sr"
  shows "if sub_partner_id sr \<noteq> user_partner e
    then portal_plan_change_submit e post s = (Inr (Redirect ''/my''), s)
    else if tget (plans s) p = None
    then (\<exists>s'. portal_plan_change_submit e post s =
        (Inl (IntegrityError ''insert or update violates a foreign key constraint''), s')) \<and>
      transaction (portal_plan_change_submit e post) s = s
    else if sub_plan_id sr = Some p
    then (\<exists>s'. portal_plan_change_submit e post s =
        (Inl (ValidationError ''Requested plan must be different from current plan.''), s')) \<and>
      transaction (portal_plan_change_submit e post) s = s
    else \<exists>s'. portal_plan_change_submit e post s =
        (Inr (Redirect (''/my/isp/service/'' @ int_str (int i) @ ''?msg=plan_change_submitted'')), s') \<and>
      subs s' = subs s \<and> jobs s' = jobs s \<and>
      (\<forall>j. tget (pcrs s') j = (if j = fresh_id (pcrs s) then Some
         \<lparr>pcr_name = pcr_name_of e s, pcr_subscription_id = Some i, pcr_requested_plan_id = Some p,
          pcr_effective_date_mode = EffNextCycle,
          pcr_effective_date = Some (case sub_next_invoice_date sr of
              None \<Rightarrow> add_month e (today_ctx e) | Some d \<Rightarrow> d),
          pcr_state = PcrSubmitted, pcr_requested_by = env_user e, pcr_approved_by = None,
          pcr_rejection_reason = None\<rparr>
         else tget (pcrs s) j))"
proof -
  note run = submit_args [OF assms, of e]
  have refused: "transaction (portal_plan_change_submit e post) s = s"
    if "portal_plan_change_submit e post s = (Inl x, s')" "wire s' = wire s" for x s'
    using that by (rule no_wire_rollback)
  consider "sub_partner_id sr \<noteq> user_partner e"
    | "sub_partner_id sr = user_partner e" "tget (plans s) p = None \<or> sub_plan_id sr = Some p"
    | "sub_partner_id sr = user_partner e" "tget (plans s) p \<noteq> None" "sub_plan_id sr \<noteq> Some p" by blast
  then show ?thesis
  proof cases
    case 1
    with run show ?thesis by simp
  next
    case 2
    from portal_request_refused [OF assms(7) 2(2), of e] obtain s' where
        "portal_plan_change_submit e post s = (Inl (if tget (plans s) p = None
           then IntegrityError ''insert or update violates a foreign key constraint''
           else ValidationError ''Requested plan must be different from current plan.''), s')" "wire s' = wire s"
      using run 2(1) by (auto simp: bnd_run)
    with refused [OF this] 2 show ?thesis by (cases "tget (plans s) p") auto
  next
    case 3
    from portal_request_filed [OF assms(7) 3(2,3), of e] run 3 show ?thesis
      by (auto simp: run_simps filed_def cycle_date_def)
  qed
qed

definition demo_form :: "string \<Rightarrow> string option" where
  "demo_form = map_of [(''subscription_id'', ''1''), (''plan_id'', ''2''), (''effective_date_mode'', ''immediate''),
     (''amount'', ''12.50''), (''date'', ''2024-01-31''), (''bank_name'', ''B''), (''reference'', ''R1'')]"

lemma demo_ints: "py_int ''1'' = Some 1" "py_int ''2'' = Some 2"
  by (simp_all add: py_int_def py_strip_def is_space_def digit_val_def digit_chars_def)

theorem portal_plan_change_outcome_witness:
  "\<exists>s'. portal_plan_change_submit (plain_env\<lparr>user_partner := sub_partner_id demo_sub\<rparr>) demo_form demo_pcr_sys =
      (Inr (Redirect (''/my/isp/service/'' @ int_str (int 1) @ ''?msg=plan_change_submitted'')), s') \<and>
    jobs s' = jobs demo_pcr_sys"
  using portal_plan_change_outcome [of demo_form "''1''" 1 "''2''" 2 demo_pcr_sys demo_sub
      "plain_env\<lparr>user_partner := sub_partner_id demo_sub\<rparr>"]
  by (auto simp: demo_form_def demo_ints demo_pcr_facts demo_sub_def)

section \<open>Bank transfers\<close>

definition trf_name_of :: "env \<Rightarrow> sys \<Rightarrow> string" where
  "trf_name_of e s = next_name e s ''isp.bank.transfer.payment'' ''BTP''"

definition new_transfer :: "env \<Rightarrow> sys \<Rightarrow> nat option \<Rightarrow> trf_val list \<Rightarrow> transfer_payment" where
  "new_transfer e s currency vs = fold trf_set (vs @ [T_name (trf_name_of e s)]) (trf_default e currency)"

definition with_deadlines :: "env \<Rightarrow> int \<Rightarrow> int \<Rightarrow> transfer_payment \<Rightarrow> transfer_payment" where
  "with_deadlines e rh ah r =
     (let base = (case trf_transfer_datetime r of None \<Rightarrow> now e | Some d \<Rightarrow> d)
      in r\<lparr>trf_review_deadline := Some (base + rh * 3600), trf_attention_deadline := Some (base + ah * 3600)\<rparr>)"

text \<open>The hours of the two deadlines are configured properly.\<close>

definition deadline_params :: "env \<Rightarrow> int \<Rightarrow> int \<Rightarrow> bool" where
  "deadline_params e rh ah \<longleftrightarrow>
     py_int (param_or e ''isp_billing.transfer_review_hours'' ''48'') = Some rh \<and>
     py_int (param_or e ''isp_billing.transfer_attention_hours'' ''24'') = Some ah"

lemma trf_create_one:
  assumes "trf_name (fold trf_set vs (trf_default e cur)) = ''New''"
    and "trf_good (new_transfer e s cur vs)" and "deadline_params e rh ah"
  shows "\<exists>u. trf_create e cur [vs] s = (Inr [fresh_id (transfers s)],
      s\<lparr>seq_count := bump_seq ''isp.bank.transfer.payment'' s, transfers := u\<rparr>) \<and>
    (\<forall>j. tget u j = (if j = fresh_id (transfers s) then Some (with_deadlines e rh ah (new_transfer e s cur vs))
       else tget (transfers s) j))"
proof -
  let ?r = "new_transfer e s cur vs"
  let ?i = "fresh_id (transfers s)" and ?s = "s\<lparr>seq_count := bump_seq ''isp.bank.transfer.payment'' s\<rparr>"
  let ?t = "?s\<lparr>transfers := tins ?r (transfers s)\<rparr>"
  have row: "tget (transfers ?t) ?i = Some ?r" by (simp add: tbl.ins_new)
  have "trf_not_null [?i] ?t = (Inr (), ?t)" "check_attachments [?i] ?t = (Inr (), ?t)"
    using assms(2) row by (simp_all add: check_simps trf_good_def)
  then have checks: "trf_not_null [?i] ?t = (Inr (), ?t)" "trf_validate ws [?i] ?t = (Inr (), ?t)" for ws
    by (simp_all add: trf_validate_def run_simps)
  from deadlines_row [OF row assms(2)] assms(3) obtain u where
      u: "set_review_deadline e [?i] ?t = (Inr (), ?t\<lparr>transfers := u\<rparr>)"
        "tget u ?i = Some (with_deadlines e rh ah ?r)" "\<And>j. j \<noteq> ?i \<Longrightarrow> tget u j = tget (transfers ?t) j"
    unfolding with_deadlines_def deadline_params_def by blast
  have "trf_create e cur [vs] s = (Inr [?i], ?t\<lparr>transfers := u\<rparr>)"
    using assms(1) checks u(1)
    by (simp add: trf_create_def trf_prepare_def trf_insert_def run_simps trf_name_of_def new_transfer_def)
  then show ?thesis using u(2,3) by (auto simp: tbl.look_ins split: if_splits)
qed

section \<open>Uploads\<close>

definition stored_as :: "sys \<Rightarrow> nat \<Rightarrow> string \<times> string \<Rightarrow> bool" where
  "stored_as s a f \<longleftrightarrow> (\<exists>x. tget (attachments s) a = Some x \<and> att_name x = fst f \<and> att_raw x = snd f)"

lemma create_attachment_run:
  "decode_datas e d = Some raw \<Longrightarrow> create_attachment e n d k s = (Inr (fresh_id (attachments s)),
     s\<lparr>attachments := tins \<lparr>att_name = n, att_raw = raw,
        att_res_model = ''isp.bank.transfer.payment'', att_res_id = k\<rparr> (attachments s)\<rparr>)"
  by (simp add: create_attachment_def)

lemma raw_uploads:
  "for_each (upload_raw e pid) files s = (Inr (), s') \<Longrightarrow> \<forall>f\<in>set files. decode_datas e (snd f) \<noteq> None"
proof (induction files arbitrary: s)
  case (Cons f fs)
  from Cons.prems obtain x t where one: "upload_raw e pid f s = (Inr x, t)"
      and rest: "for_each (upload_raw e pid) fs t = (Inr (), s')"
    by (auto elim: andthen_ok)
  have "decode_datas e (snd f) \<noteq> None"
    using one by (auto simp: upload_raw_def ignore_def create_attachment_def run_simps split: option.splits)
  with Cons.IH [OF rest] show ?case by simp
qed simp

lemma raw_uploads_return:
  "\<forall>f\<in>set files. decode_datas e (snd f) \<noteq> None \<Longrightarrow>
   \<exists>a. for_each (upload_raw e pid) files s = (Inr (), s\<lparr>attachments := a\<rparr>) \<and>
     length a = length (attachments s) + length files"
proof (induction files arbitrary: s)
  case Nil
  show ?case by (rule exI [of _ "attachments s"]) (simp add: run_simps)
next
  case (Cons f fs)
  from Cons.prems obtain raw where raw: "decode_datas e (snd f) = Some raw" by auto
  let ?s = "s\<lparr>attachments := tins \<lparr>att_name = fst f, att_raw = raw,
      att_res_model = ''isp.bank.transfer.payment'', att_res_id = pid\<rparr> (attachments s)\<rparr>"
  have "upload_raw e pid f s = (Inr (), ?s)"
    by (simp add: upload_raw_def ignore_def run_simps create_attachment_run [OF raw])
  moreover from Cons.prems have "\<forall>f\<in>set fs. decode_datas e (snd f) \<noteq> None" by simp
  from Cons.IH [OF this, of ?s] obtain a where
      "for_each (upload_raw e pid) fs ?s = (Inr (), s\<lparr>attachments := a\<rparr>)"
      "length a = length (attachments s) + length (f # fs)"
    by (auto simp: tins_def)
  ultimately show ?case by (intro exI [of _ a]) (simp add: andthen_run)
qed

lemma stored_as_cong: "attachments t = attachments s \<Longrightarrow> stored_as t a f = stored_as s a f"
  by (simp add: stored_as_def)

lemma upload_encoded_one:
  assumes "\<And>d. decode_datas e (b64encode d) = Some d"
    and "tget (transfers s) pid = Some r" and "trf_good r" and "fst f \<noteq> []"
  shows "\<exists>u. upload_encoded e pid f s = (Inr (), s\<lparr>attachments := tins \<lparr>att_name = fst f, att_raw = snd f,
      att_res_model = ''isp.bank.transfer.payment'', att_res_id = pid\<rparr> (attachments s), transfers := u\<rparr>) \<and>
    tget u pid = Some (r\<lparr>trf_attachment_ids := trf_attachment_ids r @ [fresh_id (attachments s)]\<rparr>) \<and>
    (\<forall>j. j \<noteq> pid \<longrightarrow> tget u j = tget (transfers s) j)"
proof -
  let ?a = "fresh_id (attachments s)"
  let ?s = "s\<lparr>attachments := tins \<lparr>att_name = fst f, att_raw = snd f,
    att_res_model = ''isp.bank.transfer.payment'', att_res_id = pid\<rparr> (attachments s)\<rparr>"
  let ?vs = "[T_attachment_ids (trf_attachment_ids r @ [?a])]"
  have "trf_good (fold trf_set ?vs r)" using assms(3) by (simp add: trf_good_def)
  with assms(2) trf_write_row [of ?s pid r ?vs] obtain u where
      w: "trf_write pid ?vs ?s = (Inr (), ?s\<lparr>transfers := u\<rparr>)"
      and u: "tget u pid = Some (r\<lparr>trf_attachment_ids := trf_attachment_ids r @ [?a]\<rparr>)"
        "\<forall>j. j \<noteq> pid \<longrightarrow> tget u j = tget (transfers s) j"
    by auto
  have "upload_encoded e pid f s = (Inr (), ?s\<lparr>transfers := u\<rparr>)"
    using assms(2,4) w
    by (simp add: upload_encoded_def run_simps create_attachment_run [OF assms(1)])
  with u show ?thesis by auto
qed

lemma encoded_uploads:
  assumes "\<And>d. decode_datas e (b64encode d) = Some d"
    and "tget (transfers s) pid = Some r" and "trf_good r"
  shows "\<exists>s' ns. for_each (upload_encoded e pid) files s = (Inr (), s') \<and>
    (\<exists>u a. s' = s\<lparr>transfers := u, attachments := a\<rparr>) \<and>
    tget (transfers s') pid = Some (r\<lparr>trf_attachment_ids := trf_attachment_ids r @ ns\<rparr>) \<and>
    (\<forall>j. j \<noteq> pid \<longrightarrow> tget (transfers s') j = tget (transfers s) j) \<and>
    list_all2 (stored_as s') ns (filter (\<lambda>f. fst f \<noteq> []) files) \<and>
    (\<forall>a f. stored_as s a f \<longrightarrow> stored_as s' a f)"
  using assms(2,3)
proof (induction files arbitrary: s r)
  case Nil
  have "s = s\<lparr>transfers := transfers s, attachments := attachments s\<rparr>" by simp
  then have "\<exists>u a. s = s\<lparr>transfers := u, attachments := a\<rparr>" by metis
  with Nil show ?case
    by (intro exI [of _ s] exI [of _ "[]"]) (simp add: run_simps)
next
  case (Cons f fs)
  show ?case
  proof (cases "fst f = []")
    case True
    then have "upload_encoded e pid f s = (Inr (), s)" by (simp add: upload_encoded_def run_simps)
    with Cons.IH [OF Cons.prems] True show ?thesis by (simp add: andthen_run)
  next
    case False
    let ?a = "fresh_id (attachments s)"
    let ?s = "s\<lparr>attachments := tins \<lparr>att_name = fst f, att_raw = snd f,
      att_res_model = ''isp.bank.transfer.payment'', att_res_id = pid\<rparr> (attachments s)\<rparr>"
    let ?r = "r\<lparr>trf_attachment_ids := trf_attachment_ids r @ [?a]\<rparr>"
    from upload_encoded_one [OF assms(1) Cons.prems False] obtain u where
        one: "upload_encoded e pid f s = (Inr (), ?s\<lparr>transfers := u\<rparr>)" (is "_ = (_, ?t)")
        and u: "tget u pid = Some ?r" "\<And>j. j \<noteq> pid \<Longrightarrow> tget u j = tget (transfers s) j" by blast
    have "tget (transfers ?t) pid = Some ?r" "trf_good ?r" using u(1) Cons.prems(2) by (simp_all add: trf_good_def)
    from Cons.IH [OF this] obtain s' ns where
        rest: "for_each (upload_encoded e pid) fs ?t = (Inr (), s')" "\<exists>u a. s' = ?t\<lparr>transfers := u, attachments := a\<rparr>"
        "tget (transfers s') pid = Some (?r\<lparr>trf_attachment_ids := trf_attachment_ids ?r @ ns\<rparr>)"
        and other: "\<And>j. j \<noteq> pid \<Longrightarrow> tget (transfers s') j = tget (transfers ?t) j"
        and files: "list_all2 (stored_as s') ns (filter (\<lambda>f. fst f \<noteq> []) fs)"
        and old: "\<And>a f. stored_as ?t a f \<Longrightarrow> stored_as s' a f" by blast
    have "stored_as ?t ?a f" by (simp add: stored_as_def tbl.ins_new)
    then have "list_all2 (stored_as s') (?a # ns) (filter (\<lambda>f. fst f \<noteq> []) (f # fs))"
      using files old False by simp
    moreover have "stored_as s' a g" if "stored_as s a g" for a g
      using that by (intro old) (auto simp: stored_as_def tbl.ins_old)
    moreover have "\<exists>u a. s' = s\<lparr>transfers := u, attachments := a\<rparr>" using rest(2) by auto
    ultimately show ?thesis
      using one rest(1,3) other u(2) by (intro exI [of _ s'] exI [of _ "?a # ns"]) (simp add: andthen_run)
  qed
qed

section \<open>Reporting a transfer\<close>

text \<open>The texts in the form are the ids of existing moves.\<close>

definition invoice_args :: "sys \<Rightarrow> string list \<Rightarrow> nat list \<Rightarrow> bool" where
  "invoice_args s texts ids \<longleftrightarrow>
     list_all2 (\<lambda>t k. py_int t = Some (int k) \<and> 0 < k \<and> tget (moves s) k \<noteq> None) texts ids"

lemma invoice_texts:
  "list_all2 (\<lambda>t k. py_int t = Some (int k) \<and> 0 < k \<and> tget (moves s) k \<noteq> None) texts ids \<Longrightarrow>
   map_each (\<lambda>t. bnd (int_arg (Some t)) (\<lambda>k. browse_id (PInt k))) texts s' = (Inr ids, s')"
  by (induction texts ids rule: list_all2_induct) (simp_all add: run_simps int_arg_def browse_id_def)

lemma invoices_exist:
  "list_all2 (\<lambda>t k. py_int t = Some (int k) \<and> 0 < k \<and> tget (moves s) k \<noteq> None) texts ids \<Longrightarrow>
   for_each (\<lambda>k. bnd (rd moves k) (\<lambda>_. ret ())) ids s = (Inr (), s)"
  by (induction texts ids rule: list_all2_induct) (auto simp: run_simps)

lemma set_invoices_run:
  assumes "invoice_args s texts ids" and "tget (transfers s) pid = Some r" and "trf_good r"
  shows "\<exists>u. set_invoices pid texts s = (Inr (), s\<lparr>transfers := u\<rparr>) \<and>
    tget u pid = Some (r\<lparr>trf_invoice_ids := ids\<rparr>) \<and> (\<forall>j. j \<noteq> pid \<longrightarrow> tget u j = tget (transfers s) j)"
proof -
  have "trf_good (fold trf_set [T_invoice_ids ids] r)" using assms(3) by (simp add: trf_good_def)
  from trf_write_row [OF assms(2) this] obtain u where
      "trf_write pid [T_invoice_ids ids] s = (Inr (), s\<lparr>transfers := u\<rparr>)"
      "tget u pid = Some (r\<lparr>trf_invoice_ids := ids\<rparr>)" "\<forall>j. j \<noteq> pid \<longrightarrow> tget u j = tget (transfers s) j"
    by auto
  moreover have "set_invoices pid texts s = trf_write pid [T_invoice_ids ids] s"
    using assms(1) unfolding invoice_args_def
    by (simp add: set_invoices_def bnd_run andthen_run invoice_texts invoices_exist)
  ultimately show ?thesis by (intro exI [of _ u]) simp
qed

lemma submit_keeps_attachments:
  assumes "trf_action_submit e ids s = (r, s')"
  shows "attachments s' = attachments s"
proof -
  have "keeps_all (\<lambda>t. attachments t = attachments s) (trf_action_submit e ids)"
    by (rule keeps_all_trf_buttons) (simp_all add: all_frees)
  with assms show ?thesis by (auto simp: keeps_all_def dest: spec [of _ s])
qed

text \<open>The form as the code reads it.\<close>

definition transfer_form :: "env \<Rightarrow> (string \<Rightarrow> string option) \<Rightarrow> rat \<Rightarrow> int \<Rightarrow> string \<Rightarrow> string \<Rightarrow> bool" where
  "transfer_form e post amount dt bank reference \<longleftrightarrow>
     (\<exists>a. post ''amount'' = Some a \<and> py_float a = Some amount) \<and>
     (\<exists>d. post ''date'' = Some d \<and> parse_datetime e d = Some dt) \<and>
     post ''bank_name'' = Some bank \<and> post ''reference'' = Some reference"

definition form_vals :: "env \<Rightarrow> rat \<Rightarrow> int \<Rightarrow> string \<Rightarrow> string \<Rightarrow> trf_val list" where
  "form_vals e amount dt bank reference = [T_partner_id (user_partner e), T_bank_name bank,
     T_reference reference, T_amount amount, T_transfer_datetime (Some dt), T_state TrfDraft]"

lemma portal_transfer_run:
  assumes "transfer_form e post amount dt bank reference"
  shows "portal_transfer_submit e cur post texts files s =
    bnd (trf_create e cur [form_vals e amount dt bank reference]) (\<lambda>ids.
     bnd (case ids of [] \<Rightarrow> raise (ValueError ''Expected singleton'') | i # is \<Rightarrow> ret i) (\<lambda>pid.
     andthen (do_if (texts \<noteq> []) (set_invoices pid texts))
    (andthen (for_each (upload_raw e pid) files)
    (andthen (for_each (upload_encoded e pid) files)
    (andthen (trf_action_submit e [pid])
       (ret (Redirect ''/my/isp?msg=transfer_submitted''))))))) s"
  using assms
  by (auto simp: portal_transfer_submit_def transfer_form_def float_arg_def datetime_arg_def
      required_text_def form_vals_def bnd_run ret_run)

text \<open>The transfer before the uploads, and what the uploads add to it.\<close>

lemma form_creates_transfer:
  assumes "user_partner e = Some q" and "deadline_params e rh ah" and "invoice_args s texts ids"
  obtains s1 s2 r where "trf_create e cur [form_vals e amount dt bank reference] s = (Inr [fresh_id (transfers s)], s1)"
    and "do_if (texts \<noteq> []) (set_invoices (fresh_id (transfers s)) texts) s1 = (Inr (), s2)"
    and "tget (transfers s2) (fresh_id (transfers s)) = Some r" and "trf_good r" and "trf_partner_id r = Some q"
    and "trf_amount r = amount" and "trf_invoice_ids r = ids" and "trf_attachment_ids r = []"
    and "trf_transfer_datetime r = Some dt" and "acct s2 = acct s"
    and "\<And>j. j \<noteq> fresh_id (transfers s) \<Longrightarrow> tget (transfers s2) j = tget (transfers s) j"
proof -
  let ?vs = "form_vals e amount dt bank reference" and ?pid = "fresh_id (transfers s)"
  let ?n = "new_transfer e s cur ?vs"
  define r0 where "r0 = with_deadlines e rh ah ?n"
  have new: "trf_name (fold trf_set ?vs (trf_default e cur)) = ''New''" "trf_good ?n"
    using assms(1) by (simp_all add: form_vals_def new_transfer_def trf_default_def trf_good_def)
  from trf_create_one [OF new assms(2)] obtain u where
      c: "trf_create e cur [?vs] s = (Inr [?pid],
           s\<lparr>seq_count := bump_seq ''isp.bank.transfer.payment'' s, transfers := u\<rparr>)" (is "_ = (_, ?s1)")
      and u: "\<And>j. tget u j = (if j = ?pid then Some r0 else tget (transfers s) j)"
    unfolding r0_def by blast
  have r0: "trf_good r0" "trf_partner_id r0 = Some q" "trf_amount r0 = amount" "trf_invoice_ids r0 = []"
      "trf_attachment_ids r0 = []" "trf_transfer_datetime r0 = Some dt"
    using assms(1)
    by (simp_all add: r0_def with_deadlines_def form_vals_def new_transfer_def trf_default_def trf_good_def)
  have "\<exists>u2. do_if (texts \<noteq> []) (set_invoices ?pid texts) ?s1 = (Inr (), ?s1\<lparr>transfers := u2\<rparr>) \<and>
     tget u2 ?pid = Some (r0\<lparr>trf_invoice_ids := ids\<rparr>) \<and> (\<forall>j. j \<noteq> ?pid \<longrightarrow> tget u2 j = tget u j)"
  proof (cases "texts = []")
    case True
    with assms(3) r0(4) have "r0\<lparr>trf_invoice_ids := ids\<rparr> = r0" by (simp add: invoice_args_def)
    with True u show ?thesis by (intro exI [of _ u]) (simp add: run_simps)
  next
    case False
    have "invoice_args ?s1 texts ids" using assms(3) by (simp add: invoice_args_def)
    from set_invoices_run [OF this, of ?pid r0] u r0(1) False show ?thesis by (auto simp: run_simps)
  qed
  then obtain u2 where "do_if (texts \<noteq> []) (set_invoices ?pid texts) ?s1 = (Inr (), ?s1\<lparr>transfers := u2\<rparr>)"
      and "tget u2 ?pid = Some (r0\<lparr>trf_invoice_ids := ids\<rparr>)" "\<And>j. j \<noteq> ?pid \<Longrightarrow> tget u2 j = tget u j"
    by blast
  then show thesis
    by (intro that [OF c, of "?s1\<lparr>transfers := u2\<rparr>" "r0\<lparr>trf_invoice_ids := ids\<rparr>"])
      (use u r0 in \<open>simp_all add: trf_good_def\<close>)
qed

lemma uploads_stored:
  assumes "tget (transfers s) pid = Some r" and "trf_good r"
    and "\<And>f. f \<in> set files \<Longrightarrow> decode_datas e (snd f) \<noteq> None"
    and "\<And>d. decode_datas e (b64encode d) = Some d"
  obtains s1 s2 ns where "for_each (upload_raw e pid) files s = (Inr (), s1)"
    and "for_each (upload_encoded e pid) files s1 = (Inr (), s2)"
    and "tget (transfers s2) pid = Some (r\<lparr>trf_attachment_ids := trf_attachment_ids r @ ns\<rparr>)"
    and "list_all2 (stored_as s2) ns (filter (\<lambda>f. fst f \<noteq> []) files)" and "acct s2 = acct s"
    and "\<And>j. j \<noteq> pid \<Longrightarrow> tget (transfers s2) j = tget (transfers s) j"
proof -
  from raw_uploads_return [of files e pid s] assms(3) obtain a where
      raw: "for_each (upload_raw e pid) files s = (Inr (), s\<lparr>attachments := a\<rparr>)" by blast
  have "tget (transfers (s\<lparr>attachments := a\<rparr>)) pid = Some r" using assms(1) by simp
  from encoded_uploads [OF assms(4) this assms(2), where files = files] raw show thesis
    by (fastforce intro!: that)
qed


lemma demo_transfer_form:
  "transfer_form (plain_env\<lparr>user_partner := Some 1, decode_datas := b64decode\<rparr>) demo_form (25 / 2) 0 ''B'' ''R1''"
  by (simp add: transfer_form_def demo_form_def plain_env_def py_float_def unsigned_float_def py_strip_def
      is_space_def digit_like_def digits_or_zero_def exponent_def scale10_def count_digits_def
      digit_val_def digit_chars_def)

lemma demo_deadline_params: "deadline_params (plain_env\<lparr>user_partner := Some 1, decode_datas := b64decode\<rparr>) 48 24"
  by (simp add: deadline_params_def param_or_def plain_env_def py_int_def py_strip_def is_space_def
      digit_val_def digit_chars_def)

lemma b64decode_abcd: "b64decode ''abcd'' \<noteq> None"
  by (simp add: b64decode_def b64_dec.simps b64_val_def b64_alphabet_def upt_rec)


section \<open>Reports that are lost\<close>

definition unattached :: "nat \<Rightarrow> sys \<Rightarrow> bool" where
  "unattached pid s \<longleftrightarrow> (\<forall>r. tget (transfers s) pid = Some r \<longrightarrow> trf_attachment_ids r = [])"

lemma keeps_unattached [keeps_intros]:
  assumes "''attachment_ids'' \<notin> set (map trf_field vs)"
  shows "keeps (unattached pid) (trf_write i vs)"
proof -
  have same: "trf_attachment_ids (fold trf_set vs r) = trf_attachment_ids r" for r
    using assms
  proof (induction vs arbitrary: r)
    case (Cons v vs)
    then show ?case by (cases v) simp_all
  qed simp
  show ?thesis
    unfolding keeps_def
  proof (intro allI impI)
    fix s s' :: sys and x :: unit
    assume un: "unattached pid s" and w: "trf_write i vs s = (Inr x, s')"
    from w have "s' = s\<lparr>transfers := tupd i (fold trf_set vs) (transfers s)\<rparr>" by (simp add: trf_write_ok(1))
    with un same show "unattached pid s'" by (auto simp: unattached_def tbl.look_upd)
  qed
qed

lemma unattached_deadline [keeps_intros]: "keeps (unattached pid) (set_review_deadline e ids)"
  unfolding set_review_deadline_def Let_def by (intro keeps_intros) simp_all

lemma create_unattached:
  assumes "trf_create e cur [vs] s = (Inr ids, s')" and "trf_name (fold trf_set vs (trf_default e cur)) = ''New''"
    and "trf_attachment_ids (new_transfer e s cur vs) = []"
  shows "ids = [fresh_id (transfers s)] \<and> unattached (fresh_id (transfers s)) s'"
proof -
  let ?i = "fresh_id (transfers s)"
  let ?t = "s\<lparr>seq_count := bump_seq ''isp.bank.transfer.payment'' s,
     transfers := tins (new_transfer e s cur vs) (transfers s)\<rparr>"
  let ?rest = "andthen (trf_not_null [?i]) (andthen (trf_validate (map trf_field (vs @ [T_name (trf_name_of e s)]) @
      [''name'', ''currency_id'', ''transfer_datetime'', ''state'', ''needs_attention'']) [?i])
      (andthen (for_each (\<lambda>i. set_review_deadline e [i]) [?i]) (ret [?i])))"
  have run: "trf_create e cur [vs] s = ?rest ?t"
    using assms(2) by (simp add: trf_create_def trf_prepare_def trf_insert_def run_simps trf_name_of_def
        new_transfer_def split: prod.split sum.split)
  have "keeps (unattached ?i) ?rest"
    by (intro keeps_intros keeps_all_imp [OF keeps_all_trf_checks(1)] keeps_all_imp [OF keeps_all_trf_checks(2)])
  moreover have "unattached ?i ?t" using assms(3) by (simp add: unattached_def tbl.ins_new)
  ultimately have "unattached ?i s'" using assms(1) unfolding run by (rule keepsD)
  moreover have "ids = [?i]" using assms(1) unfolding run by (auto simp: ret_run elim!: andthen_ok)
  ultimately show ?thesis by simp
qed

lemma no_proof_no_submit:
  assumes "unattached pid s"
  shows "trf_action_submit e [pid] s \<noteq> (Inr (), s')"
proof
  assume "trf_action_submit e [pid] s = (Inr (), s')"
  then obtain x t y t' where d: "set_review_deadline e [pid] s = (Inr x, t)"
      and w: "trf_write pid [T_state TrfInReview] t = (Inr y, t')"
    by (auto simp: trf_action_submit_def ret_run elim!: andthen_ok)
  have "unattached pid t" by (rule keepsD [OF unattached_deadline assms d])
  with trf_write_ok(2) [of pid "[T_state TrfInReview]" t t'] w show False
    by (auto simp: unattached_def triggered_def trf_good_def)
qed

lemma uploads_unnamed:
  "\<forall>f\<in>set files. fst f = [] \<Longrightarrow> for_each (upload_encoded e pid) files s = (Inr (), s)"
  by (induction files) (simp_all add: run_simps upload_encoded_def)

lemma unattached_uploads [keeps_intros]:
  "keeps (unattached pid) (set_invoices i texts)" "keeps (unattached pid) (upload_raw e i f)"
proof -
  have "keeps (unattached pid) (browse_id x)" "keeps (unattached pid) (int_arg v)" for x v
    by (rule keeps_all_imp, rule keeps_all_browse_id) (rule keeps_all_imp, rule keeps_all_args)
  then show "keeps (unattached pid) (set_invoices i texts)"
    unfolding set_invoices_def by (intro keeps_intros) simp_all
  show "keeps (unattached pid) (upload_raw e i f)"
    unfolding upload_raw_def
    by (intro keeps_intros keeps_all_imp [OF keeps_all_create_attachment]) (simp add: all_frees unattached_def)
qed

lemma portal_transfer_accepts:
  assumes "portal_transfer_submit e cur post texts files s = (Inr x, s')"
  shows "(\<forall>f\<in>set files. decode_datas e (snd f) \<noteq> None) \<and> (\<exists>f\<in>set files. fst f \<noteq> [])"
proof -
  from assms obtain amount date bank reference ids pid t0 t1 t2 t3 t4 t5 y1 y2 y3 y4 where
      c: "trf_create e cur [[T_partner_id (user_partner e), T_bank_name bank,
            T_reference reference, T_amount amount, T_transfer_datetime date, T_state TrfDraft]] t0 = (Inr ids, t1)"
      and pid: "(case ids of [] \<Rightarrow> raise (ValueError ''Expected singleton'') | i # is \<Rightarrow> ret i) t1 = (Inr pid, t2)"
      and inv: "do_if (texts \<noteq> []) (set_invoices pid texts) t2 = (Inr y1, t3)"
      and raw: "for_each (upload_raw e pid) files t3 = (Inr y2, t4)"
      and enc: "for_each (upload_encoded e pid) files t4 = (Inr y3, t5)"
      and sub: "\<exists>t6. trf_action_submit e [pid] t5 = (Inr y4, t6)"
    unfolding portal_transfer_submit_def by (elim bnd_ok andthen_ok) blast
  have decodable: "\<forall>f\<in>set files. decode_datas e (snd f) \<noteq> None" using raw by (simp add: raw_uploads)
  have "ids = [fresh_id (transfers t0)] \<and> unattached (fresh_id (transfers t0)) t1"
    by (rule create_unattached [OF c]) (simp_all add: trf_default_def new_transfer_def)
  with pid have un: "unattached pid t2" by (auto simp: ret_run)
  have "keeps (unattached pid) (do_if (texts \<noteq> []) (set_invoices pid texts))" by (intro keeps_intros)
  from this un inv have un3: "unattached pid t3" by (rule keepsD)
  have "keeps (unattached pid) (for_each (upload_raw e pid) files)" by (intro keeps_intros)
  from this un3 raw have un4: "unattached pid t4" by (rule keepsD)
  have "\<exists>f\<in>set files. fst f \<noteq> []"
  proof (rule ccontr)
    assume "\<not> (\<exists>f\<in>set files. fst f \<noteq> [])"
    with enc uploads_unnamed [of files e pid t4] have "t5 = t4" by simp
    with un4 sub no_proof_no_submit [of pid t5 e] show False by auto
  qed
  with decodable show ?thesis ..
qed

text \<open>A reported transfer is lost as a whole - the transaction is undone and nothing is stored -
  when no uploaded file has a name, and also as soon as the raw bytes of one uploaded file do not happen
  to decode as base 64: the first upload loop hands them to the framework as they are.\<close>

theorem portal_transfer_lost:
  assumes "(\<exists>f\<in>set files. decode_datas e (snd f) = None) \<or> (\<forall>f\<in>set files. fst f = [])"
  shows "transaction (portal_transfer_submit e cur post texts files) s = s"
proof (cases "portal_transfer_submit e cur post texts files s")
  case (Pair r s')
  with portal_transfer_accepts assms obtain x where r: "r = Inl x" by (cases r) blast+
  have "keeps_all (\<lambda>t. wire t = wire s) (portal_transfer_submit e cur post texts files)"
    by (rule keeps_all_portal_transfer) (simp_all add: all_frees)
  with Pair have "wire s' = wire s" by (auto simp: keeps_all_def dest: spec [of _ s])
  with Pair r show ?thesis by (simp add: transaction_raises)
qed

theorem portal_transfer_lost_witness:
  "transaction (portal_transfer_submit (plain_env\<lparr>user_partner := Some 1, decode_datas := b64decode\<rparr>) None demo_form
      [] [(''a.jpg'', ''proof'')]) blank_sys = blank_sys"
  by (rule portal_transfer_lost)
    (simp add: b64decode_def b64_dec.simps b64_val_def b64_alphabet_def upt_rec)

end
