(* ===== verification/Device.thy ===== *)
theory Device
  imports Portal_Facts
begin

text \<open>
  Devices (\<open>isp_core/models/device.py\<close>): \<open>write\<close> and \<open>create\<close> with the
  constraint on MikroTik devices, and what the code does not check when a device moves.
\<close>

datatype dev_val =
    N_name string
  | N_device_type device_type
  | N_sector_id "nat option"
  | N_mgmt_ip "string option"
  | N_mgmt_port int
  | N_status device_status

fun dev_field :: "dev_val \<Rightarrow> string" where
  "dev_field (N_name x) = ''name''"
| "dev_field (N_device_type x) = ''device_type''"
| "dev_field (N_sector_id x) = ''sector_id''"
| "dev_field (N_mgmt_ip x) = ''mgmt_ip''"
| "dev_field (N_mgmt_port x) = ''mgmt_port''"
| "dev_field (N_status x) = ''status''"

fun dev_set :: "dev_val \<Rightarrow> device \<Rightarrow> device" where
  "dev_set (N_name x) r = r\<lparr>dev_name := x\<rparr>"
| "dev_set (N_device_type x) r = r\<lparr>dev_device_type := x\<rparr>"
| "dev_set (N_sector_id x) r = r\<lparr>dev_sector_id := x\<rparr>"
| "dev_set (N_mgmt_ip x) r = r\<lparr>dev_mgmt_ip := x\<rparr>"
| "dev_set (N_mgmt_port x) r = r\<lparr>dev_mgmt_port := x\<rparr>"
| "dev_set (N_status x) r = r\<lparr>dev_status := x\<rparr>"

definition dev_default :: device where
  "dev_default = \<lparr>dev_name = [], dev_device_type = DTMikrotik, dev_sector_id = None, dev_mgmt_ip = None,
     dev_mgmt_port = 8728, dev_status = DSDraft\<rparr>"

definition check_sector_required :: "nat list \<Rightarrow> unit op" where
  "check_sector_required ids = for_each (\<lambda>i. bnd (rd devices i) (\<lambda>r.
     assert_that (\<not> (dev_device_type r = DTMikrotik \<and> dev_sector_id r = None))
       (ValidationError ''MikroTik devices must be linked to a sector.''))) ids"

definition dev_write :: "nat \<Rightarrow> dev_val list \<Rightarrow> unit op" where
  "dev_write i vs = bnd (rd devices i) (\<lambda>_.
     andthen (modify (\<lambda>s. s\<lparr>devices := tupd i (fold dev_set vs) (devices s)\<rparr>))
       (do_if (triggered (map dev_field vs) [''device_type'', ''sector_id'']) (check_sector_required [i])))"

definition dev_create :: "dev_val list \<Rightarrow> nat op" where
  "dev_create vs = bnd (gets (\<lambda>s. fresh_id (devices s))) (\<lambda>i.
     andthen (modify (\<lambda>s. s\<lparr>devices := tins (fold dev_set vs dev_default) (devices s)\<rparr>))
    (andthen (check_sector_required [i])
       (ret i)))"

section \<open>Every MikroTik device has a sector\<close>

definition dev_good :: "device \<Rightarrow> bool" where
  "dev_good r \<longleftrightarrow> (dev_device_type r = DTMikrotik \<longrightarrow> dev_sector_id r \<noteq> None)"

definition devices_ok :: "sys \<Rightarrow> bool" where
  "devices_ok s \<longleftrightarrow> (\<forall>j r. tget (devices s) j = Some r \<longrightarrow> dev_good r)"

lemma check_sector_required_ok [check_simps]:
  "check_sector_required ids s = (Inr (), s') \<longleftrightarrow>
     (\<forall>i\<in>set ids. \<exists>r. tget (devices s) i = Some r \<and> dev_good r) \<and> s' = s"
  unfolding check_sector_required_def
  by (rule for_each_check) (auto simp: run_simps assert_that_ok dev_good_def split: option.splits)

lemma dev_write_ok:
  assumes "dev_write i vs s = (Inr (), s')"
  shows "s' = s\<lparr>devices := tupd i (fold dev_set vs) (devices s)\<rparr>"
    and "\<exists>r. tget (devices s) i = Some r \<and>
      (triggered (map dev_field vs) [''device_type'', ''sector_id''] \<longrightarrow> dev_good (fold dev_set vs r))"
proof -
  let ?s = "s\<lparr>devices := tupd i (fold dev_set vs) (devices s)\<rparr>"
  from assms obtain r where r: "tget (devices s) i = Some r"
      and c: "do_if (triggered (map dev_field vs) [''device_type'', ''sector_id'']) (check_sector_required [i]) ?s = (Inr (), s')"
    by (auto simp: dev_write_def rd_run modify_run elim!: bnd_ok andthen_ok split: option.splits)
  show "s' = ?s" using c by (auto simp: do_if_check check_simps split: if_splits)
  show "\<exists>r. tget (devices s) i = Some r \<and>
      (triggered (map dev_field vs) [''device_type'', ''sector_id''] \<longrightarrow> dev_good (fold dev_set vs r))"
    using r c by (auto simp: do_if_check check_simps tbl.look_upd split: if_splits)
qed

lemma dev_unwatched:
  assumes "\<not> triggered (map dev_field vs) [''device_type'', ''sector_id'']"
  shows "dev_good (fold dev_set vs r) = dev_good r"
proof -
  have "\<forall>v\<in>set vs. dev_field v \<notin> {''device_type'', ''sector_id''}"
    using not_triggered [OF assms] by simp
  then show ?thesis
  proof (induction vs arbitrary: r)
    case (Cons v vs)
    then show ?case by (cases v) (simp_all add: dev_good_def)
  qed simp
qed

interpretation device_rows: checked_rows "\<lambda>s. tget (devices s)" dev_write dev_good
proof unfold_locales
  fix i vs and s s' :: sys and j
  assume w: "dev_write i vs s = (Inr (), s')"
  show "tget (devices s') j = tget (devices s) j" if "j \<noteq> i"
    using dev_write_ok(1) [OF w] that by (simp add: tbl.upd_other)
  fix r'
  assume r': "tget (devices s') i = Some r'" and old: "\<And>r. tget (devices s) i = Some r \<Longrightarrow> dev_good r"
  from dev_write_ok(2) [OF w] obtain r where r: "tget (devices s) i = Some r"
      "triggered (map dev_field vs) [''device_type'', ''sector_id''] \<longrightarrow> dev_good (fold dev_set vs r)" by blast
  have "r' = fold dev_set vs r" using dev_write_ok(1) [OF w] r' r(1) by (simp add: tbl.look_upd)
  then show "dev_good r'" using r old [OF r(1)] dev_unwatched [of vs r] by blast
qed

lemma keeps_dev_write [keeps_intros]: "keeps devices_ok (dev_write i vs)"
  unfolding devices_ok_def by (rule device_rows.keeps_wr)

lemma keeps_dev_create [keeps_intros]: "keeps devices_ok (dev_create vs)"
  unfolding keeps_def
proof (intro allI impI)
  fix s s' :: sys and i
  let ?r = "fold dev_set vs dev_default"
  assume ok: "devices_ok s" and c: "dev_create vs s = (Inr i, s')"
  from c obtain u where "check_sector_required [fresh_id (devices s)] (s\<lparr>devices := tins ?r (devices s)\<rparr>) = (Inr u, s')"
    by (auto simp: dev_create_def gets_run modify_run ret_run elim!: bnd_ok andthen_ok)
  then have s': "s' = s\<lparr>devices := tins ?r (devices s)\<rparr>" and good: "dev_good ?r"
    by (auto simp: check_simps tbl.ins_new)
  show "devices_ok s'"
    unfolding devices_ok_def s' using ok good by (auto simp: devices_ok_def tbl.look_ins split: if_splits)
qed

section \<open>Moving a device\<close>

text \<open>Moving a device to another sector is accepted although a subscription uses it: only the
  device's own constraint is checked, not the one of the subscription, which then violates
  \<open>_check_device_sector_match\<close>.\<close>

theorem device_move_breaks_subscription:
  assumes "tget (subs s) i = Some r" and "sub_device_id r = Some d" and "tget (devices s) d = Some dv"
    and "sub_sector_id r \<noteq> Some k"
  shows "\<exists>s'. dev_write d [N_sector_id (Some k)] s = (Inr (), s') \<and> subs s' = subs s \<and> \<not> row_ok s' i r \<and> \<not> subs_ok s'"
proof -
  let ?s = "s\<lparr>devices := tupd d (fold dev_set [N_sector_id (Some k)]) (devices s)\<rparr>"
  have "check_sector_required [d] ?s = (Inr (), ?s)"
    using assms(3) by (simp add: check_simps tbl.look_upd dev_good_def)
  then have run: "dev_write d [N_sector_id (Some k)] s = (Inr (), ?s)"
    using assms(3) by (simp add: dev_write_def run_simps triggered_def)
  have "\<not> row_ok ?s i r"
    using assms by (auto simp: row_ok_def device_ok_def device_sector_def via_def deref_def tbl.look_upd)
  moreover from this have "\<not> subs_ok ?s" using assms(1) by (auto simp: subs_ok_def)
  ultimately show ?thesis using run by (intro exI [of _ ?s]) simp
qed

theorem device_move_breaks_subscription_witness:
  "\<exists>s'. dev_write 1 [N_sector_id (Some 2)] (demo_sys change_plan\<lparr>subs := [(1, demo_sub\<lparr>sub_device_id := Some 1\<rparr>)]\<rparr>) =
     (Inr (), s') \<and> \<not> subs_ok s'"
  using device_move_breaks_subscription [of "demo_sys change_plan\<lparr>subs := [(1, demo_sub\<lparr>sub_device_id := Some 1\<rparr>)]\<rparr>"
      1 "demo_sub\<lparr>sub_device_id := Some 1\<rparr>" 1 "\<lparr>dev_name = ''rt'', dev_device_type = DTMikrotik, dev_sector_id = Some 1,
        dev_mgmt_ip = Some ''10.0.0.1'', dev_mgmt_port = 8728, dev_status = DSActive\<rparr>" 2]
  by (auto simp: tget_def demo_sys_def demo_sub_def)

end
