(* ===== verification/System.thy ===== *)
theory System
  imports Device
begin

text \<open>
  The application as a whole: every request, button and cron job is one transaction, and between
  them time passes, parameters change, routers and accounting answer as they like - each step has
  its own environment. The invariants of the components hold in every reachable database.
\<close>

section \<open>Requests\<close>

datatype request =
    CreateSubscriptions "sub_val list list"
  | WriteSubscription nat "sub_val list"
  | ActivateSubscriptions "nat list"
  | SuspendSubscriptions "nat list"
  | ReconnectSubscriptions "nat list"
  | TerminateSubscriptions "nat list"
  | ChangePlans "nat list"
  | RunJobs "nat list"
  | CronJobs
  | Healthchecks "nat list"
  | EnableCaptiveUsers "nat list"
  | DisableCaptiveUsers "nat list"
  | ApplyWalledGardens "nat list"
  | CreatePlanRequests "pcr_val list list"
  | WritePlanRequest nat "pcr_val list"
  | SubmitPlanRequests "nat list"
  | ApprovePlanRequests "nat list"
  | RejectPlanRequests "nat list"
  | ApplyPlanRequests "nat list"
  | CronPlanChanges
  | CreateFaults "flt_val list list"
  | WriteFault nat "flt_val list"
  | StartFaults "nat list"
  | WaitFaults "nat list"
  | ResolveFaults "nat list"
  | CloseFaults "nat list"
  | CreateTransfers "nat option" "trf_val list list"
  | WriteTransfer nat "trf_val list"
  | SubmitTransfers "nat list"
  | ApproveTransfers "nat list"
  | RejectTransfers "nat list"
  | CronTransferDeadlines
  | GenerateInvoices "nat list"
  | CronInvoices
  | CronSuspend
  | CronReconnect
  | CreateAssignments "asg_val list list"
  | WriteAssignment nat "asg_val list"
  | ReportMac "string \<Rightarrow> string option" "string option"
  | CreatePreconfig "pc_val list"
  | WritePreconfig nat "pc_val list"
  | PortalPlanChange "string \<Rightarrow> string option"
  | PortalTransfer "nat option" "string \<Rightarrow> string option" "string list" "(string \<times> string) list"

fun serve :: "env \<Rightarrow> request \<Rightarrow> unit op" where
  "serve e (CreateSubscriptions vl) = ignore (sub_create e vl)"
| "serve e (WriteSubscription i vs) = sub_write e i vs"
| "serve e (ActivateSubscriptions ids) = action_activate e ids"
| "serve e (SuspendSubscriptions ids) = action_suspend e ids"
| "serve e (ReconnectSubscriptions ids) = action_reconnect e ids"
| "serve e (TerminateSubscriptions ids) = action_terminate e ids"
| "serve e (ChangePlans ids) = action_change_plan e ids"
| "serve e (RunJobs ids) = action_run e ids"
| "serve e CronJobs = cron_run_pending_jobs e"
| "serve e (Healthchecks ids) = action_healthcheck e ids"
| "serve e (EnableCaptiveUsers ids) = captive_action_enable e ids"
| "serve e (DisableCaptiveUsers ids) = captive_action_disable e ids"
| "serve e (ApplyWalledGardens ids) = walled_garden_action_apply e ids"
| "serve e (CreatePlanRequests vl) = ignore (pcr_create e vl)"
| "serve e (WritePlanRequest i vs) = pcr_write e i vs"
| "serve e (SubmitPlanRequests ids) = pcr_action_submit e ids"
| "serve e (ApprovePlanRequests ids) = pcr_action_approve e ids"
| "serve e (RejectPlanRequests ids) = pcr_action_reject e ids"
| "serve e (ApplyPlanRequests ids) = pcr_action_apply e ids"
| "serve e CronPlanChanges = cron_apply_plan_changes e"
| "serve e (CreateFaults vl) = ignore (flt_create e vl)"
| "serve e (WriteFault i vs) = flt_write e i vs"
| "serve e (StartFaults ids) = flt_action_start e ids"
| "serve e (WaitFaults ids) = flt_action_waiting e ids"
| "serve e (ResolveFaults ids) = flt_action_resolve e ids"
| "serve e (CloseFaults ids) = flt_action_close e ids"
| "serve e (CreateTransfers cur vl) = ignore (trf_create e cur vl)"
| "serve e (WriteTransfer i vs) = trf_write i vs"
| "serve e (SubmitTransfers ids) = trf_action_submit e ids"
| "serve e (ApproveTransfers ids) = trf_action_approve e ids"
| "serve e (RejectTransfers ids) = trf_action_reject e ids"
| "serve e CronTransferDeadlines = cron_transfer_deadlines e"
| "serve e (GenerateInvoices ids) = action_generate_invoice e ids"
| "serve e CronInvoices = cron_generate_invoices e"
| "serve e CronSuspend = cron_suspend_overdue e"
| "serve e CronReconnect = cron_reconnect_on_payment e"
| "serve e (CreateAssignments vl) = ignore (asg_create e vl)"
| "serve e (WriteAssignment i vs) = asg_write e i vs"
| "serve e (ReportMac kw h) = ignore (mac_onboarding e kw h)"
| "serve e (CreatePreconfig vs) = ignore (pc_create vs)"
| "serve e (WritePreconfig i vs) = pc_write i vs"
| "serve e (PortalPlanChange post) = ignore (portal_plan_change_submit e post)"
| "serve e (PortalTransfer cur post texts files) = ignore (portal_transfer_submit e cur post texts files)"

text \<open>
  One step: a request in some environment; a form of the master data (plans, sectors, routers,
  captive users, gardens); a change of a device that leaves the sectors of the devices in use as
  they are (\<open>device_move_breaks_subscription\<close> says why); or something the other applications do on
  their own: accounting changes its moves, the address book its partners.
\<close>

definition same_sectors :: "sys \<Rightarrow> sys \<Rightarrow> bool" where
  "same_sectors s t \<longleftrightarrow> (\<forall>i r. tget (subs s) i = Some r \<longrightarrow>
     device_sector t (sub_device_id r) = device_sector s (sub_device_id r))"

text \<open>A plan that a subscription or a request refers to cannot be deleted (both columns are required).\<close>

definition plans_kept :: "sys \<Rightarrow> service_plan table \<Rightarrow> bool" where
  "plans_kept s ps \<longleftrightarrow>
     (\<forall>i r. tget (subs s) i = Some r \<longrightarrow> refers (plans s) (sub_plan_id r) \<longrightarrow> refers ps (sub_plan_id r)) \<and>
     (\<forall>i r. tget (pcrs s) i = Some r \<longrightarrow> refers (plans s) (pcr_requested_plan_id r) \<longrightarrow>
        refers ps (pcr_requested_plan_id r))"

lemma plans_kept_grow: "dom (tget (plans s)) \<subseteq> dom (tget ps) \<Longrightarrow> plans_kept s ps"
  by (auto simp: plans_kept_def intro: refers_mono)

inductive sys_step :: "sys \<Rightarrow> sys \<Rightarrow> bool" where
  Request: "sys_step s (transaction (serve e r) s)"
| Device: "dev_write i vs s = (Inr (), t) \<Longrightarrow> same_sectors s t \<Longrightarrow> sys_step s t"
| NewDevice: "dev_create vs s = (Inr i, t) \<Longrightarrow> same_sectors s t \<Longrightarrow> sys_step s t"
| Master: "plans_kept s ps \<Longrightarrow> sys_step s (s\<lparr>plans := ps, sectors := ss, routers := rs, captive_users := cs, walled_gardens := ws\<rparr>)"
| Accounting: "sys_step s (s\<lparr>moves := m\<rparr>)"
| Contacts: "sys_step s (s\<lparr>partners := p\<rparr>)"

inductive_cases sys_stepE: "sys_step s t"

lemma request_step:
  assumes "keeps I (serve e r)" and "wire_free I" and "I s"
  shows "I (transaction (serve e r) s)"
  by (rule keeps_transaction) (use assms in \<open>auto simp: wire_free_def\<close>)

text \<open>What a predicate must ignore to be left alone by all steps that are not requests.\<close>

definition env_free :: "(sys \<Rightarrow> bool) \<Rightarrow> bool" where
  "env_free I \<longleftrightarrow> wire_free I \<and> move_free I \<and> partner_free I \<and>
     (\<forall>s ps ss rs cs ws. plans_kept s ps \<longrightarrow> I s \<longrightarrow> I (s\<lparr>plans := ps, sectors := ss, routers := rs, captive_users := cs, walled_gardens := ws\<rparr>)) \<and>
     (\<forall>s d. I s \<longrightarrow> same_sectors s (s\<lparr>devices := d\<rparr>) \<longrightarrow> I (s\<lparr>devices := d\<rparr>))"

lemma dev_create_ok:
  assumes "dev_create vs s = (Inr i, t)"
  shows "t = s\<lparr>devices := tins (fold dev_set vs dev_default) (devices s)\<rparr>"
proof -
  from assms obtain u where "check_sector_required [fresh_id (devices s)]
      (s\<lparr>devices := tins (fold dev_set vs dev_default) (devices s)\<rparr>) = (Inr u, t)"
    by (auto simp: dev_create_def gets_run modify_run ret_run elim!: bnd_ok andthen_ok)
  then show ?thesis by (simp add: check_simps)
qed

text \<open>A predicate that every request keeps on its normal exits is an invariant of the system.\<close>

lemma step_keeps:
  assumes "sys_step s t" and "I s" and "env_free I" and "\<And>e r. keeps I (serve e r)"
  shows "I t"
  using assms(1)
proof (cases rule: sys_step.cases)
  case (Request e r)
  with assms show ?thesis by (simp add: request_step env_free_def)
next
  case (Device i vs)
  with assms(2,3) dev_write_ok(1) [OF Device(1)] show ?thesis by (simp add: env_free_def)
next
  case (NewDevice vs i)
  with assms(2,3) dev_create_ok [OF NewDevice(1)] show ?thesis by (simp add: env_free_def)
next
  case (Master ps ss rs cs ws)
  with assms(2,3) show ?thesis by (simp add: env_free_def)
next
  case (Accounting m)
  with assms(2,3) show ?thesis by (simp add: env_free_def move_free_def)
next
  case (Contacts p)
  with assms(2,3) show ?thesis by (simp add: env_free_def partner_free_def)
qed

section \<open>Jobs\<close>

text \<open>Between transactions a job is either waiting and was never tried, or done at its first try.\<close>

definition jobs_clean :: "sys \<Rightarrow> bool" where
  "jobs_clean s \<longleftrightarrow> (\<forall>i job. tget (jobs s) i = Some job \<longrightarrow> job_max_attempts job = 3 \<and>
     (job_state job = JobQueued \<and> job_attempts job = 0 \<or> job_state job = JobSuccess \<and> job_attempts job = 1))"

lemma jobs_clean_queue: "queue_free e jobs_clean"
  by (auto simp: queue_free_def jobs_clean_def tbl.look_ins new_job_def split: if_splits)

lemma jobs_clean_free:
  "audit_free jobs_clean" "mail_free jobs_clean" "wire_free jobs_clean" "seq_free jobs_clean"
  "draw_free jobs_clean" "sub_free jobs_clean" "router_free jobs_clean" "device_name_free jobs_clean"
  "captive_free jobs_clean" "pcr_free jobs_clean" "flt_free jobs_clean" "trf_free jobs_clean"
  "asg_free jobs_clean" "profile_free jobs_clean" "partner_free jobs_clean" "move_free jobs_clean"
  "acct_free jobs_clean" "attach_free jobs_clean" "preconfig_free jobs_clean"
  by (simp_all add: all_frees jobs_clean_def)

lemma keeps_clean_execute [keeps_intros]: "keeps jobs_clean (execute e j)"
  unfolding keeps_def
proof (intro allI impI)
  fix s s' and x :: unit
  assume ok: "jobs_clean s" and ex: "execute e j s = (Inr x, s')"
  from ex show "jobs_clean s'"
  proof (cases rule: execute_cases)
    case (exhausted job)
    have "job_max_attempts job = 3" "job_attempts job = 0" using ok exhausted(1,2) by (fastforce simp: jobs_clean_def)+
    with exhausted(3) show ?thesis by simp
  next
    case (success job t)
    have t: "jobs t = tupd j (start_job e) (jobs s)"
      using dispatch_jobs [of e j "s\<lparr>jobs := tupd j (start_job e) (jobs s)\<rparr>"] success(4) by simp
    have "job_max_attempts job = 3" "job_attempts job = 0" using ok success(1,2) by (fastforce simp: jobs_clean_def)+
    with ok success(1,6) t show ?thesis
      by (auto simp: jobs_clean_def tbl.look_upd start_job_def)
  qed (use ok in simp_all)
qed

lemma keeps_clean_runs: "keeps jobs_clean (action_run e ids)" "keeps jobs_clean (cron_run_pending_jobs e)"
  unfolding action_run_def cron_run_pending_jobs_def by (intro keeps_intros)+

lemma serve_keeps_clean: "keeps jobs_clean (serve e r)"
proof (cases r)
  case (RunJobs ids)
  then show ?thesis by (simp add: keeps_clean_runs)
next
  case CronJobs
  then show ?thesis by (simp add: keeps_clean_runs)
qed (simp_all only: serve.simps,
    (rule keeps_all_imp, (intro jobs_clean_queue jobs_clean_free keeps_all_intros; fail))+)

lemma env_free_clean: "env_free jobs_clean"
  using jobs_clean_free by (simp add: env_free_def jobs_clean_def)

interpretation clean_jobs: guarded_system sys_step jobs_clean
  by unfold_locales (rule step_keeps, assumption+, rule env_free_clean, rule serve_keeps_clean)

section \<open>Subscriptions\<close>

lemma subs_ok_all_free:
  "audit_free subs_ok" "mail_free subs_ok" "wire_free subs_ok" "seq_free subs_ok" "draw_free subs_ok"
  "router_free subs_ok" "device_name_free subs_ok" "captive_free subs_ok" "job_free subs_ok" "pcr_free subs_ok"
  "flt_free subs_ok" "trf_free subs_ok" "asg_free subs_ok" "profile_free subs_ok" "partner_free subs_ok"
  "move_free subs_ok" "acct_free subs_ok" "attach_free subs_ok" "preconfig_free subs_ok"
  using subs_ok_free subs_ok_handler_free subs_ok_job_free subs_ok_pcr_free
  by (simp_all add: table_frees subs_ok_def row_ok_def device_ok_def device_sector_def static_unique_def
      user_unique_def)

lemma keeps_subs_invoices:
  "keeps subs_ok (generate_invoice e i)" "keeps subs_ok (action_generate_invoice e ids)"
  "keeps subs_ok (cron_generate_invoices e)"
proof -
  show one: "keeps subs_ok (generate_invoice e i)" for i
    unfolding generate_invoice_def
    by (intro subs_ok_all_free keeps_intros keeps_modify)
      (use subs_ok_all_free in \<open>simp add: move_free_def\<close>)
  show "keeps subs_ok (action_generate_invoice e ids)" "keeps subs_ok (cron_generate_invoices e)"
    unfolding action_generate_invoice_def cron_generate_invoices_def by (intro one keeps_intros)+
qed

lemma keeps_subs_onboarding: "keeps subs_ok (mac_onboarding e kw h)"
proof -
  have profile: "keeps subs_ok (modify (\<lambda>s. s\<lparr>mac_profiles := f s\<rparr>))"
    and partner: "keeps subs_ok (modify (\<lambda>s. s\<lparr>partners := f1 s\<rparr>))"
    and captive: "keeps subs_ok (modify (\<lambda>s. s\<lparr>captive_users := f2 s\<rparr>))" for f f1 f2
    using subs_ok_all_free by (auto simp: profile_free_def partner_free_def captive_free_def intro: keeps_modify)
  note steps = profile partner captive subs_ok_all_free keeps_intros
  have "keeps subs_ok (upsert_profile m v)" for m v
    unfolding upsert_profile_def by (intro steps)
  moreover have "keeps subs_ok (auto_subscribe e p m k ip)" for p m k ip
    unfolding auto_subscribe_def profile_partner_def Let_def by (intro steps)
  moreover have "keeps subs_ok (auto_captive e m k)" for m k
    unfolding auto_captive_def Let_def by (intro steps)
  ultimately have "keeps subs_ok (onboard_profile e kw m)" for m
    unfolding onboard_profile_def Let_def by (intro keeps_intros)
  then show ?thesis unfolding mac_onboarding_def Let_def by (intro keeps_intros)
qed

lemma keeps_subs_activate: "keeps subs_ok (action_activate e ids)"
  unfolding action_activate_def by (intro subs_ok_all_free keeps_intros)

lemmas subs_requests = keeps_sub_write keeps_action_run keeps_cron_run keeps_subs_activate
  subs_keeps_pcr_actions subs_keeps_pcr_apply keeps_subs_invoices

lemma serve_keeps_subs: "keeps subs_ok (serve e r)"
proof (cases r)
  case (CreateSubscriptions vl)
  then show ?thesis by (simp add: keeps_ignore keeps_sub_create)
next
  case (ReportMac kw h)
  then show ?thesis by (simp add: keeps_ignore keeps_subs_onboarding)
qed (simp_all only: serve.simps,
    ((rule subs_requests; fail) | (rule keeps_all_imp, (intro subs_ok_all_free keeps_all_intros; fail)))+)

lemma env_free_subs: "env_free subs_ok"
proof -
  have master: "subs_ok (s\<lparr>plans := ps, sectors := ss, routers := rs, captive_users := cs, walled_gardens := ws\<rparr>)"
    if "subs_ok s" for s ps ss rs cs ws
    using that by (simp add: subs_ok_def row_ok_def static_unique_def user_unique_def device_ok_def device_sector_def)
  have devs: "subs_ok (s\<lparr>devices := d\<rparr>)" if "subs_ok s" "same_sectors s (s\<lparr>devices := d\<rparr>)" for s d
    unfolding subs_ok_def
  proof (intro allI impI)
    fix i r
    assume "tget (subs (s\<lparr>devices := d\<rparr>)) i = Some r"
    then have r: "tget (subs s) i = Some r" by simp
    with that(1) have "row_ok s i r" by (simp add: subs_ok_def)
    moreover have "device_ok (s\<lparr>devices := d\<rparr>) r = device_ok s r"
      using that(2) r by (simp add: device_ok_def same_sectors_def)
    ultimately have "row_ok (s\<lparr>devices := d\<rparr>) i r" by (simp add: row_ok_def)
    then show "row_ok (s\<lparr>devices := d\<rparr>) i r \<and> static_unique (s\<lparr>devices := d\<rparr>) i r \<and>
        user_unique (s\<lparr>devices := d\<rparr>) i r"
      using that(1) r by (simp add: subs_ok_def static_unique_def user_unique_def)
  qed
  show ?thesis
    using subs_ok_all_free master devs by (simp add: env_free_def)
qed

interpretation checked_subs: guarded_system sys_step subs_ok
  by unfold_locales (rule step_keeps, assumption+, rule env_free_subs, rule serve_keeps_subs)

section \<open>Plan change requests\<close>

lemma pcrs_ok_all_free:
  "audit_free pcrs_ok" "mail_free pcrs_ok" "wire_free pcrs_ok" "seq_free pcrs_ok" "draw_free pcrs_ok"
  "sub_free pcrs_ok" "router_free pcrs_ok" "device_name_free pcrs_ok" "captive_free pcrs_ok" "job_free pcrs_ok"
  "flt_free pcrs_ok" "trf_free pcrs_ok" "asg_free pcrs_ok" "profile_free pcrs_ok" "partner_free pcrs_ok"
  "move_free pcrs_ok" "acct_free pcrs_ok" "attach_free pcrs_ok" "preconfig_free pcrs_ok"
  by (simp_all add: all_frees pcrs_ok_def)

lemma keeps_pcr_create [keeps_intros]: "keeps pcrs_ok (pcr_create e vl)"
  unfolding keeps_def
proof (intro allI impI)
  fix s s' ids0
  assume ok: "pcrs_ok s" and run: "pcr_create e vl s = (Inr ids0, s')"
  from run obtain vl2 t ids s1 s2 s3 where prep: "map_each (pcr_prepare e) vl s = (Inr vl2, t)"
      and ins: "map_each (pcr_insert e) vl2 t = (Inr ids, s1)" and n: "pcr_not_null ids s1 = (Inr (), s2)"
      and v: "pcr_validate e (concat (map (map pcr_field) vl2) @
          [''name'', ''effective_date_mode'', ''state'', ''requested_by'']) ids s2 = (Inr (), s3)"
      and d: "for_each (ensure_effective_date e) ids s3 = (Inr (), s')"
    by (auto simp: pcr_create_def ret_run elim!: bnd_ok andthen_ok)
  have "keeps pcrs_ok (map_each (pcr_prepare e) vl)"
    unfolding pcr_prepare_def by (intro pcrs_ok_all_free keeps_intros)
  from this ok prep have okt: "pcrs_ok t" by (rule keepsD)
  have eqs: "s2 = s1" "s3 = s1" using n pcr_validate_ok(1) [OF v] by (auto simp: check_simps)
  have new: "\<exists>r. tget (pcrs s1) j = Some r \<and> pcr_good r" if "j \<in> set ids" for j
    using n that pcr_validate_ok(2) [OF v, of j] eqs by (fastforce simp: check_simps triggered_def pcr_good_def)
  have "pcrs_ok s1"
    unfolding pcrs_ok_def
  proof (intro allI impI)
    fix j r
    assume r: "tget (pcrs s1) j = Some r"
    have "tget (pcrs t) j = Some r \<or> j \<in> set ids"
      using inserted_rows [of "pcr_insert e" pcrs "\<lambda>t s. s\<lparr>pcrs := t\<rparr>" "\<lambda>vs. fold pcr_set vs (pcr_default e)",
          OF _ _ ins r]
      by (auto dest: pcr_insert_ok)
    then show "pcr_good r" using okt new [of j] r by (auto simp: pcrs_ok_def)
  qed
  with d eqs show "pcrs_ok s'" by (auto elim: keepsD [OF keeps_for_each [OF keeps_ensure_effective_date]])
qed

lemma keeps_pcr_portal: "keeps pcrs_ok (portal_plan_change_submit e post)"
proof -
  have "keeps pcrs_ok (browse_id x)" "keeps pcrs_ok (int_arg v)" for x v
    by (rule keeps_all_imp, rule keeps_all_browse_id) (rule keeps_all_imp, rule keeps_all_args)
  then show ?thesis
    unfolding portal_plan_change_submit_def by (intro keeps_pcr_actions keeps_intros)
qed

lemma serve_keeps_pcrs: "keeps pcrs_ok (serve e r)"
proof (cases r)
  case (CreatePlanRequests vl)
  then show ?thesis by (simp add: keeps_ignore keeps_pcr_create)
next
  case (PortalPlanChange post)
  then show ?thesis by (simp add: keeps_ignore keeps_pcr_portal)
next
  case (RunJobs ids)
  then show ?thesis by (simp add: keeps_all_imp keeps_all_execute pcrs_ok_all_free)
next
  case CronJobs
  then show ?thesis by (simp add: keeps_all_imp keeps_all_execute pcrs_ok_all_free)
qed (simp_all only: serve.simps,
    ((rule keeps_pcr_actions keeps_pcr_write keeps_pcr_apply; fail) |
     (rule keeps_all_imp, (intro pcrs_ok_all_free keeps_all_intros; fail)))+)

lemma env_free_pcrs: "env_free pcrs_ok"
  using pcrs_ok_all_free by (simp add: env_free_def pcrs_ok_def)

text \<open>What requests refer to exists: the database checks it when they are stored, and what is
  referred to is never removed.\<close>

definition requests_refer :: "sys \<Rightarrow> bool" where
  "requests_refer s \<longleftrightarrow> (\<forall>j r. tget (pcrs s) j = Some r \<longrightarrow>
     refers (subs s) (pcr_subscription_id r) \<and> refers (plans s) (pcr_requested_plan_id r))"

lemma requests_refer_free:
  "audit_free requests_refer" "mail_free requests_refer" "wire_free requests_refer" "seq_free requests_refer"
  "draw_free requests_refer" "sub_free requests_refer" "router_free requests_refer" "device_name_free requests_refer"
  "captive_free requests_refer" "job_free requests_refer" "flt_free requests_refer" "trf_free requests_refer"
  "asg_free requests_refer" "profile_free requests_refer" "partner_free requests_refer"
  "move_free requests_refer" "acct_free requests_refer" "attach_free requests_refer" "preconfig_free requests_refer"
  by (simp_all add: all_frees requests_refer_def) (blast intro: refers_mono)

lemma pcr_set_refers:
  assumes "list_all (pcr_refers s) vs"
    and "refers (subs s) (pcr_subscription_id r) \<and> refers (plans s) (pcr_requested_plan_id r)"
  shows "refers (subs s) (pcr_subscription_id (fold pcr_set vs r)) \<and>
    refers (plans s) (pcr_requested_plan_id (fold pcr_set vs r))"
  using assms
proof (induction vs arbitrary: r)
  case (Cons v vs)
  from Cons.prems show ?case by (cases v) (simp_all add: Cons.IH)
qed simp

lemma keeps_refer_write [keeps_intros]: "keeps requests_refer (pcr_write e i vs)"
  unfolding keeps_def
proof (intro allI impI)
  fix s s' and x :: unit
  assume ok: "requests_refer s" and "pcr_write e i vs s = (Inr x, s')"
  then have s': "s' = s\<lparr>pcrs := tupd i (fold pcr_set vs) (pcrs s)\<rparr>" and refs: "list_all (pcr_refers s) vs"
    using pcr_write_ok(1,5) by auto
  show "requests_refer s'"
    using ok pcr_set_refers [OF refs] by (auto simp: s' requests_refer_def tbl.look_upd split: if_splits)
qed

lemma keeps_refer_insert [keeps_intros]: "keeps requests_refer (pcr_insert e vs)"
  unfolding keeps_def
proof (intro allI impI)
  fix s s' i
  assume ok: "requests_refer s" and "pcr_insert e vs s = (Inr i, s')"
  note new = pcr_insert_ok [OF this(2)]
  show "requests_refer s'"
    using ok pcr_set_refers [OF new(1), of "pcr_default e"]
    by (simp add: new(3) requests_refer_def tbl.look_ins pcr_default_def)
qed

lemma keeps_refer_date [keeps_intros]: "keeps requests_refer (ensure_effective_date e i)"
  unfolding ensure_effective_date_def
  by (intro keeps_intros) (auto split: effective_mode.split intro!: keeps_intros)

lemma keeps_refer_apply [keeps_intros]: "keeps requests_refer (pcr_action_apply e ids)"
  unfolding pcr_action_apply_def pcr_apply_one_def
  by (intro keeps_intros requests_refer_free keeps_all_imp [OF keeps_all_sub_write] keeps_all_imp [OF keeps_all_ensure_pppoe])

lemma keeps_refer_requests [keeps_intros]:
  "keeps requests_refer (pcr_create e vl)" "keeps requests_refer (pcr_action_submit e ids)"
  "keeps requests_refer (pcr_action_approve e ids)" "keeps requests_refer (pcr_action_reject e ids)"
  "keeps requests_refer (cron_apply_plan_changes e)"
  unfolding pcr_create_def pcr_prepare_def pcr_action_submit_def pcr_action_approve_def pcr_action_reject_def
    cron_apply_plan_changes_def
  by (intro keeps_intros requests_refer_free keeps_all_imp [OF keeps_all_pcr_checks(3)]
    keeps_all_imp [OF keeps_all_pcr_checks(4)])+

lemma serve_keeps_refer: "keeps requests_refer (serve e r)"
proof (cases r)
  case (CreatePlanRequests vl)
  then show ?thesis by (simp add: keeps_ignore keeps_refer_requests)
next
  case (PortalPlanChange post)
  have "keeps requests_refer (browse_id x)" "keeps requests_refer (int_arg v)" for x v
    by (rule keeps_all_imp, rule keeps_all_browse_id) (rule keeps_all_imp, rule keeps_all_args)
  then have "keeps requests_refer (portal_plan_change_submit e post)"
    unfolding portal_plan_change_submit_def by (intro keeps_refer_requests keeps_intros)
  with PortalPlanChange show ?thesis by (simp add: keeps_ignore)
next
  case (RunJobs ids)
  then show ?thesis by (simp add: keeps_all_imp keeps_all_execute requests_refer_free)
next
  case CronJobs
  then show ?thesis by (simp add: keeps_all_imp keeps_all_execute requests_refer_free)
qed (simp_all only: serve.simps,
    ((rule keeps_refer_requests keeps_refer_write keeps_refer_apply; fail) |
     (rule keeps_all_imp, (intro requests_refer_free keeps_all_intros; fail)))+)

lemma env_free_refer: "env_free requests_refer"
proof -
  have "requests_refer (s\<lparr>plans := ps, sectors := ss, routers := rs, captive_users := cs, walled_gardens := ws\<rparr>)"
    if "plans_kept s ps" "requests_refer s" for s ps ss rs cs ws
    using that by (fastforce simp: requests_refer_def plans_kept_def)
  then show ?thesis using requests_refer_free by (simp add: env_free_def requests_refer_def)
qed

interpretation referring_requests: guarded_system sys_step requests_refer
  by unfold_locales (rule step_keeps, assumption+, rule env_free_refer, rule serve_keeps_refer)

interpretation checked_pcrs: guarded_system sys_step pcrs_ok
  by unfold_locales (rule step_keeps, assumption+, rule env_free_pcrs, rule serve_keeps_pcrs)

section \<open>Bank transfers\<close>

lemma transfers_ok_free:
  "audit_free transfers_ok" "mail_free transfers_ok" "wire_free transfers_ok" "seq_free transfers_ok"
  "draw_free transfers_ok" "sub_free transfers_ok" "router_free transfers_ok" "device_name_free transfers_ok"
  "captive_free transfers_ok" "job_free transfers_ok" "pcr_free transfers_ok" "flt_free transfers_ok"
  "asg_free transfers_ok" "profile_free transfers_ok" "partner_free transfers_ok" "move_free transfers_ok"
  "acct_free transfers_ok" "attach_free transfers_ok" "preconfig_free transfers_ok"
  by (simp_all add: all_frees transfers_ok_def)

lemmas keeps_trf_services [keeps_intros] =
  keeps_all_imp [OF keeps_all_trf_services(1)] keeps_all_imp [OF keeps_all_trf_services(2)]

lemma keeps_trf_deadline [keeps_intros]: "keeps transfers_ok (set_review_deadline e ids)"
  unfolding set_review_deadline_def Let_def by (intro keeps_intros)

lemma keeps_trf_create [keeps_intros]: "keeps transfers_ok (trf_create e cur vl)"
  unfolding keeps_def
proof (intro allI impI)
  fix s s' ids0
  assume ok: "transfers_ok s" and run: "trf_create e cur vl s = (Inr ids0, s')"
  from run obtain vl2 t ids s1 s2 s3 where prep: "map_each (trf_prepare e cur) vl s = (Inr vl2, t)"
      and ins: "map_each (trf_insert e cur) vl2 t = (Inr ids, s1)" and n: "trf_not_null ids s1 = (Inr (), s2)"
      and v: "trf_validate (concat (map (map trf_field) vl2) @
          [''name'', ''currency_id'', ''transfer_datetime'', ''state'', ''needs_attention'']) ids s2 = (Inr (), s3)"
      and d: "for_each (\<lambda>i. set_review_deadline e [i]) ids s3 = (Inr (), s')"
    by (auto simp: trf_create_def ret_run elim!: bnd_ok andthen_ok)
  have "keeps transfers_ok (map_each (trf_prepare e cur) vl)"
    unfolding trf_prepare_def by (intro transfers_ok_free keeps_intros)
  from this ok prep have okt: "transfers_ok t" by (rule keepsD)
  have "check_attachments ids s2 = (Inr (), s3)"
    using v by (simp add: trf_validate_def run_simps triggered_def)
  with n have eqs: "s2 = s1" "s3 = s1"
    and new: "\<And>j. j \<in> set ids \<Longrightarrow> \<exists>r. tget (transfers s1) j = Some r \<and> trf_good r"
    by (fastforce simp: check_simps trf_good_def)+
  have "transfers_ok s1"
    unfolding transfers_ok_def
  proof (intro allI impI)
    fix j r
    assume r: "tget (transfers s1) j = Some r"
    have "tget (transfers t) j = Some r \<or> j \<in> set ids"
      using inserted_rows [of "trf_insert e cur" transfers "\<lambda>t s. s\<lparr>transfers := t\<rparr>"
          "\<lambda>vs. fold trf_set vs (trf_default e cur)", OF _ _ ins r]
      by (auto simp: trf_insert_def)
    then show "trf_good r" using okt new [of j] r by (auto simp: transfers_ok_def)
  qed
  moreover have "keeps transfers_ok (for_each (\<lambda>i. set_review_deadline e [i]) ids)" by (intro keeps_intros)
  ultimately show "transfers_ok s'" using d eqs by (auto dest: keepsD)
qed

lemma keeps_trf_buttons [keeps_intros]:
  "keeps transfers_ok (trf_action_submit e ids)" "keeps transfers_ok (trf_action_reject e ids)"
  "keeps transfers_ok (cron_transfer_deadlines e)"
  unfolding trf_action_submit_def trf_action_reject_def cron_transfer_deadlines_def
  by (intro transfers_ok_free keeps_intros)+

lemma keeps_trf_approve [keeps_intros]: "keeps transfers_ok (trf_action_approve e ids)"
proof -
  have "keeps transfers_ok (book_payment e p)" for p
    unfolding book_payment_def
    by (intro keeps_intros keeps_modify)
      (use transfers_ok_free in \<open>auto simp: acct_free_def intro!: keeps_intros split: acct_op.split sum.split\<close>)
  then have "keeps transfers_ok (create_and_apply_payment e ids)" for ids
    unfolding create_and_apply_payment_def
    by (intro keeps_intros) (auto intro!: keeps_intros split: list.split)
  then show ?thesis unfolding trf_action_approve_def by (intro transfers_ok_free keeps_intros)
qed

lemma keeps_trf_portal: "keeps transfers_ok (portal_transfer_submit e cur post texts files)"
proof -
  have args: "keeps transfers_ok (browse_id x)" "keeps transfers_ok (int_arg v)" "keeps transfers_ok (float_arg v)"
    "keeps transfers_ok (datetime_arg e v)" "keeps transfers_ok (required_text v)" for x v
    by (auto intro!: keeps_all_imp keeps_all_browse_id keeps_all_args)
  have att: "keeps transfers_ok (create_attachment e n d k)" for n d k
    by (auto intro!: keeps_all_imp keeps_all_create_attachment transfers_ok_free)
  have one: "keeps transfers_ok (case ids of [] \<Rightarrow> raise x | i # is \<Rightarrow> ret i)" for ids :: "nat list" and x
    by (cases ids) (simp_all add: keeps_ret keeps_raise)
  show ?thesis
    unfolding portal_transfer_submit_def set_invoices_def upload_raw_def upload_encoded_def
    by (intro args att one keeps_intros)
qed

lemma serve_keeps_transfers: "keeps transfers_ok (serve e r)"
proof (cases r)
  case (CreateTransfers cur vl)
  then show ?thesis by (simp add: keeps_ignore keeps_trf_create)
next
  case (PortalTransfer cur post texts files)
  then show ?thesis by (simp add: keeps_ignore keeps_trf_portal)
next
  case (RunJobs ids)
  then show ?thesis by (simp add: keeps_all_imp keeps_all_execute transfers_ok_free)
next
  case CronJobs
  then show ?thesis by (simp add: keeps_all_imp keeps_all_execute transfers_ok_free)
qed (simp_all only: serve.simps,
    ((rule keeps_trf_buttons keeps_trf_write keeps_trf_approve; fail) |
     (rule keeps_all_imp, (intro transfers_ok_free keeps_all_intros; fail)))+)

lemma env_free_transfers: "env_free transfers_ok"
  using transfers_ok_free by (simp add: env_free_def transfers_ok_def)

interpretation checked_transfers: guarded_system sys_step transfers_ok
  by unfold_locales (rule step_keeps, assumption+, rule env_free_transfers, rule serve_keeps_transfers)

section \<open>Assignments, MAC profiles, preconfiguration profiles\<close>

lemma asgs_ok_free:
  "audit_free asgs_ok" "mail_free asgs_ok" "wire_free asgs_ok" "seq_free asgs_ok"
  "draw_free asgs_ok" "sub_free asgs_ok" "router_free asgs_ok" "device_name_free asgs_ok"
  "captive_free asgs_ok" "job_free asgs_ok" "pcr_free asgs_ok" "flt_free asgs_ok" "trf_free asgs_ok"
  "profile_free asgs_ok" "partner_free asgs_ok" "move_free asgs_ok"
  "acct_free asgs_ok" "attach_free asgs_ok" "preconfig_free asgs_ok"
  by (simp_all add: all_frees asgs_ok_def)

lemma one_profile_free:
  "audit_free one_profile_per_mac" "mail_free one_profile_per_mac" "wire_free one_profile_per_mac"
  "seq_free one_profile_per_mac" "draw_free one_profile_per_mac" "sub_free one_profile_per_mac"
  "router_free one_profile_per_mac" "device_name_free one_profile_per_mac" "captive_free one_profile_per_mac"
  "job_free one_profile_per_mac" "pcr_free one_profile_per_mac" "flt_free one_profile_per_mac"
  "trf_free one_profile_per_mac" "asg_free one_profile_per_mac" "partner_free one_profile_per_mac"
  "move_free one_profile_per_mac" "acct_free one_profile_per_mac" "attach_free one_profile_per_mac"
  "preconfig_free one_profile_per_mac"
  by (simp_all add: all_frees one_profile_per_mac_def mac_of_def)

lemma defaults_ok_free:
  "audit_free defaults_ok" "mail_free defaults_ok" "wire_free defaults_ok" "seq_free defaults_ok"
  "draw_free defaults_ok" "sub_free defaults_ok" "router_free defaults_ok" "device_name_free defaults_ok"
  "captive_free defaults_ok" "job_free defaults_ok" "pcr_free defaults_ok" "flt_free defaults_ok"
  "trf_free defaults_ok" "asg_free defaults_ok" "profile_free defaults_ok" "partner_free defaults_ok"
  "move_free defaults_ok" "acct_free defaults_ok" "attach_free defaults_ok"
  by (simp_all add: all_frees defaults_ok_def)

lemma serve_keeps_asgs: "keeps asgs_ok (serve e r)"
proof (cases r)
  case (CreateAssignments vl)
  then show ?thesis by (simp add: keeps_ignore keeps_asg_create)
next
  case (RunJobs ids)
  then show ?thesis by (simp add: keeps_all_imp keeps_all_execute asgs_ok_free)
next
  case CronJobs
  then show ?thesis by (simp add: keeps_all_imp keeps_all_execute asgs_ok_free)
qed (simp_all only: serve.simps,
    ((rule keeps_asg_write; fail) | (rule keeps_all_imp, (intro asgs_ok_free keeps_all_intros; fail)))+)

lemma serve_keeps_profiles: "keeps one_profile_per_mac (serve e r)"
proof (cases r)
  case (ReportMac kw h)
  then show ?thesis by (simp add: keeps_ignore keeps_one_profile)
next
  case (RunJobs ids)
  then show ?thesis by (simp add: keeps_all_imp keeps_all_execute one_profile_free)
next
  case CronJobs
  then show ?thesis by (simp add: keeps_all_imp keeps_all_execute one_profile_free)
qed (simp_all only: serve.simps, (rule keeps_all_imp, (intro one_profile_free keeps_all_intros; fail))+)

lemma serve_keeps_defaults: "keeps defaults_ok (serve e r)"
proof (cases r)
  case (CreatePreconfig vs)
  then show ?thesis by (simp add: keeps_ignore keeps_pc_create)
next
  case (RunJobs ids)
  then show ?thesis by (simp add: keeps_all_imp keeps_all_execute defaults_ok_free)
next
  case CronJobs
  then show ?thesis by (simp add: keeps_all_imp keeps_all_execute defaults_ok_free)
qed (simp_all only: serve.simps,
    ((rule keeps_pc_write; fail) | (rule keeps_all_imp, (intro defaults_ok_free keeps_all_intros; fail)))+)

lemma env_free_asgs: "env_free asgs_ok"
  using asgs_ok_free by (simp add: env_free_def asgs_ok_def)

interpretation checked_asgs: guarded_system sys_step asgs_ok
  by unfold_locales (rule step_keeps, assumption+, rule env_free_asgs, rule serve_keeps_asgs)

lemma env_free_profiles: "env_free one_profile_per_mac"
  using one_profile_free by (simp add: env_free_def one_profile_per_mac_def mac_of_def)

interpretation checked_profiles: guarded_system sys_step one_profile_per_mac
  by unfold_locales (rule step_keeps, assumption+, rule env_free_profiles, rule serve_keeps_profiles)

lemma env_free_defaults: "env_free defaults_ok"
  using defaults_ok_free by (simp add: env_free_def defaults_ok_def)

interpretation checked_defaults: guarded_system sys_step defaults_ok
  by unfold_locales (rule step_keeps, assumption+, rule env_free_defaults, rule serve_keeps_defaults)

section \<open>Reachable databases\<close>

lemma blank_ok:
  "jobs_clean blank_sys" "subs_ok blank_sys" "pcrs_ok blank_sys" "transfers_ok blank_sys"
  "asgs_ok blank_sys" "one_profile_per_mac blank_sys" "defaults_ok blank_sys" "requests_refer blank_sys"
  by (simp_all add: requests_refer_def jobs_clean_def subs_ok_def pcrs_ok_def transfers_ok_def asgs_ok_def
      one_profile_per_mac_def mac_of_def defaults_ok_def blank_sys_def tget_def)

text \<open>A run of the examples: the master data is entered, a request is made.\<close>

definition demo_start :: sys where
  "demo_start = blank_sys\<lparr>plans := [(1, demo_plan)],
     sectors := [(1, \<lparr>sec_name = ''North'', sec_code = ''N'', sec_active = True\<rparr>)],
     routers := [(1, \<lparr>rtr_device_id = None, rtr_api_user = None, rtr_routeros_version = PBool False,
        rtr_last_healthcheck_at = None, rtr_last_healthcheck_status = None\<rparr>)]\<rparr>"

lemma demo_start_reached: "sys_step\<^sup>*\<^sup>* blank_sys (transaction (serve e r) demo_start)"
proof -
  have "sys_step blank_sys demo_start"
    using Master [where s = blank_sys and ps = "plans demo_start" and ss = "sectors demo_start" and
        rs = "routers demo_start" and cs = "[]" and ws = "[]"]
    by (simp add: demo_start_def blank_sys_def plans_kept_def tget_def)
  then show ?thesis by (rule converse_rtranclp_into_rtranclp) (rule r_into_rtranclp, rule Request)
qed

lemmas demo_run_simps = demo_start_def blank_sys_def transaction_def run_tx_def run_simps

text \<open>C8. In every database the application can reach, whatever is requested and whatever the routers
  answer, a provisioning job is either queued with no attempt counted or has succeeded at its only
  attempt. So the states \<open>running\<close> and \<open>failed\<close> are never seen by anybody, the attempt counter
  never counts a failure, and the limit of three attempts can never take effect.\<close>

theorem reachable_jobs:
  assumes "sys_step\<^sup>*\<^sup>* blank_sys s" and "tget (jobs s) i = Some job"
  shows "job_state job = JobQueued \<and> job_attempts job = 0 \<or> job_state job = JobSuccess \<and> job_attempts job = 1"
  using clean_jobs.reach_inv [OF assms(1) blank_ok(1)] assms(2) by (auto simp: jobs_clean_def)

theorem reachable_jobs_witness:
  "\<exists>job. tget (jobs (transaction (serve plain_env (Healthchecks [1])) demo_start)) 1 = Some job \<and>
     (job_state job = JobQueued \<and> job_attempts job = 0 \<or> job_state job = JobSuccess \<and> job_attempts job = 1)"
proof -
  have "\<exists>job. tget (jobs (transaction (serve plain_env (Healthchecks [1])) demo_start)) 1 = Some job"
    by (simp add: demo_run_simps action_healthcheck_def ignore_def router_sector_def tget_def tins_def fresh_id_def)
  then show ?thesis using reachable_jobs [OF demo_start_reached] by blast
qed





end
