(* ===== verification/Worker_Facts.thy ===== *)
theory Worker_Facts
  imports System Handler_Facts
begin

text \<open>
  The job queue as a queue: what a run of the cron worker
  (\<open>_cron_run_pending_jobs\<close>) does to the waiting jobs, on success and when one of them
  raises, that the worker is first in first out, and that no job waits for ever as long as the
  runs succeed.
\<close>

section \<open>The waiting jobs in the order of the worker\<close>

text \<open>The jobs the worker still has to run, oldest request first: what its \<open>search\<close> would
  return without the limit.\<close>

definition job_fifo :: "sys \<Rightarrow> nat list" where
  "job_fifo s = sort_key (\<lambda>i. via (jobs s) (Some i) 0 job_requested_at)
     (search_ids (\<lambda>_ job. job_state job = JobQueued) (jobs s))"

lemma pending_fifo: "pending_jobs s = take 20 (job_fifo s)"
  by (simp add: pending_jobs_def job_fifo_def)

lemma distinct_fifo: "distinct (job_fifo s)"
  by (simp add: job_fifo_def distinct_search_ids)

lemma fifo_iff: "j \<in> set (job_fifo s) \<longleftrightarrow> (\<exists>job. tget (jobs s) j = Some job \<and> job_state job = JobQueued)"
  by (simp add: job_fifo_def search_ids_iff)

lemma fifo_cong: "jobs s = jobs t \<Longrightarrow> job_fifo s = job_fifo t"
  by (simp add: job_fifo_def)

text \<open>The row of a job that ran to its end.\<close>

definition finish_job :: "env \<Rightarrow> provisioning_job \<Rightarrow> provisioning_job" where
  "finish_job e job = job\<lparr>job_state := JobSuccess, job_attempts := job_attempts job + 1,
     job_executed_at := Some (now e), job_error_message := None, job_traceback := None\<rparr>"

lemma execute_finishes:
  assumes "jobs_clean s" and "j \<in> set (job_fifo s)" and "execute e j s = (Inr u, s')"
  shows "jobs s' = tupd j (finish_job e) (jobs s)"
proof -
  from assms(2) obtain job where job: "tget (jobs s) j = Some job" "job_state job = JobQueued"
    by (auto simp: fifo_iff)
  with assms(1) have att: "job_max_attempts job = 3" "job_attempts job = 0" by (fastforce simp: jobs_clean_def)+
  from assms(3) show ?thesis
  proof (cases rule: execute_cases)
    case (success job' t)
    have "jobs t = tupd j (start_job e) (jobs s)"
      using dispatch_jobs [of e j "s\<lparr>jobs := tupd j (start_job e) (jobs s)\<rparr>"] success(4) by simp
    with success(6) show ?thesis
      by (auto simp: tupd_def start_job_def finish_job_def)
  qed (use job att in auto)
qed

lemma waiting_after_finish:
  assumes "map fst t' = map fst t" and "\<And>i. tget t' i = (if i \<in> A then map_option (finish_job e) (tget t i) else tget t i)"
  shows "search_ids (\<lambda>_ job. job_state job = JobQueued) t' =
    filter (\<lambda>i. i \<notin> A) (search_ids (\<lambda>_ job. job_state job = JobQueued) t)"
  unfolding search_ids_def assms(1) filter_filter
  by (rule filter_cong) (auto simp: assms(2) finish_job_def split: option.splits)

lemma fifo_after_finish:
  assumes "map fst (jobs s') = map fst (jobs s)"
    and "\<And>i. tget (jobs s') i = (if i \<in> A then map_option (finish_job e) (tget (jobs s) i) else tget (jobs s) i)"
  shows "job_fifo s' = filter (\<lambda>i. i \<notin> A) (job_fifo s)"
proof -
  have key: "via (jobs s') (Some i) 0 job_requested_at = via (jobs s) (Some i) 0 job_requested_at" for i
    by (auto simp: via_def deref_def assms(2) finish_job_def split: option.splits)
  show ?thesis
    by (simp add: job_fifo_def waiting_after_finish [OF assms] key filter_sort)
qed

section \<open>One run of the worker\<close>

lemma run_finishes:
  assumes "jobs_clean s" and "distinct js" and "set js \<subseteq> set (job_fifo s)"
    and "for_each (execute e) js s = (Inr u, s')"
  shows "map fst (jobs s') = map fst (jobs s) \<and>
    (\<forall>i. tget (jobs s') i = (if i \<in> set js then map_option (finish_job e) (tget (jobs s) i) else tget (jobs s) i))"
  using assms
proof (induction js arbitrary: s)
  case Nil
  then show ?case by (simp add: ret_run)
next
  case (Cons j js)
  from Cons.prems(4) obtain v t where j: "execute e j s = (Inr v, t)" and js: "for_each (execute e) js t = (Inr u, s')"
    by (auto elim: andthen_ok)
  have t: "jobs t = tupd j (finish_job e) (jobs s)"
    by (rule execute_finishes [OF Cons.prems(1) _ j]) (use Cons.prems(3) in simp)
  have clean: "jobs_clean t" by (rule keepsD [OF keeps_clean_execute Cons.prems(1) j])
  have "job_fifo t = filter (\<lambda>i. i \<notin> {j}) (job_fifo s)"
    by (rule fifo_after_finish) (simp_all add: t map_fst_tupd tbl.look_upd)
  then have "set js \<subseteq> set (job_fifo t)" using Cons.prems(2,3) by auto
  from Cons.IH [OF clean _ this js] Cons.prems(2)
  have "map fst (jobs s') = map fst (jobs t)"
    and rows: "\<And>i. tget (jobs s') i = (if i \<in> set js then map_option (finish_job e) (tget (jobs t) i) else tget (jobs t) i)"
    by simp_all
  moreover have "j \<notin> set js" using Cons.prems(2) by simp
  ultimately show ?case by (simp add: t map_fst_tupd tbl.look_upd)
qed

lemma not_in_take:
  assumes "distinct xs"
  shows "filter (\<lambda>x. x \<notin> set (take n xs)) xs = drop n xs"
proof -
  have "filter (\<lambda>x. x \<notin> set (take n xs)) (drop n xs) = drop n xs"
    using set_take_disj_set_drop_if_distinct [OF assms, of n n] by (auto simp: filter_id_conv)
  moreover have "filter (\<lambda>x. x \<notin> set (take n xs)) (take n xs) = []" by (simp add: filter_empty_conv)
  ultimately have "filter (\<lambda>x. x \<notin> set (take n xs)) (take n xs @ drop n xs) = drop n xs"
    by (simp only: filter_append append_Nil)
  then show ?thesis by (simp only: append_take_drop_id)
qed

lemma worker_serves:
  assumes "jobs_clean s" and "cron_run_pending_jobs e s = (Inr u, t)"
  shows "job_fifo t = drop 20 (job_fifo s)"
    and "map fst (jobs t) = map fst (jobs s)"
    and "tget (jobs t) i = (if i \<in> set (take 20 (job_fifo s)) then map_option (finish_job e) (tget (jobs s) i)
      else tget (jobs s) i)"
proof -
  have run: "for_each (execute e) (take 20 (job_fifo s)) s = (Inr u, t)"
    using assms(2) by (simp add: cron_run_pending_jobs_def bnd_run gets_run pending_fifo)
  have rows: "map fst (jobs t) = map fst (jobs s) \<and> (\<forall>i. tget (jobs t) i =
      (if i \<in> set (take 20 (job_fifo s)) then map_option (finish_job e) (tget (jobs s) i) else tget (jobs s) i))"
    by (rule run_finishes [OF assms(1) _ _ run]) (auto simp: distinct_fifo dest: in_set_takeD)
  then show "map fst (jobs t) = map fst (jobs s)"
    and "tget (jobs t) i = (if i \<in> set (take 20 (job_fifo s)) then map_option (finish_job e) (tget (jobs s) i)
      else tget (jobs s) i)" by simp_all
  from rows have "job_fifo t = filter (\<lambda>i. i \<notin> set (take 20 (job_fifo s))) (job_fifo s)"
    by (intro fifo_after_finish) simp_all
  then show "job_fifo t = drop 20 (job_fifo s)" by (simp add: not_in_take distinct_fifo)
qed

text \<open>C1. In every reachable database, a run of the cron worker serves the head of the queue or
  nothing. When it returns, exactly the first twenty waiting jobs (all of them, when there are
  fewer) have become successes with one attempt and the time of the run, in place, and the rest of
  the queue is what follows them; every other job is as it was. When one of them raises, the whole
  database is as before the run, the jobs that had already succeeded included: only the commands
  that were sent stay sent.\<close>

theorem worker_serves_head_or_nothing:
  assumes "sys_step\<^sup>*\<^sup>* blank_sys s"
  shows "case cron_run_pending_jobs e s of
      (Inr u, t) \<Rightarrow> transaction (cron_run_pending_jobs e) s = t \<and> job_fifo t = drop 20 (job_fifo s) \<and>
        (\<forall>i. tget (jobs t) i = (if i \<in> set (take 20 (job_fifo s))
           then map_option (finish_job e) (tget (jobs s) i) else tget (jobs s) i))
    | (Inl x, t) \<Rightarrow> transaction (cron_run_pending_jobs e) s = s\<lparr>wire := wire t\<rparr>"
proof -
  have clean: "jobs_clean s" by (rule clean_jobs.reach_inv [OF assms blank_ok(1)])
  obtain r t where run: "cron_run_pending_jobs e s = (r, t)" by fastforce
  show ?thesis
  proof (cases r)
    case (Inl x)
    with run show ?thesis by (simp add: transaction_raises)
  next
    case (Inr u)
    with run show ?thesis using worker_serves [OF clean, of e u t] by (simp add: transaction_returns)
  qed
qed

lemma returned_unit:
  fixes m :: "unit op"
  shows "\<not> isl (fst (m s)) \<Longrightarrow> m s = (Inr (), transaction m s)"
  by (cases "m s"; cases "fst (m s)") (auto simp: transaction_def run_tx_def)

text \<open>An environment in which every router is a dummy.\<close>

definition dry_env :: env where
  "dry_env = plain_env\<lparr>get_param := (\<lambda>_. Some ''true'')\<rparr>"

text \<open>A network that can be reached: the master data is entered, then the router's device.\<close>

definition demo_network :: sys where
  "demo_network = demo_start\<lparr>
     routers := [(1, \<lparr>rtr_device_id = Some 1, rtr_api_user = None, rtr_routeros_version = PBool False,
        rtr_last_healthcheck_at = None, rtr_last_healthcheck_status = None\<rparr>)],
     devices := tins (fold dev_set [N_name ''rt'', N_device_type DTMikrotik, N_sector_id (Some 1),
        N_mgmt_ip (Some ''10.0.0.1'')] dev_default) []\<rparr>"

lemma demo_network_reached: "sys_step\<^sup>*\<^sup>* blank_sys demo_network"
proof -
  let ?s = "demo_network\<lparr>devices := []\<rparr>"
  let ?vs = "[N_name ''rt'', N_device_type DTMikrotik, N_sector_id (Some 1), N_mgmt_ip (Some ''10.0.0.1'')]"
  have "sys_step blank_sys ?s"
    using Master [where s = blank_sys and ps = "plans demo_network" and ss = "sectors demo_network" and
        rs = "routers demo_network" and cs = "[]" and ws = "[]"]
    by (simp add: demo_network_def demo_start_def blank_sys_def plans_kept_def tget_def)
  moreover have "sys_step ?s demo_network"
  proof (rule NewDevice)
    show "dev_create ?vs ?s = (Inr 1, demo_network)"
      by (simp add: dev_create_def check_sector_required_def assert_that_def run_simps demo_network_def
        fresh_id_def tget_def tins_def)
    show "same_sectors ?s demo_network"
      by (simp add: same_sectors_def demo_network_def demo_start_def blank_sys_def tget_def)
  qed
  ultimately show ?thesis by (meson rtranclp.rtrancl_into_rtrancl rtranclp.rtrancl_refl)
qed

lemma demo_network_runs: "sys_step\<^sup>*\<^sup>* blank_sys (transaction (serve e r) demo_network)"
  by (rule rtranclp.rtrancl_into_rtrancl [OF demo_network_reached Request])

theorem worker_serves_head_or_nothing_witness:
  "job_fifo (transaction (cron_run_pending_jobs dry_env)
     (transaction (serve plain_env (Healthchecks [1, 1])) demo_network)) = []"
proof -
  let ?s = "transaction (serve plain_env (Healthchecks [1, 1])) demo_network"
  have "\<not> isl (fst (cron_run_pending_jobs dry_env ?s)) \<and> job_fifo ?s = [1, 2]" by code_simp
  then obtain t where "cron_run_pending_jobs dry_env ?s = (Inr (), t)" "job_fifo ?s = [1, 2]"
    using returned_unit by blast
  then show ?thesis
    using worker_serves_head_or_nothing [OF demo_network_runs, of dry_env plain_env "Healthchecks [1, 1]"] by simp
qed

section \<open>No job waits for ever\<close>

text \<open>
  A server that takes a batch from the head of its queue, in a system whose other steps may take
  items out of the queue or append new ones, but never put one in front of another. Every item
  that waits is served after as many batches as its position needs, whatever else is queued.
  \<open>known\<close> are the items that were ever queued: a new one is not among them.
\<close>

inductive served_run :: "('s \<Rightarrow> 's \<Rightarrow> bool) \<Rightarrow> ('s \<Rightarrow> 's \<Rightarrow> bool) \<Rightarrow> 's \<Rightarrow> nat \<Rightarrow> 's \<Rightarrow> bool"
  for step work s where
  Start: "served_run step work s 0 s"
| Worked: "served_run step work s n t \<Longrightarrow> work t u \<Longrightarrow> served_run step work s (Suc n) u"
| Stepped: "served_run step work s n t \<Longrightarrow> step t u \<Longrightarrow> served_run step work s n u"

lemma filter_position:
  assumes "i < length xs" and "p (xs ! i)"
  shows "\<exists>k\<le>i. k < length (filter p xs) \<and> filter p xs ! k = xs ! i"
proof -
  have "filter p xs = filter p (take i xs @ xs ! i # drop (Suc i) xs)"
    using assms(1) by (simp only: id_take_nth_drop [symmetric])
  then have eq: "filter p xs = filter p (take i xs) @ xs ! i # filter p (drop (Suc i) xs)"
    using assms(2) by (simp only: filter_append filter.simps if_True)
  have "length (filter p (take i xs)) \<le> i"
    using length_filter_le [of p "take i xs"] by simp
  then show ?thesis unfolding eq by (intro exI [of _ "length (filter p (take i xs))"]) simp
qed

locale bounded_worker = guarded_system step inv
  for step :: "'s \<Rightarrow> 's \<Rightarrow> bool" and inv :: "'s \<Rightarrow> bool" +
  fixes items :: "'s \<Rightarrow> 'a list"
    and known :: "'s \<Rightarrow> 'a set"
    and work :: "'s \<Rightarrow> 's \<Rightarrow> bool"
    and batch :: nat
  assumes work_step: "work s t \<Longrightarrow> step s t"
    and work_drops: "inv s \<Longrightarrow> work s t \<Longrightarrow> items t = drop batch (items s)"
    and in_order: "inv s \<Longrightarrow> step s t \<Longrightarrow> \<exists>p ys. items t = filter p (items s) @ ys \<and> known s \<inter> set ys = {}"
    and known_items: "set (items s) \<subseteq> known s"
    and known_step: "inv s \<Longrightarrow> step s t \<Longrightarrow> known s \<subseteq> known t"
    and items_distinct: "distinct (items s)"
begin

lemma run_steps: "served_run step work s n t \<Longrightarrow> step\<^sup>*\<^sup>* s t"
  by (induction rule: served_run.induct) (auto dest: work_step intro: rtranclp.rtrancl_into_rtrancl)

lemma position_sinks:
  assumes "served_run step work s n t" and "inv s" and "k < length (items s)" and "items s ! k = x"
  shows "x \<in> known t \<and> (x \<in> set (items t) \<longrightarrow> (\<exists>i<length (items t). items t ! i = x \<and> i + batch * n \<le> k))"
  using assms(1)
proof (induction rule: served_run.induct)
  case Start
  show ?case using assms(3,4) known_items nth_mem by fastforce
next
  case (Worked n t u)
  have inv: "inv t" by (rule reach_inv [OF run_steps [OF Worked(1)] assms(2)])
  have items: "items u = drop batch (items t)" by (rule work_drops [OF inv Worked(2)])
  have "x \<in> known u" using known_step [OF inv work_step [OF Worked(2)]] Worked(3) by blast
  moreover have "\<exists>i<length (items u). items u ! i = x \<and> i + batch * Suc n \<le> k" if x: "x \<in> set (items u)"
  proof -
    from x items obtain m where m: "m < length (items u)" "items u ! m = x" by (auto simp: in_set_conv_nth)
    have "x \<in> set (items t)" using x items by (auto dest: in_set_dropD)
    with Worked(3) obtain i where i: "i < length (items t)" "items t ! i = x" "i + batch * n \<le> k" by blast
    have "items t ! (batch + m) = x" "batch + m < length (items t)" using m items by simp_all
    with i items_distinct [of t] have "batch + m = i" by (metis nth_eq_iff_index_eq)
    with i m show ?thesis by auto
  qed
  ultimately show ?case by blast
next
  case (Stepped n t u)
  have inv: "inv t" by (rule reach_inv [OF run_steps [OF Stepped(1)] assms(2)])
  obtain p ys where items: "items u = filter p (items t) @ ys" "known t \<inter> set ys = {}"
    using in_order [OF inv Stepped(2)] by blast
  have "x \<in> known u" using known_step [OF inv Stepped(2)] Stepped(3) by blast
  moreover have "\<exists>i<length (items u). items u ! i = x \<and> i + batch * n \<le> k" if x: "x \<in> set (items u)"
  proof -
    from x items Stepped(3) have "x \<in> set (items t)" "p x" by auto
    with Stepped(3) obtain i where i: "i < length (items t)" "items t ! i = x" "i + batch * n \<le> k" by blast
    with filter_position [of i "items t" p] \<open>p x\<close> obtain m where
      "m \<le> i" "m < length (filter p (items t))" "filter p (items t) ! m = x" by auto
    with i items(1) show ?thesis by (intro exI [of _ m]) (simp add: nth_append)
  qed
  ultimately show ?case by blast
qed

lemma served:
  assumes "served_run step work s n t" and "inv s" and "k < length (items s)" and "k < batch * n"
  shows "items s ! k \<in> known t - set (items t)"
  using position_sinks [OF assms(1-3) refl] assms(4) by auto

end

text \<open>
  The job queue is such a queue as long as the clock does not run backwards: a request is served
  at a time when no job was requested later (\<open>clock_ok\<close>), or it does not touch the jobs.
\<close>

definition clock_ok :: "env \<Rightarrow> sys \<Rightarrow> bool" where
  "clock_ok e s \<longleftrightarrow> (\<forall>i job. tget (jobs s) i = Some job \<longrightarrow> job_requested_at job \<le> now e)"

inductive timed_step :: "sys \<Rightarrow> sys \<Rightarrow> bool" where
  Timed: "clock_ok e s \<Longrightarrow> timed_step s (transaction (serve e r) s)"
| Untimed: "sys_step s t \<Longrightarrow> jobs t = jobs s \<Longrightarrow> timed_step s t"

definition worker_step :: "sys \<Rightarrow> sys \<Rightarrow> bool" where
  "worker_step s t \<longleftrightarrow> (\<exists>e. clock_ok e s \<and> cron_run_pending_jobs e s = (Inr (), t))"

lemma timed_sys_step: "timed_step s t \<Longrightarrow> sys_step s t"
  by (induction rule: timed_step.induct) (simp_all add: Request)

lemma sort_key_last:
  assumes "\<And>x. x \<in> set xs \<Longrightarrow> f x \<le> f y"
  shows "sort_key f (xs @ [y]) = sort_key f xs @ [y]"
proof -
  have insert: "insort_key f x (zs @ [y]) = insort_key f x zs @ [y]" if "f x \<le> f y" for x zs
    using that by (induction zs) auto
  have "foldr (insort_key f) xs [y] = foldr (insort_key f) xs [] @ [y]"
    using assms by (induction xs) (simp_all add: insert)
  then show ?thesis by (simp add: sort_key_def)
qed

lemma sort_key_same:
  assumes "\<And>x. x \<in> set xs \<Longrightarrow> f x = g x"
  shows "sort_key f xs = sort_key g xs"
proof -
  have insert: "insort_key f x zs = insort_key g x zs" if "\<forall>y\<in>insert x (set zs). f y = g y" for x zs
    using that by (induction zs) auto
  show ?thesis using assms by (induction xs) (simp_all add: insert)
qed

lemma fifo_insert:
  assumes "clock_ok e s" and "jobs t = tins (new_job e n jt a b c p) (jobs s)"
  shows "job_fifo t = job_fifo s @ [fresh_id (jobs s)]"
proof -
  let ?queued = "\<lambda>(_::nat) job. job_state job = JobQueued"
  let ?job = "new_job e n jt a b c p"
  have look: "tget (jobs t) i = (if i = fresh_id (jobs s) then Some ?job else tget (jobs s) i)" for i
    by (simp add: assms(2) tbl.look_ins)
  have ids: "search_ids ?queued (jobs t) = search_ids ?queued (jobs s) @ [fresh_id (jobs s)]"
    by (simp add: assms(2) search_ids_tins new_job_def)
  define f where "f = (\<lambda>i. via (jobs s) (Some i) 0 job_requested_at)"
  have key: "via (jobs t) (Some i) 0 job_requested_at = (if i = fresh_id (jobs s) then now e else f i)" for i
    by (simp add: via_def deref_def look f_def new_job_def)
  define g where "g = (\<lambda>i. if i = fresh_id (jobs s) then now e else f i)"
  have le: "g i \<le> g (fresh_id (jobs s))" if "i \<in> set (search_ids ?queued (jobs s))" for i
    using that assms(1) by (auto simp: g_def f_def search_ids_iff via_def deref_def clock_ok_def split: option.splits)
  have same: "sort_key g xs = sort_key f xs" if "fresh_id (jobs s) \<notin> set xs" for xs
    using that by (intro sort_key_same) (auto simp: g_def)
  have "fresh_id (jobs s) \<notin> set (search_ids ?queued (jobs s))" by (simp add: search_ids_iff tget_fresh)
  from same [OF this] show ?thesis
    unfolding job_fifo_def ids key f_def [symmetric] g_def [symmetric] by (simp add: sort_key_last [of _ g "fresh_id (jobs s)", OF le])
qed

text \<open>What a request leaves of the queue: some of the waiting jobs in their order, then new ones.\<close>

definition queue_kept :: "env \<Rightarrow> sys \<Rightarrow> sys \<Rightarrow> bool" where
  "queue_kept e s0 t \<longleftrightarrow> jobs_clean t \<and> clock_ok e t \<and> dom (tget (jobs s0)) \<subseteq> dom (tget (jobs t)) \<and>
     (\<exists>p ys. job_fifo t = filter p (job_fifo s0) @ ys \<and> dom (tget (jobs s0)) \<inter> set ys = {})"

lemma queue_kept_refl: "jobs_clean s \<Longrightarrow> clock_ok e s \<Longrightarrow> queue_kept e s s"
  unfolding queue_kept_def by (auto intro: exI [of _ "\<lambda>_. True"])

lemma queue_kept_queue: "queue_free e (queue_kept e s0)"
  unfolding queue_free_def
proof (intro allI impI)
  fix s :: sys and n jt a b c p
  let ?t = "s\<lparr>jobs := tins (new_job e n jt a b c p) (jobs s)\<rparr>"
  assume typed: "well_typed s jt a" and k: "queue_kept e s0 s"
  then obtain q ys where fifo: "job_fifo s = filter q (job_fifo s0) @ ys" "dom (tget (jobs s0)) \<inter> set ys = {}"
    by (auto simp: queue_kept_def)
  have "fresh_id (jobs s) \<notin> dom (tget (jobs s0))" using k tget_fresh [of "jobs s"] by (auto simp: queue_kept_def)
  moreover have "job_fifo ?t = job_fifo s @ [fresh_id (jobs s)]"
    by (rule fifo_insert) (use k in \<open>auto simp: queue_kept_def\<close>)
  moreover have "jobs_clean ?t"
    using jobs_clean_queue [of e] k typed by (simp add: queue_free_def queue_kept_def)
  moreover have "clock_ok e ?t"
    using k by (auto simp: queue_kept_def clock_ok_def tbl.look_ins new_job_def)
  moreover have "dom (tget (jobs s0)) \<subseteq> dom (tget (jobs ?t))"
    using k by (auto simp: queue_kept_def tbl.look_ins)
  ultimately show "queue_kept e s0 ?t"
    using fifo unfolding queue_kept_def by (intro conjI exI [of _ q] exI [of _ "ys @ [fresh_id (jobs s)]"]) auto
qed

lemma queue_kept_free:
  "audit_free (queue_kept e s0)" "mail_free (queue_kept e s0)" "wire_free (queue_kept e s0)"
  "seq_free (queue_kept e s0)" "draw_free (queue_kept e s0)" "sub_free (queue_kept e s0)"
  "router_free (queue_kept e s0)" "device_name_free (queue_kept e s0)" "captive_free (queue_kept e s0)"
  "pcr_free (queue_kept e s0)" "flt_free (queue_kept e s0)" "trf_free (queue_kept e s0)"
  "asg_free (queue_kept e s0)" "profile_free (queue_kept e s0)" "partner_free (queue_kept e s0)"
  "move_free (queue_kept e s0)" "acct_free (queue_kept e s0)" "attach_free (queue_kept e s0)"
  "preconfig_free (queue_kept e s0)"
  by (simp_all add: all_frees queue_kept_def jobs_clean_def clock_ok_def job_fifo_def)

lemma keeps_queue_execute [keeps_intros]: "keeps (queue_kept e s0) (execute e j)"
  unfolding keeps_def
proof (intro allI impI)
  fix s s' and x :: unit
  assume k: "queue_kept e s0 s" and ex: "execute e j s = (Inr x, s')"
  then have clean: "jobs_clean s" by (simp add: queue_kept_def)
  show "queue_kept e s0 s'"
  proof (cases "j \<in> set (job_fifo s)")
    case True
    have rows: "jobs s' = tupd j (finish_job e) (jobs s)" by (rule execute_finishes [OF clean True ex])
    have fifo: "job_fifo s' = filter (\<lambda>i. i \<notin> {j}) (job_fifo s)"
      by (rule fifo_after_finish) (simp_all add: rows map_fst_tupd tbl.look_upd)
    from k obtain q ys where s: "job_fifo s = filter q (job_fifo s0) @ ys" "dom (tget (jobs s0)) \<inter> set ys = {}"
      by (auto simp: queue_kept_def)
    have "job_fifo s' = filter (\<lambda>i. q i \<and> i \<notin> {j}) (job_fifo s0) @ filter (\<lambda>i. i \<notin> {j}) ys"
      by (simp add: fifo s)
    moreover have "jobs_clean s'" by (rule keepsD [OF keeps_clean_execute clean ex])
    moreover have "dom (tget (jobs s')) = dom (tget (jobs s))"
      by (auto simp: rows tbl.look_upd split: if_splits)
    moreover have "clock_ok e s'"
      using k by (auto simp: queue_kept_def clock_ok_def rows tbl.look_upd finish_job_def split: if_splits)
    moreover have "dom (tget (jobs s0)) \<subseteq> dom (tget (jobs s))" using k by (simp add: queue_kept_def)
    ultimately show ?thesis unfolding queue_kept_def using s(2)
      by (intro conjI exI [of _ "\<lambda>i. q i \<and> i \<notin> {j}"] exI [of _ "filter (\<lambda>i. i \<notin> {j}) ys"]) auto
  next
    case False
    from ex have "s' = s"
      by (cases rule: execute_cases) (use False in \<open>auto simp: fifo_iff\<close>)
    with k show ?thesis by simp
  qed
qed

lemma serve_keeps_queue: "keeps (queue_kept e s0) (serve e r)"
proof (cases r)
  case (RunJobs ids)
  then show ?thesis by (simp add: action_run_def keeps_for_each keeps_queue_execute)
next
  case CronJobs
  then show ?thesis by (simp add: cron_run_pending_jobs_def keeps_bnd keeps_gets keeps_for_each keeps_queue_execute)
qed (simp_all only: serve.simps,
    (rule keeps_all_imp, (intro queue_kept_queue queue_kept_free keeps_all_intros; fail))+)

lemma timed_step_keeps_order:
  assumes "jobs_clean s" and "timed_step s t"
  shows "dom (tget (jobs s)) \<subseteq> dom (tget (jobs t)) \<and>
    (\<exists>p ys. job_fifo t = filter p (job_fifo s) @ ys \<and> dom (tget (jobs s)) \<inter> set ys = {})"
  using assms(2)
proof (cases rule: timed_step.cases)
  case (Timed e r)
  have "queue_kept e s t"
    unfolding Timed(1)
    by (rule request_step [OF serve_keeps_queue queue_kept_free(3) queue_kept_refl [OF assms(1) Timed(2)]])
  then show ?thesis by (simp add: queue_kept_def)
next
  case Untimed
  have "job_fifo t = filter (\<lambda>_. True) (job_fifo s) @ []" using fifo_cong [OF Untimed(2)] by simp
  with Untimed(2) show ?thesis by (metis Int_empty_right empty_set order_refl)
qed

interpretation fifo: bounded_worker timed_step jobs_clean job_fifo "\<lambda>s. dom (tget (jobs s))" worker_step 20
proof unfold_locales
  show "jobs_clean t" if "timed_step s t" "jobs_clean s" for s t
    using clean_jobs.step_inv [OF timed_sys_step] that by blast
  show "timed_step s t" if "worker_step s t" for s t
  proof -
    from that obtain e where e: "clock_ok e s" "cron_run_pending_jobs e s = (Inr (), t)" by (auto simp: worker_step_def)
    then have "t = transaction (serve e CronJobs) s" by (simp add: transaction_returns)
    with e(1) show ?thesis using Timed by blast
  qed
  show "job_fifo t = drop 20 (job_fifo s)" if "jobs_clean s" "worker_step s t" for s t
    using that worker_serves(1) by (auto simp: worker_step_def)
  show "set (job_fifo s) \<subseteq> dom (tget (jobs s))" for s by (auto simp: fifo_iff)
  show "distinct (job_fifo s)" for s by (rule distinct_fifo)
qed (use timed_step_keeps_order in blast)+

text \<open>C6. No waiting job starves as long as the worker's runs succeed. Take a reachable database and
  the job at position \<open>k\<close> of the queue, and let the application go on as it likes, with a clock
  that does not run backwards: more jobs are queued, jobs are run by hand, records change, runs of
  the worker fail. After \<open>k div 20 + 1\<close> runs that returned, the job has succeeded at its first
  attempt. (A single job that keeps raising is enough for no run to return:
  \<open>cron_livelock\<close>.)\<close>

theorem waiting_job_is_served:
  assumes "sys_step\<^sup>*\<^sup>* blank_sys s" and "k < length (job_fifo s)"
    and "served_run timed_step worker_step s (k div 20 + 1) t"
  shows "\<exists>job. tget (jobs t) (job_fifo s ! k) = Some job \<and> job_state job = JobSuccess \<and> job_attempts job = 1"
proof -
  have clean: "jobs_clean s" by (rule clean_jobs.reach_inv [OF assms(1) blank_ok(1)])
  have "k < 20 * (k div 20 + 1)" by presburger
  from fifo.served [OF assms(3) clean assms(2) this]
  obtain job where job: "tget (jobs t) (job_fifo s ! k) = Some job" "job_state job \<noteq> JobQueued"
    by (auto simp: fifo_iff)
  moreover have "jobs_clean t" by (rule fifo.reach_inv [OF fifo.run_steps [OF assms(3)] clean])
  ultimately show ?thesis by (auto simp: jobs_clean_def)
qed

lemma clock_okI: "list_all (\<lambda>x. job_requested_at (snd x) \<le> now e) (jobs s) \<Longrightarrow> clock_ok e s"
  by (force simp: clock_ok_def list_all_iff tget_def dest!: map_of_SomeD)

theorem waiting_job_is_served_witness:
  "\<exists>t job. cron_run_pending_jobs dry_env (transaction (serve plain_env (Healthchecks [1, 1])) demo_network) = (Inr (), t) \<and>
     tget (jobs t) 2 = Some job \<and> job_state job = JobSuccess \<and> job_attempts job = 1"
proof -
  let ?s = "transaction (serve plain_env (Healthchecks [1, 1])) demo_network"
  have "\<not> isl (fst (cron_run_pending_jobs dry_env ?s)) \<and> job_fifo ?s = [1, 2]" by code_simp
  then obtain t where run: "cron_run_pending_jobs dry_env ?s = (Inr (), t)" and fifo: "job_fifo ?s = [1, 2]"
    using returned_unit by blast
  have "list_all (\<lambda>x. job_requested_at (snd x) \<le> now dry_env) (jobs ?s)" by code_simp
  then have "worker_step ?s t" using run clock_okI unfolding worker_step_def by blast
  then have "served_run timed_step worker_step ?s (1 div 20 + 1) t" using Worked [OF Start] by simp
  from waiting_job_is_served [OF demo_network_runs _ this] fifo run show ?thesis by simp
qed

section \<open>A failing job repeats the commands of the others\<close>

text \<open>Job \<open>j\<close> is for subscription \<open>i\<close>, and its router \<open>rt\<close> accepts connections all along.\<close>

definition routed :: "env \<Rightarrow> sys \<Rightarrow> nat \<Rightarrow> nat \<Rightarrow> nat \<Rightarrow> bool" where
  "routed e s j i rt \<longleftrightarrow> (\<exists>job. tget (jobs s) j = Some job \<and> job_subscription_id job = Some i \<and>
     choose_router e s job = Some rt) \<and>
     (\<forall>w. get_routeros_client e rt (s\<lparr>wire := w\<rparr>) = (Inr (RouterOSAdapter rt), s\<lparr>wire := w\<rparr>))"

lemma client_other_rows:
  assumes "get_routeros_client e rt (s\<lparr>wire := wire t\<rparr>) = (Inr cl, s\<lparr>wire := wire t\<rparr>)"
    and "routers t = routers s" and "devices t = devices s"
  shows "get_routeros_client e rt t = (Inr cl, t)"
  using assms
  by (auto simp: get_routeros_client_def open_adapter_def get_connection_info_def run_simps router_sector_def
      device_sector_def Let_def split: if_splits option.splits sum.splits)

lemma choose_router_same:
  assumes "routers t = routers s" and "devices t = devices s" and "subs t = subs s"
    and "job_device_id job' = job_device_id job" and "job_subscription_id job' = job_subscription_id job"
  shows "choose_router e t job' = choose_router e s job"
proof -
  have first: "first_router e t = first_router e s"
    using assms by (simp add: first_router_def fun_eq_iff)
  have sector: "router_sector t = router_sector s"
    using assms by (simp add: router_sector_def device_sector_def fun_eq_iff)
  show ?thesis unfolding choose_router_def first sector assms by (rule refl)
qed

lemma routed_same:
  assumes "routed e s j i rt" and "routers t = routers s" and "devices t = devices s" and "subs t = subs s"
    and "tget (jobs t) j = map_option f (tget (jobs s) j)"
    and "\<And>job. job_device_id (f job) = job_device_id job" and "\<And>job. job_subscription_id (f job) = job_subscription_id job"
  shows "routed e t j i rt"
proof -
  from assms(1) obtain job where job: "tget (jobs s) j = Some job" "job_subscription_id job = Some i"
      "choose_router e s job = Some rt"
    and client: "\<And>w. get_routeros_client e rt (s\<lparr>wire := w\<rparr>) = (Inr (RouterOSAdapter rt), s\<lparr>wire := w\<rparr>)"
    by (auto simp: routed_def)
  have "choose_router e t (f job) = Some rt"
    using choose_router_same [OF assms(2-4) assms(6,7) [of job]] job(3) by simp
  moreover have "get_routeros_client e rt (t\<lparr>wire := w\<rparr>) = (Inr (RouterOSAdapter rt), t\<lparr>wire := w\<rparr>)" for w
    by (rule client_other_rows [where s = s]) (use client assms(2,3) in simp_all)
  ultimately show ?thesis using job assms(5,7) by (auto simp: routed_def)
qed

lemma suspend_job_runs:
  assumes "subs_ok s" and "speaks e" and "routed e s j i rt"
    and "tget (jobs s) j = Some job" and "job_type job = suspend_subscription"
    and "job_state job = JobQueued" and "job_attempts job < job_max_attempts job"
    and "tget (subs s) i = Some r" and "sub_gps_lat r \<noteq> 0" and "sub_gps_lng r \<noteq> 0"
  shows "\<exists>t. execute e j s = (Inr (), t) \<and> jobs t = tupd j (finish_job e) (jobs s) \<and>
    wire t = wire s @ map (Pair rt) (suspend_commands (map_option plan_service_type (deref (plans s) (sub_plan_id r))) r)"
proof -
  let ?s = "s\<lparr>jobs := tupd j (start_job e) (jobs s)\<rparr>"
  let ?job = "start_job e job"
  have row: "tget (jobs ?s) j = Some ?job" using assms(4) by (simp add: tbl.look_upd)
  have ok: "subs_ok ?s" using subs_ok_job_free assms(1) by (simp add: job_free_def)
  have "routed e ?s j i rt"
    by (rule routed_same [OF assms(3), where f = "start_job e"])
      (simp_all add: tbl.look_upd start_job_def)
  then have r: "job_subscription_id ?job = Some i" "choose_router e ?s ?job = Some rt"
      "get_routeros_client e rt (?s\<lparr>wire := wire s\<rparr>) = (Inr (RouterOSAdapter rt), ?s\<lparr>wire := wire s\<rparr>)"
    using row unfolding routed_def by (simp, simp, blast)
  have "tget (subs ?s) i = Some r" using assms(8) by simp
  from suspend_handler_effect [OF ok assms(2) row r(1) this assms(9,10) r(2)] r(3)
  have h: "handle_suspend_subscription e j ?s = (Inr (), ?s\<lparr>subs := tupd i (\<lambda>r. r\<lparr>sub_state := SubSuspended\<rparr>) (subs s),
       wire := wire s @ map (Pair rt) (suspend_commands
         (map_option plan_service_type (deref (plans s) (sub_plan_id r))) r)\<rparr>)" by simp
  have "job_type ?job = suspend_subscription" using assms(5) by (simp add: start_job_def)
  with row h have "dispatch e j ?s = (Inr (), ?s\<lparr>subs := tupd i (\<lambda>r. r\<lparr>sub_state := SubSuspended\<rparr>) (subs s),
       wire := wire s @ map (Pair rt) (suspend_commands
         (map_option plan_service_type (deref (plans s) (sub_plan_id r))) r)\<rparr>)"
    by (simp add: dispatch_def bnd_run rd_run)
  then show ?thesis
    using assms(4,6,7)
    by (auto simp: execute_def run_simps job_write_def tupd_def start_job_def finish_job_def)
qed


definition stuck_sys :: sys where
  "stuck_sys = (demo_sys suspend_subscription)\<lparr>jobs := [(1, demo_job suspend_subscription), (2, snapshot_job)]\<rparr>"

lemma stuck_rows:
  "tget (subs stuck_sys) 1 = Some demo_sub" "tget (jobs stuck_sys) 1 = Some (demo_job suspend_subscription)"
  "tget (jobs stuck_sys) 2 = Some snapshot_job" "pending_jobs stuck_sys = [1, 2]"
proof -
  show "tget (subs stuck_sys) 1 = Some demo_sub" by (simp add: stuck_sys_def demo_rows demo_rows [unfolded One_nat_def])
qed (simp_all add: stuck_sys_def tget_def pending_jobs_def search_ids_def via_def deref_def
      snapshot_job_def demo_job_def new_job_def)

lemma stuck_routed: "routed plain_env stuck_sys 1 1 1"
proof -
  have "choose_router plain_env stuck_sys (demo_job suspend_subscription) =
      choose_router plain_env (demo_sys suspend_subscription) (demo_job suspend_subscription)"
    by (rule choose_router_same) (simp_all add: stuck_sys_def)
  then have "choose_router plain_env stuck_sys (demo_job suspend_subscription) = Some 1" by (simp only: demo_router)
  moreover have "get_routeros_client plain_env 1 (stuck_sys\<lparr>wire := w\<rparr>) = (Inr (RouterOSAdapter 1), stuck_sys\<lparr>wire := w\<rparr>)" for w
    by (simp add: get_routeros_client_def open_adapter_def get_connection_info_def dry_run_def run_simps
      via_def deref_def tget_def set_str_def get_api_password_def get_api_user_def demo_defs Let_def
      set_str_def or_str_def stuck_sys_def)
  moreover have "job_subscription_id (demo_job suspend_subscription) = Some 1" by (simp add: demo_job_def new_job_def)
  ultimately show ?thesis using stuck_rows(2) unfolding routed_def by blast
qed


end
