(* ===== verification/Service_Flow.thy ===== *)
theory Service_Flow
  imports Worker_Facts Billing_Facts Plan_Change_Facts
begin

text \<open>
  The components at work together, from the request or cron job that queues the provisioning jobs
  to the run of the worker that serves them: customers with overdue invoices are suspended
  (\<open>isp_billing\<close>, \<open>isp_core\<close>, \<open>isp_mikrotik\<close>), customers who paid are
  reconnected, and the two undo each other.
\<close>

section \<open>Tables without duplicate keys\<close>

definition keyed_jobs :: "sys \<Rightarrow> bool" where
  "keyed_jobs s \<longleftrightarrow> distinct (map fst (jobs s))"

lemma keyed_jobs_queue: "queue_free e keyed_jobs"
  using fresh_id_gt by (fastforce simp: queue_free_def keyed_jobs_def tins_def)

lemma keyed_jobs_free:
  "audit_free keyed_jobs" "mail_free keyed_jobs" "wire_free keyed_jobs" "seq_free keyed_jobs"
  "draw_free keyed_jobs" "sub_free keyed_jobs" "router_free keyed_jobs" "device_name_free keyed_jobs"
  "captive_free keyed_jobs" "pcr_free keyed_jobs" "flt_free keyed_jobs" "trf_free keyed_jobs"
  "asg_free keyed_jobs" "profile_free keyed_jobs" "partner_free keyed_jobs" "move_free keyed_jobs"
  "acct_free keyed_jobs" "attach_free keyed_jobs" "preconfig_free keyed_jobs"
  by (simp_all add: all_frees keyed_jobs_def)

lemma keeps_keyed_execute [keeps_intros]: "keeps keyed_jobs (execute e j)"
  unfolding keeps_def
proof (intro allI impI)
  fix s s' and x :: unit
  assume ok: "keyed_jobs s" and ex: "execute e j s = (Inr x, s')"
  from ex show "keyed_jobs s'"
  proof (cases rule: execute_cases)
    case (success job t)
    then show ?thesis
      using dispatch_jobs [of e j "s\<lparr>jobs := tupd j (start_job e) (jobs s)\<rparr>"] ok
      by (simp add: keyed_jobs_def map_fst_tupd)
  qed (use ok in \<open>simp_all add: keyed_jobs_def map_fst_tupd\<close>)
qed

lemma serve_keeps_keyed: "keeps keyed_jobs (serve e r)"
proof (cases r)
  case (RunJobs ids)
  then show ?thesis by (simp add: action_run_def keeps_for_each keeps_keyed_execute)
next
  case CronJobs
  then show ?thesis by (simp add: cron_run_pending_jobs_def keeps_bnd keeps_gets keeps_for_each keeps_keyed_execute)
qed (simp_all only: serve.simps,
    (rule keeps_all_imp, (intro keyed_jobs_queue keyed_jobs_free keeps_all_intros; fail))+)

lemma env_free_keyed: "env_free keyed_jobs"
  using keyed_jobs_free by (simp add: env_free_def keyed_jobs_def)

interpretation keyed: guarded_system sys_step keyed_jobs
  by unfold_locales (rule step_keeps, assumption+, rule env_free_keyed, rule serve_keeps_keyed)

lemma reachable_keyed: "sys_step\<^sup>*\<^sup>* blank_sys s \<Longrightarrow> keyed_jobs s"
  using keyed.reach_inv [of blank_sys s] by (simp add: keyed_jobs_def blank_sys_def)

lemma keyed_row: "distinct (map fst t) \<Longrightarrow> x \<in> set t \<Longrightarrow> tget t (fst x) = Some (snd x)"
  unfolding tget_def by (rule map_of_is_SomeI) simp_all

lemma search_keyed:
  assumes "distinct (map fst t)"
  shows "search_ids (\<lambda>_. p) t = map fst (filter (\<lambda>x. p (snd x)) t)"
proof -
  have "search_ids (\<lambda>_. p) t = filter (\<lambda>i. case tget t i of None \<Rightarrow> False | Some r \<Rightarrow> p r) (map fst t)"
    using assms by (simp add: search_ids_def distinct_remdups_id)
  also have "\<dots> = map fst (filter (\<lambda>x. case tget t (fst x) of None \<Rightarrow> False | Some r \<Rightarrow> p r) t)"
    by (simp add: filter_map comp_def)
  also have "filter (\<lambda>x. case tget t (fst x) of None \<Rightarrow> False | Some r \<Rightarrow> p r) t = filter (\<lambda>x. p (snd x)) t"
    by (rule filter_cong) (simp_all add: keyed_row [OF assms])
  finally show ?thesis .
qed

text \<open>What a cron job that queues jobs of type \<open>jt\<close> for the subscriptions \<open>ks\<close> leaves in an empty queue.\<close>

lemma queued_batch:
  assumes "keyed_jobs s" and "keyed_jobs t" and "job_fifo s = []"
    and "map job_key (jobs t) = map job_key (jobs s) @ map (\<lambda>k. (jt, Some k, JobQueued)) ks"
  shows "length (job_fifo t) = length ks"
    and "j \<in> set (job_fifo t) \<Longrightarrow> \<exists>job k. tget (jobs t) j = Some job \<and> job_type job = jt \<and>
      job_subscription_id job = Some k \<and> k \<in> set ks"
    and "k \<in> set ks \<Longrightarrow> \<exists>j job. j \<in> set (job_fifo t) \<and> tget (jobs t) j = Some job \<and> job_subscription_id job = Some k"
proof -
  let ?q = "\<lambda>x :: nat \<times> provisioning_job. job_state (snd x) = JobQueued"
  let ?rows = "filter ?q (jobs t)"
  have old: "filter ?q (jobs s) = []"
    using assms(1,3) by (simp add: job_fifo_def sort_key_empty search_keyed keyed_jobs_def)
  have ids: "set (job_fifo t) = fst ` set ?rows" "length (job_fifo t) = length ?rows"
    using assms(2) by (simp_all add: job_fifo_def search_keyed keyed_jobs_def)
  have keys: "map job_key (filter ?q xs) = filter (\<lambda>y. snd (snd y) = JobQueued) (map job_key xs)" for xs
    by (induction xs) (simp_all add: job_key_def)
  have rows: "map job_key ?rows = map (\<lambda>k. (jt, Some k, JobQueued)) ks"
    unfolding keys assms(4) filter_append unfolding keys [symmetric] old by (induction ks) simp_all
  then have "length ?rows = length ks" by (metis length_map)
  with ids(2) show "length (job_fifo t) = length ks" by simp
  have row: "tget (jobs t) (fst x) = Some (snd x)" if "x \<in> set (jobs t)" for x
    using assms(2) that unfolding keyed_jobs_def by (rule keyed_row)
  show "\<exists>job k. tget (jobs t) j = Some job \<and> job_type job = jt \<and> job_subscription_id job = Some k \<and> k \<in> set ks"
    if "j \<in> set (job_fifo t)"
  proof -
    from that ids(1) obtain x where x: "x \<in> set ?rows" "fst x = j" by auto
    then have "job_key x \<in> set (map job_key ?rows)" by simp
    then have "job_key x \<in> set (map (\<lambda>k. (jt, Some k, JobQueued)) ks)" unfolding rows .
    with x row [of x] show ?thesis by (auto simp: job_key_def)
  qed
  show "\<exists>j job. j \<in> set (job_fifo t) \<and> tget (jobs t) j = Some job \<and> job_subscription_id job = Some k"
    if "k \<in> set ks"
  proof -
    from that have "(jt, Some k, JobQueued) \<in> set (map job_key ?rows)" unfolding rows by simp
    then obtain x where x: "x \<in> set ?rows" "job_key x = (jt, Some k, JobQueued)" by auto
    with row [of x] have "tget (jobs t) (fst x) = Some (snd x)" "job_subscription_id (snd x) = Some k"
      by (simp_all add: job_key_def)
    moreover have "fst x \<in> set (job_fifo t)" unfolding ids(1) using x(1) by (rule imageI)
    ultimately show ?thesis by blast
  qed
qed

section \<open>A batch of jobs that set the state of their subscriptions\<close>

fun job_target :: "job_type \<Rightarrow> sub_state option" where
  "job_target suspend_subscription = Some SubSuspended"
| "job_target reconnect_subscription = Some SubActive"
| "job_target terminate_subscription = Some SubTerminated"
| "job_target _ = None"

lemma commands_keep_subs:
  "keeps_all (\<lambda>t. subs t = S) (do_if b (routeros_pppoe_disable e cl i))"
  "keeps_all (\<lambda>t. subs t = S) (do_if b (routeros_pppoe_enable e cl i))"
  "keeps_all (\<lambda>t. subs t = S) (routeros_queue_disable e cl i)"
  "keeps_all (\<lambda>t. subs t = S) (routeros_queue_ensure e cl i)"
  "keeps_all (\<lambda>t. subs t = S) (routeros_queue_remove e cl i)"
  "keeps_all (\<lambda>t. subs t = S) (get_routeros_client e rt)"
  "keeps_all (\<lambda>t. subs t = S) (get_router e j)"
  "keeps_all (\<lambda>t. subs t = S) (service_type_of i)"
  by (intro keeps_all_intros; simp add: free_defs)+

lemma state_handler:
  fixes a :: "client \<Rightarrow> service_type option \<Rightarrow> nat \<Rightarrow> unit op" and b :: "client \<Rightarrow> nat \<Rightarrow> unit op"
  assumes "bnd (job_subscription j) (\<lambda>i. bnd (get_router e j) (\<lambda>rt. bnd (get_routeros_client e rt) (\<lambda>cl.
      bnd (service_type_of i) (\<lambda>st. andthen (a cl st i) (andthen (b cl i) (sub_write e i [V_state x])))))) s = (Inr u, t)"
    and "\<And>cl st i. keeps_all (\<lambda>t. subs t = subs s) (a cl st i)" and "\<And>cl i. keeps_all (\<lambda>t. subs t = subs s) (b cl i)"
    and "tget (jobs s) j = Some job" and "job_subscription_id job = Some i"
  shows "subs t = tupd i (\<lambda>r. r\<lparr>sub_state := x\<rparr>) (subs s)"
proof -
  have sub: "job_subscription j s = (Inr i, s)" using assms(4,5) by (simp add: job_subscription_def run_simps)
  with assms(1) obtain rt s1 cl s2 st s3 s4 s5 where steps: "get_router e j s = (Inr rt, s1)"
      "get_routeros_client e rt s1 = (Inr cl, s2)" "service_type_of i s2 = (Inr st, s3)"
      "a cl st i s3 = (Inr (), s4)" "b cl i s4 = (Inr (), s5)" and wr: "sub_write e i [V_state x] s5 = (Inr (), t)"
    by (auto elim!: bnd_ok andthen_ok)
  note keep = commands_keep_subs(6-8) [of "subs s", THEN keeps_allD] assms(2,3) [THEN keeps_allD]
  have "subs s1 = subs s" using keep(2) [OF refl steps(1)] .
  then have "subs s2 = subs s" using keep(1) steps(2) by blast
  then have "subs s3 = subs s" using keep(3) steps(3) by blast
  then have "subs s4 = subs s" using keep(4) steps(4) by blast
  then have "subs s5 = subs s" using keep(5) steps(5) by blast
  with sub_write_ok(2) [OF wr] show ?thesis by (auto simp: tupd_def)
qed

lemma dispatch_sets_state:
  assumes "dispatch e j s = (Inr u, t)" and "tget (jobs s) j = Some job"
    and "job_target (job_type job) = Some x" and "job_subscription_id job = Some i"
  shows "subs t = tupd i (\<lambda>r. r\<lparr>sub_state := x\<rparr>) (subs s)"
proof -
  from assms(1,2) obtain h where h: "dispatch_handler e (job_type job) = Some h" "h j s = (Inr u, t)"
    by (cases "dispatch_handler e (job_type job)") (simp_all add: dispatch_def run_simps)
  note run = state_handler [OF _ _ _ assms(2,4)]
  from assms(3) consider "job_type job = suspend_subscription" "x = SubSuspended"
    | "job_type job = reconnect_subscription" "x = SubActive"
    | "job_type job = terminate_subscription" "x = SubTerminated"
    by (cases "job_type job") simp_all
  then show ?thesis
  proof cases
    case 1
    with h have "handle_suspend_subscription e j s = (Inr u, t)" by simp
    from run [OF this [unfolded handle_suspend_subscription_def]] 1 show ?thesis
      by (simp add: commands_keep_subs)
  next
    case 2
    with h have "handle_reconnect_subscription e j s = (Inr u, t)" by simp
    from run [OF this [unfolded handle_reconnect_subscription_def]] 2 show ?thesis
      by (simp add: commands_keep_subs)
  next
    case 3
    with h have "handle_terminate_subscription e j s = (Inr u, t)" by simp
    from run [OF this [unfolded handle_terminate_subscription_def]] 3 show ?thesis
      by (simp add: commands_keep_subs)
  qed
qed

text \<open>The subscriptions after the worker ran a batch of jobs of one such type.\<close>

lemma batch_sets_states:
  assumes "jobs_clean s" and "distinct js" and "job_target jt = Some x"
    and "\<And>j. j \<in> set js \<Longrightarrow> \<exists>job k. tget (jobs s) j = Some job \<and> job_state job = JobQueued \<and> job_type job = jt \<and>
      job_subscription_id job = Some k"
    and "for_each (execute e) js s = (Inr u, t)"
  shows "tget (subs t) k = map_option (\<lambda>r. if \<exists>j\<in>set js. via (jobs s) (Some j) None job_subscription_id = Some k
      then r\<lparr>sub_state := x\<rparr> else r) (tget (subs s) k)"
  using assms(1,2,4,5)
proof (induction js arbitrary: s)
  case Nil
  then show ?case by (simp add: ret_run option.map_ident)
next
  case (Cons j js)
  from Cons.prems(4) obtain v s1 where j: "execute e j s = (Inr v, s1)" and js: "for_each (execute e) js s1 = (Inr u, t)"
    by (auto elim: andthen_ok)
  from Cons.prems(3) [of j] obtain job i where job: "tget (jobs s) j = Some job" "job_state job = JobQueued"
      "job_type job = jt" "job_subscription_id job = Some i" by auto
  have rows: "jobs s1 = tupd j (finish_job e) (jobs s)"
    by (rule execute_finishes [OF Cons.prems(1) _ j]) (use job in \<open>simp add: fifo_iff\<close>)
  have clean: "jobs_clean s1" by (rule keepsD [OF keeps_clean_execute Cons.prems(1) j])
  have att: "job_attempts job < job_max_attempts job"
    using Cons.prems(1) job by (fastforce simp: jobs_clean_def)
  have subs: "subs s1 = tupd i (\<lambda>r. r\<lparr>sub_state := x\<rparr>) (subs s)"
    using j
  proof (cases rule: execute_cases)
    case (success job' s0)
    have "tget (jobs (s\<lparr>jobs := tupd j (start_job e) (jobs s)\<rparr>)) j = Some (start_job e job)"
      using job(1) by (simp add: tbl.look_upd)
    from dispatch_sets_state [OF success(4) this, of x i] assms(3) job(3,4) success(6) show ?thesis
      by (simp add: start_job_def)
  qed (use job att in simp_all)
  have other: "tget (jobs s1) l = tget (jobs s) l" if "l \<in> set js" for l
    using that Cons.prems(2) by (auto simp: rows tbl.look_upd)
  have IH: "tget (subs t) k = map_option (\<lambda>r. if \<exists>l\<in>set js. via (jobs s1) (Some l) None job_subscription_id = Some k
      then r\<lparr>sub_state := x\<rparr> else r) (tget (subs s1) k)"
    by (rule Cons.IH [OF clean _ _ js]) (use Cons.prems(2,3) other in auto)
  have same: "(\<exists>l\<in>set js. via (jobs s1) (Some l) None job_subscription_id = Some k) \<longleftrightarrow>
      (\<exists>l\<in>set js. via (jobs s) (Some l) None job_subscription_id = Some k)"
    using other by (auto simp: via_def deref_def)
  have head: "via (jobs s) (Some j) None job_subscription_id = Some i"
    using job by (simp add: via_def deref_def)
  show ?case
    unfolding IH same subs tbl.look_upd by (cases "tget (subs s) k") (auto simp: head)
qed

text \<open>A cron job queues jobs of such a type for the subscriptions \<open>ks\<close> in an empty queue, then the
  worker runs.\<close>

lemma queued_then_served:
  assumes "keyed_jobs s" and "jobs_clean s" and "job_fifo s = []" and "length ks \<le> 20"
    and "keyed_jobs t" and "jobs_clean t" and "subs t = subs s"
    and "map job_key (jobs t) = map job_key (jobs s) @ map (\<lambda>k. (jt, Some k, JobQueued)) ks"
    and "job_target jt = Some x" and "cron_run_pending_jobs e t = (Inr (), u)"
  shows "job_fifo u = []"
    and "tget (subs u) k = map_option (\<lambda>r. if k \<in> set ks then r\<lparr>sub_state := x\<rparr> else r) (tget (subs s) k)"
proof -
  note batch = queued_batch [OF assms(1,5,3,8)]
  have len: "length (job_fifo t) \<le> 20" using batch(1) assms(4) by simp
  then show "job_fifo u = []" using worker_serves(1) [OF assms(6,10)] by simp
  have run: "for_each (execute e) (job_fifo t) t = (Inr (), u)"
    using assms(10) len by (simp add: cron_run_pending_jobs_def bnd_run gets_run pending_fifo)
  have jobs: "\<exists>job k. tget (jobs t) j = Some job \<and> job_state job = JobQueued \<and> job_type job = jt \<and>
      job_subscription_id job = Some k" if "j \<in> set (job_fifo t)" for j
    using batch(2) [OF that] that by (auto simp: fifo_iff)
  have sel: "(\<exists>j\<in>set (job_fifo t). via (jobs t) (Some j) None job_subscription_id = Some k) \<longleftrightarrow> k \<in> set ks"
  proof
    assume "\<exists>j\<in>set (job_fifo t). via (jobs t) (Some j) None job_subscription_id = Some k"
    then show "k \<in> set ks" by (auto simp: via_def deref_def dest!: batch(2))
  next
    assume "k \<in> set ks"
    from batch(3) [OF this] show "\<exists>j\<in>set (job_fifo t). via (jobs t) (Some j) None job_subscription_id = Some k"
      by (force simp: via_def deref_def)
  qed
  show "tget (subs u) k = map_option (\<lambda>r. if k \<in> set ks then r\<lparr>sub_state := x\<rparr> else r) (tget (subs s) k)"
    using batch_sets_states [OF assms(6) distinct_fifo assms(9) jobs run, of k]
    unfolding sel assms(7) .
qed

text \<open>The subscriptions of the overdue open invoices, one for each invoice.\<close>

definition overdue_list :: "env \<Rightarrow> int \<Rightarrow> sys \<Rightarrow> nat list" where
  "overdue_list e days s = List.map_filter (\<lambda>i. overdue_sub e days s (the (tget (moves s) i)))
     (moves_where e (\<lambda>m. mv_subscription_id m \<noteq> None \<and> open_move m) s)"

section \<open>A network with a late payer\<close>

definition late_sys :: sys where
  "late_sys = (transaction (serve plain_env (CreateSubscriptions [[V_partner_id (Some 1), V_plan_id (Some 1),
      V_sector_id (Some 1), V_pppoe_username (Some ''u''), V_pppoe_password (Some ''p''), V_gps_lat 1, V_gps_lng 1,
      V_state SubActive]])) demo_network)\<lparr>moves := [(1, demo_invoice)]\<rparr>"

definition late_env :: env where
  "late_env = plain_env\<lparr>today := 20\<rparr>"

definition late_cut :: sys where
  "late_cut = transaction (cron_run_pending_jobs dry_env) (transaction (cron_suspend_overdue late_env) late_sys)"

lemma late_reached: "sys_step\<^sup>*\<^sup>* blank_sys late_sys"
  unfolding late_sys_def by (rule rtranclp.rtrancl_into_rtrancl [OF demo_network_runs Accounting])

lemma late_facts:
  "job_fifo late_sys = []" "overdue_list late_env 10 late_sys = [1]"
  "map_option sub_state (tget (subs late_sys) 1) = Some SubActive" "map fst (subs late_sys) = [1]"
  "\<not> isl (fst (cron_run_pending_jobs dry_env (transaction (cron_suspend_overdue late_env) late_sys)))"
  by code_simp+

lemma late_days: "py_int (param_or late_env ''isp_billing.suspend_after_days'' ''10'') = Some 10"
  using default_days by (simp add: param_or_def late_env_def)

lemma late_cut_run:
  "cron_run_pending_jobs dry_env (transaction (cron_suspend_overdue late_env) late_sys) = (Inr (), late_cut)"
  unfolding late_cut_def by (rule returned_unit [of "cron_run_pending_jobs dry_env", OF late_facts(5)])

lemma late_cut_reached: "sys_step\<^sup>*\<^sup>* blank_sys (late_cut\<lparr>moves := ms\<rparr>)"
proof -
  have "sys_step late_sys (transaction (serve late_env CronSuspend) late_sys)" by (rule Request)
  moreover have "sys_step (transaction (serve late_env CronSuspend) late_sys) late_cut"
    using Request [of "transaction (serve late_env CronSuspend) late_sys" dry_env CronJobs] by (simp add: late_cut_def)
  moreover have "sys_step late_cut (late_cut\<lparr>moves := ms\<rparr>)" by (rule Accounting)
  ultimately show ?thesis using late_reached by (metis rtranclp.rtrancl_into_rtrancl)
qed

text \<open>The bill is paid.\<close>

definition late_back :: sys where
  "late_back = transaction (cron_run_pending_jobs dry_env)
     (transaction (cron_reconnect_on_payment late_env) (late_cut\<lparr>moves := []\<rparr>))"

lemma late_back_facts:
  "\<not> isl (fst (cron_run_pending_jobs dry_env (transaction (cron_reconnect_on_payment late_env) (late_cut\<lparr>moves := []\<rparr>))))"
  "length (subs_where (\<lambda>r. sub_state r = SubSuspended) (late_cut\<lparr>moves := []\<rparr>)) = 1"
  "job_fifo (late_cut\<lparr>moves := []\<rparr>) = []" "map_option sub_state (tget (subs late_cut) 1) = Some SubSuspended"
  by code_simp+

lemma late_back_run:
  "cron_run_pending_jobs dry_env (transaction (cron_reconnect_on_payment late_env) (late_cut\<lparr>moves := []\<rparr>)) = (Inr (), late_back)"
  unfolding late_back_def by (rule returned_unit [of "cron_run_pending_jobs dry_env", OF late_back_facts(1)])

section \<open>Late payers\<close>

lemma late_payers_effect:
  assumes "sys_step\<^sup>*\<^sup>* blank_sys s" and "job_fifo s = []"
    and "py_int (param_or e ''isp_billing.suspend_after_days'' ''10'') = Some days"
    and "length (overdue_list e days s) \<le> 20"
    and "cron_run_pending_jobs e' (transaction (cron_suspend_overdue e) s) = (Inr (), u)"
  shows "job_fifo u = [] \<and> (\<forall>k. tget (subs u) k = map_option (\<lambda>r. if k \<in> set (overdue_list e days s)
    then r\<lparr>sub_state := SubSuspended\<rparr> else r) (tget (subs s) k))"
proof -
  let ?t = "transaction (cron_suspend_overdue e) s"
  have reach: "sys_step\<^sup>*\<^sup>* blank_sys ?t"
    using rtranclp.rtrancl_into_rtrancl [OF assms(1) Request [of s e CronSuspend]] by simp
  from suspend_cron_effect [OF assms(3), of s] obtain t where
    t: "cron_suspend_overdue e s = (Inr (), t)" "subs t = subs s"
      "map job_key (jobs t) = map job_key (jobs s) @ map (\<lambda>k. (suspend_subscription, Some k, JobQueued)) (overdue_list e days s)"
    by (auto simp: overdue_list_def)
  from t(1) have eq: "?t = t" by (rule transaction_returns)
  note step = queued_then_served [OF reachable_keyed [OF assms(1)] clean_jobs.reach_inv [OF assms(1) blank_ok(1)] assms(2,4)
    reachable_keyed [OF reach] clean_jobs.reach_inv [OF reach blank_ok(1)], unfolded eq, OF t(2,3) _ assms(5) [unfolded eq]]
  show ?thesis using step by simp
qed



lemma paid_customers_effect:
  assumes "sys_step\<^sup>*\<^sup>* blank_sys s" and "job_fifo s = []"
    and "length (subs_where (\<lambda>r. sub_state r = SubSuspended) s) \<le> 20"
    and "cron_run_pending_jobs e' (transaction (cron_reconnect_on_payment e) s) = (Inr (), u)"
  shows "job_fifo u = [] \<and> (\<forall>k. tget (subs u) k = map_option (\<lambda>r. if sub_state r = SubSuspended \<and>
      (\<nexists>i m. tget (moves s) i = Some m \<and> mv_subscription_id m = Some k \<and> open_move m)
    then r\<lparr>sub_state := SubActive\<rparr> else r) (tget (subs s) k))"
proof -
  let ?t = "transaction (cron_reconnect_on_payment e) s"
  let ?ids = "subs_where (\<lambda>r. sub_state r = SubSuspended) s"
  let ?paid = "\<lambda>k. \<nexists>i m. tget (moves s) i = Some m \<and> mv_subscription_id m = Some k \<and> open_move m"
  have reach: "sys_step\<^sup>*\<^sup>* blank_sys ?t"
    using rtranclp.rtrancl_into_rtrancl [OF assms(1) Request [of s e CronReconnect]] by simp
  from reconnect_cron_effect [of e s] obtain t where
    t: "cron_reconnect_on_payment e s = (Inr (), t)" "subs t = subs s"
      "map job_key (jobs t) = map job_key (jobs s) @ map (\<lambda>k. (reconnect_subscription, Some k, JobQueued)) (filter ?paid ?ids)"
    by blast
  from t(1) have eq: "?t = t" by (rule transaction_returns)
  have len: "length (filter ?paid ?ids) \<le> 20" using assms(3) length_filter_le [of ?paid ?ids] by linarith
  note step = queued_then_served [OF reachable_keyed [OF assms(1)] clean_jobs.reach_inv [OF assms(1) blank_ok(1)] assms(2) len
    reachable_keyed [OF reach] clean_jobs.reach_inv [OF reach blank_ok(1)], unfolded eq, OF t(2,3) _ assms(4) [unfolded eq]]
  have mem: "k \<in> set (filter ?paid ?ids) \<longleftrightarrow> (\<exists>r. tget (subs s) k = Some r \<and> sub_state r = SubSuspended) \<and> ?paid k" for k
    by (auto simp: subs_where_def search_ids_iff)
  have "tget (subs u) k = map_option (\<lambda>r. if sub_state r = SubSuspended \<and> ?paid k then r\<lparr>sub_state := SubActive\<rparr> else r)
      (tget (subs s) k)" for k
    using step(2) [of SubActive k] unfolding mem by (cases "tget (subs s) k") simp_all
  with step(1) show ?thesis by simp
qed

text \<open>C20. Customers who paid are reconnected: the same for the reconnection cron job. The worker's
  run makes exactly the suspended subscriptions without an open posted invoice active.\<close>

theorem paid_customers_are_reconnected:
  assumes "sys_step\<^sup>*\<^sup>* blank_sys s" and "job_fifo s = []"
    and "length (subs_where (\<lambda>r. sub_state r = SubSuspended) s) \<le> 20"
    and "cron_run_pending_jobs e' (transaction (cron_reconnect_on_payment e) s) = (Inr (), u)"
  shows "job_fifo u = [] \<and> (\<forall>k. tget (subs u) k = map_option (\<lambda>r. if sub_state r = SubSuspended \<and>
      (\<nexists>i m. tget (moves s) i = Some m \<and> mv_subscription_id m = Some k \<and> open_move m)
    then r\<lparr>sub_state := SubActive\<rparr> else r) (tget (subs s) k))"
  using assms by (rule paid_customers_effect)

theorem paid_customers_are_reconnected_witness:
  "\<exists>r. tget (subs late_back) 1 = Some r \<and> sub_state r = SubActive"
  using paid_customers_are_reconnected [OF late_cut_reached late_back_facts(3) _ late_back_run] late_back_facts(2,4)
  by (auto simp: tget_def)

lemma overdue_active:
  assumes "k \<in> set (overdue_list e days s)"
  shows "\<exists>r. tget (subs s) k = Some r \<and> sub_state r = SubActive"
proof -
  from assms obtain i where "overdue_sub e days s (the (tget (moves s) i)) = Some k"
    by (auto simp: overdue_list_def List.map_filter_def)
  then show ?thesis
    by (auto simp: overdue_sub_def deref_def Let_def split: option.splits if_splits)
qed

text \<open>C5. Suspending and paying undo each other. Start from a reachable database with an empty job
  queue, where nobody is suspended and at most twenty invoices are overdue. The suspension cron job
  runs and the worker serves its jobs; accounting changes as it likes, but leaves no open posted
  invoice of a customer it had been overdue for; the reconnection cron job runs and the worker
  serves its jobs. When both runs of the worker return, every subscription is exactly as at the
  start.\<close>

theorem payment_undoes_suspension:
  assumes "sys_step\<^sup>*\<^sup>* blank_sys s" and "job_fifo s = []"
    and "\<forall>k r. tget (subs s) k = Some r \<longrightarrow> sub_state r \<noteq> SubSuspended"
    and "py_int (param_or e1 ''isp_billing.suspend_after_days'' ''10'') = Some days"
    and "length (overdue_list e1 days s) \<le> 20"
    and "cron_run_pending_jobs e2 (transaction (cron_suspend_overdue e1) s) = (Inr (), u)"
    and "\<forall>i x k. tget ms i = Some x \<longrightarrow> mv_subscription_id x = Some k \<longrightarrow> open_move x \<longrightarrow> k \<notin> set (overdue_list e1 days s)"
    and "cron_run_pending_jobs e4 (transaction (cron_reconnect_on_payment e3) (u\<lparr>moves := ms\<rparr>)) = (Inr (), w)"
  shows "tget (subs w) k = tget (subs s) k"
proof -
  let ?ks = "overdue_list e1 days s" and ?v = "u\<lparr>moves := ms\<rparr>"
  from late_payers_effect [OF assms(1,2,4-6)] have u: "job_fifo u = []"
    "\<And>k. tget (subs u) k = map_option (\<lambda>r. if k \<in> set ?ks then r\<lparr>sub_state := SubSuspended\<rparr> else r) (tget (subs s) k)"
    by simp_all
  have "sys_step\<^sup>*\<^sup>* blank_sys (transaction (cron_suspend_overdue e1) s)"
    using rtranclp.rtrancl_into_rtrancl [OF assms(1) Request [of s e1 CronSuspend]] by simp
  moreover have "transaction (serve e2 CronJobs) (transaction (cron_suspend_overdue e1) s) = u"
    using assms(6) by (simp add: transaction_returns)
  ultimately have "sys_step\<^sup>*\<^sup>* blank_sys u" by (metis Request rtranclp.rtrancl_into_rtrancl)
  then have reach: "sys_step\<^sup>*\<^sup>* blank_sys ?v" by (rule rtranclp.rtrancl_into_rtrancl) (rule Accounting)
  have fifo: "job_fifo ?v = []" using u(1) by (simp add: job_fifo_def)
  have suspended: "(\<exists>r. tget (subs ?v) k = Some r \<and> sub_state r = SubSuspended) \<longleftrightarrow> k \<in> set ?ks" for k
  proof (cases "k \<in> set ?ks")
    case True
    with overdue_active [OF True] show ?thesis by (auto simp: u(2))
  next
    case False
    with assms(3) show ?thesis by (auto simp: u(2))
  qed
  have "set (subs_where (\<lambda>r. sub_state r = SubSuspended) ?v) = set ?ks"
    using suspended by (auto simp: subs_where_def search_ids_iff)
  moreover have "distinct (subs_where (\<lambda>r. sub_state r = SubSuspended) ?v)"
    by (simp add: subs_where_def distinct_search_ids)
  ultimately have "length (subs_where (\<lambda>r. sub_state r = SubSuspended) ?v) \<le> 20"
    using assms(5) by (metis card_length distinct_card le_trans)
  from paid_customers_effect [OF reach fifo this assms(8)]
  have w: "tget (subs w) k = map_option (\<lambda>r. if sub_state r = SubSuspended \<and>
      (\<nexists>i m. tget ms i = Some m \<and> mv_subscription_id m = Some k \<and> open_move m)
    then r\<lparr>sub_state := SubActive\<rparr> else r) (tget (subs u) k)" by simp
  show ?thesis
  proof (cases "k \<in> set ?ks")
    case True
    from overdue_active [OF True] obtain r where r: "tget (subs s) k = Some r" "sub_state r = SubActive" by blast
    have "\<nexists>i m. tget ms i = Some m \<and> mv_subscription_id m = Some k \<and> open_move m" using assms(7) True by blast
    with True r show ?thesis unfolding w u(2) by simp
  next
    case False
    with assms(3) show ?thesis unfolding w u(2) by (cases "tget (subs s) k") simp_all
  qed
qed

theorem payment_undoes_suspension_witness: "tget (subs late_back) 1 = tget (subs late_sys) 1"
proof (rule payment_undoes_suspension [OF late_reached late_facts(1) _ late_days _ late_cut_run _ late_back_run])
  have "list_all (\<lambda>x. sub_state (snd x) \<noteq> SubSuspended) (subs late_sys)" by code_simp
  then show "\<forall>k r. tget (subs late_sys) k = Some r \<longrightarrow> sub_state r \<noteq> SubSuspended"
    by (force simp: list_all_iff tget_def dest!: map_of_SomeD)
qed (simp_all add: late_facts(2) tget_def)

end
