(* ===== verification/Command_Flow.thy ===== *)
theory Command_Flow
  imports Service_Flow
begin

text \<open>
  From a button to the router: the activation of a subscription (\<open>action_activate\<close> of
  \<open>isp_core/models/subscription.py\<close>) and a plan change request
  (\<open>action_apply\<close> of \<open>isp_core/models/plan_change_request.py\<close>) through the job
  queue and the worker to the handlers of \<open>isp_mikrotik/models/provisioning_job.py\<close>, and what
  the router has accepted when the worker's run returns.
\<close>

section \<open>Every job has a subscription when its handler needs one\<close>

definition typed_jobs :: "sys \<Rightarrow> bool" where
  "typed_jobs s \<longleftrightarrow> (\<forall>j job. tget (jobs s) j = Some job \<longrightarrow> well_typed s (job_type job) (job_subscription_id job))"

lemma well_typed_mono:
  "well_typed s jt a \<Longrightarrow> dom (tget (subs s)) \<subseteq> dom (tget (subs t)) \<Longrightarrow> well_typed t jt a"
  by (cases a) (auto simp: well_typed_def)

lemma typed_jobs_queue: "queue_free e typed_jobs"
  by (auto simp: queue_free_def typed_jobs_def tbl.look_ins new_job_def well_typed_def split: if_splits option.splits)

lemma typed_jobs_same:
  assumes "typed_jobs s" and "jobs t = jobs s" and "dom (tget (subs s)) \<subseteq> dom (tget (subs t))"
  shows "typed_jobs t"
  using assms well_typed_mono [OF _ assms(3)] by (simp add: typed_jobs_def)

lemma typed_jobs_free:
  "audit_free typed_jobs" "mail_free typed_jobs" "wire_free typed_jobs" "seq_free typed_jobs"
  "draw_free typed_jobs" "sub_free typed_jobs" "router_free typed_jobs" "device_name_free typed_jobs"
  "captive_free typed_jobs" "pcr_free typed_jobs" "flt_free typed_jobs" "trf_free typed_jobs"
  "asg_free typed_jobs" "profile_free typed_jobs" "partner_free typed_jobs" "move_free typed_jobs"
  "acct_free typed_jobs" "attach_free typed_jobs" "preconfig_free typed_jobs"
  by (simp_all add: all_frees typed_jobs_same)

lemma dispatch_keeps_ids: "dom (tget (subs s)) \<subseteq> dom (tget (subs (snd (dispatch e j s))))"
proof -
  have "keeps_all (\<lambda>t. dom (tget (subs s)) \<subseteq> dom (tget (subs t))) (dispatch e j)"
  proof (rule keeps_all_dispatch)
    show "sub_free (\<lambda>t. dom (tget (subs s)) \<subseteq> dom (tget (subs t)))"
      unfolding sub_free_def by simp (meson order_trans)
  qed (simp_all add: all_frees)
  then show ?thesis by (simp add: keeps_all_def)
qed

lemma keeps_typed_execute [keeps_intros]: "keeps typed_jobs (execute e j)"
  unfolding keeps_def
proof (intro allI impI)
  fix s s' and x :: unit
  assume ok: "typed_jobs s" and ex: "execute e j s = (Inr x, s')"
  have upd: "typed_jobs t" if t: "jobs t = tupd j f (jobs s)" "dom (tget (subs s)) \<subseteq> dom (tget (subs t))"
    and f: "\<And>job. job_type (f job) = job_type job \<and> job_subscription_id (f job) = job_subscription_id job" for t f
    unfolding typed_jobs_def
  proof (intro allI impI)
    fix k job'
    assume "tget (jobs t) k = Some job'"
    then obtain job where "tget (jobs s) k = Some job" "job_type job' = job_type job"
        "job_subscription_id job' = job_subscription_id job"
      using t(1) f by (auto simp: tbl.look_upd split: if_splits)
    with ok show "well_typed t (job_type job') (job_subscription_id job')"
      using well_typed_mono [OF _ t(2)] by (simp add: typed_jobs_def)
  qed
  from ex show "typed_jobs s'"
  proof (cases rule: execute_cases)
    case (exhausted job)
    have "jobs s' = tupd j (\<lambda>r. r\<lparr>job_state := JobFailed, job_error_message := Some ''Max attempts reached''\<rparr>) (jobs s)"
      by (simp add: exhausted(5))
    then show ?thesis by (rule upd) (simp_all add: exhausted(5))
  next
    case (success job t)
    let ?s = "s\<lparr>jobs := tupd j (start_job e) (jobs s)\<rparr>"
    have "jobs s' = tupd j ((\<lambda>r. r\<lparr>job_state := JobSuccess\<rparr>) \<circ> start_job e) (jobs s)"
      using dispatch_jobs [of e j ?s] success(4,6) by (auto simp: tupd_def)
    moreover have "dom (tget (subs s)) \<subseteq> dom (tget (subs s'))"
      using dispatch_keeps_ids [of ?s e j] success(4,6) by simp
    ultimately show ?thesis by (rule upd) (simp add: start_job_def)
  qed (use ok in simp_all)
qed

lemma serve_keeps_typed: "keeps typed_jobs (serve e r)"
proof (cases r)
  case (RunJobs ids)
  then show ?thesis by (simp add: action_run_def keeps_for_each keeps_typed_execute)
next
  case CronJobs
  then show ?thesis by (simp add: cron_run_pending_jobs_def keeps_bnd keeps_gets keeps_for_each keeps_typed_execute)
qed (simp_all only: serve.simps,
    (rule keeps_all_imp, (intro typed_jobs_queue typed_jobs_free keeps_all_intros; fail))+)

lemma env_free_typed: "env_free typed_jobs"
  using typed_jobs_free by (simp add: env_free_def typed_jobs_same)

interpretation typed: guarded_system sys_step typed_jobs
  by unfold_locales (rule step_keeps, assumption+, rule env_free_typed, rule serve_keeps_typed)



section \<open>Calls the router accepted\<close>

text \<open>
  The router \<open>rt\<close> accepted a call of one of the \<open>paths\<close> on the object \<open>who\<close> (the first
  argument, its name or number) with at least the arguments \<open>args\<close>.
\<close>

definition accepted_call :: "env \<Rightarrow> sys \<Rightarrow> nat \<Rightarrow> string list \<Rightarrow> pyval \<Rightarrow> (string \<times> pyval) list \<Rightarrow> bool" where
  "accepted_call e s rt paths who args \<longleftrightarrow> (\<exists>w c rest rows. wire s = w @ (rt, c) # rest \<and>
     router_api e w rt c = Inr rows \<and> cmd_path c \<in> set paths \<and>
     map snd (take 1 (cmd_args c)) = [who] \<and> set args \<subseteq> set (cmd_args c))"

lemma accepted_later:
  assumes "accepted_call e s rt paths who args" and "wire t = wire s @ ws"
  shows "accepted_call e t rt paths who args"
  using assms unfolding accepted_call_def by (metis append.assoc append_Cons)

lemma accepted_same_wire: "accepted_call e s rt paths who args \<Longrightarrow> wire t = wire s \<Longrightarrow> accepted_call e t rt paths who args"
  by (simp add: accepted_call_def)

lemma accepted_last:
  assumes "wire s = w @ [(rt, c)]" and "router_api e w rt c = Inr rows"
    and "cmd_path c \<in> set paths \<and> map snd (take 1 (cmd_args c)) = [who] \<and> set args \<subseteq> set (cmd_args c)"
  shows "accepted_call e s rt paths who args"
  unfolding accepted_call_def using assms
  by (intro exI [of _ w] exI [of _ c] exI [of _ "[]"] exI [of _ rows]) simp

text \<open>\<open>try: add; except LibRouterosError: set\<close>.\<close>

lemma try_cmd_accepts:
  assumes "try_cmd e (RouterOSAdapter rt) c (ignore (client_cmd e (RouterOSAdapter rt) c')) s = (Inr (), s')"
    and "\<And>d. d \<in> {c, c'} \<Longrightarrow> cmd_path d \<in> set paths \<and> map snd (take 1 (cmd_args d)) = [who] \<and> set args \<subseteq> set (cmd_args d)"
  shows "\<exists>ws. s' = s\<lparr>wire := wire s @ ws\<rparr> \<and> accepted_call e s' rt paths who args"
proof (cases "router_api e (wire s) rt c")
  case (Inl x)
  with assms(1) obtain rows where rows: "router_api e (wire s @ [(rt, c)]) rt c' = Inr rows"
      and s': "s' = s\<lparr>wire := wire s @ [(rt, c), (rt, c')]\<rparr>"
    by (auto simp: try_cmd_def ignore_def adapter_cmd_def run_simps split: sum.splits if_splits)
  have "wire s' = (wire s @ [(rt, c)]) @ [(rt, c')]" using s' by simp
  then have "accepted_call e s' rt paths who args" using rows by (rule accepted_last) (rule assms(2), simp)
  with s' show ?thesis by blast
next
  case (Inr rows)
  with assms(1) have s': "s' = s\<lparr>wire := wire s @ [(rt, c)]\<rparr>"
    by (auto simp: try_cmd_def adapter_cmd_def run_simps)
  then have "wire s' = wire s @ [(rt, c)]" by simp
  then have "accepted_call e s' rt paths who args" using Inr by (rule accepted_last) (rule assms(2), simp)
  with s' show ?thesis by blast
qed

text \<open>What the router is told of a customer: the PPPoE secret and the queue.\<close>

definition secret_set_up :: "env \<Rightarrow> sys \<Rightarrow> nat \<Rightarrow> subscription \<Rightarrow> bool" where
  "secret_set_up e s rt r \<longleftrightarrow> accepted_call e s rt [''/ppp/secret/add'', ''/ppp/secret/set'']
     (char_val (sub_pppoe_username r))
     [(''password'', char_val (sub_pppoe_password r)), (''profile'', PStr (plan_profile s r))]"

definition queue_set_up :: "env \<Rightarrow> sys \<Rightarrow> nat \<Rightarrow> subscription \<Rightarrow> bool" where
  "queue_set_up e s rt r \<longleftrightarrow> accepted_call e s rt [''/queue/simple/add'', ''/queue/simple/set'']
     (PStr (sub_name r)) [(''max-limit'', PStr (max_limit e s r))]"

lemma secret_ensured:
  assumes "routeros_pppoe_ensure_secret e (RouterOSAdapter rt) i s = (Inr (), s')" and "tget (subs s) i = Some r"
  shows "\<exists>ws. s' = s\<lparr>wire := wire s @ ws\<rparr> \<and> secret_set_up e s' rt r"
proof -
  let ?c = "Cmd ''/ppp/secret/add''
          [(''name'', char_val (sub_pppoe_username r)), (''password'', char_val (sub_pppoe_password r)),
           (''profile'', PStr (plan_profile s r)), (''service'', PStr ''pppoe'')]"
    and ?c' = "Cmd ''/ppp/secret/set''
          [(''numbers'', char_val (sub_pppoe_username r)), (''password'', char_val (sub_pppoe_password r)),
           (''profile'', PStr (plan_profile s r)), (''disabled'', PStr ''no'')]"
  have run: "try_cmd e (RouterOSAdapter rt) ?c (ignore (client_cmd e (RouterOSAdapter rt) ?c')) s = (Inr (), s')"
    using assms by (simp add: routeros_pppoe_ensure_secret_def bnd_run rd_run gets_run)
  have "\<exists>ws. s' = s\<lparr>wire := wire s @ ws\<rparr> \<and> accepted_call e s' rt [''/ppp/secret/add'', ''/ppp/secret/set'']
     (char_val (sub_pppoe_username r))
     [(''password'', char_val (sub_pppoe_password r)), (''profile'', PStr (plan_profile s r))]"
    by (rule try_cmd_accepts [OF run]) auto
  then show ?thesis by (auto simp: secret_set_up_def plan_profile_def)
qed

lemma queue_ensured:
  assumes "routeros_queue_ensure e (RouterOSAdapter rt) i s = (Inr (), s')" and "tget (subs s) i = Some r"
  shows "\<exists>ws. s' = s\<lparr>wire := wire s @ ws\<rparr> \<and> (set_str (sub_service_ip r) \<longrightarrow> queue_set_up e s' rt r)"
proof (cases "set_str (sub_service_ip r)")
  case True
  let ?c = "Cmd ''/queue/simple/add''
            [(''name'', PStr (sub_name r)), (''target'', PStr (or_str (sub_service_ip r) [] @ ''/32'')),
             (''max-limit'', PStr (max_limit e s r)), (''comment'', PStr (sub_name r))]"
    and ?c' = "Cmd ''/queue/simple/set''
            [(''numbers'', PStr (sub_name r)), (''max-limit'', PStr (max_limit e s r)), (''disabled'', PStr ''no'')]"
  have run: "try_cmd e (RouterOSAdapter rt) ?c (ignore (client_cmd e (RouterOSAdapter rt) ?c')) s = (Inr (), s')"
    using assms True by (simp add: routeros_queue_ensure_def bnd_run rd_run gets_run)
  have "\<exists>ws. s' = s\<lparr>wire := wire s @ ws\<rparr> \<and> accepted_call e s' rt [''/queue/simple/add'', ''/queue/simple/set'']
     (PStr (sub_name r)) [(''max-limit'', PStr (max_limit e s r))]"
    by (rule try_cmd_accepts [OF run]) auto
  then show ?thesis by (auto simp: queue_set_up_def max_limit_def)
next
  case False
  then have "s' = s\<lparr>wire := wire s @ []\<rparr>"
    using assms by (simp add: routeros_queue_ensure_def bnd_run rd_run ret_run)
  with False show ?thesis by blast
qed

lemma set_up_later:
  assumes "wire t = wire s @ ws" and "plans t = plans s"
  shows "secret_set_up e s rt r \<Longrightarrow> secret_set_up e t rt r" "queue_set_up e s rt r \<Longrightarrow> queue_set_up e t rt r"
  using assms accepted_later [of e s rt _ _ _ t ws]
  by (simp_all add: secret_set_up_def queue_set_up_def plan_profile_def max_limit_def)

section \<open>The handlers\<close>

lemma service_type_run:
  "tget (subs s) i = Some r \<Longrightarrow> service_type_of i s = (Inr (map_option plan_service_type (deref (plans s) (sub_plan_id r))), s)"
  by (simp add: service_type_of_def run_simps)

lemma get_router_same: "get_router e j s = (Inr rt, s') \<Longrightarrow> s' = s"
  using keeps_allD [OF keeps_all_get_router, of "\<lambda>t. t = s"] by blast

lemma lease_keeps:
  assumes "routeros_dhcp_ensure_lease e cl i s = (Inr u, s')"
  shows "subs s' = subs s" "plans s' = plans s" "jobs s' = jobs s"
proof -
  have "keeps_all (\<lambda>t. subs t = subs s \<and> plans t = plans s \<and> jobs t = jobs s) (routeros_dhcp_ensure_lease e cl i)"
    by (intro keeps_all_intros; simp add: free_defs)
  from keeps_allD [OF this _ assms] show "subs s' = subs s" "plans s' = plans s" "jobs s' = jobs s" by simp_all
qed

lemma change_plan_handler:
  assumes "handle_change_plan e j s = (Inr u, s')" and "\<not> dry_run e"
    and "tget (jobs s) j = Some job" and "job_subscription_id job = Some i" and "tget (subs s) i = Some r"
  shows "\<exists>rt ws. s' = s\<lparr>wire := wire s @ ws\<rparr> \<and>
    (map_option plan_service_type (deref (plans s) (sub_plan_id r)) = Some STPppoe \<longrightarrow> secret_set_up e s' rt r) \<and>
    (set_str (sub_service_ip r) \<longrightarrow> queue_set_up e s' rt r)"
proof -
  let ?st = "map_option plan_service_type (deref (plans s) (sub_plan_id r))"
  have sub: "job_subscription j s = (Inr i, s)" using assms(3,4) by (simp add: job_subscription_def run_simps)
  from assms(1) sub obtain rt s0 cl s1 st s2 t where steps: "get_router e j s = (Inr rt, s0)"
      "get_routeros_client e rt s0 = (Inr cl, s1)" "service_type_of i s1 = (Inr st, s2)"
      "do_if (st = Some STPppoe) (routeros_pppoe_ensure_secret e cl i) s2 = (Inr (), t)"
      "routeros_queue_ensure e cl i t = (Inr u, s')"
    by (auto simp: handle_change_plan_def elim!: bnd_ok andthen_ok)
  have cl: "s0 = s" "cl = RouterOSAdapter rt" "s1 = s"
    using get_router_same [OF steps(1)] get_routeros_client_ok [OF steps(2)] assms(2) by simp_all
  have st: "st = ?st" "s2 = s" using steps(3) unfolding cl service_type_run [OF assms(5)] by auto
  note secret = steps(4) [unfolded st cl] and queue = steps(5) [unfolded cl]
  obtain ws where t: "t = s\<lparr>wire := wire s @ ws\<rparr>" "?st = Some STPppoe \<longrightarrow> secret_set_up e t rt r"
  proof (cases "?st = Some STPppoe")
    case True
    with secret secret_ensured [of e rt i s t, OF _ assms(5)] that show ?thesis by (auto simp: do_if_run)
  next
    case False
    with secret have "t = s\<lparr>wire := wire s @ []\<rparr>" by (auto simp: do_if_run split: if_splits)
    with False that show ?thesis by blast
  qed
  have "tget (subs t) i = Some r" using assms(5) by (simp add: t(1))
  with queue queue_ensured [of e rt i t s'] obtain vs where
      s': "s' = t\<lparr>wire := wire t @ vs\<rparr>" "set_str (sub_service_ip r) \<longrightarrow> queue_set_up e s' rt r" by auto
  have "secret_set_up e s' rt r" if "?st = Some STPppoe"
    by (rule set_up_later(1) [of s' t vs]) (use s'(1) t(2) that in simp_all)
  with s' t(1) show ?thesis by (intro exI [of _ rt] exI [of _ "ws @ vs"]) simp
qed

text \<open>The access part of the activation: a secret for PPPoE, a lease for DHCP, nothing otherwise.\<close>

lemma access_set_up:
  assumes run: "(if st = Some STPppoe then routeros_pppoe_ensure_secret e (RouterOSAdapter rt) i
      else if st = Some STDhcp then routeros_dhcp_ensure_lease e (RouterOSAdapter rt) i else ret ()) a = (Inr (), t)"
    and row: "tget (subs a) i = Some q"
  shows "tget (subs t) i = Some q" and "plans t = plans a" and "st = Some STPppoe \<longrightarrow> secret_set_up e t rt q"
proof -
  consider "st = Some STPppoe" | "st = Some STDhcp" | "st \<noteq> Some STPppoe" "st \<noteq> Some STDhcp" by blast
  then have "tget (subs t) i = Some q \<and> plans t = plans a \<and> (st = Some STPppoe \<longrightarrow> secret_set_up e t rt q)"
  proof cases
    case 1
    with run secret_ensured [OF _ row] show ?thesis using row by fastforce
  next
    case 2
    with run have "routeros_dhcp_ensure_lease e (RouterOSAdapter rt) i a = (Inr (), t)" by simp
    from lease_keeps [OF this] 2 row show ?thesis by auto
  next
    case 3
    with run have "t = a" by (auto simp: ret_run split: if_splits)
    with 3 row show ?thesis by auto
  qed
  then show "tget (subs t) i = Some q" "plans t = plans a" "st = Some STPppoe \<longrightarrow> secret_set_up e t rt q" by simp_all
qed

lemma activate_handler:
  assumes "handle_activate_subscription e j s = (Inr u, s')" and "\<not> dry_run e" and "subs_ok s"
    and "tget (jobs s) j = Some job" and "job_subscription_id job = Some i" and "tget (subs s) i = Some r"
  shows "\<exists>rt. tget (subs s') i = Some ((fill_profile s r)\<lparr>sub_state := SubActive,
      sub_start_date := (case sub_start_date r of None \<Rightarrow> Some (today e) | Some d \<Rightarrow> Some d)\<rparr>) \<and>
    (map_option plan_service_type (deref (plans s) (sub_plan_id r)) = Some STPppoe \<longrightarrow>
      secret_set_up e s' rt (fill_profile s r)) \<and>
    (set_str (sub_service_ip r) \<longrightarrow> queue_set_up e s' rt (fill_profile s r)) \<and> plans s' = plans s"
proof -
  define q where "q = fill_profile s r"
  have same: "sub_plan_id q = sub_plan_id r" "sub_service_ip q = sub_service_ip r" "sub_start_date q = sub_start_date r"
    by (simp_all add: q_def fill_profile_def Let_def)
  have sub: "job_subscription j s = (Inr i, s)" using assms(4,5) by (simp add: job_subscription_def run_simps)
  from ensure_pppoe_on_valid [OF assms(3,6), of e] obtain a v where
      en: "ensure_pppoe_credentials e i s = (Inr (), a)" and a: "a = s\<lparr>subs := v\<rparr>" and row: "tget (subs a) i = Some q"
    by (auto simp: q_def)
  let ?st = "map_option plan_service_type (deref (plans a) (sub_plan_id q))"
  from assms(1) sub en obtain rt s0 cl s1 st s2 t b r' b' where steps: "get_router e j a = (Inr rt, s0)"
      "get_routeros_client e rt s0 = (Inr cl, s1)" "service_type_of i s1 = (Inr st, s2)"
      "(if st = Some STPppoe then routeros_pppoe_ensure_secret e cl i
        else if st = Some STDhcp then routeros_dhcp_ensure_lease e cl i else ret ()) s2 = (Inr (), t)"
      "routeros_queue_ensure e cl i t = (Inr (), b)" "rd subs i b = (Inr r', b')"
      "sub_write e i [V_state SubActive,
       V_start_date (case sub_start_date r' of None \<Rightarrow> Some (today e) | Some d \<Rightarrow> Some d)] b' = (Inr u, s')"
    by (auto simp: handle_activate_subscription_def elim!: bnd_ok andthen_ok)
  have cl: "s0 = a" "cl = RouterOSAdapter rt" "s1 = a"
    using get_router_same [OF steps(1)] get_routeros_client_ok [OF steps(2)] assms(2) by simp_all
  have st: "st = ?st" "s2 = a" using steps(3) unfolding cl service_type_run [OF row] by auto
  note t = access_set_up [OF steps(4) [unfolded st cl] row]
  from queue_ensured [OF steps(5) [unfolded cl] t(1)] obtain ws where
      b: "b = t\<lparr>wire := wire t @ ws\<rparr>" "set_str (sub_service_ip q) \<longrightarrow> queue_set_up e b rt q" by blast
  have "b' = b" "r' = q" using steps(6) t(1) b(1) by (simp_all add: rd_run)
  with sub_write_ok(2) [OF steps(7)] have s': "s' = b\<lparr>subs := tupd i (\<lambda>r. r\<lparr>sub_state := SubActive,
      sub_start_date := (case sub_start_date q of None \<Rightarrow> Some (today e) | Some d \<Rightarrow> Some d)\<rparr>) (subs b)\<rparr>"
    by (simp add: comp_def)
  have plans: "plans s' = plans s" using s' b(1) t(2) a by simp
  have st': "?st = map_option plan_service_type (deref (plans s) (sub_plan_id r))" by (simp add: a same(1))
  have "secret_set_up e s' rt q" if "?st = Some STPppoe"
    by (rule set_up_later(1) [of s' t ws]) (use s' b(1) t(3) that in simp_all)
  moreover have "queue_set_up e s' rt q" if "set_str (sub_service_ip q)"
    by (rule set_up_later(2) [of s' b "[]"]) (use s' b(2) that in simp_all)
  moreover have "tget (subs s') i = Some (q\<lparr>sub_state := SubActive,
      sub_start_date := (case sub_start_date r of None \<Rightarrow> Some (today e) | Some d \<Rightarrow> Some d)\<rparr>)"
    using s' b(1) t(1) same(3) by (simp add: tbl.look_upd)
  ultimately show ?thesis using plans unfolding st' same(2) q_def [symmetric] by blast
qed

section \<open>Through the queue\<close>

lemma served_single:
  assumes "keyed_jobs s" and "keyed_jobs t" and "jobs_clean t" and "job_fifo s = []"
    and "map job_key (jobs t) = map job_key (jobs s) @ [(jt, Some i, JobQueued)]"
    and "cron_run_pending_jobs e t = (Inr (), u)" and "dispatch_handler e jt = Some h"
  shows "\<exists>j job a b v. tget a j = Some job \<and> job_subscription_id job = Some i \<and>
    h j (t\<lparr>jobs := a\<rparr>) = (Inr (), v) \<and> u = v\<lparr>jobs := b\<rparr>"
proof -
  have keys: "map job_key (jobs t) = map job_key (jobs s) @ map (\<lambda>k. (jt, Some k, JobQueued)) [i]"
    using assms(5) by simp
  note batch = queued_batch [OF assms(1,2,4) keys]
  from batch(1) obtain j where fifo: "job_fifo t = [j]" by (auto simp: length_Suc_conv)
  with batch(2) [of j] obtain job where job: "tget (jobs t) j = Some job" "job_type job = jt"
      "job_subscription_id job = Some i" by auto
  from fifo job(1) have "job_state job = JobQueued" using fifo_iff [of j t] by simp
  with assms(3) job(1) have att: "job_state job = JobQueued" "job_attempts job < job_max_attempts job"
    by (fastforce simp: jobs_clean_def)+
  let ?t = "t\<lparr>jobs := tupd j (start_job e) (jobs t)\<rparr>"
  have run: "execute e j t = (Inr (), u)"
    using assms(6) fifo
    by (auto simp: cron_run_pending_jobs_def bnd_run gets_run pending_fifo andthen_run ret_run split: prod.splits sum.splits)
  have row: "tget (jobs ?t) j = Some (start_job e job)" "job_type (start_job e job) = jt"
      "job_subscription_id (start_job e job) = Some i"
    using job by (simp_all add: tbl.look_upd start_job_def)
  from run show ?thesis
  proof (cases rule: execute_cases)
    case (success job' v)
    have "h j ?t = (Inr (), v)"
      using success(4) row assms(7) by (simp add: dispatch_def bnd_run rd_run)
    with row success(6) show ?thesis by fastforce
  qed (use job att in simp_all)
qed

lemma set_up_same:
  assumes "wire t = wire s" and "plans t = plans s"
  shows "secret_set_up e t rt r = secret_set_up e s rt r" "queue_set_up e t rt r = queue_set_up e s rt r"
  using assms by (simp_all add: secret_set_up_def queue_set_up_def plan_profile_def max_limit_def accepted_call_def)

lemma step_reach: "sys_step\<^sup>*\<^sup>* blank_sys s \<Longrightarrow> serve e r s = (Inr (), t) \<Longrightarrow> sys_step\<^sup>*\<^sup>* blank_sys t"
  by (metis Request rtranclp.rtrancl_into_rtrancl transaction_returns)

text \<open>C3. Activating a subscription. In a reachable database with an empty job queue, the button
  \<open>action_activate\<close> on an existing subscription always returns and queues its job. When the run of
  the worker that follows returns, outside a dry run, the subscription is active, has a start date
  (today, if it had none) and the profile of its plan if it had none, and is otherwise as it was;
  and some router has accepted its PPPoE secret with its user name, password and profile, if its
  plan is a PPPoE plan, and its queue with the rates of its plan, if it has a service address.\<close>

theorem activation_reaches_router:
  assumes "sys_step\<^sup>*\<^sup>* blank_sys s" and "job_fifo s = []" and "tget (subs s) i = Some r"
  shows "\<exists>t. action_activate e [i] s = (Inr (), t) \<and>
    (\<forall>u. \<not> dry_run e' \<longrightarrow> cron_run_pending_jobs e' t = (Inr (), u) \<longrightarrow> (\<exists>rt.
       tget (subs u) i = Some ((fill_profile s r)\<lparr>sub_state := SubActive,
         sub_start_date := (case sub_start_date r of None \<Rightarrow> Some (today e') | Some d \<Rightarrow> Some d)\<rparr>) \<and>
       (map_option plan_service_type (deref (plans s) (sub_plan_id r)) = Some STPppoe \<longrightarrow>
         secret_set_up e' u rt (fill_profile s r)) \<and>
       (set_str (sub_service_ip r) \<longrightarrow> queue_set_up e' u rt (fill_profile s r))))"
proof -
  have ok: "subs_ok s" by (rule checked_subs.reach_inv [OF assms(1) blank_ok(2)])
  from ensure_pppoe_on_valid [OF ok assms(3), of e] obtain a v where
      en: "ensure_pppoe_credentials e i s = (Inr (), a)" and a: "a = s\<lparr>subs := v\<rparr>"
      and row: "tget (subs a) i = Some (fill_profile s r)" by auto
  from queue_job_run [OF row, of e activate_subscription "[]"] obtain t where
      t: "action_activate e [i] s = (Inr (), t)" "subs t = subs a" "plans t = plans s"
        "jobs t = tins (queued_job e a i activate_subscription []) (jobs s)"
    using en by (simp add: action_activate_def andthen_run ignore_def bnd_run ret_run a)
  have reach: "sys_step\<^sup>*\<^sup>* blank_sys t" by (rule step_reach [OF assms(1), of e "ActivateSubscriptions [i]"]) (simp add: t(1))
  have keys: "map job_key (jobs t) = map job_key (jobs s) @ [(activate_subscription, Some i, JobQueued)]"
    by (simp add: t(4) tins_def job_key_def queued_job_def new_job_def)
  have idem: "fill_profile (t\<lparr>jobs := b\<rparr>) (fill_profile s r) = fill_profile s r" for b
    by (auto simp: fill_profile_def Let_def t(3))
  have same: "sub_plan_id (fill_profile s r) = sub_plan_id r" "sub_service_ip (fill_profile s r) = sub_service_ip r"
      "sub_start_date (fill_profile s r) = sub_start_date r"
    by (simp_all add: fill_profile_def Let_def)
  have "\<exists>rt. tget (subs u) i = Some ((fill_profile s r)\<lparr>sub_state := SubActive,
         sub_start_date := (case sub_start_date r of None \<Rightarrow> Some (today e') | Some d \<Rightarrow> Some d)\<rparr>) \<and>
       (map_option plan_service_type (deref (plans s) (sub_plan_id r)) = Some STPppoe \<longrightarrow>
         secret_set_up e' u rt (fill_profile s r)) \<and>
       (set_str (sub_service_ip r) \<longrightarrow> queue_set_up e' u rt (fill_profile s r))"
    if wet: "\<not> dry_run e'" and run: "cron_run_pending_jobs e' t = (Inr (), u)" for u
  proof -
    have "dispatch_handler e' activate_subscription = Some (handle_activate_subscription e')" by simp
    from served_single [OF reachable_keyed [OF assms(1)] reachable_keyed [OF reach]
        clean_jobs.reach_inv [OF reach blank_ok(1)] assms(2) keys run this]
    obtain j job b c w where h: "tget b j = Some job" "job_subscription_id job = Some i"
        "handle_activate_subscription e' j (t\<lparr>jobs := b\<rparr>) = (Inr (), w)" "u = w\<lparr>jobs := c\<rparr>" by blast
    have "subs_ok (t\<lparr>jobs := b\<rparr>)"
      using checked_subs.reach_inv [OF reach blank_ok(2)] subs_ok_job_free by (simp add: job_free_def)
    from activate_handler [OF h(3) wet this _ h(2), of "fill_profile s r"] h(1) row t(2)
    show ?thesis by (simp add: idem same h(4) t(3) set_up_same [of "w\<lparr>jobs := c\<rparr>" w]) blast
  qed
  with t(1) show ?thesis by blast
qed

text \<open>A network with a new customer, whose router answers.\<close>

definition new_sys :: sys where
  "new_sys = transaction (serve plain_env (CreateSubscriptions [[V_partner_id (Some 1), V_plan_id (Some 1),
      V_sector_id (Some 1), V_pppoe_username (Some ''u''), V_pppoe_password (Some ''p''), V_gps_lat 1, V_gps_lng 1,
      V_service_ip (Some ''10.0.0.2'')]])) demo_network"

lemma new_reached: "sys_step\<^sup>*\<^sup>* blank_sys new_sys"
  unfolding new_sys_def by (rule demo_network_runs)

lemma new_facts:
  "job_fifo new_sys = []" "map_option sub_state (tget (subs new_sys) 1) = Some SubDraft"
  "\<not> isl (fst (cron_run_pending_jobs plain_env (transaction (action_activate plain_env [1]) new_sys)))"
  by code_simp+

theorem activation_reaches_router_witness:
  "\<exists>u. cron_run_pending_jobs plain_env (transaction (action_activate plain_env [1]) new_sys) = (Inr (), u) \<and>
     map_option sub_state (tget (subs u) 1) = Some SubActive"
proof -
  from new_facts(2) obtain r where r: "tget (subs new_sys) 1 = Some r" by auto
  have wet: "\<not> dry_run plain_env" by (simp add: dry_run_def plain_env_def)
  from activation_reaches_router [OF new_reached new_facts(1) r, of plain_env plain_env] obtain t where
      t: "action_activate plain_env [1] new_sys = (Inr (), t)"
      and post: "\<And>u. cron_run_pending_jobs plain_env t = (Inr (), u) \<Longrightarrow>
        \<exists>q d. tget (subs u) 1 = Some (q\<lparr>sub_state := SubActive, sub_start_date := d\<rparr>)"
    using wet by meson
  have eq: "transaction (action_activate plain_env [1]) new_sys = t" using t by (rule transaction_returns)
  have run: "cron_run_pending_jobs plain_env t = (Inr (), transaction (cron_run_pending_jobs plain_env) t)"
    by (rule returned_unit [of "cron_run_pending_jobs plain_env", OF new_facts(3) [unfolded eq]])
  from post [OF run] have "map_option sub_state (tget (subs (transaction (cron_run_pending_jobs plain_env) t)) 1) = Some SubActive"
    by auto
  with run show ?thesis unfolding eq by blast
qed


text \<open>The new customer asks for a faster plan.\<close>

definition change_sys :: sys where
  "change_sys = transaction (serve plain_env (CreatePlanRequests [[P_subscription_id (Some 1), P_requested_plan_id (Some 2)]]))
     (new_sys\<lparr>plans := [(1, demo_plan), (2, demo_plan\<lparr>plan_download_mbps := 100\<rparr>)]\<rparr>)"

lemma new_plans: "map fst (plans new_sys) = [1]"
  by code_simp

lemma change_reached: "sys_step\<^sup>*\<^sup>* blank_sys change_sys"
proof -
  let ?ps = "[(1, demo_plan), (2, demo_plan\<lparr>plan_download_mbps := 100\<rparr>)]"
  have "sys_step new_sys (new_sys\<lparr>plans := ?ps, sectors := sectors new_sys, routers := routers new_sys,
      captive_users := captive_users new_sys, walled_gardens := walled_gardens new_sys\<rparr>)"
    by (rule Master, rule plans_kept_grow) (use new_plans in \<open>auto simp: tget_def dom_map_of_conv_image_fst split: if_splits simp flip: set_map\<close>)
  then have "sys_step new_sys (new_sys\<lparr>plans := ?ps\<rparr>)" by simp
  with new_reached have "sys_step\<^sup>*\<^sup>* blank_sys (new_sys\<lparr>plans := ?ps\<rparr>)" by (rule rtranclp.rtrancl_into_rtrancl)
  then show ?thesis unfolding change_sys_def by (rule rtranclp.rtrancl_into_rtrancl) (rule Request)
qed

lemma change_facts:
  "job_fifo change_sys = []" "map_option sub_plan_id (tget (subs change_sys) 1) = Some (Some 1)"
  "map_option (\<lambda>r. (pcr_subscription_id r, pcr_requested_plan_id r)) (tget (pcrs change_sys) 1) = Some (Some 1, Some 2)"
  "\<not> isl (fst (cron_run_pending_jobs plain_env (transaction (pcr_action_apply plain_env [1]) change_sys)))"
  by code_simp+


end
