(* ===== verification/Network_Scan.thy ===== *)
theory Network_Scan
  imports Py "HOL-Library.Word"
begin

text \<open>
  The port scan of the preloader (\<open>scan_subnet_for_api\<close>): which addresses of the management
  network it tries, and in which order. Addresses are 32-bit words; \<open>ip_network\<close> with
  \<open>strict=False\<close>, \<open>hosts\<close> and \<open>str\<close> of the standard library are written out for
  IPv4. Whether a connection succeeds, and the hosts of a network that is not IPv4 (or the
  exception that \<open>ip_network\<close> raises), are parameters.
\<close>

unbundle bit_operations_syntax

section \<open>Addresses\<close>

definition octet :: "32 word \<Rightarrow> nat \<Rightarrow> nat" where
  "octet a i = unat (drop_bit (8 * i) a AND 255)"

definition ip_text :: "32 word \<Rightarrow> string" where
  "ip_text a = py_join ''.'' (map nat_str [octet a 3, octet a 2, octet a 1, octet a 0])"

definition parse_octet :: "string \<Rightarrow> nat option" where
  "parse_octet w =
     (if \<not> py_isdigit w \<or> length w > 3 \<or> (w \<noteq> ''0'' \<and> hd w = CHR ''0'') then None
      else (case py_int w of Some v \<Rightarrow> if v \<le> 255 then Some (nat v) else None | None \<Rightarrow> None))"

definition parse_ip :: "string \<Rightarrow> 32 word option" where
  "parse_ip s = (case map parse_octet (py_split CHR ''.'' s) of
      [Some a, Some b, Some c, Some d] \<Rightarrow> Some (word_of_nat (((a * 256 + b) * 256 + c) * 256 + d))
    | _ \<Rightarrow> None)"

section \<open>Networks\<close>

definition netmask :: "nat \<Rightarrow> 32 word" where
  "netmask p = push_bit (32 - p) (- 1)"

text \<open>\<open>_prefix_from_ip_int\<close>: the ones must all come before the zeros.\<close>

definition mask_prefix :: "32 word \<Rightarrow> nat option" where
  "mask_prefix m = (let zeros = length (takeWhile (\<lambda>i. \<not> bit m i) [0..<32])
     in if drop_bit zeros m = mask (32 - zeros) then Some (32 - zeros) else None)"

text \<open>The part behind the slash: a prefix length, a netmask or a host mask.\<close>

definition parse_netmask :: "string \<Rightarrow> nat option" where
  "parse_netmask w =
     (if py_isdigit w then (case py_int w of Some v \<Rightarrow> if v \<le> 32 then Some (nat v) else None | None \<Rightarrow> None)
      else (case parse_ip w of
          None \<Rightarrow> None
        | Some m \<Rightarrow> (case mask_prefix m of Some p \<Rightarrow> Some p | None \<Rightarrow> mask_prefix (NOT m))))"

text \<open>The address and the prefix length of \<open>ip_network(value, strict=False)\<close>, before the host
  bits are cleared; \<open>None\<close> when the value is not an IPv4 network.\<close>

definition ip_network :: "pyval \<Rightarrow> (32 word \<times> nat) option" where
  "ip_network v = (case v of
      PInt i \<Rightarrow> if 0 \<le> i \<and> i < 2 ^ 32 then Some (word_of_int i, 32) else None
    | PBool b \<Rightarrow> Some (if b then 1 else 0, 32)
    | PStr s \<Rightarrow> (case py_split CHR ''/'' s of
          [h] \<Rightarrow> map_option (\<lambda>a. (a, 32)) (parse_ip h)
        | [h, m] \<Rightarrow> (case (parse_ip h, parse_netmask m) of (Some a, Some p) \<Rightarrow> Some (a, p) | _ \<Rightarrow> None)
        | _ \<Rightarrow> None)
    | _ \<Rightarrow> None)"

text \<open>\<open>hosts()\<close>: without the first and the last address, except in the two smallest networks.\<close>

definition net_hosts :: "32 word \<Rightarrow> nat \<Rightarrow> 32 word list" where
  "net_hosts a p =
     (let network = unat (a AND netmask p); broadcast = unat ((a AND netmask p) OR NOT (netmask p))
      in if p = 32 then [a]
         else if p = 31 then map word_of_nat [network..<broadcast + 1]
         else map word_of_nat [network + 1..<broadcast])"

definition scan_subnet_for_api ::
  "(string \<Rightarrow> pyval \<Rightarrow> bool) \<Rightarrow> (pyval \<Rightarrow> exc + string list) \<Rightarrow> pyval \<Rightarrow> pyval \<Rightarrow> exc + string list" where
  "scan_subnet_for_api connects other_network subnet port =
     map_sum id (filter (\<lambda>ip. connects ip port))
       (case ip_network subnet of
          Some (a, p) \<Rightarrow> Inr (map ip_text (net_hosts a p))
        | None \<Rightarrow> other_network subnet)"

section \<open>The text of an address\<close>

lemma hd_nat_str: "hd (nat_str n) = CHR ''0'' \<longleftrightarrow> n = 0"
proof (induction n rule: nat_str.induct)
  case (1 n)
  show ?case
  proof (cases "n < 10")
    case True
    then have "n \<in> {0, 1, 2, 3, 4, 5, 6, 7, 8, 9}" by auto
    then show ?thesis by (auto simp: nat_str.simps [of n] digit_chars_def)
  next
    case False
    with 1 have "hd (nat_str (n div 10)) \<noteq> CHR ''0''" by simp
    with False show ?thesis by (simp add: nat_str.simps [of n] nat_str_nonempty)
  qed
qed

lemma length_nat_str: "n < 1000 \<Longrightarrow> length (nat_str n) \<le> 3"
  by (simp add: nat_str.simps [of n] nat_str.simps [of "n div 10"] nat_str.simps [of "n div 10 div 10"])

lemma parse_octet_nat_str: "n < 256 \<Longrightarrow> parse_octet (nat_str n) = Some n"
  using hd_nat_str [of n] length_nat_str [of n]
  by (auto simp: parse_octet_def isdigit_nat_str py_int_nat_str nat_str.simps [of 0] digit_chars_def)

lemma unat_less: "unat (a :: 32 word) < 2 ^ 32"
  using unsigned_less [of a, where ?'a = nat] by simp

lemma octet_eq: "octet a i = unat a div 256 ^ i mod 256"
proof -
  have "drop_bit (8 * i) a AND 255 = take_bit 8 (drop_bit (8 * i) a)"
    by (simp add: take_bit_eq_mask mask_numeral)
  then have "octet a i = take_bit 8 (drop_bit (8 * i) (unat a))"
    by (simp only: octet_def unsigned_take_bit_eq unat_drop_bit_eq)
  then show ?thesis by (simp add: take_bit_eq_mod drop_bit_eq_div power_mult)
qed

lemma octet_less: "octet a i < 256"
  by (simp add: octet_eq)

lemma octets_value: "((octet a 3 * 256 + octet a 2) * 256 + octet a 1) * 256 + octet a 0 = unat a"
proof -
  have step: "x div (m * 256) * 256 + x div m mod 256 = x div m" for x m :: nat
    by (simp add: div_mult2_eq)
  have top: "octet a 3 = unat a div (65536 * 256)" using unat_less [of a] by (simp add: octet_eq)
  have "octet a 3 * 256 + octet a 2 = unat a div (256 * 256)"
    unfolding top using step [of "unat a" 65536] by (simp add: octet_eq [of a 2])
  then have mid: "(octet a 3 * 256 + octet a 2) * 256 + octet a 1 = unat a div (1 * 256)"
    using step [of "unat a" 256] by (simp add: octet_eq)
  show ?thesis unfolding mid using step [of "unat a" 1] by (simp add: octet_eq)
qed

lemma split_quad:
  "py_split CHR ''.'' (py_join ''.'' (map nat_str [x, y, z, w])) = map nat_str [x, y, z, w]"
proof -
  have "CHR ''.'' \<notin> set digit_chars" by (simp add: digit_chars_def)
  then have "CHR ''.'' \<notin> set (nat_str n)" for n using set_nat_str [of n] by blast
  then show ?thesis by (intro py_split_join) auto
qed

lemma parse_quad:
  assumes "x < 256" and "y < 256" and "z < 256" and "w < 256"
  shows "parse_ip (py_join ''.'' (map nat_str [x, y, z, w])) =
    Some (word_of_nat (((x * 256 + y) * 256 + z) * 256 + w))"
  unfolding parse_ip_def split_quad using assms by (simp add: parse_octet_nat_str)

text \<open>Reading what \<open>str\<close> writes.\<close>

lemma parse_ip_text: "parse_ip (ip_text a) = Some a"
  unfolding ip_text_def by (simp only: parse_quad octet_less octets_value) simp

lemma ip_text_inject: "ip_text a = ip_text b \<longleftrightarrow> a = b"
  by (metis parse_ip_text option.inject)

section \<open>Networks as blocks of addresses\<close>

lemma not_netmask: "NOT (netmask p) = mask (32 - p)"
  by (rule bit_word_eqI) (auto simp: netmask_def bit_simps)

lemma block_fits:
  fixes a :: "32 word"
  shows "unat a div 2 ^ (32 - p) * 2 ^ (32 - p) + 2 ^ (32 - p) \<le> 2 ^ 32"
proof -
  let ?k = "32 - p"
  have split: "(2::nat) ^ 32 = 2 ^ (32 - ?k) * 2 ^ ?k" unfolding power_add [symmetric] by simp
  have "unat a < 2 ^ (32 - ?k) * 2 ^ ?k" using unat_less [of a] unfolding split .
  then have "unat a div 2 ^ ?k < 2 ^ (32 - ?k)" by (simp add: less_mult_imp_div_less)
  then have "Suc (unat a div 2 ^ ?k) * 2 ^ ?k \<le> 2 ^ (32 - ?k) * 2 ^ ?k" by (intro mult_right_mono) simp_all
  then show ?thesis unfolding split by simp
qed

lemma network_low: "unat (a AND netmask p) = unat a div 2 ^ (32 - p) * 2 ^ (32 - p)"
proof -
  have "a AND netmask p = push_bit (32 - p) (drop_bit (32 - p) a)"
    by (rule bit_word_eqI) (auto simp: netmask_def bit_simps)
  then have "unat (a AND netmask p) = take_bit 32 (push_bit (32 - p) (drop_bit (32 - p) (unat a)))"
    by (simp only: unsigned_push_bit_eq unat_drop_bit_eq) simp
  also have "\<dots> = unat a div 2 ^ (32 - p) * 2 ^ (32 - p) mod 2 ^ 32"
    by (simp add: take_bit_eq_mod push_bit_eq_mult drop_bit_eq_div)
  also have "\<dots> = unat a div 2 ^ (32 - p) * 2 ^ (32 - p)"
  proof (rule mod_less)
    have "(0::nat) < 2 ^ (32 - p)" by simp
    with block_fits [of a p] show "unat a div 2 ^ (32 - p) * 2 ^ (32 - p) < 2 ^ 32" by linarith
  qed
  finally show ?thesis .
qed

lemma unat_mask32: "unat (mask k :: 32 word) = take_bit 32 (mask k)"
proof -
  have "(mask k :: 32 word) = word_of_nat (mask k)" by (simp add: of_nat_mask_eq)
  then show ?thesis by (simp only: unsigned_of_nat) simp
qed

lemma network_high:
  "Suc (unat ((a AND netmask p) OR NOT (netmask p))) = unat a div 2 ^ (32 - p) * 2 ^ (32 - p) + 2 ^ (32 - p)"
proof -
  have "(a AND netmask p) AND mask (32 - p) = 0"
    by (rule bit_word_eqI) (auto simp: netmask_def bit_simps)
  then have "(a AND netmask p) OR mask (32 - p) = (a AND netmask p) + mask (32 - p)"
    by (simp add: disjunctive_add_eq_or)
  moreover have "unat (mask (32 - p) :: 32 word) = 2 ^ (32 - p) - 1"
  proof -
    have "unat (mask (32 - p) :: 32 word) = mask (32 - p)"
      unfolding unat_mask32 by (simp only: take_bit_of_mask) simp
    then show ?thesis by (simp only: mask_eq_exp_minus_1)
  qed
  moreover have "unat a div 2 ^ (32 - p) * 2 ^ (32 - p) + (2 ^ (32 - p) - 1) < 2 ^ 32"
    using block_fits [of a p] zero_less_power [of "2::nat" "32 - p"] by linarith
  ultimately have "unat ((a AND netmask p) OR NOT (netmask p)) =
      unat a div 2 ^ (32 - p) * 2 ^ (32 - p) + (2 ^ (32 - p) - 1)"
    using network_low [of a p] by (simp only: not_netmask unat_word_ariths) simp
  then show ?thesis by simp
qed

text \<open>Two addresses are in the same network if they agree before the host bits.\<close>

lemma same_network:
  "x AND netmask p = a AND netmask p \<longleftrightarrow> unat x div 2 ^ (32 - p) = unat a div 2 ^ (32 - p)"
proof -
  have "x AND netmask p = a AND netmask p \<longleftrightarrow> unat (x AND netmask p) = unat (a AND netmask p)"
    by (simp only: word_unat_eq_iff)
  then show ?thesis by (simp add: network_low)
qed

lemma in_block: "(x :: nat) div n = q \<longleftrightarrow> q * n \<le> x \<and> x < q * n + n" if "0 < n"
  using that by (metis add.commute div_nat_eqI le_add1 mult.commute mult_Suc mult_Suc_right
    div_mult_mod_eq nat_add_left_cancel_less mod_less_divisor)

text \<open>The hosts in order, and which addresses they are.\<close>

definition in_network :: "32 word \<Rightarrow> nat \<Rightarrow> 32 word \<Rightarrow> bool" where
  "in_network a p x \<longleftrightarrow> x AND netmask p = a AND netmask p \<and>
     (p < 31 \<longrightarrow> x \<noteq> a AND netmask p \<and> x \<noteq> (a AND netmask p) OR NOT (netmask p))"

lemma block_bounds:
  "x AND netmask p = a AND netmask p \<longleftrightarrow>
     unat (a AND netmask p) \<le> unat x \<and> unat x \<le> unat ((a AND netmask p) OR NOT (netmask p))"
  unfolding same_network network_low less_Suc_eq_le [of "unat x", symmetric] network_high
  by (rule in_block) simp

lemma word_range:
  assumes "hi \<le> 2 ^ 32"
  shows "set (map word_of_nat [lo..<hi] :: 32 word list) = {x. lo \<le> unat x \<and> unat x < hi}"
    and "sorted_wrt (<) (map word_of_nat [lo..<hi] :: 32 word list)"
proof -
  have small: "unat (word_of_nat n :: 32 word) = n" if "n < hi" for n
    using that assms by (simp add: unsigned_of_nat take_bit_nat_eq_self)
  show "set (map word_of_nat [lo..<hi] :: 32 word list) = {x. lo \<le> unat x \<and> unat x < hi}"
    using small by (force simp: image_iff intro: bexI [of _ "unat x" for x])
  show "sorted_wrt (<) (map word_of_nat [lo..<hi] :: 32 word list)"
    unfolding sorted_wrt_map
    by (rule sorted_wrt_mono_rel [OF _ sorted_wrt_upt]) (use small in \<open>auto simp: word_less_nat_alt\<close>)
qed

lemma net_hosts_spec:
  assumes "p \<le> 32"
  shows "set (net_hosts a p) = {x. in_network a p x}" and "sorted_wrt (<) (net_hosts a p)"
    and "length (net_hosts a p) = 2 ^ (32 - p) - (if p < 31 then 2 else 0)"
proof -
  let ?lo = "unat (a AND netmask p)" and ?hi = "unat ((a AND netmask p) OR NOT (netmask p))"
  have fits: "Suc ?hi \<le> 2 ^ 32" using block_fits [of a p] by (simp only: network_high)
  have size: "Suc ?hi - ?lo = 2 ^ (32 - p)" by (simp only: network_high network_low)
  have ends: "unat x \<noteq> ?lo \<longleftrightarrow> x \<noteq> a AND netmask p" "unat x \<noteq> ?hi \<longleftrightarrow> x \<noteq> (a AND netmask p) OR NOT (netmask p)" for x
    by (simp_all only: word_unat_eq_iff)
  have block: "in_network a p x \<longleftrightarrow> ?lo \<le> unat x \<and> unat x \<le> ?hi \<and>
      (p < 31 \<longrightarrow> unat x \<noteq> ?lo \<and> unat x \<noteq> ?hi)" for x
    by (simp only: in_network_def block_bounds ends conj_assoc)
  consider "p = 32" | "p = 31" | "p < 31" using assms by linarith
  then have "set (net_hosts a p) = {x. in_network a p x} \<and> sorted_wrt (<) (net_hosts a p) \<and>
    length (net_hosts a p) = 2 ^ (32 - p) - (if p < 31 then 2 else 0)"
  proof cases
    case 1
    then show ?thesis by (auto simp: net_hosts_def in_network_def netmask_def)
  next
    case 2
    then have hosts: "net_hosts a p = map word_of_nat [?lo..<Suc ?hi]" by (simp add: net_hosts_def)
    have "{x. ?lo \<le> unat x \<and> unat x < Suc ?hi} = {x. in_network a p x}"
      by (rule Collect_cong) (simp add: block less_Suc_eq_le, simp add: 2)
    then show ?thesis
      unfolding hosts word_range(1) [OF fits] using word_range(2) [OF fits] size 2 by (simp del: upt_Suc)
  next
    case 3
    then have hosts: "net_hosts a p = map word_of_nat [Suc ?lo..<?hi]" by (simp add: net_hosts_def)
    have hi: "?hi \<le> 2 ^ 32" using fits by simp
    have "{x. Suc ?lo \<le> unat x \<and> unat x < ?hi} = {x. in_network a p x}"
      by (rule Collect_cong) (unfold block, use 3 in auto)
    then show ?thesis
      unfolding hosts word_range(1) [OF hi] using word_range(2) [OF hi] size 3 by simp
  qed
  then show "set (net_hosts a p) = {x. in_network a p x}" "sorted_wrt (<) (net_hosts a p)"
    "length (net_hosts a p) = 2 ^ (32 - p) - (if p < 31 then 2 else 0)" by blast+
qed

section \<open>Reading a network\<close>

lemma mask_prefix_netmask: "p \<le> 32 \<Longrightarrow> mask_prefix (netmask p) = Some p"
proof -
  assume "p \<le> 32"
  have bits: "bit (netmask p) i \<longleftrightarrow> 32 - p \<le> i \<and> i < 32" for i
    by (auto simp: netmask_def bit_simps)
  have "[0..<32] = [0..<32 - p] @ [32 - p..<32]"
    using upt_add_eq_append [of 0 "32 - p" p] \<open>p \<le> 32\<close> by simp
  moreover have "takeWhile (\<lambda>i. \<not> bit (netmask p) i) [32 - p..<32] = []"
    using bits [of "32 - p"] by (simp add: upt_rec)
  ultimately have "takeWhile (\<lambda>i. \<not> bit (netmask p) i) [0..<32] = [0..<32 - p]"
    by (simp only: ) (subst takeWhile_append2, simp_all add: bits)
  moreover have "drop_bit (32 - p) (netmask p) = mask p"
    by (rule bit_word_eqI) (use \<open>p \<le> 32\<close> in \<open>auto simp: netmask_def bit_simps\<close>)
  ultimately show ?thesis using \<open>p \<le> 32\<close> by (simp add: mask_prefix_def)
qed

lemma parse_netmask_prefix: "p \<le> 32 \<Longrightarrow> parse_netmask (nat_str p) = Some p"
  by (simp add: parse_netmask_def isdigit_nat_str py_int_nat_str)

lemma parse_netmask_mask: "p \<le> 32 \<Longrightarrow> parse_netmask (ip_text (netmask p)) = Some p"
proof -
  assume p: "p \<le> 32"
  have "CHR ''.'' \<in> set (ip_text (netmask p))" by (simp add: ip_text_def)
  moreover have "CHR ''.'' \<notin> set digit_chars" by (simp add: digit_chars_def)
  ultimately have "\<not> py_isdigit (ip_text (netmask p))" unfolding py_isdigit_def list_all_iff by blast
  with p show ?thesis by (simp add: parse_netmask_def parse_ip_text mask_prefix_netmask)
qed

lemma slash_free: "CHR ''/'' \<notin> set (ip_text a)" "CHR ''/'' \<notin> set (nat_str n)"
proof -
  have "CHR ''/'' \<notin> set digit_chars" by (simp add: digit_chars_def)
  then show nat: "CHR ''/'' \<notin> set (nat_str n)" for n using set_nat_str [of n] by blast
  show "CHR ''/'' \<notin> set (ip_text a)" by (simp add: ip_text_def nat)
qed

lemma ip_network_text:
  assumes "p \<le> 32" and "m = nat_str p \<or> m = ip_text (netmask p)"
  shows "ip_network (PStr (ip_text a @ ''/'' @ m)) = Some (a, p)"
proof -
  have "py_split CHR ''/'' (ip_text a @ ''/'' @ m) = [ip_text a, m]"
    using assms(2) slash_free by (auto simp: py_split_append py_split_none)
  then show ?thesis
    using assms parse_netmask_prefix parse_netmask_mask by (auto simp: ip_network_def parse_ip_text)
qed

text \<open>C22. The port scan of a network given by any of its addresses, with a prefix length or a netmask,
  finds exactly the hosts of the network at which the port accepts a connection - all addresses of the
  network but its first and its last one, which belong to it only when there are no others - in
  ascending order and each of them once; it tries \<open>2 ^ (32 - p) - 2\<close> of them.\<close>

theorem scan_finds_open_hosts:
  assumes "p \<le> 32" and "m = nat_str p \<or> m = ip_text (netmask p)"
  shows "\<exists>xs. scan_subnet_for_api connects other_network (PStr (ip_text a @ ''/'' @ m)) port = Inr (map ip_text xs) \<and>
    set xs = {x. in_network a p x \<and> connects (ip_text x) port} \<and> sorted_wrt (<) xs \<and>
    distinct (map ip_text xs) \<and> length (net_hosts a p) = 2 ^ (32 - p) - (if p < 31 then 2 else 0)"
proof -
  let ?xs = "filter (\<lambda>x. connects (ip_text x) port) (net_hosts a p)"
  note hosts = net_hosts_spec [OF assms(1), of a]
  have "scan_subnet_for_api connects other_network (PStr (ip_text a @ ''/'' @ m)) port = Inr (map ip_text ?xs)"
    unfolding scan_subnet_for_api_def ip_network_text [OF assms] by (simp add: filter_map comp_def)
  moreover have "sorted_wrt (<) ?xs" using hosts(2) by (rule sorted_wrt_filter)
  moreover from this have "distinct ?xs" by (simp add: strict_sorted_iff)
  then have "distinct (map ip_text ?xs)" by (simp add: distinct_map inj_on_def ip_text_inject)
  ultimately show ?thesis using hosts(1,3) by (intro exI [of _ ?xs]) auto
qed

theorem scan_finds_open_hosts_witness:
  "\<exists>xs. scan_subnet_for_api (\<lambda>ip _. ip = ip_text 6) (\<lambda>_. Inr []) (PStr (ip_text 5 @ ''/'' @ nat_str 30)) (PInt 8728) =
      Inr (map ip_text xs) \<and> xs = [6]"
proof -
  have "in_network 5 30 6" by (simp add: in_network_def netmask_def mask_eq_exp_minus_1)
  then have "{x. in_network 5 30 x \<and> ip_text x = ip_text 6} = {6}" by (auto simp: ip_text_inject)
  moreover have "xs = [6]" if "set xs = {6}" "distinct (map ip_text xs)" for xs
    using that by (cases xs; cases "tl xs") auto
  ultimately show ?thesis
    using scan_finds_open_hosts [of 30 "nat_str 30" "\<lambda>ip _. ip = ip_text 6" "\<lambda>_. Inr []" 5 "PInt 8728"] by fastforce
qed

end
