(* ===== verification/Preloader_Router.thy ===== *)
theory Preloader_Router
  imports System Network_Scan
begin

text \<open>
  The preloader (\<open>tools/mikrotik_preloader/preloader.py\<close>), first part: the script's own
  state and surroundings, Python's dictionary operations on configuration values, and the
  \<open>routeros_\<close> functions that look something up on a router and add it when it is missing.
  A router answers as a function of all commands sent so far.
\<close>

section \<open>State and surroundings of the script\<close>

text \<open>A connection: the address and the user it logged in with.\<close>

type_synonym link = "string \<times> pyval"

record station =
  sent :: "(link \<times> cmd) list"
  printed :: "string list"
  server :: sys
  calls :: nat

record site =
  environ :: "string \<Rightarrow> string option"
  str_text :: "pyval \<Rightarrow> string"
  api_open :: "(link \<times> cmd) list \<Rightarrow> link \<Rightarrow> pyval \<Rightarrow> pyval \<Rightarrow> exc option"
  api_reply :: "(link \<times> cmd) list \<Rightarrow> link \<Rightarrow> cmd \<Rightarrow> exc + row list"
  format_special :: "string \<Rightarrow> (string \<times> pyval) list \<Rightarrow> exc + string"
  connects :: "string \<Rightarrow> pyval \<Rightarrow> bool"
  other_network :: "pyval \<Rightarrow> exc + string list"
  request_env :: "nat \<Rightarrow> env"
  authenticate :: "pyval \<Rightarrow> pyval \<Rightarrow> pyval \<Rightarrow> string \<Rightarrow> exc + bool"
  marshal :: "pyval \<Rightarrow> exc + pyval"
  fault :: "exc \<Rightarrow> exc"
  text_arg :: "pyval \<Rightarrow> exc + string"

text \<open>
  \<open>environ\<close> is \<open>os.environ\<close>, \<open>str_text\<close> the text of floats and containers,
  \<open>api_open\<close> and \<open>api_reply\<close> are librouteros and the routers, \<open>format_special\<close> the
  replacement fields of \<open>str.format\<close> that are not plain names, \<open>connects\<close> whether a socket
  connects, \<open>other_network\<close> the networks that are not IPv4, and the rest the XML-RPC service: the environment of the n-th call, the login, the transport of a
  result, what an exception of the server becomes, and a value that is compared with a text column
  without being text.
\<close>

type_synonym 'a script = "(station, 'a) prog"

definition say :: "string \<Rightarrow> unit script" where
  "say x = modify (\<lambda>s. s\<lparr>printed := printed s @ [x]\<rparr>)"

fun show_val :: "site \<Rightarrow> pyval \<Rightarrow> string" where
  "show_val t (PStr s) = s"
| "show_val t (PInt i) = int_str i"
| "show_val t (PBool b) = (if b then ''True'' else ''False'')"
| "show_val t PNone = ''None''"
| "show_val t v = str_text t v"

section \<open>Operations on values\<close>

fun type_name :: "pyval \<Rightarrow> string" where
  "type_name PNone = ''NoneType''"
| "type_name (PBool b) = ''bool''"
| "type_name (PInt i) = ''int''"
| "type_name (PFloat x) = ''float''"
| "type_name (PStr s) = ''str''"
| "type_name (PList xs) = ''list''"
| "type_name (PDict d) = ''dict''"

definition quoted :: "string \<Rightarrow> string" where
  "quoted s = [CHR 0x27] @ s @ [CHR 0x27]"

definition no_attribute :: "pyval \<Rightarrow> string \<Rightarrow> exc" where
  "no_attribute v a = OtherError (quoted (type_name v) @ '' object has no attribute '' @ quoted a)"

text \<open>\<open>v[k]\<close>, \<open>v.get(k, d)\<close>, \<open>v.get(k)\<close>, \<open>x or y\<close> and \<open>for x in v\<close>.\<close>

fun subscript :: "pyval \<Rightarrow> string \<Rightarrow> ('s, pyval) prog" where
  "subscript (PDict d) k = (case map_of d k of None \<Rightarrow> raise (KeyError (quoted k)) | Some v \<Rightarrow> ret v)"
| "subscript (PList xs) k = raise (OtherError ''list indices must be integers or slices, not str'')"
| "subscript (PStr s) k = raise (OtherError (''string indices must be integers, not '' @ quoted ''str''))"
| "subscript v k = raise (OtherError (quoted (type_name v) @ '' object is not subscriptable''))"

fun get_or :: "pyval \<Rightarrow> string \<Rightarrow> pyval \<Rightarrow> ('s, pyval) prog" where
  "get_or (PDict d) k v = ret (case map_of d k of None \<Rightarrow> v | Some x \<Rightarrow> x)"
| "get_or u k v = raise (no_attribute u ''get'')"

definition get_key :: "pyval \<Rightarrow> string \<Rightarrow> ('s, pyval) prog" where
  "get_key u k = get_or u k PNone"

definition or_val :: "pyval \<Rightarrow> pyval \<Rightarrow> pyval" where
  "or_val x y = (if truthy x then x else y)"

fun iterate :: "pyval \<Rightarrow> ('s, pyval list) prog" where
  "iterate (PList xs) = ret xs"
| "iterate (PStr s) = ret (map (\<lambda>c. PStr [c]) s)"
| "iterate (PDict d) = ret (map (\<lambda>p. PStr (fst p)) d)"
| "iterate v = raise (OtherError (quoted (type_name v) @ '' object is not iterable''))"

text \<open>\<open>u == v\<close>: numbers compare across their types.\<close>

fun number_of :: "pyval \<Rightarrow> rat option" where
  "number_of (PBool b) = Some (of_bool b)"
| "number_of (PInt i) = Some (of_int i)"
| "number_of (PFloat x) = Some x"
| "number_of _ = None"

definition py_eq :: "pyval \<Rightarrow> pyval \<Rightarrow> bool" where
  "py_eq u v = (case (number_of u, number_of v) of (Some x, Some y) \<Rightarrow> x = y | _ \<Rightarrow> u = v)"

text \<open>\<open>p in s\<close> on strings.\<close>

fun py_contains :: "string \<Rightarrow> string \<Rightarrow> bool" where
  "py_contains p [] = (p = [])"
| "py_contains p (c # s) = (py_startswith (c # s) p \<or> py_contains p s)"

section \<open>Talking to a router\<close>

definition api_exec :: "site \<Rightarrow> link \<Rightarrow> string \<Rightarrow> (string \<times> pyval) list \<Rightarrow> row list script" where
  "api_exec t a path kwargs = (\<lambda>s.
     (api_reply t (sent s) a (Cmd path kwargs), s\<lparr>sent := sent s @ [(a, Cmd path kwargs)]\<rparr>))"

text \<open>\<open>api_exec\<close> with its result dropped, and inside \<open>try ... except LibRouterosError: pass\<close>.\<close>

definition run_cmd :: "site \<Rightarrow> link \<Rightarrow> string \<Rightarrow> (string \<times> pyval) list \<Rightarrow> unit script" where
  "run_cmd t a path kwargs = bnd (api_exec t a path kwargs) (\<lambda>_. ret ())"

definition pass_errors :: "unit script \<Rightarrow> unit script" where
  "pass_errors m = catching is_librouteros_error m (\<lambda>_. ret ())"

definition routeros_find :: "site \<Rightarrow> link \<Rightarrow> string \<Rightarrow> string \<Rightarrow> pyval \<Rightarrow> row list script" where
  "routeros_find t a path field v =
     catching is_librouteros_error (api_exec t a path [(CHR ''?'' # field, v)])
       (\<lambda>exc. if \<not> py_contains ''unknown parameter'' (exc_str exc) then raise exc
         else bnd (api_exec t a path []) (\<lambda>items.
           ret (filter (\<lambda>item. show_val t (row_get item field) = show_val t v) items)))"

definition row_id :: "row \<Rightarrow> pyval" where
  "row_id r = or_val (row_get r ''.id'') (row_get r ''id'')"

definition routeros_interface_exists :: "site \<Rightarrow> link \<Rightarrow> pyval \<Rightarrow> bool script" where
  "routeros_interface_exists t a name =
     bnd (routeros_find t a ''/interface/print'' ''name'' name) (\<lambda>items. ret (items \<noteq> []))"

definition routeros_get_id :: "site \<Rightarrow> link \<Rightarrow> string \<Rightarrow> string \<Rightarrow> pyval \<Rightarrow> pyval script" where
  "routeros_get_id t a path field v = bnd (routeros_find t a path field v) (\<lambda>items.
     ret (case items of [] \<Rightarrow> PNone | r # _ \<Rightarrow> row_id r))"

section \<open>Ensuring what should be there\<close>

definition routeros_ensure_group :: "site \<Rightarrow> link \<Rightarrow> string \<Rightarrow> string \<Rightarrow> unit script" where
  "routeros_ensure_group t a name policy =
     bnd (routeros_find t a ''/user/group/print'' ''name'' (PStr name)) (\<lambda>items.
     if items \<noteq> [] then ret ()
     else run_cmd t a ''/user/group/add'' [(''name'', PStr name), (''policy'', PStr policy)])"

definition routeros_ensure_user :: "site \<Rightarrow> link \<Rightarrow> pyval \<Rightarrow> pyval \<Rightarrow> string \<Rightarrow> unit script" where
  "routeros_ensure_user t a name password grp =
     catching is_librouteros_error
       (run_cmd t a ''/user/add'' [(''name'', name), (''password'', password), (''group'', PStr grp)])
       (\<lambda>_. run_cmd t a ''/user/set'' [(''numbers'', name), (''password'', password), (''group'', PStr grp)])"

definition routeros_ensure_interface_list :: "site \<Rightarrow> link \<Rightarrow> string \<Rightarrow> unit script" where
  "routeros_ensure_interface_list t a name =
     bnd (routeros_find t a ''/interface/list/print'' ''name'' (PStr name)) (\<lambda>items.
     if items \<noteq> [] then ret ()
     else run_cmd t a ''/interface/list/add'' [(''name'', PStr name)])"

definition routeros_ensure_interface_list_member :: "site \<Rightarrow> link \<Rightarrow> string \<Rightarrow> pyval \<Rightarrow> unit script" where
  "routeros_ensure_interface_list_member t a list_name iface =
     bnd (routeros_interface_exists t a iface) (\<lambda>there.
     if \<not> there then say (''Skip discovery interface missing: '' @ show_val t iface)
     else bnd (routeros_find t a ''/interface/list/member/print'' ''interface'' iface) (\<lambda>existing.
       if list_ex (\<lambda>item. row_get item ''list'' = PStr list_name) existing then ret ()
       else run_cmd t a ''/interface/list/member/add'' [(''list'', PStr list_name), (''interface'', iface)]))"

definition routeros_ensure_neighbor_discovery :: "site \<Rightarrow> link \<Rightarrow> pyval \<Rightarrow> unit script" where
  "routeros_ensure_neighbor_discovery t a interfaces =
     (if \<not> truthy interfaces then ret ()
      else andthen (routeros_ensure_interface_list t a ''LAN'')
        (bnd (iterate interfaces) (\<lambda>ifaces.
         andthen (for_each (routeros_ensure_interface_list_member t a ''LAN'') ifaces)
        (andthen (pass_errors (run_cmd t a ''/ip/neighbor/discovery-settings/set''
            [(''discover-interface-list'', PStr ''LAN'')]))
        (andthen (pass_errors (run_cmd t a ''/tool/mac-server/set'' [(''allowed-interface-list'', PStr ''LAN'')]))
           (pass_errors (run_cmd t a ''/tool/mac-server/mac-winbox/set''
             [(''allowed-interface-list'', PStr ''LAN'')])))))))"

definition move_first :: "site \<Rightarrow> link \<Rightarrow> row \<Rightarrow> unit script" where
  "move_first t a r = do_if (truthy (row_id r))
     (run_cmd t a ''/ip/firewall/filter/move'' [(''numbers'', row_id r), (''destination'', PStr ''0'')])"

definition routeros_ensure_firewall_allow :: "site \<Rightarrow> link \<Rightarrow> pyval \<Rightarrow> pyval \<Rightarrow> string \<Rightarrow> unit script" where
  "routeros_ensure_firewall_allow t a port src_ip comment =
     bnd (routeros_find t a ''/ip/firewall/filter/print'' ''comment'' (PStr comment)) (\<lambda>existing.
     case existing of
       r # _ \<Rightarrow> pass_errors (move_first t a r)
     | [] \<Rightarrow>
         andthen (run_cmd t a ''/ip/firewall/filter/add''
           [(''chain'', PStr ''input''), (''src-address'', src_ip), (''protocol'', PStr ''tcp''),
            (''dst-port'', PStr (show_val t port)), (''action'', PStr ''accept''), (''comment'', PStr comment)])
           (pass_errors
             (bnd (routeros_find t a ''/ip/firewall/filter/print'' ''comment'' (PStr comment)) (\<lambda>added.
               case added of [] \<Rightarrow> ret () | r # _ \<Rightarrow> move_first t a r))))"

definition routeros_ensure_firewall_drop :: "site \<Rightarrow> link \<Rightarrow> pyval \<Rightarrow> string \<Rightarrow> unit script" where
  "routeros_ensure_firewall_drop t a port comment =
     bnd (routeros_find t a ''/ip/firewall/filter/print'' ''comment'' (PStr comment)) (\<lambda>existing.
     if existing \<noteq> [] then ret ()
     else run_cmd t a ''/ip/firewall/filter/add''
       [(''chain'', PStr ''input''), (''protocol'', PStr ''tcp''), (''dst-port'', PStr (show_val t port)),
        (''action'', PStr ''drop''), (''comment'', PStr comment)])"

definition routeros_ensure_bridge :: "site \<Rightarrow> link \<Rightarrow> pyval \<Rightarrow> unit script" where
  "routeros_ensure_bridge t a name =
     bnd (routeros_find t a ''/interface/bridge/print'' ''name'' name) (\<lambda>items.
     if items \<noteq> [] then ret () else run_cmd t a ''/interface/bridge/add'' [(''name'', name)])"

definition routeros_ensure_bridge_port :: "site \<Rightarrow> link \<Rightarrow> pyval \<Rightarrow> pyval \<Rightarrow> unit script" where
  "routeros_ensure_bridge_port t a bridge iface =
     bnd (routeros_interface_exists t a iface) (\<lambda>there.
     if \<not> there then say (''Skip missing interface: '' @ show_val t iface)
     else bnd (routeros_find t a ''/interface/bridge/port/print'' ''interface'' iface) (\<lambda>ports.
       if list_ex (\<lambda>p. py_eq (row_get p ''bridge'') bridge) ports then ret ()
       else run_cmd t a ''/interface/bridge/port/add'' [(''bridge'', bridge), (''interface'', iface)]))"

definition routeros_ensure_ip_address :: "site \<Rightarrow> link \<Rightarrow> pyval \<Rightarrow> pyval \<Rightarrow> unit script" where
  "routeros_ensure_ip_address t a address iface =
     bnd (routeros_find t a ''/ip/address/print'' ''address'' address) (\<lambda>items.
     if items \<noteq> [] then ret ()
     else run_cmd t a ''/ip/address/add'' [(''address'', address), (''interface'', iface)])"

definition routeros_ensure_ip_pool :: "site \<Rightarrow> link \<Rightarrow> pyval \<Rightarrow> pyval \<Rightarrow> unit script" where
  "routeros_ensure_ip_pool t a name ranges =
     bnd (routeros_find t a ''/ip/pool/print'' ''name'' name) (\<lambda>items.
     if items \<noteq> [] then run_cmd t a ''/ip/pool/set'' [(''numbers'', name), (''ranges'', ranges)]
     else run_cmd t a ''/ip/pool/add'' [(''name'', name), (''ranges'', ranges)])"

text \<open>\<open>routeros_get_id(api, path, "name", name) or name\<close>.\<close>

definition id_or_name :: "site \<Rightarrow> link \<Rightarrow> string \<Rightarrow> pyval \<Rightarrow> pyval script" where
  "id_or_name t a path name = bnd (routeros_get_id t a path ''name'' name) (\<lambda>i. ret (or_val i name))"

definition routeros_ensure_dhcp_server :: "site \<Rightarrow> link \<Rightarrow> pyval \<Rightarrow> pyval \<Rightarrow> pyval \<Rightarrow> pyval \<Rightarrow> unit script" where
  "routeros_ensure_dhcp_server t a name iface pool lease_time =
     bnd (routeros_find t a ''/ip/dhcp-server/print'' ''name'' name) (\<lambda>items.
     if items \<noteq> [] then bnd (id_or_name t a ''/ip/dhcp-server/print'' name) (\<lambda>server_id.
       run_cmd t a ''/ip/dhcp-server/set'' [(''numbers'', server_id), (''interface'', iface),
         (''address-pool'', pool), (''lease-time'', lease_time)])
     else run_cmd t a ''/ip/dhcp-server/add'' [(''name'', name), (''interface'', iface),
       (''address-pool'', pool), (''lease-time'', lease_time)])"

definition routeros_ensure_dhcp_network :: "site \<Rightarrow> link \<Rightarrow> pyval \<Rightarrow> pyval \<Rightarrow> pyval \<Rightarrow> unit script" where
  "routeros_ensure_dhcp_network t a address gateway dns_server =
     bnd (routeros_get_id t a ''/ip/dhcp-server/network/print'' ''address'' address) (\<lambda>existing_id.
     if truthy existing_id
     then run_cmd t a ''/ip/dhcp-server/network/set'' [(''numbers'', existing_id), (''gateway'', gateway),
       (''dns-server'', dns_server)]
     else run_cmd t a ''/ip/dhcp-server/network/add'' [(''address'', address), (''gateway'', gateway),
       (''dns-server'', dns_server)])"

definition routeros_ensure_dhcp_client :: "site \<Rightarrow> link \<Rightarrow> pyval \<Rightarrow> string \<Rightarrow> unit script" where
  "routeros_ensure_dhcp_client t a iface comment =
     bnd (routeros_find t a ''/ip/dhcp-client/print'' ''interface'' iface) (\<lambda>items.
     if items \<noteq> [] then ret ()
     else run_cmd t a ''/ip/dhcp-client/add'' [(''interface'', iface), (''disabled'', PStr ''no''),
       (''add-default-route'', PStr ''yes''), (''use-peer-dns'', PStr ''yes''), (''comment'', PStr comment)])"

definition routeros_ensure_nat_masquerade :: "site \<Rightarrow> link \<Rightarrow> pyval \<Rightarrow> string \<Rightarrow> unit script" where
  "routeros_ensure_nat_masquerade t a out_interface comment =
     bnd (routeros_find t a ''/ip/firewall/nat/print'' ''comment'' (PStr comment)) (\<lambda>existing.
     if existing \<noteq> [] then ret ()
     else run_cmd t a ''/ip/firewall/nat/add'' [(''chain'', PStr ''srcnat''), (''out-interface'', out_interface),
       (''action'', PStr ''masquerade''), (''comment'', PStr comment)])"

definition routeros_ensure_dns :: "site \<Rightarrow> link \<Rightarrow> pyval \<Rightarrow> unit script" where
  "routeros_ensure_dns t a servers =
     run_cmd t a ''/ip/dns/set'' [(''servers'', servers), (''allow-remote-requests'', PStr ''yes'')]"

definition routeros_ensure_hotspot_profile :: "site \<Rightarrow> link \<Rightarrow> pyval \<Rightarrow> pyval \<Rightarrow> pyval \<Rightarrow> pyval \<Rightarrow> unit script" where
  "routeros_ensure_hotspot_profile t a name dns_name login_by html_dir =
     bnd (routeros_find t a ''/ip/hotspot/profile/print'' ''name'' name) (\<lambda>items.
     if items \<noteq> [] then bnd (id_or_name t a ''/ip/hotspot/profile/print'' name) (\<lambda>profile_id.
       run_cmd t a ''/ip/hotspot/profile/set'' [(''numbers'', profile_id), (''dns-name'', dns_name),
         (''login-by'', login_by), (''html-directory'', html_dir)])
     else run_cmd t a ''/ip/hotspot/profile/add'' [(''name'', name), (''dns-name'', dns_name),
       (''login-by'', login_by), (''html-directory'', html_dir)])"

definition routeros_ensure_hotspot_server :: "site \<Rightarrow> link \<Rightarrow> pyval \<Rightarrow> pyval \<Rightarrow> pyval \<Rightarrow> pyval \<Rightarrow> unit script" where
  "routeros_ensure_hotspot_server t a name iface pool profile =
     bnd (routeros_find t a ''/ip/hotspot/print'' ''name'' name) (\<lambda>items.
     if items \<noteq> [] then bnd (id_or_name t a ''/ip/hotspot/print'' name) (\<lambda>server_id.
       run_cmd t a ''/ip/hotspot/set'' [(''numbers'', server_id), (''interface'', iface),
         (''address-pool'', pool), (''profile'', profile)])
     else run_cmd t a ''/ip/hotspot/add'' [(''name'', name), (''interface'', iface),
       (''address-pool'', pool), (''profile'', profile)])"

definition routeros_ensure_walled_garden :: "site \<Rightarrow> link \<Rightarrow> pyval \<Rightarrow> string \<Rightarrow> unit script" where
  "routeros_ensure_walled_garden t a domain comment =
     bnd (routeros_find t a ''/ip/hotspot/walled-garden/print'' ''comment'' (PStr comment)) (\<lambda>existing.
     if existing \<noteq> [] then ret ()
     else run_cmd t a ''/ip/hotspot/walled-garden/add'' [(''dst-host'', domain), (''comment'', PStr comment)])"

definition routeros_set_dhcp_lease_script :: "site \<Rightarrow> link \<Rightarrow> pyval \<Rightarrow> string option \<Rightarrow> pyval \<Rightarrow> unit script" where
  "routeros_set_dhcp_lease_script t a dhcp_server script clear_if_empty =
     (if \<not> set_str script \<and> \<not> truthy clear_if_empty then ret ()
      else bnd (id_or_name t a ''/ip/dhcp-server/print'' dhcp_server) (\<lambda>server_id.
        run_cmd t a ''/ip/dhcp-server/set'' [(''numbers'', server_id), (''lease-script'', PStr (or_str script []))]))"

definition routeros_ensure_script :: "site \<Rightarrow> link \<Rightarrow> pyval \<Rightarrow> string option \<Rightarrow> unit script" where
  "routeros_ensure_script t a name source =
     (if \<not> set_str source then ret ()
      else bnd (routeros_get_id t a ''/system/script/print'' ''name'' name) (\<lambda>existing_id.
        if truthy existing_id
        then run_cmd t a ''/system/script/set'' [(''numbers'', existing_id), (''source'', PStr (or_str source [])),
          (''policy'', PStr ''read,write,test'')]
        else run_cmd t a ''/system/script/add'' [(''name'', name), (''source'', PStr (or_str source [])),
          (''policy'', PStr ''read,write,test'')]))"

definition routeros_ensure_scheduler :: "site \<Rightarrow> link \<Rightarrow> pyval \<Rightarrow> pyval \<Rightarrow> string \<Rightarrow> unit script" where
  "routeros_ensure_scheduler t a name interval on_event =
     bnd (routeros_get_id t a ''/system/scheduler/print'' ''name'' name) (\<lambda>existing_id.
     if truthy existing_id
     then run_cmd t a ''/system/scheduler/set'' [(''numbers'', existing_id), (''interval'', interval),
       (''on-event'', PStr on_event), (''start-time'', PStr ''startup''), (''disabled'', PStr ''no'')]
     else run_cmd t a ''/system/scheduler/add'' [(''name'', name), (''interval'', interval),
       (''on-event'', PStr on_event), (''start-time'', PStr ''startup''), (''disabled'', PStr ''no'')])"

text \<open>The interface that carries the address the script talks to.\<close>

fun mgmt_of :: "string \<Rightarrow> row list \<Rightarrow> pyval script" where
  "mgmt_of ip [] = ret PNone"
| "mgmt_of ip (addr # rows) = (case or_val (row_get addr ''address'') (PStr []) of
      PStr x \<Rightarrow> (if py_startswith x (ip @ ''/'') then ret (row_get addr ''interface'') else mgmt_of ip rows)
    | v \<Rightarrow> raise (no_attribute v ''startswith''))"

definition routeros_get_mgmt_interface :: "site \<Rightarrow> link \<Rightarrow> string \<Rightarrow> pyval script" where
  "routeros_get_mgmt_interface t a ip =
     catching is_librouteros_error (bnd (api_exec t a ''/ip/address/print'' []) (mgmt_of ip)) (\<lambda>_. ret PNone)"

end
