(* ===== verification/Preloader_Setup.thy ===== *)
theory Preloader_Setup
  imports Preloader_Router
begin

text \<open>
  The preloader, second part: the scripts written to a router (\<open>build_lease_script\<close>,
  \<open>build_call_home_script\<close>), \<open>routeros_apply_call_home\<close>, the printed instructions for
  doing it by hand, and \<open>routeros_apply_sector_config\<close>. Text with accents is UTF-8.
\<close>

section \<open>Values and text\<close>

definition require_env :: "site \<Rightarrow> pyval \<Rightarrow> string script" where
  "require_env t name =
     (if \<not> truthy name then raise (RuntimeError ''Missing required env var name'')
      else (case name of
          PStr k \<Rightarrow> (if set_str (environ t k) then ret (or_str (environ t k) [])
            else raise (RuntimeError (''Missing required env var: '' @ k)))
        | v \<Rightarrow> raise (OtherError (''str expected, not '' @ type_name v))))"

text \<open>\<open>os.environ.get(name) if name else None\<close>.\<close>

definition env_value :: "site \<Rightarrow> pyval \<Rightarrow> pyval script" where
  "env_value t name =
     (if \<not> truthy name then ret PNone
      else (case name of
          PStr k \<Rightarrow> ret (case environ t k of None \<Rightarrow> PNone | Some v \<Rightarrow> PStr v)
        | v \<Rightarrow> raise (OtherError (''str expected, not '' @ type_name v))))"

definition before_slash :: "pyval \<Rightarrow> string script" where
  "before_slash v = (case v of PStr s \<Rightarrow> ret (hd (py_split CHR ''/'' s)) | _ \<Rightarrow> raise (no_attribute v ''split''))"

fun join_items :: "nat \<Rightarrow> pyval list \<Rightarrow> string list script" where
  "join_items n [] = ret []"
| "join_items n (PStr s # vs) = bnd (join_items (Suc n) vs) (\<lambda>ws. ret (s # ws))"
| "join_items n (v # vs) = raise (OtherError (''sequence item '' @ nat_str n @
     '': expected str instance, '' @ type_name v @ '' found''))"

definition join_val :: "string \<Rightarrow> pyval \<Rightarrow> string script" where
  "join_val sep v = bnd (iterate v) (\<lambda>vs. bnd (join_items 0 vs) (\<lambda>ws. ret (py_join sep ws)))"

text \<open>\<open>x in v\<close>.\<close>

fun is_in :: "pyval \<Rightarrow> pyval \<Rightarrow> bool script" where
  "is_in x (PList vs) = ret (list_ex (py_eq x) vs)"
| "is_in x (PDict d) = ret (list_ex (\<lambda>p. PStr (fst p) = x) d)"
| "is_in (PStr p) (PStr s) = ret (py_contains p s)"
| "is_in x (PStr s) = raise (OtherError (quoted ''in <string>'' @ '' requires string as left operand''))"
| "is_in x v = raise (OtherError (''argument of type '' @ quoted (type_name v) @ '' is not iterable''))"

definition dq :: string where "dq = [CHR 0x22]"

definition newline :: string where "newline = [CHR 0x0A]"

definition o_acute :: string where "o_acute = [CHR 0xC3, CHR 0xB3]"

definition n_tilde :: string where "n_tilde = [CHR 0xC3, CHR 0xB1]"

section \<open>Scripts for the router\<close>

definition webhook_token :: "site \<Rightarrow> pyval \<Rightarrow> string \<Rightarrow> pyval script" where
  "webhook_token t section_cfg missing =
     bnd (get_key section_cfg ''token_env'') (\<lambda>token_env.
     bnd (env_value t token_env) (\<lambda>token.
     bnd (if truthy token then ret token else get_key section_cfg ''token_value'') (\<lambda>token.
     if truthy token then ret token else raise (RuntimeError missing))))"

definition onboarding_url :: "pyval \<Rightarrow> pyval \<Rightarrow> pyval script" where
  "onboarding_url cfg webhook =
     bnd (get_key webhook ''url'') (\<lambda>url.
     if truthy url then ret url
     else bnd (subscript cfg ''odoo'') (\<lambda>odoo.
          bnd (subscript odoo ''url'') (\<lambda>base.
          case base of
            PStr b \<Rightarrow> ret (PStr (py_rstrip_char CHR ''/'' b @ ''/isp/mac_onboarding''))
          | v \<Rightarrow> raise (no_attribute v ''rstrip''))))"

definition build_lease_script :: "site \<Rightarrow> pyval \<Rightarrow> string option script" where
  "build_lease_script t cfg =
     bnd (get_or cfg ''webhook'' (PDict [])) (\<lambda>webhook.
     bnd (get_key webhook ''enabled'') (\<lambda>enabled.
     if \<not> truthy enabled then ret None
     else bnd (webhook_token t webhook ''webhook token missing: set webhook.token_env or webhook.token_value'') (\<lambda>token.
          bnd (onboarding_url cfg webhook) (\<lambda>url.
          bnd (get_key webhook ''sector_code'') (\<lambda>own_sector.
          bnd (if truthy own_sector then ret own_sector else get_or cfg ''sector_code'' (PStr [])) (\<lambda>sector.
          ret (Some ('':local mac $leaseActMAC; :local ip $leaseActIP; :local bound $leaseBound; '' @
            ''/tool fetch url='' @ dq @ show_val t url @ ''?token='' @ show_val t token @
            ''&mac=$mac&ip=$ip&bound=$bound&sector='' @ show_val t sector @ dq @ '' keep-result=no'')))))))) "

definition call_home_lines :: "site \<Rightarrow> pyval \<Rightarrow> pyval \<Rightarrow> pyval \<Rightarrow> pyval \<Rightarrow> string \<Rightarrow> string list" where
  "call_home_lines t token url ip_lookup_url mac_iface check_cert =
     ['':local token '' @ dq @ show_val t token @ dq @ '';'',
      '':local url '' @ dq @ show_val t url @ dq @ '';'',
      '':local ident [/system/identity get name];'',
      '':local serial '' @ dq @ dq @ '';'',
      '':do { :set serial [/system/routerboard get serial-number] } on-error={};'',
      '':local mac '' @ dq @ dq @ '';''] @
     (if truthy mac_iface
      then ['':do { :set mac [/interface get [find name='' @ dq @ show_val t mac_iface @ dq @
              ''] mac-address] } on-error={};'']
      else ['':foreach i in=[/interface/ethernet find] do={ :set mac [/interface/ethernet get $i mac-address]; :break; };'']) @
     ['':local public '' @ dq @ dq @ '';'',
      '':do { :local r [/tool fetch url='' @ dq @ show_val t ip_lookup_url @ dq @
        '' as-value output=user]; :set public ($r->'' @ dq @ ''data'' @ dq @ '') } on-error={};'',
      '':if ($public = '' @ dq @ dq @ '') do={ :do { :set public [/ip cloud get public-address] } on-error={}; };'',
      '':local full ($url . '' @ dq @ ''?token='' @ dq @ '' . $token . '' @ dq @ ''&identity='' @ dq @
        '' . $ident . '' @ dq @ ''&serial='' @ dq @ '' . $serial . '' @ dq @ ''&mac='' @ dq @ '' . $mac . '' @ dq @
        ''&public_ip='' @ dq @ '' . $public);'',
      ''/tool fetch url=$full keep-result=no check-certificate='' @ check_cert @ '';'']"

definition build_call_home_script :: "site \<Rightarrow> pyval \<Rightarrow> string option script" where
  "build_call_home_script t cfg =
     bnd (get_or cfg ''call_home'' (PDict [])) (\<lambda>call_home.
     bnd (get_key call_home ''enabled'') (\<lambda>enabled.
     if \<not> truthy enabled then ret None
     else bnd (webhook_token t call_home ''call_home token missing: set call_home.token_env or call_home.token_value'') (\<lambda>token.
          bnd (get_key call_home ''url'') (\<lambda>url.
          if \<not> truthy url then raise (RuntimeError ''call_home.url is required when call_home.enabled is true'')
          else bnd (get_or call_home ''ip_lookup_url'' (PStr ''http://api.ipify.org'')) (\<lambda>ip_lookup_url.
               bnd (get_key call_home ''mac_interface'') (\<lambda>mac_iface.
               bnd (get_or call_home ''check_certificate'' (PBool False)) (\<lambda>check.
               ret (Some (py_join newline (call_home_lines t token url ip_lookup_url mac_iface
                 (if truthy check then ''yes'' else ''no''))))))))))) "

definition routeros_apply_call_home :: "site \<Rightarrow> link \<Rightarrow> pyval \<Rightarrow> unit script" where
  "routeros_apply_call_home t a cfg =
     bnd (get_or cfg ''call_home'' (PDict [])) (\<lambda>call_home.
     bnd (get_key call_home ''enabled'') (\<lambda>enabled.
     if \<not> truthy enabled then ret ()
     else bnd (get_or call_home ''script_name'' (PStr ''isp_checkin'')) (\<lambda>script_name.
          bnd (get_or call_home ''scheduler_name'' script_name) (\<lambda>scheduler_name.
          bnd (get_or call_home ''interval'' (PStr ''5m'')) (\<lambda>interval.
          bnd (build_call_home_script t cfg) (\<lambda>script.
          andthen (routeros_ensure_script t a script_name script)
         (andthen (routeros_ensure_scheduler t a scheduler_name interval
            (''/system/script/run name='' @ show_val t script_name))
            (pass_errors (run_cmd t a ''/system/script/run'' [(''name'', script_name)])))))))))"

section \<open>Instructions for doing it by hand\<close>

definition sector_config :: "pyval \<Rightarrow> pyval script" where
  "sector_config cfg = bnd (get_or cfg ''routeros'' (PDict [])) (\<lambda>r. get_or r ''config'' (PDict []))"

definition manual_hotspot :: "site \<Rightarrow> pyval \<Rightarrow> string \<Rightarrow> string \<Rightarrow> unit script" where
  "manual_hotspot t rcfg lan_bridge dhcp_pool =
     bnd (get_or rcfg ''hotspot_profile'' (PStr ''hs-prof'')) (\<lambda>hs_profile.
     bnd (get_or rcfg ''hotspot_server'' (PStr ''hs1'')) (\<lambda>hs_server.
     bnd (get_key rcfg ''hotspot_dns_name'') (\<lambda>hs_dns_name.
     bnd (get_or rcfg ''hotspot_login_by'' (PStr ''http-chap'')) (\<lambda>hs_login_by.
     bnd (get_or rcfg ''hotspot_html_dir'' (PStr ''hotspot'')) (\<lambda>hs_html_dir.
     bnd (get_key rcfg ''hotspot_walled_garden'') (\<lambda>hs_wg_domain.
     andthen (say ''7) Hotspot'')
    (andthen (say (''   - IP > Hotspot > Profiles: '' @ show_val t hs_profile @ '' (dns-name='' @
        show_val t hs_dns_name @ '', login-by='' @ show_val t hs_login_by @ '', html='' @ show_val t hs_html_dir @ '')''))
    (andthen (say (''   - IP > Hotspot: '' @ show_val t hs_server @ '' en '' @ lan_bridge @ '', pool '' @ dhcp_pool @
        '', profile '' @ show_val t hs_profile))
      (do_if (truthy hs_wg_domain)
        (say (''   - IP > Hotspot > Walled Garden: permitir '' @ show_val t hs_wg_domain))))))))))) "

definition manual_ports :: "site \<Rightarrow> pyval \<Rightarrow> pyval \<Rightarrow> unit script" where
  "manual_ports t lan_ports mgmt_iface = do_if (truthy lan_ports)
     (bnd (join_val '', '' lan_ports) (\<lambda>ports_text.
      bnd (if truthy mgmt_iface then is_in mgmt_iface lan_ports else ret False) (\<lambda>used.
      if used then say (''   - Bridge Ports: a'' @ n_tilde @ ''adir '' @ ports_text @ '' (excepto '' @
        show_val t mgmt_iface @ '' si es gesti'' @ o_acute @ ''n)'')
      else say (''   - Bridge Ports: a'' @ n_tilde @ ''adir '' @ ports_text))))"

definition manual_call_home :: "site \<Rightarrow> pyval \<Rightarrow> unit script" where
  "manual_call_home t cfg =
     bnd (get_or cfg ''call_home'' (PDict [])) (\<lambda>call_home.
     bnd (get_key call_home ''enabled'') (\<lambda>enabled.
     do_if (truthy enabled)
       (bnd (get_or call_home ''interval'' (PStr ''5m'')) (\<lambda>interval.
        bnd (get_key call_home ''url'') (\<lambda>url.
        for_each say
          [''8) Call-home (script + scheduler)'',
           ''   - System > Scripts: crear script '' @ quoted ''isp_checkin'',
           ''   - Scheduler: ejecutar cada '' @ show_val t interval,
           ''   - URL destino: '' @ show_val t url,
           ''   - Token: usar el token definido en call_home (temporal o producci'' @ o_acute @ ''n).''])))))"

definition manual_api :: "site \<Rightarrow> pyval \<Rightarrow> unit script" where
  "manual_api t cfg =
     andthen (say ''9) API (si se requiere Odoo)'')
    (bnd (get_or cfg ''routeros'' (PDict [])) (\<lambda>routeros.
     bnd (get_or routeros ''api_port'' (PInt 8728)) (\<lambda>api_port.
     bnd (get_or routeros ''allowed_mgmt_ips'' (PList [])) (\<lambda>allow_ips.
     do_if (truthy allow_ips)
       (bnd (join_val '', '' allow_ips) (\<lambda>ips.
        andthen (say (''   - IP > Firewall > Filter: permitir TCP '' @ show_val t api_port @ '' desde '' @ ips))
          (say (''   - IP > Firewall > Filter: luego regla DROP TCP '' @ show_val t api_port @ '' para el resto'')))))))) "

definition print_manual_winbox_instructions :: "site \<Rightarrow> pyval \<Rightarrow> pyval \<Rightarrow> unit script" where
  "print_manual_winbox_instructions t cfg mgmt_iface =
     bnd (sector_config cfg) (\<lambda>rcfg.
     if \<not> truthy rcfg
     then say (''Manual (Winbox): no hay configuraci'' @ o_acute @ ''n definida en routeros.config.'')
     else bnd (get_key rcfg ''wan_interface'') (\<lambda>wan_iface.
          bnd (get_key rcfg ''lan_bridge'') (\<lambda>lan_bridge.
          bnd (get_or rcfg ''lan_ports'' (PList [])) (\<lambda>lan_ports.
          bnd (get_key rcfg ''lan_address'') (\<lambda>lan_address.
          bnd (get_key rcfg ''dhcp_pool'') (\<lambda>dhcp_pool.
          bnd (get_key rcfg ''dhcp_range'') (\<lambda>dhcp_range.
          bnd (get_key rcfg ''dhcp_server'') (\<lambda>dhcp_server.
          bnd (get_or rcfg ''dhcp_lease_time'' (PStr ''1h'')) (\<lambda>dhcp_lease_time.
          bnd (get_key rcfg ''dhcp_network'') (\<lambda>dhcp_network.
          bnd (get_key rcfg ''dns_server'') (\<lambda>dns.
          bnd (if truthy dns then ret dns
               else if truthy lan_address then bnd (before_slash lan_address) (\<lambda>w. ret (PStr w))
               else ret (PStr [])) (\<lambda>dns_server.
          bnd (get_key rcfg ''enable_hotspot'') (\<lambda>enable_hotspot.
          andthen (say (newline @ ''MANUAL (Winbox) - Configuraci'' @ o_acute @ ''n requerida''))
         (andthen (say ''1) WAN (Internet)'')
         (andthen (do_if (truthy wan_iface)
            (andthen (say (''   - Interface WAN: '' @ show_val t wan_iface))
              (say (''   - IP > DHCP Client: a'' @ n_tilde @
                ''adir en WAN, Add Default Route = yes, Use Peer DNS = yes''))))
         (andthen (say ''2) Bridge LAN'')
         (andthen (do_if (truthy lan_bridge) (say (''   - Bridge: crear '' @ show_val t lan_bridge)))
         (andthen (manual_ports t lan_ports mgmt_iface)
         (andthen (say (''3) Direcci'' @ o_acute @ ''n IP LAN''))
         (andthen (do_if (truthy lan_address \<and> truthy lan_bridge)
            (say (''   - IP > Addresses: '' @ show_val t lan_address @ '' en '' @ show_val t lan_bridge)))
         (andthen (say ''4) DHCP Server'')
         (andthen (do_if (truthy dhcp_pool \<and> truthy dhcp_range)
            (say (''   - IP > Pool: '' @ show_val t dhcp_pool @ '' = '' @ show_val t dhcp_range)))
         (andthen (do_if (truthy dhcp_server \<and> truthy lan_bridge)
            (say (''   - IP > DHCP Server: '' @ show_val t dhcp_server @ '' en '' @ show_val t lan_bridge @
              '', pool '' @ show_val t dhcp_pool @ '', lease '' @ show_val t dhcp_lease_time)))
         (andthen (do_if (truthy dhcp_network \<and> truthy dns_server)
            (say (''   - IP > DHCP Server > Networks: '' @ show_val t dhcp_network @ '' gw '' @ show_val t dns_server @
              '' dns '' @ show_val t dns_server)))
         (andthen (say ''5) DNS'')
         (andthen (do_if (truthy dns_server)
            (say (''   - IP > DNS: Servers '' @ show_val t dns_server @ '', Allow Remote Requests = yes'')))
         (andthen (say ''6) NAT'')
         (andthen (do_if (truthy wan_iface)
            (say (''   - IP > Firewall > NAT: srcnat, out-interface '' @ show_val t wan_iface @ '', action masquerade'')))
         (andthen (if truthy enable_hotspot
            then manual_hotspot t rcfg (show_val t lan_bridge) (show_val t dhcp_pool)
            else andthen (say ''7) Hotspot'') (say ''   - Deshabilitado (sin portal cautivo).''))
         (andthen (manual_call_home t cfg)
            (manual_api t cfg)))))))))))))))))))))))))))))))"

section \<open>The sector's network\<close>

definition ensure_lan_ports :: "site \<Rightarrow> link \<Rightarrow> pyval \<Rightarrow> pyval \<Rightarrow> pyval \<Rightarrow> unit script" where
  "ensure_lan_ports t a lan_bridge lan_ports mgmt_iface =
     bnd (iterate lan_ports) (for_each (\<lambda>port.
       if truthy mgmt_iface \<and> py_eq port mgmt_iface
       then say (''Skip bridge port '' @ show_val t port @ '': management interface in use'')
       else routeros_ensure_bridge_port t a lan_bridge port))"

definition ensure_hotspot :: "site \<Rightarrow> link \<Rightarrow> pyval \<Rightarrow> pyval \<Rightarrow> pyval \<Rightarrow> unit script" where
  "ensure_hotspot t a rcfg lan_bridge dhcp_pool =
     andthen (say ''  - ensure Hotspot'')
    (bnd (get_or rcfg ''hotspot_profile'' (PStr ''hs-prof'')) (\<lambda>hs_profile.
     bnd (get_or rcfg ''hotspot_server'' (PStr ''hs1'')) (\<lambda>hs_server.
     bnd (get_key rcfg ''hotspot_dns_name'') (\<lambda>hs_dns_name.
     bnd (get_or rcfg ''hotspot_login_by'' (PStr ''http-chap'')) (\<lambda>hs_login_by.
     bnd (get_or rcfg ''hotspot_html_dir'' (PStr ''hotspot'')) (\<lambda>hs_html_dir.
     bnd (get_key rcfg ''hotspot_walled_garden'') (\<lambda>hs_wg_domain.
     if \<not> truthy hs_dns_name then raise (RuntimeError ''hotspot_dns_name is required when enable_hotspot is true'')
     else andthen (routeros_ensure_hotspot_profile t a hs_profile hs_dns_name hs_login_by hs_html_dir)
         (andthen (routeros_ensure_hotspot_server t a hs_server lan_bridge dhcp_pool hs_profile)
           (do_if (truthy hs_wg_domain)
             (routeros_ensure_walled_garden t a hs_wg_domain ''ISP-WALLED-GARDEN'')))))))))) "

definition ensure_lease_script :: "site \<Rightarrow> link \<Rightarrow> pyval \<Rightarrow> pyval \<Rightarrow> unit script" where
  "ensure_lease_script t a cfg dhcp_server =
     andthen (say ''  - ensure DHCP lease script'')
    (bnd (build_lease_script t cfg) (\<lambda>lease_script.
     bnd (get_or cfg ''webhook'' (PDict [])) (\<lambda>webhook.
     bnd (get_or webhook ''clear_lease_script_on_disable'' (PBool True)) (\<lambda>clear_lease_script.
     routeros_set_dhcp_lease_script t a dhcp_server lease_script clear_lease_script))))"

definition routeros_apply_sector_config :: "site \<Rightarrow> link \<Rightarrow> pyval \<Rightarrow> pyval \<Rightarrow> unit script" where
  "routeros_apply_sector_config t a cfg mgmt_iface =
     bnd (sector_config cfg) (\<lambda>rcfg.
     if \<not> truthy rcfg then ret ()
     else bnd (get_key rcfg ''wan_interface'') (\<lambda>wan_iface.
          bnd (get_key rcfg ''lan_bridge'') (\<lambda>lan_bridge.
          bnd (get_or rcfg ''lan_ports'' (PList [])) (\<lambda>lan_ports.
          bnd (get_key rcfg ''lan_address'') (\<lambda>lan_address.
          bnd (get_key rcfg ''dhcp_pool'') (\<lambda>dhcp_pool.
          bnd (get_key rcfg ''dhcp_range'') (\<lambda>dhcp_range.
          bnd (get_key rcfg ''dhcp_server'') (\<lambda>dhcp_server.
          bnd (get_or rcfg ''dhcp_lease_time'' (PStr ''1h'')) (\<lambda>dhcp_lease_time.
          bnd (get_key rcfg ''dhcp_network'') (\<lambda>dhcp_network.
          bnd (get_key rcfg ''dns_server'') (\<lambda>dns_server.
          if \<not> list_all truthy [wan_iface, lan_bridge, lan_address, dhcp_pool, dhcp_range, dhcp_server, dhcp_network]
          then raise (RuntimeError ''Missing routeros.config required values'')
          else bnd (get_or rcfg ''enable_dhcp_client_wan'' (PBool True)) (\<lambda>dhcp_client.
               andthen (do_if (truthy dhcp_client)
                 (andthen (say ''  - ensure DHCP client on WAN'') (routeros_ensure_dhcp_client t a wan_iface ''ISP-WAN'')))
              (andthen (say ''  - ensure LAN bridge and ports'')
              (andthen (routeros_ensure_bridge t a lan_bridge)
              (andthen (ensure_lan_ports t a lan_bridge lan_ports mgmt_iface)
              (andthen (say ''  - ensure LAN IP and DHCP'')
              (andthen (routeros_ensure_ip_address t a lan_address lan_bridge)
              (andthen (routeros_ensure_ip_pool t a dhcp_pool dhcp_range)
              (andthen (routeros_ensure_dhcp_server t a dhcp_server lan_bridge dhcp_pool dhcp_lease_time)
              (bnd (before_slash lan_address) (\<lambda>gateway.
               andthen (routeros_ensure_dhcp_network t a dhcp_network (PStr gateway) (or_val dns_server (PStr gateway)))
              (andthen (do_if (truthy dns_server)
                 (andthen (say ''  - ensure DNS'') (routeros_ensure_dns t a dns_server)))
              (bnd (get_or rcfg ''enable_nat'' (PBool True)) (\<lambda>nat_wanted.
               andthen (do_if (truthy nat_wanted)
                 (andthen (say ''  - ensure NAT masquerade'') (routeros_ensure_nat_masquerade t a wan_iface ''ISP-NAT'')))
              (bnd (get_key rcfg ''enable_hotspot'') (\<lambda>hotspot.
               andthen (do_if (truthy hotspot) (ensure_hotspot t a rcfg lan_bridge dhcp_pool))
                 (ensure_lease_script t a cfg dhcp_server)))))))))))))))))))))))))))"

end
