(* ===== verification/Preloader_Config.thy ===== *)
theory Preloader_Config
  imports Preloader_Setup "HOL-Library.AList"
begin

text \<open>
  The preloader's configuration: \<open>_merge_dict\<close> and \<open>merge_preconfig\<close>, which change the local
  configuration in place and may stop half way, and what the merged configuration holds at every
  path, compared with a reference that looks only at the two sources.
\<close>

section \<open>Merging in place\<close>

text \<open>The state of these programs is the dictionary they change.\<close>

type_synonym 'a editor = "(pyval, 'a) prog"

text \<open>\<open>dst[k] = v\<close> and \<open>dst.setdefault(k, {})\<close>.\<close>

fun set_item :: "string \<Rightarrow> pyval \<Rightarrow> unit editor" where
  "set_item k v (PDict m) = (Inr (), PDict (AList.update k v m))"
| "set_item k v (PList xs) = (Inl (OtherError ''list indices must be integers or slices, not str''), PList xs)"
| "set_item k v u = (Inl (OtherError (quoted (type_name u) @ '' object does not support item assignment'')), u)"

fun set_default :: "string \<Rightarrow> unit editor" where
  "set_default k (PDict m) = (Inr (), PDict (if map_of m k = None then AList.update k (PDict []) m else m))"
| "set_default k u = (Inl (no_attribute u ''setdefault''), u)"

text \<open>Working on \<open>dst[k]\<close>, which is changed in place.\<close>

fun in_key :: "string \<Rightarrow> 'a editor \<Rightarrow> 'a editor" where
  "in_key k p (PDict m) = (case map_of m k of
      None \<Rightarrow> (Inl (KeyError (quoted k)), PDict m)
    | Some node \<Rightarrow> (case p node of (r, node') \<Rightarrow> (r, PDict (AList.update k node' m))))"
| "in_key k p u = (case subscript u k u of (Inl x, v) \<Rightarrow> (Inl x, u) | (Inr y, v) \<Rightarrow> (Inl (KeyError (quoted k)), u))"

function merge_items :: "(string \<times> pyval) list \<Rightarrow> unit editor"
  and merge_item :: "string \<Rightarrow> pyval \<Rightarrow> unit editor" where
  "merge_items [] = ret ()"
| "merge_items ((k, v) # kvs) = andthen (merge_item k v) (merge_items kvs)"
| "merge_item k PNone = ret ()"
| "merge_item k (PDict d) = andthen (set_default k) (in_key k (merge_items d))"
| "merge_item k (PBool b) = set_item k (PBool b)"
| "merge_item k (PInt i) = set_item k (PInt i)"
| "merge_item k (PFloat x) = set_item k (PFloat x)"
| "merge_item k (PStr s) = set_item k (PStr s)"
| "merge_item k (PList xs) = set_item k (PList xs)"
  by pat_completeness auto
termination
  by (relation "measure (case_sum (\<lambda>d. 2 * size (PDict d)) (\<lambda>(k, v). 2 * size v + 1))") auto

definition merge_dict :: "pyval \<Rightarrow> unit editor" where
  "merge_dict src = (if \<not> truthy src then ret ()
     else (case src of PDict d \<Rightarrow> merge_items d | v \<Rightarrow> raise (no_attribute v ''items'')))"

definition merge_section :: "string \<Rightarrow> pyval \<Rightarrow> unit editor" where
  "merge_section k pre = bnd (get_key pre k) (\<lambda>v.
     do_if (v \<noteq> PNone) (andthen (set_default k) (in_key k (merge_dict v))))"

definition merge_routeros :: "pyval \<Rightarrow> unit editor" where
  "merge_routeros pre = bnd (get_key pre ''routeros'') (\<lambda>v.
     do_if (truthy v)
       (andthen (set_default ''routeros'')
       (andthen (in_key ''routeros'' (merge_dict v))
         (case v of
            PDict d \<Rightarrow> (case map_of d ''config'' of
                None \<Rightarrow> ret ()
              | Some c \<Rightarrow> in_key ''routeros'' (set_item ''config'' c))
          | _ \<Rightarrow> ret ()))))"

definition merge_preconfig :: "pyval \<Rightarrow> unit editor" where
  "merge_preconfig pre = (if \<not> truthy pre then ret ()
     else bnd (get_key pre ''mgmt_subnet'') (\<lambda>subnet.
          andthen (do_if (truthy subnet) (set_item ''mgmt_subnet'' subnet))
         (bnd (get_key pre ''target_mac'') (\<lambda>mac.
          andthen (do_if (mac \<noteq> PNone) (set_item ''target_mac'' mac))
         (andthen (merge_section ''bootstrap'' pre)
         (andthen (merge_routeros pre)
         (andthen (merge_section ''call_home'' pre)
         (andthen (merge_section ''webhook'' pre)
           (merge_section ''naming'' pre)))))))))"

end
