(* ===== verification/Preloader_Main.thy ===== *)
theory Preloader_Main
  imports Preloader_Config
begin

text \<open>
  The preloader, last part: onboarding one router with its retry, registering it in the
  application over XML-RPC (each call is a transaction of its own), fetching the
  preconfiguration, and \<open>main\<close>.
\<close>

section \<open>str.format\<close>

definition letters :: string where
  "letters = lower_letters @ upper_letters @ ''_''"

fun plain_name :: "string \<Rightarrow> bool" where
  "plain_name [] = False"
| "plain_name (c # s) = (c \<in> set letters \<and> list_all (\<lambda>d. d \<in> set letters \<or> d \<in> set digit_chars) s)"

text \<open>Doubled braces are braces; \<open>{name}\<close> is replaced; other fields are left to \<open>format_special\<close>.\<close>

function py_format :: "site \<Rightarrow> (string \<times> pyval) list \<Rightarrow> string \<Rightarrow> exc + string" where
  "py_format t kw [] = Inr []"
| "py_format t kw (c # s) =
     (if c = CHR ''{'' then
        (if s \<noteq> [] \<and> hd s = CHR ''{'' then map_sum id (Cons c) (py_format t kw (tl s))
         else let name = takeWhile (\<lambda>x. x \<noteq> CHR ''}'') s; rest = dropWhile (\<lambda>x. x \<noteq> CHR ''}'') s
           in if rest = [] \<or> \<not> plain_name name then format_special t (c # s) kw
              else (case map_of kw name of
                  None \<Rightarrow> Inl (KeyError (quoted name))
                | Some v \<Rightarrow> map_sum id (\<lambda>w. show_val t v @ w) (py_format t kw (tl rest))))
      else if c = CHR ''}'' then
        (if s \<noteq> [] \<and> hd s = CHR ''}'' then map_sum id (Cons c) (py_format t kw (tl s))
         else Inl (ValueError (''Single '' @ quoted ''}'' @ '' encountered in format string'')))
      else map_sum id (Cons c) (py_format t kw s))"
  by pat_completeness auto
termination
proof (relation "measure (\<lambda>(t, kw, s). length s)", goal_cases)
  case (3 t kw c s name rest v)
  have "length rest \<le> length s" using 3 by (simp add: length_dropWhile_le)
  then show ?case by simp
qed (auto simp: less_Suc_eq_le)

declare py_format.simps [simp del]

definition lift_sum :: "exc + 'a \<Rightarrow> ('s, 'a) prog" where
  "lift_sum r = (\<lambda>s. (r, s))"

section \<open>One router\<close>

definition connect_to :: "site \<Rightarrow> string \<Rightarrow> pyval \<Rightarrow> pyval \<Rightarrow> pyval \<Rightarrow> link script" where
  "connect_to t ip user password port = bnd (gets sent) (\<lambda>log.
     case api_open t log (ip, user) password port of
       Some x \<Rightarrow> raise x
     | None \<Rightarrow> ret (ip, user))"

text \<open>\<open>(v or "").lower()\<close>.\<close>

definition lower_val :: "pyval \<Rightarrow> string script" where
  "lower_val v = (case or_val v (PStr []) of PStr x \<Rightarrow> ret (py_lower x) | u \<Rightarrow> raise (no_attribute u ''lower''))"

fun has_mac :: "string \<Rightarrow> row list \<Rightarrow> bool script" where
  "has_mac mac [] = ret False"
| "has_mac mac (entry # rows) = bnd (lower_val (row_get entry ''mac-address'')) (\<lambda>x.
     if x = mac then ret True else has_mac mac rows)"

text \<open>Whether the router is to be skipped because none of its interfaces has the wanted address.\<close>

definition skip_router :: "site \<Rightarrow> link \<Rightarrow> pyval \<Rightarrow> bool script" where
  "skip_router t a cfg =
     bnd (get_key cfg ''target_mac'') (\<lambda>v.
     bnd (lower_val v) (\<lambda>target_mac.
     if target_mac = [] then ret False
     else let mac = py_lower (py_replace CHR ''-'' '':'' target_mac)
       in bnd (api_exec t a ''/interface/ethernet/print'' []) (\<lambda>entries.
          bnd (has_mac mac entries) (\<lambda>found.
          bnd (if found then ret entries else api_exec t a ''/interface/print'' []) (\<lambda>entries.
          bnd (has_mac mac entries) (\<lambda>found.
          if found then ret False
          else andthen (say (''Skip '' @ fst a @ '': MAC '' @ target_mac @ '' not found'')) (ret True)))))))"

definition boot_credentials :: "site \<Rightarrow> pyval \<Rightarrow> (pyval \<times> pyval) script" where
  "boot_credentials t cfg =
     bnd (get_or cfg ''bootstrap'' (PDict [])) (\<lambda>b.
     bnd (get_key b ''user'') (\<lambda>user.
     bnd (get_key b ''pass'') (\<lambda>pass.
     bnd (get_key b ''pass_env'') (\<lambda>pass_env.
     bnd (if \<not> truthy pass \<and> truthy pass_env then env_value t pass_env else ret PNone) (\<lambda>from_env.
     ret (or_val user (PStr ''admin''),
          if from_env \<noteq> PNone then from_env else or_val pass (PStr [])))))))"

definition mgmt_credentials :: "site \<Rightarrow> pyval \<Rightarrow> (pyval \<times> pyval) script" where
  "mgmt_credentials t cfg =
     bnd (subscript cfg ''routeros'') (\<lambda>r.
     bnd (subscript r ''mgmt_user'') (\<lambda>user.
     bnd (get_key r ''mgmt_pass_value'') (\<lambda>pass.
     if truthy pass then ret (user, pass)
     else bnd (get_key r ''mgmt_pass_env'') (\<lambda>name. bnd (require_env t name) (\<lambda>p. ret (user, PStr p))))))"

definition allowed_addresses :: "site \<Rightarrow> pyval \<Rightarrow> pyval list script" where
  "allowed_addresses t cfg =
     bnd (subscript cfg ''routeros'') (\<lambda>r.
     bnd (get_or r ''allowed_mgmt_ips'' (PList [])) (\<lambda>v.
     bnd (iterate v) (\<lambda>ips.
     bnd (get_key r ''allowed_mgmt_ips_env'') (\<lambda>name.
     bnd (env_value t name) (\<lambda>raw.
     ret (ips @ (case raw of PStr x \<Rightarrow> map PStr (parse_csv (Some x)) | _ \<Rightarrow> [])))))))"

definition router_identity :: "site \<Rightarrow> pyval \<Rightarrow> string \<Rightarrow> string script" where
  "router_identity t cfg ip =
     bnd (subscript cfg ''naming'') (\<lambda>naming.
     bnd (subscript naming ''identity_prefix'') (\<lambda>prefix.
     bnd (subscript cfg ''sector_code'') (\<lambda>sector.
     bnd (subscript naming ''identity_format'') (\<lambda>fmt.
     case fmt of
       PStr f \<Rightarrow> lift_sum (py_format t [(''prefix'', prefix), (''sector'', sector),
           (''ip_last_octet'', PStr (last (py_split CHR ''.'' ip)))] f)
     | v \<Rightarrow> raise (no_attribute v ''format'')))))"

definition group_policy :: string where
  "group_policy = ''read,write,api,!local,!telnet,!ssh,!ftp,!reboot,!policy,!password,!sniff,!sensitive''"

definition neighbor_step :: "site \<Rightarrow> link \<Rightarrow> pyval \<Rightarrow> unit script" where
  "neighbor_step t a cfg =
     andthen (say ''Step: neighbor discovery'')
    (bnd (get_or cfg ''routeros'' (PDict [])) (\<lambda>r.
     bnd (get_key r ''discovery_interfaces'') (\<lambda>wanted.
     if truthy wanted then routeros_ensure_neighbor_discovery t a wanted
     else bnd (routeros_get_mgmt_interface t a (fst a)) (\<lambda>guess.
       routeros_ensure_neighbor_discovery t a (if truthy guess then PList [guess] else PList [])))))"

definition firewall_step :: "site \<Rightarrow> link \<Rightarrow> pyval \<Rightarrow> pyval list \<Rightarrow> unit script" where
  "firewall_step t a api_port allowed_ips =
     andthen (say ''Step: firewall allowlist'')
    (andthen (for_each (\<lambda>allow_ip. routeros_ensure_firewall_allow t a api_port allow_ip ''ALLOW ODOO/NOC API'') allowed_ips)
    (andthen (say ''Step: firewall drop others'')
      (routeros_ensure_firewall_drop t a api_port ''DROP API OTHERS'')))"

text \<open>
  The sector configuration, tried again once over a new connection as the management user; the
  result is the connection in use and the variable \<open>mgmt_iface\<close>, unset when the step is skipped.
\<close>

definition retry_sector :: "site \<Rightarrow> string \<Rightarrow> pyval \<Rightarrow> pyval \<Rightarrow> pyval \<Rightarrow> pyval \<Rightarrow> exc \<Rightarrow> (link \<times> pyval option) script" where
  "retry_sector t ip cfg mgmt_user mgmt_pass api_port exc =
     andthen (say (''Sector config interrupted, retrying: '' @ exc_str exc))
    (bnd (connect_to t ip mgmt_user mgmt_pass api_port) (\<lambda>a.
     bnd (routeros_get_mgmt_interface t a ip) (\<lambda>mgmt_iface.
     catching (\<lambda>_. True)
       (andthen (routeros_apply_sector_config t a cfg mgmt_iface) (ret (a, Some mgmt_iface)))
       (\<lambda>exc2. andthen (say (''Sector config failed again: '' @ exc_str exc2))
          (andthen (print_manual_winbox_instructions t cfg mgmt_iface)
            (raise exc2))))))"

definition sector_step :: "site \<Rightarrow> link \<Rightarrow> pyval \<Rightarrow> pyval \<Rightarrow> pyval \<Rightarrow> pyval \<Rightarrow> (link \<times> pyval option) script" where
  "sector_step t a cfg mgmt_user mgmt_pass api_port =
     bnd (get_or cfg ''routeros'' (PDict [])) (\<lambda>r.
     bnd (get_or r ''apply_sector_config'' (PBool True)) (\<lambda>wanted.
     if \<not> truthy wanted then ret (a, None)
     else andthen (say ''Step: apply sector config'')
         (bnd (routeros_get_mgmt_interface t a (fst a)) (\<lambda>mgmt_iface.
          catching (\<lambda>_. True)
            (andthen (routeros_apply_sector_config t a cfg mgmt_iface) (ret (a, Some mgmt_iface)))
            (retry_sector t (fst a) cfg mgmt_user mgmt_pass api_port)))))"

definition unbound_mgmt_iface :: exc where
  "unbound_mgmt_iface = OtherError (''cannot access local variable '' @ quoted ''mgmt_iface'' @
     '' where it is not associated with a value'')"

definition call_home_step :: "site \<Rightarrow> link \<Rightarrow> pyval \<Rightarrow> pyval option \<Rightarrow> unit script" where
  "call_home_step t a cfg mgmt_iface =
     bnd (get_or cfg ''call_home'' (PDict [])) (\<lambda>c.
     bnd (get_key c ''enabled'') (\<lambda>enabled.
     if \<not> truthy enabled then ret ()
     else andthen (say ''Step: configure call-home'')
       (catching (\<lambda>_. True) (routeros_apply_call_home t a cfg)
         (\<lambda>exc. andthen (say (''Call-home config failed: '' @ exc_str exc))
            (case mgmt_iface of
               None \<Rightarrow> raise unbound_mgmt_iface
             | Some v \<Rightarrow> andthen (print_manual_winbox_instructions t cfg v) (raise exc))))))"

record onboarded =
  onb_identity :: string
  onb_ip :: string
  onb_api_port :: pyval

text \<open>Everything after the router is known to be the wanted one.\<close>

definition setup_router :: "site \<Rightarrow> link \<Rightarrow> pyval \<Rightarrow> pyval \<Rightarrow> pyval \<Rightarrow> pyval \<Rightarrow> pyval list \<Rightarrow> onboarded script" where
  "setup_router t a cfg api_port mgmt_user mgmt_pass allowed_ips =
     bnd (router_identity t cfg (fst a)) (\<lambda>identity.
     andthen (say ''Step: set identity'')
    (andthen (run_cmd t a ''/system/identity/set'' [(''name'', PStr identity)])
    (andthen (say ''Step: ensure API service enabled'')
    (andthen (run_cmd t a ''/ip/service/set'' [(''numbers'', PStr ''api''), (''disabled'', PStr ''no'')])
    (andthen (say ''Step: ensure management group/user'')
    (andthen (routeros_ensure_group t a ''odoo_noc_group'' group_policy)
    (andthen (routeros_ensure_user t a mgmt_user mgmt_pass ''odoo_noc_group'')
    (andthen (neighbor_step t a cfg)
    (andthen (firewall_step t a api_port allowed_ips)
    (bnd (sector_step t a cfg mgmt_user mgmt_pass api_port) (\<lambda>(a', mgmt_iface).
     andthen (call_home_step t a' cfg mgmt_iface)
       (ret \<lparr>onb_identity = identity, onb_ip = fst a, onb_api_port = api_port\<rparr>))))))))))))"

definition routeros_onboard :: "site \<Rightarrow> string \<Rightarrow> pyval \<Rightarrow> onboarded option script" where
  "routeros_onboard t ip cfg =
     bnd (subscript cfg ''routeros'') (\<lambda>r.
     bnd (subscript r ''api_port'') (\<lambda>api_port.
     bnd (boot_credentials t cfg) (\<lambda>(boot_user, boot_pass).
     bnd (mgmt_credentials t cfg) (\<lambda>(mgmt_user, mgmt_pass).
     bnd (allowed_addresses t cfg) (\<lambda>allowed_ips.
     bnd (connect_to t ip boot_user boot_pass api_port) (\<lambda>a.
     andthen (say (''Connected to '' @ ip @ '' via API''))
    (bnd (skip_router t a cfg) (\<lambda>skip.
     if skip then ret None
     else bnd (setup_router t a cfg api_port mgmt_user mgmt_pass allowed_ips) (\<lambda>ob. ret (Some ob)))))))))) "

section \<open>The application over XML-RPC\<close>

text \<open>One \<open>execute_kw\<close> call: a transaction of the server; an exception comes back as a fault.\<close>

definition rpc :: "site \<Rightarrow> (env \<Rightarrow> 'a op) \<Rightarrow> 'a script" where
  "rpc t m = (\<lambda>s. case m (request_env t (calls s)) (server s) of
       (Inl x, d) \<Rightarrow> (Inl (fault t x), s\<lparr>server := rollback (server s) d, calls := Suc (calls s)\<rparr>)
     | (Inr v, d) \<Rightarrow> (Inr v, s\<lparr>server := d, calls := Suc (calls s)\<rparr>))"

definition login :: "site \<Rightarrow> pyval \<Rightarrow> unit script" where
  "login t odoo =
     bnd (subscript odoo ''url'') (\<lambda>url.
     bnd (subscript odoo ''db'') (\<lambda>db.
     bnd (subscript odoo ''user'') (\<lambda>user.
     bnd (subscript odoo ''pass_env'') (\<lambda>name.
     bnd (require_env t name) (\<lambda>pwd.
     bnd (lift_sum (authenticate t url db user pwd)) (\<lambda>uid.
     if uid then ret () else raise (RuntimeError ''Odoo authentication failed.'')))))))"

text \<open>A value that is compared with a text column.\<close>

definition as_text :: "site \<Rightarrow> pyval \<Rightarrow> string script" where
  "as_text t v = (case v of PStr x \<Rightarrow> ret x | _ \<Rightarrow> lift_sum (text_arg t v))"

text \<open>What an integer column stores: \<open>int(value or 0)\<close>.\<close>

definition int_column :: "pyval \<Rightarrow> int op" where
  "int_column v = (if \<not> truthy v then ret 0 else (case v of
      PBool b \<Rightarrow> ret 1
    | PInt i \<Rightarrow> ret i
    | PFloat x \<Rightarrow> ret (if x < 0 then \<lceil>x\<rceil> else \<lfloor>x\<rfloor>)
    | PStr x \<Rightarrow> (case py_int x of None \<Rightarrow> raise (ValueError ''invalid literal for int()'') | Some i \<Rightarrow> ret i)
    | _ \<Rightarrow> raise (OtherError ''int() argument must be a string, a bytes-like object or a real number'')))"

definition find_device :: "env \<Rightarrow> string \<Rightarrow> sys \<Rightarrow> nat option" where
  "find_device e ip s = first_id (sort_key (\<lambda>i. collate e (via (devices s) (Some i) [] dev_name))
     (search_ids (\<lambda>_ d. dev_mgmt_ip d = Some ip \<and> dev_device_type d = DTMikrotik) (devices s)))"

definition find_router :: "nat \<Rightarrow> sys \<Rightarrow> nat option" where
  "find_router d s = first_id (search_ids (\<lambda>_ r. rtr_device_id r = Some d) (routers s))"

definition router_create :: "nat \<Rightarrow> nat op" where
  "router_create d = bnd (gets (\<lambda>s. fresh_id (routers s))) (\<lambda>i.
     andthen (modify (\<lambda>s. s\<lparr>routers := tins \<lparr>rtr_device_id = Some d, rtr_api_user = None,
       rtr_routeros_version = PBool False, rtr_last_healthcheck_at = None, rtr_last_healthcheck_status = None\<rparr>
       (routers s)\<rparr>)) (ret i))"

definition save_device :: "site \<Rightarrow> onboarded \<Rightarrow> nat \<Rightarrow> nat option \<Rightarrow> nat script" where
  "save_device t ob sector_id found = (case found of
      Some d \<Rightarrow> bnd (rpc t (\<lambda>e. bnd (int_column (onb_api_port ob)) (\<lambda>port.
          dev_write d [N_name (onb_identity ob), N_sector_id (Some sector_id), N_mgmt_port port, N_status DSActive])))
        (\<lambda>_. ret d)
    | None \<Rightarrow> rpc t (\<lambda>e. bnd (int_column (onb_api_port ob)) (\<lambda>port.
          dev_create [N_name (onb_identity ob), N_device_type DTMikrotik, N_sector_id (Some sector_id),
            N_mgmt_ip (Some (onb_ip ob)), N_mgmt_port port, N_status DSActive])))"

definition odoo_register_device :: "site \<Rightarrow> pyval \<Rightarrow> onboarded \<Rightarrow> (nat \<times> nat) script" where
  "odoo_register_device t cfg ob =
     bnd (subscript cfg ''odoo'') (\<lambda>odoo.
     andthen (login t odoo)
    (bnd (subscript cfg ''sector_code'') (\<lambda>code.
     bnd (as_text t code) (\<lambda>c.
     bnd (rpc t (\<lambda>e. gets (\<lambda>s. first_sector e s c))) (\<lambda>sector.
     case sector of
       None \<Rightarrow> raise (RuntimeError (''Sector not found: '' @ show_val t code))
     | Some sector_id \<Rightarrow>
         bnd (rpc t (\<lambda>e. gets (find_device e (onb_ip ob)))) (\<lambda>found.
         bnd (save_device t ob sector_id found) (\<lambda>device_id.
         bnd (rpc t (\<lambda>e. gets (find_router device_id))) (\<lambda>router.
         case router of
           Some router_id \<Rightarrow> ret (device_id, router_id)
         | None \<Rightarrow> bnd (rpc t (\<lambda>e. router_create device_id)) (\<lambda>router_id.
             ret (device_id, router_id))))))))))"

definition odoo_fetch_preconfig :: "site \<Rightarrow> pyval \<Rightarrow> pyval script" where
  "odoo_fetch_preconfig t cfg =
     bnd (get_or cfg ''odoo'' (PDict [])) (\<lambda>odoo.
     bnd (get_key odoo ''fetch_preconfig'') (\<lambda>wanted.
     if \<not> truthy wanted then ret PNone
     else andthen (login t odoo)
         (bnd (get_key cfg ''sector_code'') (\<lambda>code.
          catching (\<lambda>_. True)
            (bnd (if truthy code then bnd (as_text t code) (\<lambda>c. ret (Some c)) else ret None) (\<lambda>c.
             bnd (rpc t (\<lambda>e. get_preconfig_for_sector e c)) (\<lambda>payload.
             lift_sum (marshal t (PDict payload)))))
            (\<lambda>exc. raise (RuntimeError (''Failed to fetch preconfig from Odoo: '' @ exc_str exc)))))))"

section \<open>main\<close>

definition fetch_and_merge :: "site \<Rightarrow> pyval \<Rightarrow> pyval script" where
  "fetch_and_merge t cfg = (\<lambda>s. case odoo_fetch_preconfig t cfg s of
      (Inl x, s') \<Rightarrow> bnd (say (''Odoo preconfig fetch failed, using local config: '' @ exc_str x)) (\<lambda>_. ret cfg) s'
    | (Inr pre, s') \<Rightarrow>
        if \<not> truthy pre then bnd (say ''No preconfig found in Odoo. Using local config.'') (\<lambda>_. ret cfg) s'
        else (case merge_preconfig pre cfg of
            (Inl x, cfg') \<Rightarrow> bnd (say (''Odoo preconfig fetch failed, using local config: '' @ exc_str x)) (\<lambda>_. ret cfg') s'
          | (Inr _, cfg') \<Rightarrow> bnd (say ''Loaded preconfig from Odoo.'') (\<lambda>_. ret cfg') s'))"

definition onboard_candidate :: "site \<Rightarrow> pyval \<Rightarrow> bool \<Rightarrow> string \<Rightarrow> unit script" where
  "onboard_candidate t cfg register_device ip = catching (\<lambda>_. True)
     (bnd (routeros_onboard t ip cfg) (\<lambda>result.
      case result of
        None \<Rightarrow> ret ()
      | Some ob \<Rightarrow>
          if register_device
          then bnd (odoo_register_device t cfg ob) (\<lambda>(d, r).
               say (''Onboarded '' @ ip @ '': '' @ onb_identity ob @ '' => Odoo '' @
                 show_val t (PDict [(''device_id'', PInt (int d)), (''router_id'', PInt (int r))])))
          else say (''Onboarded '' @ ip @ '': '' @ onb_identity ob @ '' (Odoo registration skipped)'')))
     (\<lambda>e. say (''Failed '' @ ip @ '': '' @ exc_str e))"

definition preloader_main :: "site \<Rightarrow> pyval \<Rightarrow> unit script" where
  "preloader_main t local_cfg =
     bnd (subscript local_cfg ''routeros'') (\<lambda>r.
     bnd (subscript r ''api_port'') (\<lambda>api_port.
     bnd (fetch_and_merge t local_cfg) (\<lambda>cfg.
     bnd (subscript cfg ''mgmt_subnet'') (\<lambda>subnet.
     bnd (lift_sum (scan_subnet_for_api (connects t) (other_network t) subnet api_port)) (\<lambda>candidates.
     andthen (say (''Found candidates: '' @ show_val t (PList (map PStr candidates))))
    (bnd (get_or cfg ''odoo'' (PDict [])) (\<lambda>odoo.
     bnd (get_or odoo ''register_device'' (PBool True)) (\<lambda>register_device.
     for_each (onboard_candidate t cfg (truthy register_device)) candidates))))))))"

end
