(* ===== verification/Preloader_Merge.thy ===== *)
theory Preloader_Merge
  imports Preloader_Main
begin

text \<open>
  What the merged configuration holds: at every path the setting of the profile wins, an unset
  column leaves the local setting, and the RouterOS network is replaced as a whole.
\<close>

section \<open>Settings along a path\<close>

text \<open>The first value along a path that is not a dictionary, with the rest of the path.\<close>

fun leaf_on :: "pyval \<Rightarrow> string list \<Rightarrow> (pyval \<times> string list) option" where
  "leaf_on (PDict d) [] = None"
| "leaf_on (PDict d) (k # ks) = (case map_of d k of None \<Rightarrow> None | Some v \<Rightarrow> leaf_on v ks)"
| "leaf_on v ks = Some (v, ks)"

text \<open>A setting of the first source, or else of the second one.\<close>

definition overlay :: "(pyval \<times> string list) option \<Rightarrow> (pyval \<times> string list) option \<Rightarrow> (pyval \<times> string list) option" where
  "overlay a b = (case a of None \<Rightarrow> b | Some (v, ks) \<Rightarrow> if v = PNone then b else a)"

text \<open>Python dictionaries have distinct keys.\<close>

fun proper :: "pyval \<Rightarrow> bool" where
  "proper (PDict d) = (distinct (map fst d) \<and> list_all (\<lambda>p. proper (snd p)) d)"
| "proper _ = True"

lemma overlay_None [simp]: "overlay None b = b" "overlay (Some (PNone, ks)) b = b"
  by (simp_all add: overlay_def)

text \<open>\<open>edits k v u u'\<close>: \<open>u'\<close> is \<open>u\<close> with \<open>v\<close> merged in under the key \<open>k\<close>.\<close>

definition edits :: "string \<Rightarrow> pyval \<Rightarrow> pyval \<Rightarrow> pyval \<Rightarrow> bool" where
  "edits k v u u' \<longleftrightarrow> (\<forall>p. leaf_on u' p = (case p of [] \<Rightarrow> leaf_on u p
     | k' # ks \<Rightarrow> if k' = k then overlay (leaf_on v ks) (leaf_on u p) else leaf_on u p))"

lemma edits_set:
  assumes "set_item k v u = (Inr (), u')" and "\<And>d. v \<noteq> PDict d" and "v \<noteq> PNone"
  shows "edits k v u u'"
proof -
  from assms(1) obtain m where "u = PDict m" "u' = PDict (AList.update k v m)" by (cases u) auto
  with assms(2,3) show ?thesis
    by (cases v) (auto simp: edits_def overlay_def update_conv' split: list.split)
qed

lemma edits_in_key:
  assumes "andthen (set_default k) (in_key k p) u = (Inr (), u')"
    and "\<And>node node'. p node = (Inr (), node') \<Longrightarrow> \<forall>ks. leaf_on node' ks = overlay (leaf_on v ks) (leaf_on node ks)"
  shows "edits k v u u'"
proof -
  let ?m = "\<lambda>m. if map_of m k = None then AList.update k (PDict []) m else m"
  from assms(1) obtain m node node' where u: "u = PDict m" and n: "map_of (?m m) k = Some node"
      and p: "p node = (Inr (), node')" and u': "u' = PDict (AList.update k node' (?m m))"
    by (cases u) (auto simp: update_conv' elim!: andthen_ok split: option.splits prod.splits if_splits)
  have old: "leaf_on node ks = leaf_on u (k # ks)" for ks
    using n u by (auto simp: update_conv' split: if_splits) (cases ks; simp)
  have new: "leaf_on u' (k # ks) = leaf_on node' ks" for ks
    using u' by (simp add: update_conv')
  have other: "leaf_on u' (k' # ks) = leaf_on u (k' # ks)" if "k' \<noteq> k" for k' ks
    using u u' that by (simp add: update_conv')
  have "leaf_on u' [] = leaf_on u []" using u u' by simp
  with old new other assms(2) [OF p] show ?thesis by (auto simp: edits_def split: list.split)
qed

lemma edits_none: "edits k PNone u u"
  by (auto simp: edits_def overlay_def split: list.split)

text \<open>The merge of a whole dictionary, by induction along the code.\<close>

lemma merge_overlay:
  "proper (PDict d) \<Longrightarrow> merge_items d u = (Inr (), u') \<Longrightarrow>
     \<forall>p. leaf_on u' p = overlay (leaf_on (PDict d) p) (leaf_on u p)"
  "proper v \<Longrightarrow> merge_item k v u = (Inr (), u') \<Longrightarrow> edits k v u u'"
proof (induction d and k v arbitrary: u u' and u u' rule: merge_items_merge_item.induct)
  case 1
  then show ?case by (auto simp: ret_run split: list.split) (metis leaf_on.simps(1,2) list.exhaust map_of.simps(1) option.simps(4) overlay_None(1))
next
  case (2 k v kvs)
  from 2(4) obtain w where w: "merge_item k v u = (Inr (), w)" "merge_items kvs w = (Inr (), u')"
    by (auto elim!: andthen_ok)
  have e: "edits k v u w" and r: "\<forall>p. leaf_on u' p = overlay (leaf_on (PDict kvs) p) (leaf_on w p)"
    using 2(1) [OF _ w(1)] 2(2) [OF _ w(2)] 2(3) by auto
  have fresh: "map_of kvs k = None" using 2(3) by (simp add: map_of_eq_None_iff)
  show ?case
  proof
    fix p
    show "leaf_on u' p = overlay (leaf_on (PDict ((k, v) # kvs)) p) (leaf_on u p)"
      using e r fresh by (cases p) (auto simp: edits_def)
  qed
next
  case (3 k)
  then show ?case by (simp add: ret_run edits_none)
next
  case (4 k d)
  then show ?case by (auto intro: edits_in_key)
qed (auto intro: edits_set)

section \<open>When merging succeeds\<close>

text \<open>A section of the configuration is a dictionary, or absent.\<close>

definition section_ok :: "(string \<times> pyval) list \<Rightarrow> string \<Rightarrow> bool" where
  "section_ok m k = (case map_of m k of None \<Rightarrow> True | Some (PDict d) \<Rightarrow> True | _ \<Rightarrow> False)"

definition node_of :: "(string \<times> pyval) list \<Rightarrow> string \<Rightarrow> (string \<times> pyval) list" where
  "node_of m k = (case map_of m k of Some (PDict d) \<Rightarrow> d | _ \<Rightarrow> [])"

definition local_shape :: "(string \<times> pyval) list \<Rightarrow> bool" where
  "local_shape m \<longleftrightarrow> list_all (section_ok m) [''bootstrap'', ''routeros'', ''call_home'', ''webhook'', ''naming''] \<and>
     section_ok (node_of m ''routeros'') ''config''"

definition flat :: "(string \<times> pyval) list \<Rightarrow> bool" where
  "flat d = list_all (\<lambda>p. case snd p of PDict x \<Rightarrow> False | _ \<Rightarrow> True) d"

text \<open>\<open>grows p k m m'\<close>: the program turns one dictionary into another that agrees on other keys.\<close>

definition grows :: "unit editor \<Rightarrow> string set \<Rightarrow> (string \<times> pyval) list \<Rightarrow> (string \<times> pyval) list \<Rightarrow> bool" where
  "grows p K m m' \<longleftrightarrow> p (PDict m) = (Inr (), PDict m') \<and> (\<forall>k. k \<notin> K \<longrightarrow> map_of m' k = map_of m k)"

lemma grows_andthen: "grows p K m m1 \<Longrightarrow> grows q L m1 m2 \<Longrightarrow> grows (andthen p q) (K \<union> L) m m2"
  by (simp add: grows_def andthen_run)

lemma grows_set: "grows (set_item k v) {k} m (AList.update k v m)"
  by (simp add: grows_def update_conv')

lemma grows_flat: "flat d \<Longrightarrow> \<exists>m'. grows (merge_items d) (fst ` set d) m m'"
proof (induction d arbitrary: m)
  case Nil
  then show ?case by (simp add: grows_def ret_run)
next
  case (Cons p d)
  obtain k v where p: "p = (k, v)" by fastforce
  with Cons.prems have "\<exists>m1. grows (merge_item k v) {k} m m1"
    by (cases v) (auto simp: flat_def grows_def ret_run update_conv')
  then obtain m1 where m1: "grows (merge_item k v) {k} m m1" ..
  from Cons obtain m2 where "grows (merge_items d) (fst ` set d) m1 m2" by (auto simp: flat_def)
  from grows_andthen [OF m1 this] show ?case by (auto simp: p)
qed

lemma grows_in_key:
  assumes "section_ok m k" and "\<And>n. n = node_of m k \<Longrightarrow> \<exists>n' K. grows p K n n'"
  shows "\<exists>m'. grows (andthen (set_default k) (in_key k p)) {k} m m'"
proof -
  let ?m = "if map_of m k = None then AList.update k (PDict []) m else m"
  have node: "map_of ?m k = Some (PDict (node_of m k))"
    using assms(1) by (auto simp: section_ok_def node_of_def update_conv' split: option.splits pyval.splits)
  from assms(2) obtain n' K where "p (PDict (node_of m k)) = (Inr (), PDict n')" by (auto simp: grows_def)
  with node have "andthen (set_default k) (in_key k p) (PDict m) = (Inr (), PDict (AList.update k (PDict n') ?m))"
    by (simp add: andthen_run split: if_splits)
  then show ?thesis by (auto simp: grows_def update_conv')
qed

lemma merge_items_append: "merge_items (xs @ ys) = andthen (merge_items xs) (merge_items ys)"
proof (induction xs)
  case (Cons p xs)
  obtain k v where "p = (k, v)" by fastforce
  with Cons show ?case by (simp add: fun_eq_iff andthen_run split: prod.split sum.split)
qed (simp add: fun_eq_iff andthen_run ret_run)

lemma merge_items_single: "merge_items [(k, PDict c)] = andthen (set_default k) (in_key k (merge_items c))"
  by (simp add: fun_eq_iff andthen_run ret_run split: prod.split sum.split)

lemma in_key_dict: "andthen (set_default k) (in_key k p) u = (Inr (), u') \<Longrightarrow> \<exists>m. u' = PDict m"
  by (cases u) (auto elim!: andthen_ok split: option.splits prod.splits if_splits)

lemma merge_dict_items: "merge_dict (PDict d) = merge_items d"
  by (simp add: merge_dict_def)

text \<open>One section of a profile.\<close>

lemma merge_section_ok:
  assumes "map_of pre k = Some (PDict d)" and "proper (PDict d)" and "flat d" and "section_ok m k"
  shows "\<exists>m'. grows (merge_section k (PDict pre)) {k} m m' \<and> edits k (PDict d) (PDict m) (PDict m')"
proof -
  have run: "merge_section k (PDict pre) = andthen (set_default k) (in_key k (merge_items d))"
    using assms(1) by (simp add: merge_section_def get_key_def fun_eq_iff bnd_run ret_run do_if_def merge_dict_items)
  obtain m' where m': "grows (andthen (set_default k) (in_key k (merge_items d))) {k} m m'"
    using grows_in_key [OF assms(4)] grows_flat [OF assms(3)] by blast
  then have "andthen (set_default k) (in_key k (merge_items d)) (PDict m) = (Inr (), PDict m')"
    by (simp add: grows_def)
  then have "edits k (PDict d) (PDict m) (PDict m')"
    by (rule edits_in_key) (rule merge_overlay(1) [OF assms(2)])
  with m' run show ?thesis by auto
qed

lemma set_if_ok:
  assumes "b \<longleftrightarrow> v \<noteq> PNone" and "\<And>d. v \<noteq> PDict d"
  shows "\<exists>m'. grows (do_if b (set_item k v)) {k} m m' \<and> edits k v (PDict m) (PDict m')"
proof (cases "v = PNone")
  case True
  then show ?thesis using assms(1) edits_none by (auto simp: grows_def do_if_def ret_run)
next
  case False
  with assms grows_set [of k v m] edits_set [of k v "PDict m" "PDict (AList.update k v m)"]
  show ?thesis by (auto simp: do_if_def)
qed

text \<open>The RouterOS section: its nested network is merged first and replaced afterwards.\<close>

definition replaced :: "pyval \<Rightarrow> pyval \<Rightarrow> pyval \<Rightarrow> bool" where
  "replaced c u u' \<longleftrightarrow> (\<forall>p. leaf_on u' p =
     (if take 2 p = [''routeros'', ''config''] then leaf_on c (drop 2 p) else leaf_on u p))"

lemma replaced_update:
  assumes "map_of m ''routeros'' = Some (PDict n)"
  shows "replaced c (PDict m) (PDict (AList.update ''routeros'' (PDict (AList.update ''config'' c n)) m))"
  unfolding replaced_def
proof
  fix p
  show "leaf_on (PDict (AList.update ''routeros'' (PDict (AList.update ''config'' c n)) m)) p =
    (if take 2 p = [''routeros'', ''config''] then leaf_on c (drop 2 p) else leaf_on (PDict m) p)"
  proof (cases p)
    case (Cons k ks)
    then show ?thesis using assms by (cases ks) (auto simp: update_conv' numeral_2_eq_2)
  qed simp
qed

lemma merge_routeros_steps:
  assumes "map_of pre ''routeros'' = Some (PDict (d @ [(''config'', PDict c)]))" and "''config'' \<notin> fst ` set d"
  shows "merge_routeros (PDict pre) =
    andthen (andthen (set_default ''routeros'') (in_key ''routeros'' (merge_items (d @ [(''config'', PDict c)]))))
      (in_key ''routeros'' (set_item ''config'' (PDict c)))"
proof -
  let ?k = "''routeros''" and ?d = "d @ [(''config'', PDict c)]"
  have "map_of d ''config'' = None" using assms(2) by (simp add: map_of_eq_None_iff)
  then have c: "map_of ?d ''config'' = Some (PDict c)" by (simp add: map_add_def)
  have "merge_routeros (PDict pre) = andthen (set_default ?k) (andthen (in_key ?k (merge_items ?d))
      (in_key ?k (set_item ''config'' (PDict c))))"
    unfolding merge_routeros_def get_key_def
    by (simp add: assms(1) fun_eq_iff bnd_run ret_run do_if_def merge_dict_items c del: map_of_append)
  then show ?thesis
    by (simp add: fun_eq_iff andthen_run split: prod.split sum.split del: set_default.simps in_key.simps)
qed

lemma merge_routeros_ok:
  assumes "map_of pre ''routeros'' = Some (PDict (d @ [(''config'', PDict c)]))"
    and "proper (PDict (d @ [(''config'', PDict c)]))" and "flat d" and "flat c" and "''config'' \<notin> fst ` set d"
    and "section_ok m ''routeros''" and "section_ok (node_of m ''routeros'') ''config''"
  shows "\<exists>m1 m'. grows (merge_routeros (PDict pre)) {''routeros''} m m' \<and>
    edits ''routeros'' (PDict (d @ [(''config'', PDict c)])) (PDict m) (PDict m1) \<and>
    replaced (PDict c) (PDict m1) (PDict m')"
proof -
  let ?k = "''routeros''" and ?d = "d @ [(''config'', PDict c)]"
  have inner: "\<exists>n' K. grows (merge_items ?d) K n n'" if n: "n = node_of m ?k" for n
  proof -
    from grows_flat [OF assms(3)] obtain n1 where n1: "grows (merge_items d) (fst ` set d) n n1" by blast
    with assms(5,7) n have "section_ok n1 ''config''" by (simp add: grows_def section_ok_def)
    then obtain n2 where "grows (merge_items [(''config'', PDict c)]) {''config''} n1 n2"
      unfolding merge_items_single using grows_in_key [of n1 "''config''" "merge_items c"] grows_flat [OF assms(4)]
      by blast
    from grows_andthen [OF n1 this] show ?thesis unfolding merge_items_append by blast
  qed
  obtain m1 where m1: "grows (andthen (set_default ?k) (in_key ?k (merge_items ?d))) {?k} m m1"
    using grows_in_key [OF assms(6) inner] by blast
  then have run1: "andthen (set_default ?k) (in_key ?k (merge_items ?d)) (PDict m) = (Inr (), PDict m1)"
    by (simp add: grows_def)
  have e: "edits ?k (PDict ?d) (PDict m) (PDict m1)"
    using run1 by (rule edits_in_key) (rule merge_overlay(1) [OF assms(2)])
  obtain n where n: "map_of m1 ?k = Some (PDict n)"
  proof -
    from run1 obtain node node' where p: "merge_items ?d node = (Inr (), node')" and "map_of m1 ?k = Some node'"
      by (auto simp: update_conv' elim!: andthen_ok split: option.splits prod.splits if_splits)
    moreover have "\<exists>n. node' = PDict n"
      using p unfolding merge_items_append merge_items_single by (auto elim: andthen_ok dest: in_key_dict)
    ultimately show ?thesis using that by blast
  qed
  let ?m' = "AList.update ?k (PDict (AList.update ''config'' (PDict c) n)) m1"
  have run2: "in_key ?k (set_item ''config'' (PDict c)) (PDict m1) = (Inr (), PDict ?m')"
    using n by simp
  have "merge_routeros (PDict pre) (PDict m) = (Inr (), PDict ?m')"
    using run1 run2 unfolding merge_routeros_steps [OF assms(1,5)]
    by (simp add: andthen_run [of "andthen (set_default ?k) (in_key ?k (merge_items ?d))"] del: in_key.simps)
  then have "grows (merge_routeros (PDict pre)) {?k} m ?m'"
    using m1 by (simp add: grows_def update_conv')
  moreover have "replaced (PDict c) (PDict m1) (PDict ?m')" by (rule replaced_update [OF n])
  ultimately show ?thesis using e by blast
qed

section \<open>A whole profile\<close>

lemma column_values [simp]:
  "proper (or_none v)" "proper (char_val v)" "proper (parse_csv_or_none v)" "proper (lan_ports_list r)"
  "or_none v \<noteq> PDict d" "char_val v \<noteq> PDict d" "parse_csv_or_none v \<noteq> PDict d" "lan_ports_list r \<noteq> PDict d"
  by (auto simp: or_none_def char_val_def parse_csv_or_none_def lan_ports_list_def Let_def split: option.split)

lemma column_flat [simp]:
  "(case or_none v of PDict x \<Rightarrow> False | _ \<Rightarrow> True)" "(case char_val v of PDict x \<Rightarrow> False | _ \<Rightarrow> True)"
  "(case parse_csv_or_none v of PDict x \<Rightarrow> False | _ \<Rightarrow> True)" "(case lan_ports_list r of PDict x \<Rightarrow> False | _ \<Rightarrow> True)"
  by (auto split: pyval.split dest: sym)

lemma truthy_or_none: "truthy (or_none v) \<longleftrightarrow> or_none v \<noteq> PNone"
  by (auto simp: or_none_def or_str_def split: option.split)

definition routeros_columns :: "preconfig \<Rightarrow> (string \<times> pyval) list" where
  "routeros_columns r = butlast (case map_of (to_preloader_payload r) ''routeros'' of Some (PDict d) \<Rightarrow> d | _ \<Rightarrow> [])"

definition network_columns :: "preconfig \<Rightarrow> (string \<times> pyval) list" where
  "network_columns r = (case to_routeros_config r of PDict d \<Rightarrow> d | _ \<Rightarrow> [])"

lemma network_columns: "to_routeros_config r = PDict (network_columns r)"
  by (simp add: network_columns_def to_routeros_config_def)

lemma payload_routeros:
  "map_of (to_preloader_payload r) ''routeros'' = Some (PDict (routeros_columns r @ [(''config'', PDict (network_columns r))]))"
  "proper (PDict (routeros_columns r @ [(''config'', PDict (network_columns r))]))"
  "flat (routeros_columns r)" "flat (network_columns r)" "''config'' \<notin> fst ` set (routeros_columns r)"
  unfolding routeros_columns_def network_columns_def flat_def
  by (simp_all add: to_preloader_payload_def to_routeros_config_def)

definition section_columns :: "preconfig \<Rightarrow> string \<Rightarrow> (string \<times> pyval) list" where
  "section_columns r k = node_of (to_preloader_payload r) k"

lemma payload_section:
  assumes "k \<in> set [''bootstrap'', ''call_home'', ''webhook'', ''naming'']"
  shows "map_of (to_preloader_payload r) k = Some (PDict (section_columns r k))"
    and "proper (PDict (section_columns r k))" and "flat (section_columns r k)"
  using assms unfolding section_columns_def node_of_def flat_def
  by (auto simp: to_preloader_payload_def)

text \<open>The reference: a path into the RouterOS network is looked up in the profile alone, any other
  one in the profile and then in the local configuration.\<close>

definition merged_leaf :: "preconfig \<Rightarrow> pyval \<Rightarrow> string list \<Rightarrow> (pyval \<times> string list) option" where
  "merged_leaf r c p =
     (if take 2 p = [''routeros'', ''config''] then leaf_on (to_routeros_config r) (drop 2 p)
      else overlay (leaf_on (PDict (to_preloader_payload r)) p) (leaf_on c p))"

lemma merge_steps:
  assumes "local_shape m"
  shows "\<exists>m1 m2 m3 m4 m5 m6 m7 u.
    merge_preconfig (PDict (to_preloader_payload r)) (PDict m) = (Inr (), PDict m7) \<and>
    edits ''mgmt_subnet'' (or_none (pc_mgmt_subnet r)) (PDict m) (PDict m1) \<and>
    edits ''target_mac'' (or_none (pc_target_mac r)) (PDict m1) (PDict m2) \<and>
    edits ''bootstrap'' (PDict (section_columns r ''bootstrap'')) (PDict m2) (PDict m3) \<and>
    edits ''routeros'' (PDict (routeros_columns r @ [(''config'', PDict (network_columns r))])) (PDict m3) (PDict u) \<and>
    replaced (PDict (network_columns r)) (PDict u) (PDict m4) \<and>
    edits ''call_home'' (PDict (section_columns r ''call_home'')) (PDict m4) (PDict m5) \<and>
    edits ''webhook'' (PDict (section_columns r ''webhook'')) (PDict m5) (PDict m6) \<and>
    edits ''naming'' (PDict (section_columns r ''naming'')) (PDict m6) (PDict m7)"
proof -
  let ?p = "to_preloader_payload r"
  obtain m1 where m1: "grows (do_if (truthy (or_none (pc_mgmt_subnet r))) (set_item ''mgmt_subnet'' (or_none (pc_mgmt_subnet r)))) {''mgmt_subnet''} m m1"
      and e1: "edits ''mgmt_subnet'' (or_none (pc_mgmt_subnet r)) (PDict m) (PDict m1)"
    using set_if_ok [OF truthy_or_none column_values(5)] by blast
  obtain m2 where m2: "grows (do_if (or_none (pc_target_mac r) \<noteq> PNone) (set_item ''target_mac'' (or_none (pc_target_mac r)))) {''target_mac''} m1 m2"
      and e2: "edits ''target_mac'' (or_none (pc_target_mac r)) (PDict m1) (PDict m2)"
    using set_if_ok [OF refl column_values(5)] by blast
  have shape2: "list_all (section_ok m2) [''bootstrap'', ''routeros'', ''call_home'', ''webhook'', ''naming'']"
      "section_ok (node_of m2 ''routeros'') ''config''"
    using assms m1 m2 by (simp_all add: local_shape_def grows_def section_ok_def node_of_def)
  obtain m3 where m3: "grows (merge_section ''bootstrap'' (PDict ?p)) {''bootstrap''} m2 m3"
      and e3: "edits ''bootstrap'' (PDict (section_columns r ''bootstrap'')) (PDict m2) (PDict m3)"
    using merge_section_ok [OF payload_section [of "''bootstrap''"], of m2] shape2 by auto
  have shape3: "list_all (section_ok m3) [''routeros'', ''call_home'', ''webhook'', ''naming'']"
      "section_ok (node_of m3 ''routeros'') ''config''"
    using shape2 m3 by (simp_all add: grows_def section_ok_def node_of_def)
  obtain u m4 where m4: "grows (merge_routeros (PDict ?p)) {''routeros''} m3 m4"
      and e4: "edits ''routeros'' (PDict (routeros_columns r @ [(''config'', PDict (network_columns r))])) (PDict m3) (PDict u)"
        "replaced (PDict (network_columns r)) (PDict u) (PDict m4)"
    using merge_routeros_ok [OF payload_routeros [of r] _ shape3(2)] shape3(1) by auto
  have shape4: "list_all (section_ok m4) [''call_home'', ''webhook'', ''naming'']"
    using shape3(1) m4 by (simp add: grows_def section_ok_def)
  obtain m5 where m5: "grows (merge_section ''call_home'' (PDict ?p)) {''call_home''} m4 m5"
      and e5: "edits ''call_home'' (PDict (section_columns r ''call_home'')) (PDict m4) (PDict m5)"
    using merge_section_ok [OF payload_section [of "''call_home''"], of m4] shape4 by auto
  have shape5: "list_all (section_ok m5) [''webhook'', ''naming'']"
    using shape4 m5 by (simp add: grows_def section_ok_def)
  obtain m6 where m6: "grows (merge_section ''webhook'' (PDict ?p)) {''webhook''} m5 m6"
      and e6: "edits ''webhook'' (PDict (section_columns r ''webhook'')) (PDict m5) (PDict m6)"
    using merge_section_ok [OF payload_section [of "''webhook''"], of m5] shape5 by auto
  have "section_ok m6 ''naming''" using shape5 m6 by (simp add: grows_def section_ok_def)
  then obtain m7 where m7: "grows (merge_section ''naming'' (PDict ?p)) {''naming''} m6 m7"
      and e7: "edits ''naming'' (PDict (section_columns r ''naming'')) (PDict m6) (PDict m7)"
    using merge_section_ok [OF payload_section [of "''naming''"], of m6] by auto
  have "truthy (PDict ?p)" "map_of ?p ''mgmt_subnet'' = Some (or_none (pc_mgmt_subnet r))"
      "map_of ?p ''target_mac'' = Some (or_none (pc_target_mac r))"
    by (simp_all add: to_preloader_payload_def)
  then have "merge_preconfig (PDict ?p) (PDict m) = (Inr (), PDict m7)"
    using m1 m2 m3 m4 m5 m6 m7
    by (simp add: merge_preconfig_def get_key_def bnd_run andthen_run ret_run grows_def)
  with e1 e2 e3 e4 e5 e6 e7 show ?thesis by blast
qed

text \<open>C12. Merging a profile into a configuration whose sections are dictionaries succeeds, and the
  result has at every path what the reference says: a column of the profile that is set wins, an unset
  one leaves the local setting, settings the profile does not know stay, and the RouterOS network is
  the profile's, with its empty columns, whatever the local one was.\<close>

theorem merged_settings:
  assumes "local_shape m"
  shows "\<exists>c. merge_preconfig (PDict (to_preloader_payload r)) (PDict m) = (Inr (), c) \<and>
    (\<forall>p. leaf_on c p = merged_leaf r (PDict m) p)"
proof -
  obtain m1 m2 m3 m4 m5 m6 m7 u where run: "merge_preconfig (PDict (to_preloader_payload r)) (PDict m) = (Inr (), PDict m7)"
    and e: "edits ''mgmt_subnet'' (or_none (pc_mgmt_subnet r)) (PDict m) (PDict m1)"
      "edits ''target_mac'' (or_none (pc_target_mac r)) (PDict m1) (PDict m2)"
      "edits ''bootstrap'' (PDict (section_columns r ''bootstrap'')) (PDict m2) (PDict m3)"
      "edits ''routeros'' (PDict (routeros_columns r @ [(''config'', PDict (network_columns r))])) (PDict m3) (PDict u)"
      "replaced (PDict (network_columns r)) (PDict u) (PDict m4)"
      "edits ''call_home'' (PDict (section_columns r ''call_home'')) (PDict m4) (PDict m5)"
      "edits ''webhook'' (PDict (section_columns r ''webhook'')) (PDict m5) (PDict m6)"
      "edits ''naming'' (PDict (section_columns r ''naming'')) (PDict m6) (PDict m7)"
    using merge_steps [OF assms, of r] by blast
  have keys: "map_of (to_preloader_payload r) k = None"
    if "k \<notin> set [''mgmt_subnet'', ''target_mac'', ''bootstrap'', ''routeros'', ''call_home'', ''webhook'', ''naming'']" for k
    using that by (simp add: to_preloader_payload_def)
  have tops: "map_of (to_preloader_payload r) ''mgmt_subnet'' = Some (or_none (pc_mgmt_subnet r))"
      "map_of (to_preloader_payload r) ''target_mac'' = Some (or_none (pc_target_mac r))"
    by (simp_all add: to_preloader_payload_def)
  have "leaf_on (PDict m7) p = merged_leaf r (PDict m) p" for p
  proof (cases p)
    case Nil
    then show ?thesis by (simp add: merged_leaf_def)
  next
    case (Cons k ks)
    note steps = e [unfolded edits_def replaced_def, rule_format, of p]
    show ?thesis
      using steps keys [of k] tops payload_section(1) [of k r] payload_routeros(1) [of r]
      unfolding Cons merged_leaf_def network_columns
      by (cases "k \<in> set [''mgmt_subnet'', ''target_mac'', ''bootstrap'', ''routeros'', ''call_home'', ''webhook'', ''naming'']")
        (auto split: if_splits simp del: map_of_append)
  qed
  with run show ?thesis by blast
qed

text \<open>A local configuration of the examples, and what the default profile makes of it.\<close>

definition demo_local :: "(string \<times> pyval) list" where
  "demo_local = [(''sector_code'', PStr ''N''), (''bootstrap'', PDict [(''pass'', PStr ''local'')]),
     (''routeros'', PDict [(''api_port'', PInt 8729), (''config'', PDict [(''vlan'', PInt 7)])])]"

theorem merged_settings_witness:
  "\<exists>c. merge_preconfig (PDict (to_preloader_payload pc_default)) (PDict demo_local) = (Inr (), c) \<and>
     leaf_on c [''bootstrap'', ''pass''] = Some (PStr ''local'', []) \<and>
     leaf_on c [''routeros'', ''api_port''] = Some (PInt 8728, []) \<and>
     leaf_on c [''routeros'', ''config'', ''vlan''] = None"
proof -
  have "local_shape demo_local" by (simp add: local_shape_def demo_local_def section_ok_def node_of_def)
  from merged_settings [OF this, of pc_default] obtain c where
    c: "merge_preconfig (PDict (to_preloader_payload pc_default)) (PDict demo_local) = (Inr (), c)"
      "\<And>p. leaf_on c p = merged_leaf pc_default (PDict demo_local) p" by blast
  then show ?thesis
    by (intro exI [of _ c]) (simp add: merged_leaf_def overlay_def to_preloader_payload_def to_routeros_config_def
        pc_default_def demo_local_def or_none_def)
qed

end
