(* ===== verification/Preloader_Facts.thy ===== *)
theory Preloader_Facts
  imports Preloader_Main
begin

text \<open>
  What the preloader does to a router and to the application: the firewall rules it adds, a
  router that is not the wanted one, registering a router again, and the transport of profiles.
\<close>

section \<open>Programs that do not touch the state\<close>

named_theorems stateless_intros \<open>programs whose result does not depend on the state\<close>

definition stateless :: "('s, 'a) prog \<Rightarrow> bool" where
  "stateless m \<longleftrightarrow> (\<exists>r. \<forall>s. m s = (r, s))"

lemma stateless_ret [stateless_intros]: "stateless (ret x)"
  by (simp add: stateless_def ret_run)

lemma stateless_raise [stateless_intros]: "stateless (raise x)"
  by (simp add: stateless_def raise_run)

lemma stateless_bnd [stateless_intros]:
  assumes "stateless m" and "\<And>x. stateless (k x)"
  shows "stateless (bnd m k)"
proof -
  obtain r where r: "\<And>s. m s = (r, s)" using assms(1) by (auto simp: stateless_def)
  show ?thesis
  proof (cases r)
    case (Inl e)
    with r show ?thesis by (simp add: stateless_def bnd_run)
  next
    case (Inr x)
    with r assms(2) [of x] show ?thesis by (simp add: stateless_def bnd_run)
  qed
qed

lemma stateless_if [stateless_intros]: "stateless m \<Longrightarrow> stateless n \<Longrightarrow> stateless (if b then m else n)"
  by simp

lemma stateless_subscript [stateless_intros]: "stateless (subscript v k)"
  by (cases v) (auto intro: stateless_intros split: option.split)

lemma stateless_get_or [stateless_intros]: "stateless (get_or v k d)"
  by (cases v) (auto intro: stateless_intros)

lemma stateless_get_key [stateless_intros]: "stateless (get_key v k)"
  by (simp add: get_key_def stateless_get_or)

lemma stateless_iterate [stateless_intros]: "stateless (iterate v)"
  by (cases v) (auto intro: stateless_intros)

lemma stateless_lift [stateless_intros]: "stateless (lift_sum r)"
  by (simp add: stateless_def lift_sum_def)

lemma stateless_require_env [stateless_intros]: "stateless (require_env t v)"
  unfolding require_env_def by (cases v) (auto intro!: stateless_intros)

lemma stateless_env_value [stateless_intros]: "stateless (env_value t v)"
  unfolding env_value_def by (cases v) (auto intro!: stateless_intros)

lemma stateless_as_text [stateless_intros]: "stateless (as_text t v)"
  unfolding as_text_def by (cases v) (auto intro!: stateless_intros)

lemma stateless_login [stateless_intros]: "stateless (login t v)"
  unfolding login_def by (intro stateless_intros)

lemma stateless_int_column [stateless_intros]: "stateless (int_column v)"
  unfolding int_column_def by (cases v) (auto intro!: stateless_intros split: option.split)

lemma stateless_lower [stateless_intros]: "stateless (lower_val v)"
  unfolding lower_val_def by (cases "or_val v (PStr [])") (auto intro: stateless_intros)

lemma stateless_credentials [stateless_intros]:
  "stateless (boot_credentials t v)" "stateless (mgmt_credentials t v)" "stateless (allowed_addresses t v)"
  unfolding boot_credentials_def mgmt_credentials_def allowed_addresses_def by (intro stateless_intros)+

lemma stateless_result: "stateless m \<Longrightarrow> m s = (r, s') \<Longrightarrow> s' = s \<and> (\<forall>u. m u = (r, u))"
  by (auto simp: stateless_def)

lemma stateless_keeps: "stateless m \<Longrightarrow> keeps_all I m"
  by (auto simp: stateless_def keeps_all_def)

section \<open>The firewall\<close>

text \<open>The rules added to the router at an address, by the arguments of the command.\<close>

definition filter_adds :: "string \<Rightarrow> (link \<times> cmd) list \<Rightarrow> (string \<times> pyval) list list" where
  "filter_adds ip cs = map (cmd_args \<circ> snd)
     (filter (\<lambda>x. fst (fst x) = ip \<and> cmd_path (snd x) = ''/ip/firewall/filter/add'') cs)"

definition has_rule :: "string \<Rightarrow> string \<Rightarrow> (link \<times> cmd) list \<Rightarrow> bool" where
  "has_rule ip c cs = list_ex (\<lambda>kw. (''comment'', PStr c) \<in> set kw) (filter_adds ip cs)"

text \<open>
  A router that keeps the rules it was given: it accepts the commands on filter rules, and a print
  with a comment finds something if and only if a rule with this comment was added.
\<close>

definition honest_filter :: "site \<Rightarrow> link \<Rightarrow> bool" where
  "honest_filter t a \<longleftrightarrow>
     (\<forall>cs c. \<exists>rows. api_reply t cs a (Cmd ''/ip/firewall/filter/print'' [(''?comment'', PStr c)]) = Inr rows \<and>
        (rows \<noteq> [] \<longleftrightarrow> has_rule (fst a) c cs)) \<and>
     (\<forall>cs kw. \<exists>rows. api_reply t cs a (Cmd ''/ip/firewall/filter/add'' kw) = Inr rows) \<and>
     (\<forall>cs kw. \<exists>rows. api_reply t cs a (Cmd ''/ip/firewall/filter/move'' kw) = Inr rows)"

definition accept_rule :: "site \<Rightarrow> pyval \<Rightarrow> pyval \<Rightarrow> (string \<times> pyval) list" where
  "accept_rule t port ip = [(''chain'', PStr ''input''), (''src-address'', ip), (''protocol'', PStr ''tcp''),
     (''dst-port'', PStr (show_val t port)), (''action'', PStr ''accept''), (''comment'', PStr ''ALLOW ODOO/NOC API'')]"

definition drop_rule :: "site \<Rightarrow> pyval \<Rightarrow> (string \<times> pyval) list" where
  "drop_rule t port = [(''chain'', PStr ''input''), (''protocol'', PStr ''tcp''),
     (''dst-port'', PStr (show_val t port)), (''action'', PStr ''drop''), (''comment'', PStr ''DROP API OTHERS'')]"

text \<open>A program that returns and adds exactly the given filter rules.\<close>

definition adds_rules :: "string \<Rightarrow> unit script \<Rightarrow> (string \<times> pyval) list list \<Rightarrow> station \<Rightarrow> bool" where
  "adds_rules ip m rules s \<longleftrightarrow> (\<exists>s'. m s = (Inr (), s') \<and> filter_adds ip (sent s') = filter_adds ip (sent s) @ rules)"

lemma find_rule:
  assumes "honest_filter t a"
  shows "\<exists>rows. routeros_find t a ''/ip/firewall/filter/print'' ''comment'' (PStr c) s =
      (Inr rows, s\<lparr>sent := sent s @ [(a, Cmd ''/ip/firewall/filter/print'' [(''?comment'', PStr c)])]\<rparr>) \<and>
    (rows \<noteq> [] \<longleftrightarrow> has_rule (fst a) c (sent s))"
proof -
  from assms obtain rows where "api_reply t (sent s) a (Cmd ''/ip/firewall/filter/print'' [(''?comment'', PStr c)]) = Inr rows"
      and "rows \<noteq> [] \<longleftrightarrow> has_rule (fst a) c (sent s)"
    unfolding honest_filter_def by blast
  then show ?thesis by (simp add: routeros_find_def catching_run api_exec_def)
qed

lemma move_first_adds:
  assumes "honest_filter t a"
  shows "\<exists>s'. move_first t a r s = (Inr (), s') \<and> filter_adds ip (sent s') = filter_adds ip (sent s)"
proof -
  obtain rows where "api_reply t (sent s) a (Cmd ''/ip/firewall/filter/move'' [(''numbers'', row_id r), (''destination'', PStr ''0'')]) = Inr rows"
    using assms unfolding honest_filter_def by blast
  then show ?thesis
    by (simp add: move_first_def do_if_def run_cmd_def api_exec_def bnd_run ret_run filter_adds_def)
qed

lemma pass_returns: "m s = (Inr (), s') \<Longrightarrow> pass_errors m s = (Inr (), s')"
  by (simp add: pass_errors_def catching_run)

lemma allow_adds:
  assumes "honest_filter t a"
  shows "adds_rules (fst a) (routeros_ensure_firewall_allow t a port ip ''ALLOW ODOO/NOC API'')
    (if has_rule (fst a) ''ALLOW ODOO/NOC API'' (sent s) then [] else [accept_rule t port ip]) s"
proof -
  let ?c = "''ALLOW ODOO/NOC API''"
  let ?s1 = "s\<lparr>sent := sent s @ [(a, Cmd ''/ip/firewall/filter/print'' [(''?comment'', PStr ?c)])]\<rparr>"
  obtain rows where f: "routeros_find t a ''/ip/firewall/filter/print'' ''comment'' (PStr ?c) s = (Inr rows, ?s1)"
      and h: "rows \<noteq> [] \<longleftrightarrow> has_rule (fst a) ?c (sent s)"
    using find_rule [OF assms] by blast
  have s1: "filter_adds (fst a) (sent ?s1) = filter_adds (fst a) (sent s)" by (simp add: filter_adds_def)
  show ?thesis
  proof (cases rows)
    case (Cons r rs)
    obtain s' where "move_first t a r ?s1 = (Inr (), s')" "filter_adds (fst a) (sent s') = filter_adds (fst a) (sent ?s1)"
      using move_first_adds [OF assms] by blast
    with Cons h f s1 show ?thesis
      by (auto simp: adds_rules_def routeros_ensure_firewall_allow_def bnd_run dest: pass_returns)
  next
    case Nil
    let ?s2 = "?s1\<lparr>sent := sent ?s1 @ [(a, Cmd ''/ip/firewall/filter/add'' (accept_rule t port ip))]\<rparr>"
    let ?s3 = "?s2\<lparr>sent := sent ?s2 @ [(a, Cmd ''/ip/firewall/filter/print'' [(''?comment'', PStr ?c)])]\<rparr>"
    obtain x where "api_reply t (sent ?s1) a (Cmd ''/ip/firewall/filter/add'' (accept_rule t port ip)) = Inr x"
      using assms unfolding honest_filter_def by blast
    then have add: "run_cmd t a ''/ip/firewall/filter/add'' (accept_rule t port ip) ?s1 = (Inr (), ?s2)"
      by (simp add: run_cmd_def api_exec_def bnd_run ret_run)
    have s2: "filter_adds (fst a) (sent ?s2) = filter_adds (fst a) (sent s) @ [accept_rule t port ip]"
      using s1 by (simp add: filter_adds_def)
    obtain rows2 where g: "routeros_find t a ''/ip/firewall/filter/print'' ''comment'' (PStr ?c) ?s2 = (Inr rows2, ?s3)"
      using find_rule [OF assms, of ?c ?s2] by blast
    have s3: "filter_adds (fst a) (sent ?s3) = filter_adds (fst a) (sent ?s2)" by (simp add: filter_adds_def)
    let ?m = "bnd (routeros_find t a ''/ip/firewall/filter/print'' ''comment'' (PStr ?c)) (\<lambda>added.
       case added of [] \<Rightarrow> ret () | r # _ \<Rightarrow> move_first t a r)"
    have "\<exists>s'. ?m ?s2 = (Inr (), s') \<and> filter_adds (fst a) (sent s') = filter_adds (fst a) (sent ?s3)"
    proof (cases rows2)
      case Nil
      with g show ?thesis by (simp add: bnd_run ret_run)
    next
      case (Cons r rs)
      with g move_first_adds [OF assms, of r ?s3 "fst a"] show ?thesis by (simp add: bnd_run)
    qed
    then obtain s' where "?m ?s2 = (Inr (), s')" "filter_adds (fst a) (sent s') = filter_adds (fst a) (sent ?s3)" by blast
    then show ?thesis
      using Nil h f add s2 s3 pass_returns [of ?m ?s2 s']
      by (auto simp: adds_rules_def routeros_ensure_firewall_allow_def bnd_run andthen_run accept_rule_def)
  qed
qed

lemma drop_adds:
  assumes "honest_filter t a" and "\<not> has_rule (fst a) ''DROP API OTHERS'' (sent s)"
  shows "adds_rules (fst a) (routeros_ensure_firewall_drop t a port ''DROP API OTHERS'') [drop_rule t port] s"
proof -
  let ?s1 = "s\<lparr>sent := sent s @ [(a, Cmd ''/ip/firewall/filter/print'' [(''?comment'', PStr ''DROP API OTHERS'')])]\<rparr>"
  have f: "routeros_find t a ''/ip/firewall/filter/print'' ''comment'' (PStr ''DROP API OTHERS'') s = (Inr [], ?s1)"
    using find_rule [OF assms(1), of "''DROP API OTHERS''" s] assms(2) by auto
  obtain x where "api_reply t (sent ?s1) a (Cmd ''/ip/firewall/filter/add'' (drop_rule t port)) = Inr x"
    using assms unfolding honest_filter_def by blast
  then have "run_cmd t a ''/ip/firewall/filter/add'' (drop_rule t port) ?s1 =
      (Inr (), ?s1\<lparr>sent := sent ?s1 @ [(a, Cmd ''/ip/firewall/filter/add'' (drop_rule t port))]\<rparr>)"
    by (simp add: run_cmd_def api_exec_def bnd_run ret_run)
  with f show ?thesis
    by (simp add: adds_rules_def routeros_ensure_firewall_drop_def bnd_run drop_rule_def filter_adds_def)
qed

lemma has_rule_added:
  "filter_adds ip cs' = filter_adds ip cs @ rules \<Longrightarrow>
     has_rule ip c cs' \<longleftrightarrow> has_rule ip c cs \<or> list_ex (\<lambda>kw. (''comment'', PStr c) \<in> set kw) rules"
  by (simp add: has_rule_def)

text \<open>Once the comment is there, no address adds a rule.\<close>

lemma allow_rest:
  assumes "honest_filter t a" and "has_rule (fst a) ''ALLOW ODOO/NOC API'' (sent s)"
  shows "adds_rules (fst a) (for_each (\<lambda>ip. routeros_ensure_firewall_allow t a port ip ''ALLOW ODOO/NOC API'') ips) [] s"
  using assms(2)
proof (induction ips arbitrary: s)
  case Nil
  then show ?case by (simp add: adds_rules_def ret_run)
next
  case (Cons ip ips)
  obtain s1 where s1: "routeros_ensure_firewall_allow t a port ip ''ALLOW ODOO/NOC API'' s = (Inr (), s1)"
      "filter_adds (fst a) (sent s1) = filter_adds (fst a) (sent s)"
    using allow_adds [OF assms(1), of port ip s] Cons.prems by (auto simp: adds_rules_def)
  then have "has_rule (fst a) ''ALLOW ODOO/NOC API'' (sent s1)" using Cons.prems by (simp add: has_rule_def)
  from Cons.IH [OF this] s1 show ?case by (auto simp: adds_rules_def andthen_run)
qed

lemma allow_all:
  assumes "honest_filter t a" and "\<not> has_rule (fst a) ''ALLOW ODOO/NOC API'' (sent s)"
  shows "adds_rules (fst a) (for_each (\<lambda>ip. routeros_ensure_firewall_allow t a port ip ''ALLOW ODOO/NOC API'') ips)
    (map (accept_rule t port) (take 1 ips)) s"
proof (cases ips)
  case Nil
  then show ?thesis by (simp add: adds_rules_def ret_run)
next
  case (Cons ip rest)
  obtain s1 where s1: "routeros_ensure_firewall_allow t a port ip ''ALLOW ODOO/NOC API'' s = (Inr (), s1)"
      "filter_adds (fst a) (sent s1) = filter_adds (fst a) (sent s) @ [accept_rule t port ip]"
    using allow_adds [OF assms(1), of port ip s] assms(2) by (auto simp: adds_rules_def)
  have "has_rule (fst a) ''ALLOW ODOO/NOC API'' (sent s1)"
    using has_rule_added [OF s1(2)] by (simp add: accept_rule_def)
  from allow_rest [OF assms(1) this, of port rest] s1 Cons show ?thesis
    by (auto simp: adds_rules_def andthen_run)
qed

text \<open>C15. On a router without these rules, the firewall step returns and adds one accept rule for the
  first of the allowed addresses and the rule that drops all others: the rules of the further addresses
  are taken for the first one, which has the same comment. With no allowed address, all are dropped.\<close>

theorem firewall_allows_only_first:
  assumes "honest_filter t a" and "\<not> has_rule (fst a) ''ALLOW ODOO/NOC API'' (sent s)"
    and "\<not> has_rule (fst a) ''DROP API OTHERS'' (sent s)"
  shows "\<exists>s'. firewall_step t a port ips s = (Inr (), s') \<and>
    filter_adds (fst a) (sent s') =
      filter_adds (fst a) (sent s) @ map (accept_rule t port) (take 1 ips) @ [drop_rule t port]"
proof -
  let ?s0 = "s\<lparr>printed := printed s @ [''Step: firewall allowlist'']\<rparr>"
  obtain s1 where s1: "for_each (\<lambda>ip. routeros_ensure_firewall_allow t a port ip ''ALLOW ODOO/NOC API'') ips ?s0 = (Inr (), s1)"
      "filter_adds (fst a) (sent s1) = filter_adds (fst a) (sent s) @ map (accept_rule t port) (take 1 ips)"
    using allow_all [OF assms(1), of ?s0 port ips] assms(2) by (auto simp: adds_rules_def)
  let ?s2 = "s1\<lparr>printed := printed s1 @ [''Step: firewall drop others'']\<rparr>"
  have "\<not> has_rule (fst a) ''DROP API OTHERS'' (sent ?s2)"
    using has_rule_added [OF s1(2)] assms(3) by (cases ips) (simp_all add: accept_rule_def)
  from drop_adds [OF assms(1) this, of port] s1 show ?thesis
    by (auto simp: adds_rules_def firewall_step_def andthen_run say_def modify_run)
qed

text \<open>A router of the examples: it answers a print with a comment from the rules it was given, has one
  interface, and accepts everything.\<close>

definition demo_reply :: "(link \<times> cmd) list \<Rightarrow> link \<Rightarrow> cmd \<Rightarrow> exc + row list" where
  "demo_reply cs a c =
     (if cmd_path c = ''/ip/firewall/filter/print'' then (case cmd_args c of
         [(k, PStr x)] \<Rightarrow> Inr (if has_rule (fst a) x cs then [[(''.id'', PStr ''*1'')]] else [])
       | _ \<Rightarrow> Inr [])
      else if cmd_path c = ''/interface/ethernet/print'' \<or> cmd_path c = ''/interface/print''
        then Inr [[(''name'', PStr ''ether1''), (''mac-address'', PStr ''AA:BB:CC:00:00:01'')]]
      else Inr [])"

definition demo_site :: site where
  "demo_site = \<lparr>environ = (\<lambda>k. Some ''secret''), str_text = (\<lambda>_. []), api_open = (\<lambda>_ _ _ _. None),
     api_reply = demo_reply, format_special = (\<lambda>_ _. Inr []), connects = (\<lambda>_ _. False), other_network = (\<lambda>_. Inr []),
     request_env = (\<lambda>_. plain_env), authenticate = (\<lambda>_ _ _ _. Inr True), marshal = Inr, fault = id,
     text_arg = (\<lambda>_. Inr [])\<rparr>"

definition demo_station :: station where
  "demo_station = \<lparr>sent = [], printed = [], server = demo_sys change_plan, calls = 0\<rparr>"

lemma demo_honest: "honest_filter demo_site a"
  by (simp add: honest_filter_def demo_site_def demo_reply_def)

theorem firewall_allows_only_first_witness:
  "\<exists>s'. firewall_step demo_site (''10.0.0.1'', PStr ''admin'') (PInt 8728) [PStr ''10.0.0.10'', PStr ''10.0.0.20''] demo_station =
     (Inr (), s') \<and>
   filter_adds ''10.0.0.1'' (sent s') = [accept_rule demo_site (PInt 8728) (PStr ''10.0.0.10''), drop_rule demo_site (PInt 8728)]"
  using firewall_allows_only_first [OF demo_honest, of "(''10.0.0.1'', PStr ''admin'')" demo_station "PInt 8728"
      "[PStr ''10.0.0.10'', PStr ''10.0.0.20'']"]
  by (simp add: demo_station_def has_rule_def filter_adds_def)

section \<open>The wanted router\<close>

definition wanted_mac :: "string \<Rightarrow> string" where
  "wanted_mac mac = py_lower (py_replace CHR ''-'' '':'' (py_lower mac))"

definition row_has_mac :: "string \<Rightarrow> row \<Rightarrow> bool" where
  "row_has_mac mac r \<longleftrightarrow> (case row_get r ''mac-address'' of PStr x \<Rightarrow> py_lower x = mac | _ \<Rightarrow> False)"

text \<open>None of the interfaces the router lists has the address.\<close>

definition lacks_mac :: "site \<Rightarrow> link \<Rightarrow> string \<Rightarrow> bool" where
  "lacks_mac t a mac \<longleftrightarrow> (\<forall>cs path. case api_reply t cs a (Cmd path []) of
     Inl x \<Rightarrow> True | Inr rows \<Rightarrow> \<not> list_ex (row_has_mac mac) rows)"

lemma has_mac_stateless [stateless_intros]: "stateless (has_mac mac rows)"
  by (induction rows) (auto intro!: stateless_intros)

lemma has_mac_no:
  assumes "\<not> list_ex (row_has_mac mac) rows" and "mac \<noteq> []"
  shows "has_mac mac rows s \<noteq> (Inr True, s')"
  using assms(1)
proof (induction rows)
  case (Cons r rows)
  have "x \<noteq> mac" if "lower_val (row_get r ''mac-address'') s = (Inr x, s1)" for x s1
    using that Cons.prems assms(2)
    by (auto simp: lower_val_def or_val_def row_has_mac_def ret_run raise_run py_lower_def split: pyval.splits if_splits)
  with Cons show ?case by (auto simp: bnd_run split: prod.splits sum.splits)
      (metis stateless_lower stateless_result)
qed (simp add: ret_run)

lemma wanted_mac_nonempty: "mac \<noteq> [] \<Longrightarrow> wanted_mac mac \<noteq> []"
  by (cases mac) (auto simp: wanted_mac_def py_lower_def py_replace_def)

text \<open>What a program that starts without touching the state does is decided after its start.\<close>

lemma stateless_first:
  assumes "stateless m" and "\<And>x. Q (k x s)" and "\<And>e. Q (Inl e, s)"
  shows "Q (bnd m k s)"
proof -
  obtain r where "m s = (r, s)" using assms(1) by (auto simp: stateless_def)
  with assms(2,3) show ?thesis by (cases r) (simp_all add: bnd_run)
qed

definition mac_prints :: "link \<Rightarrow> (link \<times> cmd) list" where
  "mac_prints a = [(a, Cmd ''/interface/ethernet/print'' []), (a, Cmd ''/interface/print'' [])]"

definition only_asked :: "link \<Rightarrow> station \<Rightarrow> station \<Rightarrow> bool" where
  "only_asked a s s' \<longleftrightarrow> server s' = server s \<and> (\<exists>n. sent s' = sent s @ take n (mac_prints a))"

lemma only_asked_one: "only_asked a s (s\<lparr>sent := sent s @ [(a, Cmd ''/interface/ethernet/print'' [])]\<rparr>)"
  unfolding only_asked_def mac_prints_def by (simp, rule exI [of _ 1], simp)

lemma only_asked_two:
  "only_asked a s (s\<lparr>sent := (sent s @ [(a, Cmd ''/interface/ethernet/print'' [])]) @ [(a, Cmd ''/interface/print'' [])]\<rparr>)"
  unfolding only_asked_def mac_prints_def by (simp, rule exI [of _ 2], simp)

lemma only_asked_say: "only_asked a s s' \<Longrightarrow> only_asked a s (s'\<lparr>printed := p\<rparr>)"
  by (simp add: only_asked_def)

lemma lacks_mac_answer:
  assumes "lacks_mac t a (wanted_mac mac)" and "mac \<noteq> []" and "api_reply t cs a (Cmd path []) = Inr rows"
  shows "\<exists>h. (\<forall>u. has_mac (wanted_mac mac) rows u = (h, u)) \<and> h \<noteq> Inr True"
proof -
  have "\<not> list_ex (row_has_mac (wanted_mac mac)) rows"
    using assms(1,3) unfolding lacks_mac_def by (metis sum.simps(6))
  then have "has_mac (wanted_mac mac) rows u \<noteq> (Inr True, u)" for u
    using wanted_mac_nonempty [OF assms(2)] by (rule has_mac_no)
  then show ?thesis using has_mac_stateless [of "wanted_mac mac" rows] by (auto simp: stateless_def)
qed

lemma skip_router_lacks:
  assumes "map_of c ''target_mac'' = Some (PStr mac)" and "mac \<noteq> []" and "lacks_mac t a (wanted_mac mac)"
    and "skip_router t a (PDict c) s = (r, s')"
  shows "r \<noteq> Inr False \<and> only_asked a s s'"
proof -
  let ?mac = "wanted_mac mac" and ?c1 = "Cmd ''/interface/ethernet/print'' []" and ?c2 = "Cmd ''/interface/print'' []"
  let ?s1 = "s\<lparr>sent := sent s @ [(a, ?c1)]\<rparr>"
  let ?s2 = "?s1\<lparr>sent := sent ?s1 @ [(a, ?c2)]\<rparr>"
  have two: "only_asked a s ?s2" using only_asked_two [of a s] by simp
  have low: "py_lower mac \<noteq> []" using assms(2) by (simp add: py_lower_def)
  define rest where "rest = (\<lambda>entries. bnd (has_mac ?mac entries) (\<lambda>found. if found then ret False
     else andthen (say (''Skip '' @ fst a @ '': MAC '' @ py_lower mac @ '' not found'')) (ret True)))"
  have run: "skip_router t a (PDict c) s =
    bnd (api_exec t a ''/interface/ethernet/print'' []) (\<lambda>entries.
      bnd (has_mac ?mac entries) (\<lambda>found.
      bnd (if found then ret entries else api_exec t a ''/interface/print'' []) rest)) s"
    using assms(1,2) low
    by (simp add: skip_router_def get_key_def lower_val_def or_val_def bnd_run ret_run rest_def wanted_mac_def Let_def)
  note no = lacks_mac_answer [OF assms(3,2)]
  show ?thesis
  proof (cases "api_reply t (sent s) a ?c1")
    case (Inl x)
    then show ?thesis using assms(4) run only_asked_one [of a s] by (auto simp: bnd_run api_exec_def)
  next
    case (Inr entries)
    from no [OF Inr] obtain h where h: "\<And>u. has_mac ?mac entries u = (h, u)" "h \<noteq> Inr True" by blast
    show ?thesis
    proof (cases "h = Inr False")
      case False
      then obtain x where "h = Inl x" using h(2) by (cases h) auto
      with Inr h(1) show ?thesis using assms(4) run only_asked_one [of a s] by (auto simp: bnd_run api_exec_def)
    next
      case True
      show ?thesis
      proof (cases "api_reply t (sent ?s1) a ?c2")
        case (Inl x)
        with Inr h(1) True two show ?thesis using assms(4) run by (auto simp: bnd_run api_exec_def)
      next
        case (Inr entries2)
        from no [OF Inr] obtain h2 where h2: "\<And>u. has_mac ?mac entries2 u = (h2, u)" "h2 \<noteq> Inr True" by blast
        have "skip_router t a (PDict c) s = rest entries2 ?s2"
          using \<open>api_reply t (sent s) a ?c1 = Inr entries\<close> Inr h(1) True run by (simp add: bnd_run api_exec_def)
        moreover have "fst (rest entries2 ?s2) \<noteq> Inr False \<and> only_asked a s (snd (rest entries2 ?s2))"
          using h2 two only_asked_say [OF two]
          by (cases h2) (auto simp: rest_def bnd_run andthen_run ret_run say_def modify_run)
        ultimately show ?thesis using assms(4) by (metis fst_conv snd_conv)
      qed
    qed
  qed
qed

text \<open>C24. When a target address is configured and the router lists no interface with it, onboarding does
  nothing to the router but list its interfaces, touches nothing in the application, and does not report
  the router as onboarded.\<close>

theorem other_router_untouched:
  assumes "map_of c ''target_mac'' = Some (PStr mac)" and "mac \<noteq> []" and "\<And>user. lacks_mac t (ip, user) (wanted_mac mac)"
  shows "\<exists>user. only_asked (ip, user) s (snd (routeros_onboard t ip (PDict c) s)) \<and>
    (\<forall>ob. fst (routeros_onboard t ip (PDict c) s) \<noteq> Inr (Some ob))"
proof -
  let ?Q = "\<lambda>res. \<exists>user. only_asked (ip, user) s (snd res) \<and> (\<forall>ob. fst res \<noteq> Inr (Some ob))"
  have none: "?Q (Inl x, s)" for x by (auto simp: only_asked_def intro: exI [of _ 0])
  define rest where "rest = (\<lambda>port mu mp ips a. andthen (say (''Connected to '' @ ip @ '' via API''))
    (bnd (skip_router t a (PDict c)) (\<lambda>skip. if skip then ret None
     else bnd (setup_router t a (PDict c) port mu mp ips) (\<lambda>ob. ret (Some ob)))))"
  have rest: "?Q (rest port mu mp ips (ip, user) s)" for port mu mp ips user
  proof -
    let ?s = "s\<lparr>printed := printed s @ [''Connected to '' @ ip @ '' via API'']\<rparr>"
    obtain r s' where run: "skip_router t (ip, user) (PDict c) ?s = (r, s')" by fastforce
    from skip_router_lacks [OF assms(1,2,3) run] have no: "r \<noteq> Inr False" "only_asked (ip, user) s s'"
      by (simp_all add: only_asked_def)
    show ?thesis
      using run no by (cases r) (auto simp: rest_def andthen_run bnd_run say_def modify_run ret_run)
  qed
  have conn: "?Q (bnd (connect_to t ip u p port) (rest port mu mp ips) s)" for u p port mu mp ips
    using none rest by (simp add: connect_to_def bnd_run gets_run raise_run ret_run split: option.split)
  have "?Q (routeros_onboard t ip (PDict c) s)"
    unfolding routeros_onboard_def case_prod_beta
    by (intro conn [unfolded rest_def] stateless_first [where Q = ?Q] stateless_intros none)
  then show ?thesis by simp
qed

theorem other_router_untouched_witness:
  "\<exists>user. only_asked (''10.0.0.1'', user) demo_station
     (snd (routeros_onboard demo_site ''10.0.0.1'' (PDict [(''target_mac'', PStr ''B8-69-F4-E8-53-04''),
        (''routeros'', PDict [(''api_port'', PInt 8728), (''mgmt_user'', PStr ''noc''), (''mgmt_pass_value'', PStr ''x'')])]) demo_station))"
proof -
  have "lacks_mac demo_site (''10.0.0.1'', user) (wanted_mac ''B8-69-F4-E8-53-04'')" for user
    by (auto simp: lacks_mac_def demo_site_def demo_reply_def row_has_mac_def row_get_def wanted_mac_def py_lower_def
        py_replace_def map_char_def lower_letters_def upper_letters_def)
  from other_router_untouched [OF _ _ this] show ?thesis by fastforce
qed

section \<open>Registering a router\<close>

lemma search_ids_tupd:
  assumes "\<And>r. p i (f r) = p i r"
  shows "search_ids p (tupd i f t) = search_ids p t"
  unfolding search_ids_def map_fst_tupd
  by (rule filter_cong) (auto simp: tget_tupd assms split: option.split)

lemma tupd_idem: "(\<And>r. f (f r) = f r) \<Longrightarrow> tupd i f (tupd i f t) = tupd i f t"
  by (auto simp: tupd_def)

lemma tupd_new: "f r = r \<Longrightarrow> tupd (fresh_id t) f (tins r t) = tins r t"
  using fresh_id_gt [of _ t] by (force simp: tupd_def tins_def intro!: map_idI)

lemma first_id_nil: "first_id xs = None \<longleftrightarrow> xs = []"
  by (cases xs) (simp_all add: first_id_def)

lemma sort_key_nil: "sort_key g xs = [] \<longleftrightarrow> xs = []"
  by (metis length_0_conv length_sort)

lemma first_id_one: "first_id (sort_key g [i]) = Some i" "first_id [i] = Some i"
  by (simp_all add: first_id_def)

lemma first_id_single: "first_id (sort_key g xs) = Some i \<Longrightarrow> length xs \<le> 1 \<Longrightarrow> xs = [i]"
  by (cases xs) (auto simp: first_id_def)

definition matching_devices :: "string \<Rightarrow> sys \<Rightarrow> nat list" where
  "matching_devices ip s = search_ids (\<lambda>_ d. dev_mgmt_ip d = Some ip \<and> dev_device_type d = DTMikrotik) (devices s)"

definition device_update :: "onboarded \<Rightarrow> nat \<Rightarrow> int \<Rightarrow> device \<Rightarrow> device" where
  "device_update ob k port = fold dev_set [N_name (onb_identity ob), N_sector_id (Some k), N_mgmt_port port, N_status DSActive]"

lemma device_update_idem: "device_update ob k port (device_update ob k port r) = device_update ob k port r"
  by (simp add: device_update_def)

lemma device_update_same [simp]:
  "dev_mgmt_ip (device_update ob k port r) = dev_mgmt_ip r"
  "dev_device_type (device_update ob k port r) = dev_device_type r"
  "dev_good (device_update ob k port r)"
  by (simp_all add: device_update_def dev_good_def)

text \<open>A registered device: the only one at the address, and already as another update would make it.\<close>

definition registered :: "onboarded \<Rightarrow> nat \<Rightarrow> int \<Rightarrow> nat \<Rightarrow> sys \<Rightarrow> bool" where
  "registered ob k port d s \<longleftrightarrow> matching_devices (onb_ip ob) s = [d] \<and>
     tupd d (device_update ob k port) (devices s) = devices s"

lemma rpc_ok:
  assumes "rpc t m s = (Inr x, s')" and "\<And>n. request_env t n = e"
  shows "m e (server s) = (Inr x, server s')"
  using assms by (auto simp: rpc_def split: prod.splits sum.splits)

lemma new_device_registers:
  assumes env: "\<And>n. request_env t n = e"
    and run: "save_device t ob k (find_device e (onb_ip ob) (server s)) s = (Inr d, s')"
    and None: "find_device e (onb_ip ob) (server s) = None"
  shows "\<exists>port d'. (\<forall>u. int_column (onb_api_port ob) u = (Inr port, u)) \<and>
    server s' = server s\<lparr>devices := d'\<rparr> \<and> registered ob k port d (server s')"
proof -
  from None have nil: "matching_devices (onb_ip ob) (server s) = []"
    by (simp add: find_device_def matching_devices_def first_id_nil sort_key_nil)
  let ?vs = "\<lambda>port. [N_name (onb_identity ob), N_device_type DTMikrotik, N_sector_id (Some k),
            N_mgmt_ip (Some (onb_ip ob)), N_mgmt_port port, N_status DSActive]"
  from run None have "rpc t (\<lambda>e. bnd (int_column (onb_api_port ob)) (\<lambda>port. dev_create (?vs port))) s = (Inr d, s')"
    by (simp add: save_device_def)
  from rpc_ok [OF this env] obtain port w where port: "int_column (onb_api_port ob) (server s) = (Inr port, w)"
      and create: "dev_create (?vs port) w = (Inr d, server s')"
    by (rule bnd_ok)
  from stateless_result [OF stateless_int_column port]
  have w: "w = server s" and all: "\<forall>u. int_column (onb_api_port ob) u = (Inr port, u)" by auto
  let ?r = "fold dev_set (?vs port) dev_default"
  have s': "server s' = server s\<lparr>devices := tins ?r (devices (server s))\<rparr>"
    using dev_create_ok [OF create] w by simp
  have d: "d = fresh_id (devices (server s))"
    using create w by (auto simp: dev_create_def gets_run modify_run ret_run elim!: bnd_ok andthen_ok)
  have "device_update ob k port ?r = ?r" by (simp add: device_update_def)
  then have "tupd d (device_update ob k port) (devices (server s')) = devices (server s')"
    unfolding d s' by (simp add: tupd_new del: fold_simps)
  moreover have "matching_devices (onb_ip ob) (server s') = [d]"
    using nil unfolding matching_devices_def s' d by (simp add: search_ids_tins)
  ultimately show ?thesis using all s' unfolding registered_def by blast
qed

lemma known_device_registers:
  assumes env: "\<And>n. request_env t n = e" and one: "length (matching_devices (onb_ip ob) (server s)) \<le> 1"
    and run: "save_device t ob k (find_device e (onb_ip ob) (server s)) s = (Inr d, s')"
    and Some: "find_device e (onb_ip ob) (server s) = Some i"
  shows "\<exists>port d'. (\<forall>u. int_column (onb_api_port ob) u = (Inr port, u)) \<and>
    server s' = server s\<lparr>devices := d'\<rparr> \<and> registered ob k port d (server s')"
proof -
  from Some have only: "matching_devices (onb_ip ob) (server s) = [i]"
    using one by (auto simp: find_device_def matching_devices_def dest: first_id_single)
  let ?vs = "\<lambda>port. [N_name (onb_identity ob), N_sector_id (Some k), N_mgmt_port port, N_status DSActive]"
  from run Some obtain s1 where saved: "rpc t (\<lambda>e. bnd (int_column (onb_api_port ob)) (\<lambda>port. dev_write i (?vs port))) s = (Inr (), s1)"
      and "ret i s1 = (Inr d, s')"
    unfolding save_device_def option.case by (auto elim: bnd_ok)
  then have d: "d = i" and s1: "s1 = s'" by (simp_all add: ret_run)
  from rpc_ok [OF saved env] obtain port w where port: "int_column (onb_api_port ob) (server s) = (Inr port, w)"
      and wr: "dev_write i (?vs port) w = (Inr (), server s')"
    unfolding s1 by (rule bnd_ok)
  from stateless_result [OF stateless_int_column port]
  have w: "w = server s" and all: "\<forall>u. int_column (onb_api_port ob) u = (Inr port, u)" by auto
  have s': "server s' = server s\<lparr>devices := tupd i (device_update ob k port) (devices (server s))\<rparr>"
    using dev_write_ok(1) [OF wr] w by (simp only: device_update_def)
  have "matching_devices (onb_ip ob) (server s') = matching_devices (onb_ip ob) (server s)"
    unfolding matching_devices_def s' by (simp, rule search_ids_tupd, simp)
  with only d have "matching_devices (onb_ip ob) (server s') = [d]" by simp
  moreover have "tupd d (device_update ob k port) (devices (server s')) = devices (server s')"
    unfolding s' d by (simp add: tupd_idem device_update_idem)
  ultimately show ?thesis using all s' unfolding registered_def by blast
qed

lemma save_device_registers:
  assumes env: "\<And>n. request_env t n = e" and one: "length (matching_devices (onb_ip ob) (server s)) \<le> 1"
    and run: "save_device t ob k (find_device e (onb_ip ob) (server s)) s = (Inr d, s')"
  shows "\<exists>port d'. (\<forall>u. int_column (onb_api_port ob) u = (Inr port, u)) \<and>
    server s' = server s\<lparr>devices := d'\<rparr> \<and> registered ob k port d (server s')"
  using new_device_registers [OF env run] known_device_registers [OF env one run]
  by (cases "find_device e (onb_ip ob) (server s)") auto

text \<open>Saving a registered device changes nothing.\<close>

lemma save_registered:
  assumes env: "\<And>n. request_env t n = e" and reg: "registered ob k port d (server s)"
    and port: "\<forall>u. int_column (onb_api_port ob) u = (Inr port, u)"
  shows "find_device e (onb_ip ob) (server s) = Some d \<and>
    (\<exists>s'. save_device t ob k (Some d) s = (Inr d, s') \<and> server s' = server s)"
proof
  from reg have only: "matching_devices (onb_ip ob) (server s) = [d]"
    and same: "tupd d (device_update ob k port) (devices (server s)) = devices (server s)"
    by (simp_all add: registered_def)
  show "find_device e (onb_ip ob) (server s) = Some d"
    using only by (simp add: find_device_def matching_devices_def first_id_one)
  let ?vs = "[N_name (onb_identity ob), N_sector_id (Some k), N_mgmt_port port, N_status DSActive]"
  have "d \<in> set (matching_devices (onb_ip ob) (server s))" by (simp add: only)
  then obtain r where r: "tget (devices (server s)) d = Some r" by (auto simp: matching_devices_def search_ids_iff)
  then have "tget (devices (server s)) d = Some (device_update ob k port r)"
    using tbl.upd_same [OF r, of "device_update ob k port"] by (simp add: same)
  then have good: "\<exists>r. tget (devices (server s)) d = Some r \<and> dev_good r" by auto
  have "dev_write d ?vs (server s) = (Inr (), server s)"
  proof -
    have upd: "server s\<lparr>devices := tupd d (fold dev_set ?vs) (devices (server s))\<rparr> = server s"
      using same unfolding device_update_def by simp
    have "check_sector_required [d] (server s) = (Inr (), server s)" using good by (simp add: check_simps)
    with r upd show ?thesis by (simp only: dev_write_def bnd_run rd_run andthen_run modify_run do_if_run) simp
  qed
  then show "\<exists>s'. save_device t ob k (Some d) s = (Inr d, s') \<and> server s' = server s"
    using port by (simp add: save_device_def rpc_def env bnd_run ret_run)
qed

lemma rpc_gets_run: "rpc t (\<lambda>e. gets (f e)) s = (Inr (f (request_env t (calls s)) (server s)), s\<lparr>calls := Suc (calls s)\<rparr>)"
  by (simp add: rpc_def gets_run)

definition link_router :: "site \<Rightarrow> nat \<Rightarrow> (nat \<times> nat) script" where
  "link_router t d = bnd (rpc t (\<lambda>e. gets (find_router d))) (\<lambda>router.
     case router of Some i \<Rightarrow> ret (d, i)
     | None \<Rightarrow> bnd (rpc t (\<lambda>e. router_create d)) (\<lambda>i. ret (d, i)))"

lemma link_router_once:
  assumes run: "link_router t d s = (Inr (d', r), s')" and env: "\<And>n. request_env t n = e"
  shows "d' = d \<and> (\<exists>rs. server s' = server s\<lparr>routers := rs\<rparr>) \<and> find_router d (server s') = Some r"
proof (cases "find_router d (server s)")
  case (Some i)
  with run show ?thesis by (auto simp: link_router_def bnd_run rpc_gets_run ret_run intro: exI [of _ "routers (server s)"])
next
  case None
  let ?r = "\<lparr>rtr_device_id = Some d, rtr_api_user = None, rtr_routeros_version = PBool False,
     rtr_last_healthcheck_at = None, rtr_last_healthcheck_status = None\<rparr>"
  have nil: "search_ids (\<lambda>_ r. rtr_device_id r = Some d) (routers (server s)) = []"
    using None by (simp add: find_router_def first_id_nil)
  have eqs: "d' = d" "r = fresh_id (routers (server s))"
      "server s' = server s\<lparr>routers := tins ?r (routers (server s))\<rparr>"
    using run None
    by (auto simp: link_router_def bnd_run rpc_gets_run ret_run router_create_def rpc_def gets_run modify_run andthen_run)
  have "find_router d (server s') = Some r"
    using nil unfolding find_router_def eqs(2,3) by (simp add: search_ids_tins first_id_one)
  with eqs show ?thesis by blast
qed

lemma link_router_again:
  assumes "find_router d (server s) = Some r"
  shows "\<exists>s'. link_router t d s = (Inr (d, r), s') \<and> server s' = server s"
  using assms by (simp add: link_router_def bnd_run rpc_gets_run ret_run)

lemma register_steps:
  assumes run: "odoo_register_device t cfg ob s = (Inr (d, r), s')" and env: "\<And>n. request_env t n = e"
  shows "\<exists>k s2 d1 s3. server s2 = server s \<and>
    save_device t ob k (find_device e (onb_ip ob) (server s2)) s2 = (Inr d1, s3) \<and>
    link_router t d1 s3 = (Inr (d, r), s') \<and>
    (\<forall>u. sectors (server u) = sectors (server s) \<longrightarrow> (\<exists>u'. server u' = server u \<and>
       odoo_register_device t cfg ob u =
         bnd (save_device t ob k (find_device e (onb_ip ob) (server u'))) (link_router t) u'))"
proof -
  from run obtain odoo code c sec s1 s2 s3 s4 s5 where st:
      "subscript cfg ''odoo'' s = (Inr odoo, s1)" "login t odoo s1 = (Inr (), s2)"
      "subscript cfg ''sector_code'' s2 = (Inr code, s3)" "as_text t code s3 = (Inr c, s4)"
      "rpc t (\<lambda>e. gets (\<lambda>s. first_sector e s c)) s4 = (Inr sec, s5)"
    unfolding odoo_register_device_def by (elim bnd_ok andthen_ok) auto
  note st' = stateless_result [OF stateless_subscript st(1)] stateless_result [OF stateless_login st(2)]
    stateless_result [OF stateless_subscript st(3)] stateless_result [OF stateless_as_text st(4)]
  have sec: "sec = first_sector e (server s) c" using st(5) st' by (simp add: rpc_gets_run env)
  have unfold: "odoo_register_device t cfg ob u =
    bnd (rpc t (\<lambda>e. gets (\<lambda>s. first_sector e s c))) (\<lambda>sector. case sector of
       None \<Rightarrow> raise (RuntimeError (''Sector not found: '' @ show_val t code))
     | Some k \<Rightarrow> bnd (rpc t (\<lambda>e. gets (find_device e (onb_ip ob)))) (\<lambda>found.
         bnd (save_device t ob k found) (link_router t))) u" for u
    unfolding odoo_register_device_def link_router_def [abs_def]
    using st' by (simp add: bnd_run [of "subscript cfg k" for k] bnd_run [of "as_text t code"] andthen_run
        del: append.simps)
  have same: "first_sector e (server u) c = sec" if "sectors (server u) = sectors (server s)" for u
    unfolding sec first_sector_def that ..
  show ?thesis
  proof (cases sec)
    case None
    then show ?thesis using run unfold [of s] sec by (simp add: bnd_run rpc_gets_run env raise_run)
  next
    case (Some k)
    have all: "odoo_register_device t cfg ob u =
        bnd (save_device t ob k (find_device e (onb_ip ob) (server u))) (link_router t) (u\<lparr>calls := Suc (Suc (calls u))\<rparr>)"
      if "sectors (server u) = sectors (server s)" for u
      using same [OF that] Some unfolding unfold by (simp add: bnd_run rpc_gets_run env)
    let ?s2 = "s\<lparr>calls := Suc (Suc (calls s))\<rparr>"
    obtain d1 s3 where "save_device t ob k (find_device e (onb_ip ob) (server s)) ?s2 = (Inr d1, s3)"
        "link_router t d1 s3 = (Inr (d, r), s')"
      using run all [OF refl] by (auto elim: bnd_ok)
    moreover have "\<exists>u'. server u' = server u \<and> odoo_register_device t cfg ob u =
         bnd (save_device t ob k (find_device e (onb_ip ob) (server u'))) (link_router t) u'"
      if "sectors (server u) = sectors (server s)" for u
      using all [OF that] by (intro exI [of _ "u\<lparr>calls := Suc (Suc (calls u))\<rparr>"]) simp
    moreover have "server ?s2 = server s" by simp
    ultimately show ?thesis by metis
  qed
qed


definition demo_cfg :: pyval where
  "demo_cfg = PDict [(''sector_code'', PStr ''N''), (''odoo'', PDict [(''url'', PStr ''http://localhost''),
     (''db'', PStr ''odoo''), (''user'', PStr ''admin''), (''pass_env'', PStr ''ODOO_ADMIN_PASS'')])]"

definition demo_onboarded :: onboarded where
  "demo_onboarded = \<lparr>onb_identity = ''MT-N-1'', onb_ip = ''10.0.0.7'', onb_api_port = PInt 8728\<rparr>"


section \<open>Profiles over XML-RPC\<close>

fun has_none :: "pyval \<Rightarrow> bool" where
  "has_none PNone = True"
| "has_none (PList vs) = list_ex has_none vs"
| "has_none (PDict d) = list_ex (\<lambda>p. has_none (snd p)) d"
| "has_none _ = False"

text \<open>XML-RPC without its \<open>None\<close> extension: a value is delivered as it is, unless it contains a
  \<open>None\<close>, which the server refuses to encode.\<close>

definition plain_transport :: "site \<Rightarrow> bool" where
  "plain_transport t \<longleftrightarrow> (\<forall>v. if has_none v then \<exists>x. marshal t v = Inl x else marshal t v = Inr v)"

definition targets_unset :: "sys \<Rightarrow> bool" where
  "targets_unset s \<longleftrightarrow> list_all (\<lambda>p. \<not> set_str (pc_target_mac (snd p))) (preconfigs s)"

lemma targets_unsetD: "targets_unset s \<Longrightarrow> tget (preconfigs s) i = Some r \<Longrightarrow> \<not> set_str (pc_target_mac r)"
  by (auto simp: targets_unset_def list_all_iff tget_def dest!: map_of_SomeD)

lemma payload_has_none:
  assumes "\<not> set_str (pc_target_mac r)"
  shows "has_none (PDict (to_preloader_payload r))"
  using assms by (simp add: to_preloader_payload_def or_none_def)

lemma get_preconfig_result:
  "get_preconfig_for_sector e c s = (case choose_preconfig e s c of
     None \<Rightarrow> (Inr [], s)
   | Some i \<Rightarrow> (case tget (preconfigs s) i of
        None \<Rightarrow> (Inl (MissingError ''Record does not exist''), s)
      | Some r \<Rightarrow> (Inr (to_preloader_payload r), s)))"
  by (simp add: get_preconfig_for_sector_def run_simps split: option.split)

text \<open>What arrives is empty: a payload with a \<open>None\<close> in it is not delivered.\<close>

lemma delivered_nothing:
  assumes tr: "plain_transport t" and unset: "targets_unset (server s)"
    and run: "bnd (rpc t (\<lambda>e. get_preconfig_for_sector e c)) (\<lambda>payload. lift_sum (marshal t (PDict payload))) s = (Inr v, w)"
  shows "\<not> truthy v"
proof -
  from run obtain payload u where p: "rpc t (\<lambda>e. get_preconfig_for_sector e c) s = (Inr payload, u)"
      and m: "marshal t (PDict payload) = Inr v"
    by (auto simp: lift_sum_def elim!: bnd_ok)
  from p have "payload = [] \<or> (\<exists>i r. tget (preconfigs (server s)) i = Some r \<and> payload = to_preloader_payload r)"
    by (auto simp: rpc_def get_preconfig_result split: option.splits)
  moreover have "\<not> has_none (PDict payload)"
    using tr m unfolding plain_transport_def by (metis sum.distinct(2))
  ultimately have "payload = []" using payload_has_none targets_unsetD [OF unset] by blast
  with tr m show ?thesis unfolding plain_transport_def by (auto dest: spec [of _ "PDict []"])
qed

text \<open>The fetched payload is empty, or the fetch fails.\<close>

lemma fetch_yields_nothing:
  assumes tr: "plain_transport t"
    and unset: "targets_unset (server s)"
    and run: "odoo_fetch_preconfig t cfg s = (Inr pre, s')"
  shows "\<not> truthy pre"
proof -
  from run obtain odoo wanted s1 s2 where st: "get_or cfg ''odoo'' (PDict []) s = (Inr odoo, s1)"
      "get_key odoo ''fetch_preconfig'' s1 = (Inr wanted, s2)"
      and rest: "(if \<not> truthy wanted then ret PNone
        else andthen (login t odoo)
         (bnd (get_key cfg ''sector_code'') (\<lambda>code.
          catching (\<lambda>_. True)
            (bnd (if truthy code then bnd (as_text t code) (\<lambda>c. ret (Some c)) else ret None) (\<lambda>c.
             bnd (rpc t (\<lambda>e. get_preconfig_for_sector e c)) (\<lambda>payload.
             lift_sum (marshal t (PDict payload)))))
            (\<lambda>exc. raise (RuntimeError (''Failed to fetch preconfig from Odoo: '' @ exc_str exc)))))) s2 = (Inr pre, s')"
    unfolding odoo_fetch_preconfig_def by (elim bnd_ok) auto
  have s2: "s2 = s" using stateless_result [OF stateless_get_or st(1)] stateless_result [OF stateless_get_key st(2)] by simp
  show ?thesis
  proof (cases "truthy wanted")
    case False
    with rest show ?thesis by (auto simp: ret_run)
  next
    case True
    with rest s2 obtain code s3 s4 where "login t odoo s = (Inr (), s3)" "get_key cfg ''sector_code'' s3 = (Inr code, s4)"
      and body: "catching (\<lambda>_. True)
            (bnd (if truthy code then bnd (as_text t code) (\<lambda>c. ret (Some c)) else ret None) (\<lambda>c.
             bnd (rpc t (\<lambda>e. get_preconfig_for_sector e c)) (\<lambda>payload.
             lift_sum (marshal t (PDict payload)))))
            (\<lambda>exc. raise (RuntimeError (''Failed to fetch preconfig from Odoo: '' @ exc_str exc))) s4 = (Inr pre, s')"
      by (auto elim!: bnd_ok andthen_ok)
    then have s4: "s4 = s" using stateless_result [OF stateless_login] stateless_result [OF stateless_get_key] by metis
    have "stateless (if truthy code then bnd (as_text t code) (\<lambda>c. ret (Some c)) else ret None)"
      by (intro stateless_intros)
    then obtain q where q: "\<And>u. (if truthy code then bnd (as_text t code) (\<lambda>c. ret (Some c)) else ret None) u = (q, u)"
      by (auto simp: stateless_def)
    show ?thesis
    proof (cases q)
      case (Inl x)
      with body q show ?thesis by (simp add: catching_run bnd_run raise_run)
    next
      case (Inr c)
      with body q s4 have "bnd (rpc t (\<lambda>e. get_preconfig_for_sector e c)) (\<lambda>payload. lift_sum (marshal t (PDict payload))) s = (Inr pre, s')"
        by (auto simp: catching_run bnd_run [of "if b then m else n" for b m n] raise_run split: prod.splits sum.splits)
      then show ?thesis by (rule delivered_nothing [OF tr unset])
    qed
  qed
qed

text \<open>Over plain XML-RPC, profiles without a target address never take effect: whatever else they
  set, their payload holds a \<open>None\<close>, which is not delivered, and the preloader goes on with its local
  configuration. The column is documented as optional.\<close>

theorem profile_without_target_ignored:
  assumes "plain_transport t" and "targets_unset (server s)"
  shows "\<exists>s'. fetch_and_merge t cfg s = (Inr cfg, s')"
proof -
  obtain res s1 where run: "odoo_fetch_preconfig t cfg s = (res, s1)" by fastforce
  show ?thesis
  proof (cases res)
    case (Inl x)
    with run show ?thesis by (simp add: fetch_and_merge_def bnd_run say_def modify_run ret_run)
  next
    case (Inr pre)
    with run have "\<not> truthy pre" using fetch_yields_nothing [OF assms] by blast
    with run Inr show ?thesis by (simp add: fetch_and_merge_def bnd_run say_def modify_run ret_run)
  qed
qed

theorem profile_without_target_ignored_witness:
  "\<exists>s'. fetch_and_merge (demo_site\<lparr>marshal := (\<lambda>v. if has_none v then Inl (OtherError ''cannot marshal None'') else Inr v)\<rparr>)
      (PDict [(''odoo'', PDict [(''fetch_preconfig'', PBool True), (''url'', PStr ''u''), (''db'', PStr ''d''),
         (''user'', PStr ''a''), (''pass_env'', PStr ''P'')])])
      (demo_station\<lparr>server := demo_preconfigs\<rparr>) =
    (Inr (PDict [(''odoo'', PDict [(''fetch_preconfig'', PBool True), (''url'', PStr ''u''), (''db'', PStr ''d''),
         (''user'', PStr ''a''), (''pass_env'', PStr ''P'')])]), s')"
proof -
  let ?t = "demo_site\<lparr>marshal := (\<lambda>v. if has_none v then Inl (OtherError ''cannot marshal None'') else Inr v)\<rparr>"
  have tr: "plain_transport ?t" by (simp add: plain_transport_def)
  have "targets_unset (server (demo_station\<lparr>server := demo_preconfigs\<rparr>))"
    by (simp add: targets_unset_def demo_preconfigs_def pc_default_def)
  from profile_without_target_ignored [OF tr this] show ?thesis by blast
qed

end
