(* ===== verification/Preloader_Reach.thy ===== *)
theory Preloader_Reach
  imports Preloader_Facts
begin

text \<open>
  Where the commands of the preloader go. A locale states what a predicate on the state of the
  script must tolerate - printed lines, calls to the application, commands on allowed connections -
  and proves once, for every function of the preloader, that the predicate is kept. The
  interpretation gives: commands are sent only to addresses of the management network that accept
  a connection.
\<close>

section \<open>Programs that only compute\<close>

declare keeps_all_list [keeps_all_intros]

lemma keeps_all_case_str [keeps_all_intros]:
  "(\<And>x. keeps_all I (m x)) \<Longrightarrow> (\<And>u. keeps_all I (k u)) \<Longrightarrow>
   keeps_all I (case v of PStr x \<Rightarrow> m x | u \<Rightarrow> k u)"
  by (cases v) simp_all

lemma keeps_all_values [keeps_all_intros]:
  "keeps_all I (subscript v k)" "keeps_all I (get_or v k d)" "keeps_all I (get_key v k)" "keeps_all I (iterate v)"
  "keeps_all I (lift_sum r)" "keeps_all I (require_env t v)" "keeps_all I (env_value t v)"
  "keeps_all I (as_text t v)" "keeps_all I (lower_val v)" "keeps_all I (login t v)"
  "keeps_all I (boot_credentials t v)" "keeps_all I (mgmt_credentials t v)" "keeps_all I (allowed_addresses t v)"
  by (intro stateless_keeps stateless_intros)+

lemma keeps_all_loops [keeps_all_intros]:
  "keeps_all I (join_items n vs)" "keeps_all I (is_in x v)" "keeps_all I (mgmt_of ip rows)" "keeps_all I (has_mac mac rows)"
proof -
  show "keeps_all I (join_items n vs)"
    by (induction n vs rule: join_items.induct) (auto intro!: keeps_all_intros)
  show "keeps_all I (is_in x v)" by (cases "(x, v)" rule: is_in.cases) (auto intro!: keeps_all_intros)
  show "keeps_all I (mgmt_of ip rows)" by (induction rows) (auto intro!: keeps_all_intros split: pyval.split)
  show "keeps_all I (has_mac mac rows)" by (induction rows) (auto intro!: keeps_all_intros)
qed

lemma keeps_all_texts [keeps_all_intros]:
  "keeps_all I (before_slash v)" "keeps_all I (join_val sep v)" "keeps_all I (webhook_token t v w)"
  "keeps_all I (onboarding_url cfg v)" "keeps_all I (sector_config cfg)" "keeps_all I (router_identity t cfg ip)"
  "keeps_all I (connect_to t ip u p port)"
  unfolding before_slash_def join_val_def webhook_token_def onboarding_url_def sector_config_def
    router_identity_def connect_to_def
  by (intro keeps_all_intros)+

lemma keeps_all_scripts [keeps_all_intros]:
  "keeps_all I (build_lease_script t cfg)" "keeps_all I (build_call_home_script t cfg)"
  unfolding build_lease_script_def build_call_home_script_def by (intro keeps_all_intros)+

text \<open>What a program returns, when it returns.\<close>

definition yields :: "('a \<Rightarrow> bool) \<Rightarrow> ('s, 'a) prog \<Rightarrow> bool" where
  "yields P m \<longleftrightarrow> (\<forall>s x s'. m s = (Inr x, s') \<longrightarrow> P x)"

named_theorems yields_intros \<open>what programs return\<close>

lemma yields_any: "yields (\<lambda>_. True) m"
  by (simp add: yields_def)

lemma yields_basic [yields_intros]:
  "P x \<Longrightarrow> yields P (ret x)" "yields P (raise e)" "yields P k \<Longrightarrow> yields P (andthen m0 k)"
  "yields P m \<Longrightarrow> yields P n \<Longrightarrow> yields P (if b then m else n)"
  "yields P m \<Longrightarrow> (\<And>e. yields P (h e)) \<Longrightarrow> yields P (catching p m h)"
  by (auto simp: yields_def ret_run raise_run catching_run elim!: andthen_ok split: prod.splits sum.splits if_splits)

lemma yields_bnd: "yields Q m \<Longrightarrow> (\<And>x. Q x \<Longrightarrow> yields P (k x)) \<Longrightarrow> yields P (bnd m k)"
  unfolding yields_def by (blast elim: bnd_ok)

lemmas yields_then [yields_intros] = yields_bnd [OF yields_any]

lemma keeps_all_bnd_yields:
  assumes "keeps_all I m" and "yields Q m" and "\<And>x. Q x \<Longrightarrow> keeps_all I (k x)"
  shows "keeps_all I (bnd m k)"
  using assms by (auto simp: keeps_all_def yields_def bnd_run split: prod.split sum.split) (metis snd_conv)+

lemma keeps_all_bnd_pair:
  assumes "keeps_all I m" and "yields Q m" and "\<And>x y. Q (x, y) \<Longrightarrow> keeps_all I (k x y)"
  shows "keeps_all I (bnd m (\<lambda>(x, y). k x y))"
  using assms by (intro keeps_all_bnd_yields [of I m Q]) auto

text \<open>A connection has the address it was opened to; the sector step, which may open another one,
  stays at its address.\<close>

lemma yields_connect: "yields (\<lambda>a. fst a = ip) (connect_to t ip user pass port)"
  by (auto simp: yields_def connect_to_def run_simps split: option.splits)

lemma yields_sector_step: "yields (\<lambda>r. fst (fst r) = fst a) (sector_step t a cfg user pass port)"
proof -
  have "yields (\<lambda>r. fst (fst r) = ip) (retry_sector t ip cfg user pass port e)" for ip e
    unfolding retry_sector_def
    by (intro yields_basic(3) yields_bnd [OF yields_connect]) (intro yields_intros, simp_all)
  then show ?thesis unfolding sector_step_def by (intro yields_then yields_basic) simp_all
qed

section \<open>What the functions of the preloader may do to the state\<close>

locale supervised =
  fixes I :: "station \<Rightarrow> bool"
    and allowed :: "string \<Rightarrow> bool"
  assumes on_print: "I s \<Longrightarrow> I (s\<lparr>printed := x\<rparr>)"
    and on_call: "I s \<Longrightarrow> I (s\<lparr>server := d, calls := n\<rparr>)"
    and on_cmd: "I s \<Longrightarrow> allowed (fst a) \<Longrightarrow> I (s\<lparr>sent := sent s @ [(a, c)]\<rparr>)"
begin

lemma kept_say [keeps_all_intros]: "keeps_all I (say x)"
  unfolding say_def by (rule keeps_all_modify) (rule on_print)

lemma kept_api_exec [keeps_all_intros]: "allowed (fst a) \<Longrightarrow> keeps_all I (api_exec t a path kw)"
  by (simp add: keeps_all_def api_exec_def on_cmd)

lemma kept_rpc [keeps_all_intros]: "keeps_all I (rpc t m)"
  by (auto simp: keeps_all_def rpc_def on_call split: prod.split sum.split)

lemma kept_commands [keeps_all_intros]:
  "allowed (fst a) \<Longrightarrow> keeps_all I (run_cmd t a path kw)" "allowed (fst a) \<Longrightarrow> keeps_all I (routeros_find t a path f v)"
  "keeps_all I m \<Longrightarrow> keeps_all I (pass_errors m)"
  unfolding run_cmd_def routeros_find_def pass_errors_def by (intro keeps_all_intros; assumption)+

lemma kept_lookups [keeps_all_intros]:
  assumes "allowed (fst a)"
  shows "keeps_all I (routeros_interface_exists t a v)" "keeps_all I (routeros_get_id t a path f v)"
    "keeps_all I (routeros_get_mgmt_interface t a ip)"
  unfolding routeros_interface_exists_def routeros_get_id_def routeros_get_mgmt_interface_def
  by (intro assms keeps_all_intros)+

lemma kept_id_or_name [keeps_all_intros]: "allowed (fst a) \<Longrightarrow> keeps_all I (id_or_name t a path v)"
  unfolding id_or_name_def by (intro keeps_all_intros)

lemma kept_lists [keeps_all_intros]:
  assumes "allowed (fst a)"
  shows "keeps_all I (routeros_ensure_interface_list t a n)" "keeps_all I (routeros_ensure_interface_list_member t a n v)"
    "keeps_all I (move_first t a r)"
  unfolding routeros_ensure_interface_list_def routeros_ensure_interface_list_member_def move_first_def
  by (intro assms keeps_all_intros)+

lemma kept_firewall [keeps_all_intros]:
  assumes "allowed (fst a)"
  shows "keeps_all I (routeros_ensure_group t a n w)" "keeps_all I (routeros_ensure_user t a u v n)"
    "keeps_all I (routeros_ensure_neighbor_discovery t a v)"
    "keeps_all I (routeros_ensure_firewall_allow t a u v n)" "keeps_all I (routeros_ensure_firewall_drop t a u n)"
  unfolding routeros_ensure_group_def routeros_ensure_user_def routeros_ensure_neighbor_discovery_def
    routeros_ensure_firewall_allow_def routeros_ensure_firewall_drop_def
  by (intro assms keeps_all_intros)+

lemma kept_network [keeps_all_intros]:
  assumes "allowed (fst a)"
  shows "keeps_all I (routeros_ensure_bridge t a v)" "keeps_all I (routeros_ensure_bridge_port t a u v)"
    "keeps_all I (routeros_ensure_ip_address t a u v)" "keeps_all I (routeros_ensure_ip_pool t a u v)"
    "keeps_all I (routeros_ensure_dhcp_server t a u v w x)" "keeps_all I (routeros_ensure_dhcp_network t a u v w)"
    "keeps_all I (routeros_ensure_dhcp_client t a u n)" "keeps_all I (routeros_ensure_nat_masquerade t a u n)"
    "keeps_all I (routeros_ensure_dns t a v)"
  unfolding routeros_ensure_bridge_def routeros_ensure_bridge_port_def routeros_ensure_ip_address_def
    routeros_ensure_ip_pool_def routeros_ensure_dhcp_server_def routeros_ensure_dhcp_network_def
    routeros_ensure_dhcp_client_def routeros_ensure_nat_masquerade_def routeros_ensure_dns_def
  by (intro assms keeps_all_intros)+

lemma kept_hotspot [keeps_all_intros]:
  assumes "allowed (fst a)"
  shows "keeps_all I (routeros_ensure_hotspot_profile t a u v w x)" "keeps_all I (routeros_ensure_hotspot_server t a u v w x)"
    "keeps_all I (routeros_ensure_walled_garden t a v n)" "keeps_all I (routeros_set_dhcp_lease_script t a u os v)"
    "keeps_all I (routeros_ensure_script t a u os)" "keeps_all I (routeros_ensure_scheduler t a u v n)"
  unfolding routeros_ensure_hotspot_profile_def routeros_ensure_hotspot_server_def routeros_ensure_walled_garden_def
    routeros_set_dhcp_lease_script_def routeros_ensure_script_def routeros_ensure_scheduler_def
  by (intro assms keeps_all_intros)+

lemma kept_instructions [keeps_all_intros]: "keeps_all I (print_manual_winbox_instructions t cfg v)"
  unfolding print_manual_winbox_instructions_def manual_hotspot_def manual_ports_def manual_call_home_def manual_api_def
  by (intro keeps_all_intros)

lemma kept_sector [keeps_all_intros]:
  assumes "allowed (fst a)"
  shows "keeps_all I (routeros_apply_sector_config t a cfg v)" "keeps_all I (routeros_apply_call_home t a cfg)"
  unfolding routeros_apply_sector_config_def ensure_lan_ports_def ensure_hotspot_def ensure_lease_script_def
    routeros_apply_call_home_def
  by (intro assms keeps_all_intros)+

lemma kept_steps [keeps_all_intros]:
  assumes "allowed (fst a)"
  shows "keeps_all I (skip_router t a cfg)" "keeps_all I (neighbor_step t a cfg)"
    "keeps_all I (firewall_step t a v vs)" "keeps_all I (call_home_step t a cfg m)"
  unfolding skip_router_def Let_def neighbor_step_def firewall_step_def call_home_step_def
  by (intro assms keeps_all_intros)+

lemma kept_sector_step [keeps_all_intros]:
  assumes "allowed (fst a)"
  shows "keeps_all I (sector_step t a cfg user pass port)"
proof -
  have "keeps_all I (retry_sector t (fst a) cfg user pass port e)" for e
    unfolding retry_sector_def
    by (intro keeps_all_bnd_yields [OF _ yields_connect] keeps_all_intros) (use assms in simp_all)
  then show ?thesis unfolding sector_step_def by (intro assms keeps_all_intros)
qed

lemma kept_setup [keeps_all_intros]:
  assumes "allowed (fst a)"
  shows "keeps_all I (setup_router t a cfg port user pass ips)"
  unfolding setup_router_def
  by (intro keeps_all_bnd_pair [OF _ yields_sector_step] assms keeps_all_intros) (use assms in simp_all)

lemma kept_onboard:
  assumes "allowed ip"
  shows "keeps_all I (routeros_onboard t ip cfg)"
  unfolding routeros_onboard_def
  by (intro keeps_all_bnd_yields [OF _ yields_connect] keeps_all_intros) (use assms in simp_all)

lemma kept_register [keeps_all_intros]: "keeps_all I (odoo_register_device t cfg ob)"
  unfolding odoo_register_device_def save_device_def by (intro keeps_all_intros)

lemma kept_candidate: "allowed ip \<Longrightarrow> keeps_all I (onboard_candidate t cfg b ip)"
  unfolding onboard_candidate_def by (intro kept_onboard keeps_all_intros)

lemma kept_candidates: "\<forall>ip\<in>set ips. allowed ip \<Longrightarrow> keeps_all I (for_each (onboard_candidate t cfg b) ips)"
  by (induction ips) (auto intro!: kept_candidate keeps_all_andthen keeps_all_ret)

lemma kept_fetch: "keeps_all I (odoo_fetch_preconfig t cfg)"
  unfolding odoo_fetch_preconfig_def by (intro keeps_all_intros)

lemma kept_merge: "keeps_all I (fetch_and_merge t cfg)"
  unfolding keeps_all_def fetch_and_merge_def
  using kept_fetch [of t cfg] kept_say
  by (auto simp: keeps_all_def bnd_run say_def modify_run ret_run split: prod.split sum.split)

end

section \<open>The addresses that commands are sent to\<close>

text \<open>Everything sent after \<open>cs\<close> goes to an address of \<open>A\<close>.\<close>

definition sent_within :: "string set \<Rightarrow> (link \<times> cmd) list \<Rightarrow> station \<Rightarrow> bool" where
  "sent_within A cs s \<longleftrightarrow> (\<exists>new. sent s = cs @ new \<and> (\<forall>x\<in>set new. fst (fst x) \<in> A))"

interpretation within: supervised "sent_within A cs" "\<lambda>ip. ip \<in> A" for A cs
  by unfold_locales (auto simp: sent_within_def)

lemma sent_within_start: "sent_within A (sent s) s"
  by (simp add: sent_within_def)

text \<open>The whole run: the port scan is over the network of the merged configuration, and each address
  it finds is tried.\<close>

definition try_candidates :: "site \<Rightarrow> pyval \<Rightarrow> string list \<Rightarrow> unit script" where
  "try_candidates t cfg ips = andthen (say (''Found candidates: '' @ show_val t (PList (map PStr ips))))
     (bnd (get_or cfg ''odoo'' (PDict [])) (\<lambda>odoo.
      bnd (get_or odoo ''register_device'' (PBool True)) (\<lambda>b.
      for_each (onboard_candidate t cfg (truthy b)) ips)))"

lemma main_after_scan:
  assumes "map_of d ''routeros'' = Some (PDict rs)" and "map_of rs ''api_port'' = Some port"
    and "fetch_and_merge t (PDict d) s = (Inr (PDict d'), u)" and "map_of d' ''mgmt_subnet'' = Some subnet"
    and "scan_subnet_for_api (connects t) (other_network t) subnet port = Inr ips"
  shows "preloader_main t (PDict d) s = try_candidates t (PDict d') ips u"
proof -
  have "subscript (PDict d) ''routeros'' = (\<lambda>u :: station. (Inr (PDict rs), u))"
    and "subscript (PDict rs) ''api_port'' = (\<lambda>u :: station. (Inr port, u))"
    and "subscript (PDict d') ''mgmt_subnet'' = (\<lambda>u :: station. (Inr subnet, u))"
    using assms(1,2,4) by (simp_all add: ret_def)
  then show ?thesis
    by (simp only: preloader_main_def try_candidates_def bnd_run assms(3,5) lift_sum_def prod.case sum.case)
qed

lemma try_sends_within: "keeps_all (sent_within (set ips) cs) (try_candidates t cfg ips)"
  unfolding try_candidates_def
  by (intro within.kept_candidates within.kept_say keeps_all_intros) simp

text \<open>C11. The preloader stays inside its management network. When the merged configuration names an IPv4
  network - by prefix length or by netmask, host bits set or not - then everything a run of the script
  sends goes to hosts of this network - in a network of more than two addresses never to the first or
  the last one - and only to addresses where the port of the local configuration accepted a connection.\<close>

theorem preloader_stays_in_network:
  assumes "map_of d ''routeros'' = Some (PDict rs)" and "map_of rs ''api_port'' = Some port"
    and "fetch_and_merge t (PDict d) s = (Inr (PDict d'), u)"
    and "map_of d' ''mgmt_subnet'' = Some (PStr (ip_text a @ ''/'' @ m))"
    and "p \<le> 32" and "m = nat_str p \<or> m = ip_text (netmask p)"
    and "preloader_main t (PDict d) s = (res, s')"
  shows "\<exists>new. sent s' = sent s @ new \<and>
    (\<forall>((ip, user), c)\<in>set new. \<exists>x. ip = ip_text x \<and> in_network a p x \<and> connects t ip port)"
proof -
  let ?ips = "filter (\<lambda>ip. connects t ip port) (map ip_text (net_hosts a p))"
  have "scan_subnet_for_api (connects t) (other_network t) (PStr (ip_text a @ ''/'' @ m)) port = Inr ?ips"
    unfolding scan_subnet_for_api_def ip_network_text [OF assms(5,6)] by simp
  from main_after_scan [OF assms(1-4) this] assms(7)
  have run: "try_candidates t (PDict d') ?ips u = (res, s')" by simp
  have "sent_within (set ?ips) (sent s) u"
    by (rule keeps_allD [OF within.kept_merge sent_within_start assms(3)])
  from keeps_allD [OF try_sends_within this run] obtain new where
      "sent s' = sent s @ new" and "\<forall>x\<in>set new. fst (fst x) \<in> set ?ips"
    unfolding sent_within_def by blast
  then show ?thesis using net_hosts_spec(1) [OF assms(5), of a] by (intro exI [of _ new]) fastforce
qed

text \<open>A network of two hosts, of which one answers; its interfaces are not the wanted ones.\<close>

definition small_site :: site where
  "small_site = demo_site\<lparr>connects := (\<lambda>ip _. ip = ''192.168.88.2'')\<rparr>"

definition small_config :: "(string \<times> pyval) list" where
  "small_config =
     [(''mgmt_subnet'', PStr ''192.168.88.1/255.255.255.252''), (''target_mac'', PStr ''B8-69-F4-E8-53-04''),
      (''routeros'', PDict [(''api_port'', PInt 8728), (''mgmt_user'', PStr ''noc''), (''mgmt_pass_value'', PStr ''x'')])]"

lemma small_mask: "netmask 30 = 4294967292"
  by (simp add: netmask_def mask_eq_exp_minus_1)

lemma small_hosts: "net_hosts 3232258049 30 = [3232258049, 3232258050]"
  by (simp add: net_hosts_def small_mask)

lemma small_texts:
  "ip_text 3232258049 = ''192.168.88.1''" "ip_text 3232258050 = ''192.168.88.2''"
  "ip_text (netmask 30) = ''255.255.255.252''"
  by (simp_all add: ip_text_def octet_def small_mask, code_simp+)

lemma small_net: "''192.168.88.1/255.255.255.252'' = ip_text 3232258049 @ ''/'' @ ip_text (netmask 30)"
  by (simp add: small_texts)

lemma small_scan:
  "scan_subnet_for_api (connects small_site) (other_network small_site) (PStr ''192.168.88.1/255.255.255.252'') v =
     Inr [''192.168.88.2'']"
proof -
  have "ip_network (PStr ''192.168.88.1/255.255.255.252'') = Some (3232258049, 30)"
    unfolding small_net by (rule ip_network_text) simp_all
  then show ?thesis by (simp add: scan_subnet_for_api_def small_hosts small_texts small_site_def)
qed

lemma small_merge:
  "fetch_and_merge small_site (PDict small_config) demo_station = (Inr (PDict small_config),
     demo_station\<lparr>printed := [''No preconfig found in Odoo. Using local config.'']\<rparr>)"
  by (simp add: fetch_and_merge_def odoo_fetch_preconfig_def get_key_def small_config_def say_def run_simps demo_station_def)

lemma small_config_rows:
  "map_of small_config ''mgmt_subnet'' = Some (PStr ''192.168.88.1/255.255.255.252'')"
  "map_of small_config ''routeros'' =
     Some (PDict [(''api_port'', PInt 8728), (''mgmt_user'', PStr ''noc''), (''mgmt_pass_value'', PStr ''x'')])"
  by (simp_all add: small_config_def)

lemma small_run: "sent (snd (preloader_main small_site (PDict small_config) demo_station)) \<noteq> []"
proof -
  have "length (sent (snd (try_candidates small_site (PDict small_config) [''192.168.88.2'']
      (demo_station\<lparr>printed := [''No preconfig found in Odoo. Using local config.'']\<rparr>)))) = 2"
    by code_simp
  then show ?thesis
    using main_after_scan [OF small_config_rows(2) _ small_merge small_config_rows(1) small_scan, of "PInt 8728"] by auto
qed

theorem preloader_stays_in_network_witness:
  "\<exists>new. sent (snd (preloader_main small_site (PDict small_config) demo_station)) = new \<and> new \<noteq> [] \<and>
    (\<forall>((ip, user), c)\<in>set new. \<exists>x. ip = ip_text x \<and> in_network 3232258049 30 x \<and> connects small_site ip (PInt 8728))"
  using preloader_stays_in_network [OF small_config_rows(2) _ small_merge _ _ disjI2 [OF refl] prod.collapse [symmetric],
      of "PInt 8728" 3232258049 30] small_run small_config_rows(1)
  by (simp add: small_net [symmetric] demo_station_def del: append_Cons)

end
