(* ===== verification/Portal_Access.thy ===== *)
theory Portal_Access
  imports Portal_Facts
begin

text \<open>
  The portal forms under the access rights of their users. A customer has the rights of
  \<open>isp_portal/security/ir.model.access.csv\<close>; the framework checks them at every \<open>create\<close>,
  \<open>write\<close> and \<open>search\<close> that is not made with \<open>sudo\<close>, and the portal uses \<open>sudo\<close> nowhere.
\<close>

section \<open>Access rights\<close>

datatype access = ARead | AWrite | ACreate | AUnlink

type_synonym rights = "(string \<times> access) list"

definition portal_rights :: rights where
  "portal_rights = [(''isp.subscription'', ARead), (''isp.plan.change.request'', ARead), (''isp.plan.change.request'', ACreate),
     (''isp.fault.ticket'', ARead), (''isp.fault.ticket'', ACreate),
     (''isp.bank.transfer.payment'', ARead), (''isp.bank.transfer.payment'', ACreate)]"

text \<open>The rights of an administrator on the models of the forms.\<close>

definition admin_rights :: rights where
  "admin_rights = List.product [''isp.subscription'', ''isp.service_plan'', ''isp.plan.change.request'',
     ''isp.bank.transfer.payment''] [ARead, AWrite, ACreate, AUnlink]"

text \<open>An ORM call under rights: \<open>AccessError\<close> is a \<open>UserError\<close>.\<close>

definition guarded :: "rights \<Rightarrow> string \<Rightarrow> access \<Rightarrow> 'a op \<Rightarrow> 'a op" where
  "guarded rs model p m = (if (model, p) \<in> set rs then m
     else raise (UserError (''You are not allowed to access '' @ model)))"

section \<open>The plan change form under rights\<close>

definition guarded_pcr_write :: "rights \<Rightarrow> env \<Rightarrow> nat \<Rightarrow> pcr_val list \<Rightarrow> unit op" where
  "guarded_pcr_write rs e i vs = guarded rs ''isp.plan.change.request'' AWrite (pcr_write e i vs)"

definition ensure_effective_date_as :: "rights \<Rightarrow> env \<Rightarrow> nat \<Rightarrow> unit op" where
  "ensure_effective_date_as rs e i = bnd (rd pcrs i) (\<lambda>r.
     if pcr_effective_date r \<noteq> None then ret ()
     else (case pcr_effective_date_mode r of
         EffImmediate \<Rightarrow> guarded_pcr_write rs e i [P_effective_date (Some (today_ctx e))]
       | EffNextCycle \<Rightarrow>
           bnd (gets (\<lambda>s. via (subs s) (pcr_subscription_id r) None sub_next_invoice_date)) (\<lambda>next_date.
             guarded_pcr_write rs e i [P_effective_date (Some (case next_date of
               None \<Rightarrow> add_month e (today_ctx e) | Some d \<Rightarrow> d))])
       | EffCustom \<Rightarrow> ret ()))"

definition pcr_create_as :: "rights \<Rightarrow> env \<Rightarrow> pcr_val list list \<Rightarrow> nat list op" where
  "pcr_create_as rs e vals_list =
     bnd (map_each (pcr_prepare e) vals_list) (\<lambda>vals_list.
     bnd (guarded rs ''isp.plan.change.request'' ACreate (map_each (pcr_insert e) vals_list)) (\<lambda>ids.
     andthen (pcr_not_null ids)
    (andthen (pcr_validate e (concat (map (map pcr_field) vals_list) @
        [''name'', ''effective_date_mode'', ''state'', ''requested_by'']) ids)
    (andthen (for_each (ensure_effective_date_as rs e) ids)
    (ret ids)))))"

definition pcr_action_submit_as :: "rights \<Rightarrow> env \<Rightarrow> nat list \<Rightarrow> unit op" where
  "pcr_action_submit_as rs e ids = for_each (\<lambda>i. bnd (rd pcrs i) (\<lambda>r.
     if pcr_effective_date_mode r = EffImmediate \<and> \<not> has_group e ''isp_core.group_isp_admin'' \<and>
        \<not> has_group e ''isp_core.group_isp_noc''
     then raise (ValidationError ''Immediate plan changes require Admin or NOC permissions.'')
     else andthen (ensure_effective_date_as rs e i)
         (andthen (guarded_pcr_write rs e i [P_state PcrSubmitted])
         (andthen (pcr_log e i ''plan_change_submitted'' ((@) ''Plan change requested to ''))
         (pcr_send e i ''isp_core.mail_template_plan_change_submitted''))))) ids"

definition portal_plan_change_as :: "rights \<Rightarrow> env \<Rightarrow> (string \<Rightarrow> string option) \<Rightarrow> page op" where
  "portal_plan_change_as rs e post =
     bnd (int_arg (post ''subscription_id'')) (\<lambda>sub_id.
     bnd (int_arg (post ''plan_id'')) (\<lambda>plan_id.
     bnd (browse_id (PInt sub_id)) (\<lambda>i.
     bnd (guarded rs ''isp.subscription'' ARead (rd subs i)) (\<lambda>r.
     if sub_partner_id r \<noteq> user_partner e then ret (Redirect ''/my'')
     else bnd (browse_id (PInt plan_id)) (\<lambda>p.
          bnd (pcr_create_as rs e [[P_subscription_id (Some i), P_requested_plan_id (Some p),
                 P_effective_date_mode EffNextCycle, P_requested_by (env_user e)]]) (\<lambda>ids.
          andthen (pcr_action_submit_as rs e ids)
          (ret (Redirect (''/my/isp/service/'' @ int_str sub_id @ ''?msg=plan_change_submitted''))))))))) "

text \<open>The page with the form: the active plans, by name.\<close>

definition portal_plan_change_page :: "rights \<Rightarrow> env \<Rightarrow> nat list op" where
  "portal_plan_change_page rs e = guarded rs ''isp.service_plan'' ARead
     (gets (\<lambda>s. sort_key (\<lambda>p. collate e (via (plans s) (Some p) [] plan_name)) (search_ids (\<lambda>_ r. plan_active r) (plans s))))"

section \<open>The transfer form under rights\<close>

definition guarded_trf :: "rights \<Rightarrow> 'a op \<Rightarrow> 'a op" where
  "guarded_trf rs m = guarded rs ''isp.bank.transfer.payment'' AWrite m"

definition set_review_deadline_as :: "rights \<Rightarrow> env \<Rightarrow> nat list \<Rightarrow> unit op" where
  "set_review_deadline_as rs e ids =
     bnd (int_param e ''isp_billing.transfer_review_hours'' ''48'') (\<lambda>review_hours.
     bnd (int_param e ''isp_billing.transfer_attention_hours'' ''24'') (\<lambda>attention_hours.
     for_each (\<lambda>i. bnd (rd transfers i) (\<lambda>r.
       let base_dt = (case trf_transfer_datetime r of None \<Rightarrow> now e | Some d \<Rightarrow> d)
       in andthen (guarded_trf rs (trf_write i [T_review_deadline (Some (base_dt + review_hours * 3600))]))
                  (guarded_trf rs (trf_write i [T_attention_deadline (Some (base_dt + attention_hours * 3600))])))) ids))"

definition trf_create_as :: "rights \<Rightarrow> env \<Rightarrow> nat option \<Rightarrow> trf_val list list \<Rightarrow> nat list op" where
  "trf_create_as rs e currency vals_list =
     bnd (map_each (trf_prepare e currency) vals_list) (\<lambda>vals_list.
     bnd (guarded rs ''isp.bank.transfer.payment'' ACreate (map_each (trf_insert e currency) vals_list)) (\<lambda>ids.
     andthen (trf_not_null ids)
    (andthen (trf_validate (concat (map (map trf_field) vals_list) @
        [''name'', ''currency_id'', ''transfer_datetime'', ''state'', ''needs_attention'']) ids)
    (andthen (for_each (\<lambda>i. set_review_deadline_as rs e [i]) ids)
    (ret ids)))))"

definition trf_action_submit_as :: "rights \<Rightarrow> env \<Rightarrow> nat list \<Rightarrow> unit op" where
  "trf_action_submit_as rs e ids = for_each (\<lambda>i.
     andthen (set_review_deadline_as rs e [i])
    (andthen (guarded_trf rs (trf_write i [T_state TrfInReview]))
    (andthen (trf_log e i ''transfer_submitted'' ''Transfer submitted '')
    (trf_send e i ''isp_billing.mail_template_transfer_submitted'')))) ids"

text \<open>An attachment needs the right to write the record it is attached to.\<close>

definition portal_transfer_as :: "rights \<Rightarrow> env \<Rightarrow> nat option \<Rightarrow> (string \<Rightarrow> string option) \<Rightarrow>
    string list \<Rightarrow> (string \<times> string) list \<Rightarrow> page op" where
  "portal_transfer_as rs e currency post invoice_ids files =
     bnd (float_arg (post ''amount'')) (\<lambda>amount.
     bnd (datetime_arg e (post ''date'')) (\<lambda>date.
     bnd (required_text (post ''bank_name'')) (\<lambda>bank_name.
     bnd (required_text (post ''reference'')) (\<lambda>reference.
     bnd (trf_create_as rs e currency [[T_partner_id (user_partner e), T_bank_name bank_name,
            T_reference reference, T_amount amount, T_transfer_datetime date, T_state TrfDraft]]) (\<lambda>ids.
     bnd (case ids of [] \<Rightarrow> raise (ValueError ''Expected singleton'') | i # is \<Rightarrow> ret i) (\<lambda>pid.
     andthen (do_if (invoice_ids \<noteq> []) (guarded_trf rs (set_invoices pid invoice_ids)))
    (andthen (for_each (\<lambda>f. guarded_trf rs (upload_raw e pid f)) files)
    (andthen (for_each (\<lambda>f. guarded_trf rs (upload_encoded e pid f)) files)
    (andthen (trf_action_submit_as rs e [pid])
       (ret (Redirect ''/my/isp?msg=transfer_submitted''))))))))))) "

section \<open>With all rights the forms are the ones without checks\<close>

definition may_write :: "rights \<Rightarrow> string \<Rightarrow> bool" where
  "may_write rs model \<longleftrightarrow> {(model, ARead), (model, AWrite), (model, ACreate)} \<subseteq> set rs"

lemma guarded_ok: "(model, p) \<in> set rs \<Longrightarrow> guarded rs model p = (\<lambda>m. m)"
  by (intro ext) (simp add: guarded_def)

lemma plan_change_full:
  assumes "may_write rs ''isp.plan.change.request''" and "may_write rs ''isp.subscription''"
  shows "portal_plan_change_as rs e post = portal_plan_change_submit e post"
proof -
  have guard: "guarded rs ''isp.plan.change.request'' ACreate = (\<lambda>m. m)" "guarded rs ''isp.subscription'' ARead = (\<lambda>m. m)"
    using assms by (simp_all add: may_write_def guarded_ok)
  have wr: "guarded_pcr_write rs = pcr_write"
    using assms(1) by (intro ext) (simp add: may_write_def guarded_pcr_write_def guarded_ok)
  have date: "ensure_effective_date_as rs = ensure_effective_date"
    by (intro ext) (simp only: ensure_effective_date_as_def ensure_effective_date_def wr)
  have "pcr_create_as rs e vl = pcr_create e vl" "pcr_action_submit_as rs e ids = pcr_action_submit e ids" for vl ids
    by (simp_all only: pcr_create_as_def pcr_create_def pcr_action_submit_as_def pcr_action_submit_def date wr guard)
  then show ?thesis by (simp only: portal_plan_change_as_def portal_plan_change_submit_def guard)
qed

lemma transfer_full:
  assumes "may_write rs ''isp.bank.transfer.payment''"
  shows "portal_transfer_as rs e currency post ts files = portal_transfer_submit e currency post ts files"
proof -
  have guard: "guarded_trf rs m = m" "guarded rs ''isp.bank.transfer.payment'' ACreate k = k"
    for m :: "unit op" and k :: "nat list op"
    using assms by (simp_all add: guarded_trf_def guarded_ok may_write_def)
  have date: "set_review_deadline_as rs = set_review_deadline"
    by (intro ext) (simp only: set_review_deadline_as_def set_review_deadline_def guard)
  have "trf_create_as rs e cur vl = trf_create e cur vl" "trf_action_submit_as rs e ids = trf_action_submit e ids" for cur vl ids
    by (simp_all only: trf_create_as_def trf_create_def trf_action_submit_as_def trf_action_submit_def guard date)
  then show ?thesis by (simp only: portal_transfer_as_def portal_transfer_submit_def guard)
qed

section \<open>Programs that always raise\<close>

definition refuses :: "('s, 'a) prog \<Rightarrow> bool" where
  "refuses m \<longleftrightarrow> (\<forall>s. \<exists>x s'. m s = (Inl x, s'))"

lemma refuses_raise: "refuses (raise x)"
  by (simp add: refuses_def raise_run)

lemma refuses_bnd: "(\<And>s x s'. m s = (Inr x, s') \<Longrightarrow> refuses (k x)) \<Longrightarrow> refuses (bnd m k)"
  unfolding refuses_def bnd_run by (auto split: prod.split sum.split)

lemma refuses_andthen: "refuses k \<Longrightarrow> refuses (andthen m k)" "refuses m \<Longrightarrow> refuses (andthen m k)"
  unfolding refuses_def andthen_run by (auto split: prod.split sum.split) (metis Inl_Inr_False prod.inject)

lemma refuses_for_each: "xs \<noteq> [] \<Longrightarrow> (\<And>x. refuses (f x)) \<Longrightarrow> refuses (for_each f xs)"
  by (cases xs) (auto intro: refuses_andthen(2))

lemma map_each_length: "map_each f xs s = (Inr ys, s') \<Longrightarrow> length ys = length xs"
proof (induction xs arbitrary: s ys)
  case (Cons x xs)
  then show ?case by (auto simp: ret_run elim!: bnd_ok)
qed (simp add: ret_run)

lemma transaction_refused:
  assumes "m s = (Inl x, s')" and "keeps_all (\<lambda>t. wire t = wire s) m"
  shows "transaction m s = s"
  using keeps_allD [OF assms(2) refl assms(1)] no_wire_rollback [of m s x s', OF assms(1)] by simp

section \<open>What customers get\<close>

lemma pcr_create_as_ids:
  assumes "pcr_create_as rs e [vs] s = (Inr ids, s')"
  shows "ids \<noteq> []"
  using assms
  by (auto simp: pcr_create_as_def guarded_def raise_run ret_run elim!: bnd_ok andthen_ok dest!: map_each_length split: if_splits)

lemma portal_write_refuses: "refuses (guarded_pcr_write portal_rights e i vs)"
  by (simp add: guarded_pcr_write_def guarded_def portal_rights_def refuses_raise)

lemma portal_submit_refuses: "ids \<noteq> [] \<Longrightarrow> refuses (pcr_action_submit_as portal_rights e ids)"
  unfolding pcr_action_submit_as_def
  by (intro refuses_for_each refuses_bnd)
    (simp_all add: refuses_raise refuses_andthen(1) [OF refuses_andthen(2) [OF portal_write_refuses]])

lemma portal_deadline_refuses: "refuses (set_review_deadline_as portal_rights e [i])"
  unfolding set_review_deadline_as_def Let_def
  by (intro refuses_bnd refuses_for_each refuses_andthen(2))
    (simp_all add: guarded_trf_def guarded_def portal_rights_def refuses_raise)

lemma trf_create_as_refuses: "refuses (trf_create_as portal_rights e cur [vs])"
  unfolding trf_create_as_def
  by (rule refuses_bnd, rule refuses_bnd, rule refuses_andthen(1), rule refuses_andthen(1), rule refuses_andthen(2),
      rule refuses_for_each) (auto simp: guarded_def raise_run simp del: map_each.simps intro: portal_deadline_refuses dest!: map_each_length split: if_splits)

lemma portal_transfer_refuses: "refuses (portal_transfer_as portal_rights e cur post ts files)"
  unfolding portal_transfer_as_def
proof (intro refuses_bnd, goal_cases)
  case 1
  with trf_create_as_refuses show ?case unfolding refuses_def by (metis Inl_Inr_False prod.inject)
qed

section \<open>Nothing of a refused form stays\<close>

lemma keeps_guarded [keeps_all_intros]: "keeps_all I m \<Longrightarrow> keeps_all I (guarded rs model p m)"
  by (simp add: guarded_def keeps_all_raise)

lemma keeps_all_guarded_writes [keeps_all_intros]:
  "pcr_free I \<Longrightarrow> keeps_all I (guarded_pcr_write rs e i vs)" "keeps_all I m \<Longrightarrow> keeps_all I (guarded_trf rs m)"
  unfolding guarded_pcr_write_def guarded_trf_def by (intro keeps_all_intros; assumption)+

lemma keeps_all_plan_change_as:
  assumes "pcr_free I" "seq_free I" "audit_free I" "mail_free I"
  shows "keeps_all I (portal_plan_change_as rs e post)"
proof -
  have date: "keeps_all I (ensure_effective_date_as rs e i)" for i
    unfolding ensure_effective_date_as_def
    by (intro assms keeps_all_intros) (auto intro!: assms keeps_all_intros split: effective_mode.split)
  have prepare: "keeps_all I (pcr_prepare e vs)" for vs
    unfolding pcr_prepare_def by (intro assms keeps_all_intros)
  show ?thesis
    unfolding portal_plan_change_as_def pcr_create_as_def pcr_action_submit_as_def
    by (intro assms date prepare keeps_all_intros)
qed

lemma keeps_all_transfer_as:
  assumes "trf_free I" "seq_free I" "audit_free I" "mail_free I" "attach_free I"
  shows "keeps_all I (portal_transfer_as rs e cur post ts files)"
proof -
  have date: "keeps_all I (set_review_deadline_as rs e ids)" for ids
    unfolding set_review_deadline_as_def Let_def by (intro assms keeps_all_intros)
  have insert: "keeps_all I (trf_insert e cur vs)" for vs
    using assms(1) by (auto simp: trf_insert_def keeps_all_def trf_free_def)
  have prepare: "keeps_all I (trf_prepare e cur vs)" for vs
    unfolding trf_prepare_def by (intro assms keeps_all_intros)
  have first: "keeps_all I (case ids of [] \<Rightarrow> raise x | i # is \<Rightarrow> ret i)" for ids :: "nat list" and x
    by (cases ids) (simp_all add: keeps_all_ret keeps_all_raise)
  show ?thesis
    unfolding portal_transfer_as_def trf_create_as_def trf_action_submit_as_def set_invoices_def upload_raw_def upload_encoded_def
    by (intro assms date insert prepare first keeps_all_intros)
qed

lemma pure_result: "keeps_all (\<lambda>t. t = s) m \<Longrightarrow> m s = (r, s') \<Longrightarrow> s' = s"
  by (rule keeps_allD [of "\<lambda>t. t = s", OF _ refl])

lemma bnd_pure:
  assumes "bnd m k s = (Inr v, s')" and "keeps_all (\<lambda>t. t = s) m"
  obtains x where "k x s = (Inr v, s')"
  using assms(1) by (rule bnd_ok) (use pure_result [OF assms(2)] that in blast)

lemma portal_plan_change_same:
  assumes "portal_plan_change_as portal_rights e post s = (Inr v, s')"
  shows "v = Redirect ''/my'' \<and> s' = s"
  using assms unfolding portal_plan_change_as_def
proof (elim bnd_pure, goal_cases)
  case (5 k p i r)
  show ?case
  proof (cases "sub_partner_id r = user_partner e")
    case True
    obtain j ids s1 s2 where "pcr_create_as portal_rights e [[P_subscription_id (Some i), P_requested_plan_id (Some j),
        P_effective_date_mode EffNextCycle, P_requested_by (env_user e)]] s1 = (Inr ids, s2)"
      and submit: "\<exists>x t. pcr_action_submit_as portal_rights e ids s2 = (Inr x, t)"
      using 5 True by (auto elim!: bnd_ok andthen_ok)
    then have "refuses (pcr_action_submit_as portal_rights e ids)"
      by (intro portal_submit_refuses pcr_create_as_ids)
    with submit have False by (auto simp: refuses_def) (metis Inl_Inr_False prod.inject)
    then show ?thesis ..
  qed (use 5 in \<open>simp add: ret_run\<close>)
qed (intro keeps_all_intros)+

lemma wire_frees: "pcr_free (\<lambda>t. wire t = w)" "seq_free (\<lambda>t. wire t = w)" "audit_free (\<lambda>t. wire t = w)"
  "mail_free (\<lambda>t. wire t = w)" "trf_free (\<lambda>t. wire t = w)" "attach_free (\<lambda>t. wire t = w)"
  by (simp_all add: all_frees)

text \<open>C40. The forms of the portal under access rights. For an administrator they do what they do without
  checks. For a customer, whose rights do not include writing requests and transfers, the plan change form
  never gets further than the page \<open>/my\<close>, the transfer form always ends in an exception, the page with
  the plans cannot be shown, and nothing that was sent is stored.\<close>

theorem portal_customers_are_refused:
  "portal_plan_change_as admin_rights e post = portal_plan_change_submit e post \<and>
   portal_transfer_as admin_rights e cur post ts files = portal_transfer_submit e cur post ts files \<and>
   (portal_plan_change_as portal_rights e post s = (Inr (Redirect ''/my''), s) \<or>
    (\<exists>x s'. portal_plan_change_as portal_rights e post s = (Inl x, s'))) \<and>
   (\<exists>x s'. portal_transfer_as portal_rights e cur post ts files s = (Inl x, s')) \<and>
   (\<exists>x. portal_plan_change_page portal_rights e s = (Inl x, s)) \<and>
   transaction (portal_plan_change_as portal_rights e post) s = s \<and>
   transaction (portal_transfer_as portal_rights e cur post ts files) s = s"
proof -
  let ?pc = "portal_plan_change_as portal_rights e post"
  let ?tr = "portal_transfer_as portal_rights e cur post ts files"
  have keep: "keeps_all (\<lambda>t. wire t = wire s) ?pc" "keeps_all (\<lambda>t. wire t = wire s) ?tr"
    by (intro keeps_all_plan_change_as keeps_all_transfer_as wire_frees)+
  have full: "may_write admin_rights ''isp.plan.change.request''" "may_write admin_rights ''isp.subscription''"
      "may_write admin_rights ''isp.bank.transfer.payment''"
    by (simp_all add: may_write_def admin_rights_def)
  obtain x s' where tr: "?tr s = (Inl x, s')" using portal_transfer_refuses by (fastforce simp: refuses_def)
  have pc: "?pc s = (Inr (Redirect ''/my''), s) \<or> (\<exists>x s'. ?pc s = (Inl x, s'))"
    using portal_plan_change_same [of e post s] by (metis sum.exhaust surj_pair)
  have "transaction ?pc s = s"
    using pc transaction_refused [OF _ keep(1)] by (auto simp: transaction_def run_tx_def)
  then show ?thesis
    using plan_change_full [OF full(1,2)] transfer_full [OF full(3)] pc tr transaction_refused [OF tr keep(2)]
    by (simp add: portal_plan_change_page_def guarded_def portal_rights_def raise_run)
qed

end
