(* ===== verification/Dashboard_Views.thy ===== *)
theory Dashboard_Views
  imports Portal
begin

text \<open>
  The rest of the dashboard (\<open>isp_billing/models/dashboard.py\<close>): the sectors with the largest
  arrears and the window actions behind its figures. A window action carries a search domain; what
  it lists is the domain evaluated on the rows, as the client does.
\<close>

section \<open>Sectors in arrears\<close>

definition sector_of_move :: "sys \<Rightarrow> account_move \<Rightarrow> nat option" where
  "sector_of_move s m = via (subs s) (mv_subscription_id m) None sub_sector_id"

definition overdue_moves :: "env \<Rightarrow> sys \<Rightarrow> nat list" where
  "overdue_moves e s = moves_where e (\<lambda>m. mv_move_type m = OutInvoice \<and> open_move m \<and>
     mv_invoice_date_due m \<noteq> None \<and> sector_of_move s m \<noteq> None) s"

text \<open>\<open>read_group\<close> by sector: one group per sector that occurs, in the order of the sectors.\<close>

definition overdue_groups :: "env \<Rightarrow> sys \<Rightarrow> (nat \<times> rat) list" where
  "overdue_groups e s =
     (let ms = List.map_filter (\<lambda>i. tget (moves s) i) (overdue_moves e s);
          secs = sort_key (\<lambda>k. collate e (via (sectors s) (Some k) [] sec_name))
            (remdups (List.map_filter (sector_of_move s) ms))
      in map (\<lambda>k. (k, sum_list (map (amount_residual e) (filter (\<lambda>m. sector_of_move s m = Some k) ms)))) secs)"

definition top_groups :: "env \<Rightarrow> sys \<Rightarrow> (nat \<times> rat) list" where
  "top_groups e s = take 5 (sort_key (\<lambda>g. - snd g) (overdue_groups e s))"

text \<open>\<open>fixed2\<close> is the \<open>:.2f\<close> of a format string.\<close>

definition top_overdue_sectors :: "(rat \<Rightarrow> string) \<Rightarrow> env \<Rightarrow> sys \<Rightarrow> string" where
  "top_overdue_sectors fixed2 e s = py_join '', ''
     (map (\<lambda>(k, amount). via (sectors s) (Some k) [] sec_name @ '' ('' @ fixed2 amount @ '')'') (top_groups e s))"

text \<open>All that \<open>_compute_metrics\<close> assigns.\<close>

definition compute_all_metrics :: "(rat \<Rightarrow> string) \<Rightarrow> env \<Rightarrow> (dashboard \<times> string) op" where
  "compute_all_metrics fixed2 e = bnd (compute_metrics e) (\<lambda>m. gets (\<lambda>s. (m, top_overdue_sectors fixed2 e s)))"

section \<open>Window actions\<close>

record window_action =
  wa_name :: string
  wa_model :: string
  wa_domain :: "(string \<times> string \<times> pyval) list"

definition no_ids :: "nat list \<Rightarrow> pyval" where
  "no_ids ids = PList (map (\<lambda>i. PInt (int i)) ids)"

definition action_open_active_subscriptions :: window_action where
  "action_open_active_subscriptions = \<lparr>wa_name = ''Active Subscriptions'', wa_model = ''isp.subscription'',
     wa_domain = [(''state'', ''='', PStr ''active'')]\<rparr>"

definition action_open_suspended_subscriptions :: window_action where
  "action_open_suspended_subscriptions = \<lparr>wa_name = ''Suspended Subscriptions'', wa_model = ''isp.subscription'',
     wa_domain = [(''state'', ''='', PStr ''suspended'')]\<rparr>"

definition action_open_overdue_invoices :: "env \<Rightarrow> window_action" where
  "action_open_overdue_invoices e = \<lparr>wa_name = ''Overdue Invoices'', wa_model = ''account.move'',
     wa_domain = [(''move_type'', ''='', PStr ''out_invoice''), (''state'', ''='', PStr ''posted''),
       (''payment_state'', ''not in'', PList [PStr ''paid'', PStr ''in_payment'']),
       (''invoice_date_due'', ''<'', PInt (today e))]\<rparr>"

text \<open>The keys of the status map are the active subscriptions, in their order.\<close>

definition ids_with_status :: "env \<Rightarrow> int \<Rightarrow> sys \<Rightarrow> dash_status \<Rightarrow> nat list" where
  "ids_with_status e grace_days s x =
     filter (\<lambda>i. subscription_status_map e grace_days s i = Some x) (subs_where (\<lambda>r. sub_state r = SubActive) s)"

definition action_open_up_to_date_subscriptions :: "env \<Rightarrow> window_action op" where
  "action_open_up_to_date_subscriptions e =
     bnd (int_param e ''isp_billing.grace_days'' ''5'') (\<lambda>grace_days. gets (\<lambda>s.
       \<lparr>wa_name = ''Up to Date Subscriptions'', wa_model = ''isp.subscription'',
        wa_domain = [(''id'', ''in'', no_ids (ids_with_status e grace_days s UpToDate))]\<rparr>))"

definition action_open_in_arrears_subscriptions :: "env \<Rightarrow> window_action op" where
  "action_open_in_arrears_subscriptions e =
     bnd (int_param e ''isp_billing.grace_days'' ''5'') (\<lambda>grace_days. gets (\<lambda>s.
       \<lparr>wa_name = ''Subscriptions in Arrears'', wa_model = ''isp.subscription'',
        wa_domain = [(''id'', ''in'', no_ids (ids_with_status e grace_days s InArrears))]\<rparr>))"

definition action_open_transfer_pending :: window_action where
  "action_open_transfer_pending = \<lparr>wa_name = ''Transfers In Review'', wa_model = ''isp.bank.transfer.payment'',
     wa_domain = [(''state'', ''='', PStr ''in_review'')]\<rparr>"

definition action_open_faults_open :: window_action where
  "action_open_faults_open = \<lparr>wa_name = ''Open Fault Tickets'', wa_model = ''isp.fault.ticket'',
     wa_domain = [(''state'', ''not in'', PList [PStr ''resolved'', PStr ''closed''])]\<rparr>"

section \<open>What an action lists\<close>

fun leaf_holds :: "(string \<Rightarrow> pyval) \<Rightarrow> string \<times> string \<times> pyval \<Rightarrow> bool" where
  "leaf_holds get (f, cmp, v) =
     (if cmp = ''='' then get f = v
      else case v of
          PList xs \<Rightarrow> (if cmp = ''in'' then get f \<in> set xs else cmp = ''not in'' \<and> get f \<notin> set xs)
        | PInt b \<Rightarrow> (case get f of PInt a \<Rightarrow> cmp = ''<'' \<and> a < b | _ \<Rightarrow> False)
        | _ \<Rightarrow> False)"

definition transfer_state_str :: "transfer_state \<Rightarrow> string" where
  "transfer_state_str x = (case x of TrfDraft \<Rightarrow> ''draft'' | TrfInReview \<Rightarrow> ''in_review''
     | TrfApproved \<Rightarrow> ''approved'' | TrfRejected \<Rightarrow> ''rejected'' | TrfApplied \<Rightarrow> ''applied'')"

definition fault_state_str :: "fault_state \<Rightarrow> string" where
  "fault_state_str x = (case x of FltNew \<Rightarrow> ''new'' | FltInProgress \<Rightarrow> ''in_progress''
     | FltWaiting \<Rightarrow> ''waiting_customer'' | FltResolved \<Rightarrow> ''resolved'' | FltClosed \<Rightarrow> ''closed'')"

definition sub_column :: "nat \<Rightarrow> subscription \<Rightarrow> string \<Rightarrow> pyval" where
  "sub_column i r f = (if f = ''id'' then PInt (int i) else if f = ''state'' then PStr (sub_state_str (sub_state r)) else PNone)"

definition transfer_column :: "nat \<Rightarrow> transfer_payment \<Rightarrow> string \<Rightarrow> pyval" where
  "transfer_column i r f = (if f = ''state'' then PStr (transfer_state_str (trf_state r)) else PNone)"

definition fault_column :: "nat \<Rightarrow> fault_ticket \<Rightarrow> string \<Rightarrow> pyval" where
  "fault_column i r f = (if f = ''state'' then PStr (fault_state_str (flt_state r)) else PNone)"

definition listed :: "(nat \<Rightarrow> 'r \<Rightarrow> string \<Rightarrow> pyval) \<Rightarrow> 'r table \<Rightarrow> window_action \<Rightarrow> nat list" where
  "listed col t w = search_ids (\<lambda>i r. list_all (leaf_holds (col i r)) (wa_domain w)) t"

lemma search_ids_mset_eq:
  assumes "distinct xs" and "set xs = set (search_ids p t)"
  shows "length (search_ids p t) = length xs"
  using assms distinct_search_ids [of p t] by (metis distinct_card)

lemma listed_ids:
  assumes "wa_domain w = [(''id'', ''in'', no_ids (ids_with_status e g s x))]"
  shows "length (listed sub_column (subs s) w) = count_status e g s x"
proof -
  have "set (ids_with_status e g s x) = set (listed sub_column (subs s) w)"
    using assms by (auto simp: listed_def search_ids_iff ids_with_status_def subs_where_def sub_column_def no_ids_def)
  moreover have "distinct (ids_with_status e g s x)"
    by (simp add: ids_with_status_def subs_where_def distinct_search_ids)
  ultimately show ?thesis
    unfolding listed_def count_status_def ids_with_status_def [symmetric] by (intro search_ids_mset_eq)
qed

lemma state_strings:
  "sub_state_str x = ''active'' \<longleftrightarrow> x = SubActive"
  "sub_state_str x = ''suspended'' \<longleftrightarrow> x = SubSuspended"
  "transfer_state_str y = ''in_review'' \<longleftrightarrow> y = TrfInReview"
  "fault_state_str z = ''resolved'' \<longleftrightarrow> z = FltResolved" "fault_state_str z = ''closed'' \<longleftrightarrow> z = FltClosed"
  by (simp_all add: sub_state_str_def transfer_state_str_def fault_state_str_def
      split: sub_state.split transfer_state.split fault_state.split)



section \<open>The largest arrears\<close>

text \<open>At most five sectors are named, largest first, and none that is left out owes more than one that
  is named.\<close>

lemma top_groups_largest:
  "length (top_groups e s) \<le> 5 \<and> sorted_wrt (\<lambda>g h. snd h \<le> snd g) (top_groups e s) \<and>
   (\<forall>g\<in>set (top_groups e s). \<forall>h\<in>set (overdue_groups e s) - set (top_groups e s). snd h \<le> snd g)"
proof -
  let ?xs = "sort_key (\<lambda>g. - snd g) (overdue_groups e s)"
  have "sorted (map (\<lambda>g. - snd g) ?xs)" by (rule sorted_sort_key)
  then have sorted: "sorted_wrt (\<lambda>g h. snd h \<le> snd g) ?xs" by (simp add: sorted_map)
  then have "sorted_wrt (\<lambda>g h. snd h \<le> snd g) (take 5 ?xs @ drop 5 ?xs)" by simp
  then have "sorted_wrt (\<lambda>g h. snd h \<le> snd g) (take 5 ?xs)"
      and cross: "\<forall>g\<in>set (take 5 ?xs). \<forall>h\<in>set (drop 5 ?xs). snd h \<le> snd g"
    unfolding sorted_wrt_append by auto
  moreover have "set (overdue_groups e s) = set (take 5 ?xs) \<union> set (drop 5 ?xs)"
    by (metis append_take_drop_id set_append set_sort)
  ultimately show ?thesis by (auto simp: top_groups_def)
qed

end
