(* ===== verification/Router_Scripts.thy ===== *)
theory Router_Scripts
  imports Preloader_Main
begin

text \<open>
  The two scripts called \<open>mikrotik_onboard.py\<close>, in \<open>tools/\<close> and in \<open>addons/\<close>. Both call
  librouteros directly: \<open>api(cmd=...)\<close> is a generator function, so a call only makes a generator,
  and the command is sent when something iterates over it (as the docstring of \<open>api_exec\<close> in
  the preloader says).
\<close>

section \<open>Programs that cannot fail\<close>

named_theorems no_raise_intros \<open>programs that never leave an exception\<close>

definition no_raise :: "('s, 'a) prog \<Rightarrow> bool" where
  "no_raise m \<longleftrightarrow> (\<forall>s. \<exists>v s'. m s = (Inr v, s'))"

lemma no_raiseI: "(\<And>s. \<exists>v s'. m s = (Inr v, s')) \<Longrightarrow> no_raise m"
  by (simp add: no_raise_def)

lemma no_raiseE:
  assumes "no_raise m"
  obtains v s' where "m s = (Inr v, s')"
  using assms unfolding no_raise_def by blast

lemma no_raise_simple [no_raise_intros]: "no_raise (ret x)" "no_raise (gets f)" "no_raise (modify g)" "no_raise (say w)"
  by (simp_all add: no_raise_def run_simps say_def)

lemma no_raise_bnd [no_raise_intros]: "no_raise m \<Longrightarrow> (\<And>x. no_raise (k x)) \<Longrightarrow> no_raise (bnd m k)"
  unfolding no_raise_def bnd_run by (metis (no_types, lifting) prod.case sum.case(2))

lemma no_raise_andthen [no_raise_intros]: "no_raise m \<Longrightarrow> no_raise k \<Longrightarrow> no_raise (andthen m k)"
  unfolding no_raise_def andthen_run by (metis (no_types, lifting) prod.case sum.case(2))

lemma no_raise_catching [no_raise_intros]: "(\<And>e. no_raise (h e)) \<Longrightarrow> no_raise (catching (\<lambda>_. True) m h)"
  unfolding no_raise_def catching_run by (auto split: sum.split prod.split)

lemma no_raise_if [no_raise_intros]: "no_raise m \<Longrightarrow> no_raise k \<Longrightarrow> no_raise (if b then m else k)"
  by simp

lemma no_raise_option [no_raise_intros]:
  "no_raise m \<Longrightarrow> (\<And>x. no_raise (k x)) \<Longrightarrow> no_raise (case v of None \<Rightarrow> m | Some x \<Rightarrow> k x)"
  by (cases v) simp_all

lemma no_raise_for_each [no_raise_intros]: "(\<And>x. no_raise (f x)) \<Longrightarrow> no_raise (for_each f xs)"
  by (induction xs) (auto intro: no_raise_intros)

section \<open>What a program sends\<close>

text \<open>The commands sent after \<open>cs\<close> are all at the given paths, and the application is not touched.\<close>

definition only_at :: "string set \<Rightarrow> (link \<times> cmd) list \<Rightarrow> sys \<Rightarrow> station \<Rightarrow> bool" where
  "only_at paths cs d s \<longleftrightarrow> server s = d \<and>
     (\<exists>new. sent s = cs @ new \<and> (\<forall>x\<in>set new. cmd_path (snd x) \<in> paths))"

lemma only_at_start: "only_at paths (sent s) (server s) s"
  by (simp add: only_at_def)

lemma only_at_say [keeps_all_intros]: "keeps_all (only_at paths cs d) (say w)"
  unfolding say_def by (rule keeps_all_modify) (simp add: only_at_def)

lemma only_at_api_exec: "path \<in> paths \<Longrightarrow> keeps_all (only_at paths cs d) (api_exec t a path kw)"
  unfolding keeps_all_def api_exec_def by (fastforce simp: only_at_def)

lemma only_at_connect [keeps_all_intros]: "keeps_all (only_at paths cs d) (connect_to t ip u p port)"
  unfolding connect_to_def by (intro keeps_all_intros)

section \<open>Calls that are not consumed\<close>

datatype generator = Gen link cmd

definition call_api :: "link \<Rightarrow> string \<Rightarrow> (string \<times> pyval) list \<Rightarrow> generator" where
  "call_api a path kwargs = Gen a (Cmd path kwargs)"

text \<open>\<open>list(g)\<close> or a loop over \<open>g\<close>; \<open>bool(g)\<close>; \<open>g[0]\<close>; and \<open>g\<close> as a statement.\<close>

fun consume :: "site \<Rightarrow> generator \<Rightarrow> row list script" where
  "consume t (Gen a (Cmd path kwargs)) = api_exec t a path kwargs"

definition gen_truthy :: "generator \<Rightarrow> bool" where
  "gen_truthy g = True"

definition gen_item :: "generator \<Rightarrow> row script" where
  "gen_item g = raise (OtherError (quoted ''generator'' @ '' object is not subscriptable''))"

definition drop_call :: "generator \<Rightarrow> unit script" where
  "drop_call g = ret ()"

definition row_item :: "row \<Rightarrow> string \<Rightarrow> pyval script" where
  "row_item r k = (case map_of r k of None \<Rightarrow> raise (KeyError (quoted k)) | Some v \<Rightarrow> ret v)"

definition environ_get :: "site \<Rightarrow> string \<Rightarrow> string \<Rightarrow> string" where
  "environ_get t k v = (case environ t k of None \<Rightarrow> v | Some x \<Rightarrow> x)"

text \<open>\<open>r.get(k) == w\<close>.\<close>

definition row_is :: "string \<Rightarrow> string \<Rightarrow> row \<Rightarrow> bool" where
  "row_is k w r = py_eq (row_get r k) (PStr w)"

section \<open>What both scripts share\<close>

definition hotspot_user :: string where "hotspot_user = ''admin@getupsoft.com''"
definition hotspot_pass :: string where "hotspot_pass = ''Admin1234''"
definition lan_interface :: string where "lan_interface = ''ether2''"
definition olt_interface :: string where "olt_interface = ''ether3''"

definition report_interface :: "site \<Rightarrow> row \<Rightarrow> unit script" where
  "report_interface t iface =
     andthen (say (''Interface Status: '' @ (if truthy (row_get iface ''running'') then ''RUNNING'' else ''DOWN'')))
       (say (''Type: '' @ show_val t (row_get iface ''type'')))"

definition monitor_sfp :: "site \<Rightarrow> link \<Rightarrow> unit script" where
  "monitor_sfp t a = catching (\<lambda>_. True)
     (bnd (consume t (call_api a ''/interface/ethernet/monitor'' [(''numbers'', PStr olt_interface), (''once'', PBool True)]))
       (\<lambda>monitor. for_each (\<lambda>item. case map_of item ''sfp-module-present'' of
            None \<Rightarrow> ret ()
          | Some v \<Rightarrow> say (''SFP Module Present: '' @ show_val t v)) monitor))
     (\<lambda>e. say (''Could not monitor SFP: '' @ exc_str e))"

definition add_lan_address :: "link \<Rightarrow> generator" where
  "add_lan_address a = call_api a ''/ip/address/add'' [(''address'', PStr ''10.5.50.1/24''), (''interface'', PStr lan_interface)]"

definition add_pool :: "link \<Rightarrow> generator" where
  "add_pool a = call_api a ''/ip/pool/add'' [(''name'', PStr ''hs-pool-1''), (''ranges'', PStr ''10.5.50.10-10.5.50.254'')]"

definition add_profile :: "link \<Rightarrow> generator" where
  "add_profile a = call_api a ''/ip/hotspot/profile/add'' [(''name'', PStr ''hsprof1''), (''hotspot_address'', PStr ''10.5.50.1''),
     (''dns_name'', PStr ''hotspot.getupnet.local''), (''html_directory'', PStr ''hotspot'')]"

definition add_server :: "link \<Rightarrow> generator" where
  "add_server a = call_api a ''/ip/hotspot/add'' [(''name'', PStr ''hs-server1''), (''interface'', PStr lan_interface),
     (''address_pool'', PStr ''hs-pool-1''), (''profile'', PStr ''hsprof1'')]"

definition set_user :: "link \<Rightarrow> pyval \<Rightarrow> generator" where
  "set_user a i = call_api a ''/ip/hotspot/user/set'' [(''.id'', i), (''password'', PStr hotspot_pass)]"

definition add_user :: "link \<Rightarrow> generator" where
  "add_user a = call_api a ''/ip/hotspot/user/add'' [(''name'', PStr hotspot_user), (''password'', PStr hotspot_pass),
     (''profile'', PStr ''default'')]"

definition completed :: string where
  "completed = newline @ ''--- MikroTik Onboarding Completed ---''"

definition checking_olt :: string where
  "checking_olt = newline @ ''--- Checking OLT Stick on '' @ olt_interface @ '' ---''"

definition configuring_hotspot :: string where
  "configuring_hotspot = newline @ ''--- Configuring Hotspot on '' @ lan_interface @ '' ---''"

definition creating_user :: string where
  "creating_user = newline @ ''--- Creating User '' @ hotspot_user @ '' ---''"

section \<open>tools/mikrotik_onboard.py\<close>

text \<open>\<open>api('/.../print', where={k: w})\<close>, kept as the generator it is.\<close>

definition print_where :: "link \<Rightarrow> string \<Rightarrow> string \<Rightarrow> string \<Rightarrow> generator" where
  "print_where a path k w = call_api a path [(''where'', PDict [(k, PStr w)])]"

definition check_olt :: "site \<Rightarrow> link \<Rightarrow> unit script" where
  "check_olt t a = andthen (say checking_olt) (catching (\<lambda>_. True)
     (let interfaces = print_where a ''/interface/print'' ''name'' olt_interface
      in if \<not> gen_truthy interfaces then say (''Error: Interface '' @ olt_interface @ '' not found.'')
         else bnd (gen_item interfaces) (\<lambda>iface. andthen (report_interface t iface) (monitor_sfp t a)))
     (\<lambda>e. say (''Error checking OLT: '' @ exc_str e)))"

definition ensure_lan_address :: "site \<Rightarrow> link \<Rightarrow> unit script" where
  "ensure_lan_address t a =
     (let ips = print_where a ''/ip/address/print'' ''interface'' lan_interface
      in if \<not> gen_truthy ips
         then andthen (say (''Adding IP 10.5.50.1/24 to '' @ lan_interface @ ''...'')) (drop_call (add_lan_address a))
         else bnd (gen_item ips) (\<lambda>r. say (''IP Configuration exists on '' @ lan_interface @ '': '' @ show_val t (row_get r ''address''))))"

definition ensure_hotspot_parts :: "link \<Rightarrow> unit script" where
  "ensure_hotspot_parts a =
     andthen (if \<not> gen_truthy (print_where a ''/ip/pool/print'' ''name'' ''hs-pool-1'') then drop_call (add_pool a) else ret ())
    (andthen (if \<not> gen_truthy (print_where a ''/ip/hotspot/profile/print'' ''name'' ''hsprof1'') then drop_call (add_profile a) else ret ())
      (if \<not> gen_truthy (print_where a ''/ip/hotspot/print'' ''interface'' lan_interface)
       then andthen (drop_call (add_server a)) (say ''Hotspot Server created.'')
       else say ''Hotspot Server already exists.''))"

definition ensure_hotspot_user :: "link \<Rightarrow> unit script" where
  "ensure_hotspot_user a = andthen (say creating_user)
     (let users = print_where a ''/ip/hotspot/user/print'' ''name'' hotspot_user
      in if gen_truthy users
         then andthen (say ''User already exists. Updating password...'')
           (bnd (gen_item users) (\<lambda>u. bnd (row_item u ''.id'') (\<lambda>i. drop_call (set_user a i))))
         else andthen (drop_call (add_user a)) (say ''User created.''))"

definition configure_hotspot :: "site \<Rightarrow> link \<Rightarrow> unit script" where
  "configure_hotspot t a = andthen (say configuring_hotspot) (catching (\<lambda>_. True)
     (andthen (ensure_lan_address t a) (andthen (ensure_hotspot_parts a) (ensure_hotspot_user a)))
     (\<lambda>e. say (''Error configuring Hotspot: '' @ exc_str e)))"

text \<open>Without a port librouteros connects to its default port, 8728.\<close>

definition onboard_main :: "site \<Rightarrow> unit script" where
  "onboard_main t =
     (let ip = environ_get t ''ROUTER_IP'' ''192.168.88.1'';
          user = environ_get t ''ROUTER_USER'' ''admin'';
          pass = environ_get t ''ROUTER_PASS'' []
      in andthen (say (''Connecting to MikroTik at '' @ ip @ ''...''))
        (bnd (catching (\<lambda>_. True)
               (bnd (connect_to t ip (PStr user) (PStr pass) (PInt 8728)) (\<lambda>a. ret (Some a)))
               (\<lambda>e. andthen (say (''Failed to connect: '' @ exc_str e)) (ret None))) (\<lambda>api.
         case api of
           None \<Rightarrow> ret ()
         | Some a \<Rightarrow> andthen (say ''Connected successfully.'') (andthen (check_olt t a)
             (andthen (configure_hotspot t a) (say completed))))))"

section \<open>addons/mikrotik_onboard.py\<close>

definition creds :: "(string \<times> string) list" where
  "creds = [(''admin'', ''getupsoft''), (''admin'', ''Getupsoft'')]"

definition ports :: "int list" where
  "ports = [8728]"

text \<open>The branch for port 8729 only adds TLS to the connection; it is the same call of \<open>connect\<close>.\<close>

fun try_ports :: "site \<Rightarrow> string \<Rightarrow> string \<times> string \<Rightarrow> int list \<Rightarrow> link option script" where
  "try_ports t ip c [] = ret None"
| "try_ports t ip c (port # rest) =
     bnd (catching (\<lambda>_. True)
       (andthen (say (''Trying '' @ fst c @ '':'' @ snd c @ '' on port '' @ int_str port @ ''... ''))
         (bnd (connect_to t ip (PStr (fst c)) (PStr (snd c)) (PInt port)) (\<lambda>a.
            andthen (say ''SUCCESS!'') (ret (Some a)))))
       (\<lambda>e. andthen (say (''Failed: '' @ exc_str e)) (ret None))) (\<lambda>api.
     case api of None \<Rightarrow> try_ports t ip c rest | Some a \<Rightarrow> ret (Some a))"

fun try_creds :: "site \<Rightarrow> string \<Rightarrow> (string \<times> string) list \<Rightarrow> link option script" where
  "try_creds t ip [] = ret None"
| "try_creds t ip (c # cs) = bnd (try_ports t ip c ports) (\<lambda>api.
     case api of None \<Rightarrow> try_creds t ip cs | Some a \<Rightarrow> ret (Some a))"

definition addon_check_olt :: "site \<Rightarrow> link \<Rightarrow> unit script" where
  "addon_check_olt t a = andthen (say checking_olt) (catching (\<lambda>_. True)
     (bnd (consume t (call_api a ''/interface/print'' [])) (\<lambda>all_ifaces.
      case filter (row_is ''name'' olt_interface) all_ifaces of
        [] \<Rightarrow> say (''Error: Interface '' @ olt_interface @ '' not found.'')
      | iface # _ \<Rightarrow> andthen (report_interface t iface) (monitor_sfp t a)))
     (\<lambda>e. say (''Error checking OLT: '' @ exc_str e)))"

definition addon_lan_address :: "site \<Rightarrow> link \<Rightarrow> unit script" where
  "addon_lan_address t a =
     bnd (consume t (call_api a ''/ip/address/print'' [])) (\<lambda>all_ips.
     case filter (row_is ''interface'' lan_interface) all_ips of
       [] \<Rightarrow> andthen (say (''Adding IP 10.5.50.1/24 to '' @ lan_interface @ ''...'')) (drop_call (add_lan_address a))
     | r # _ \<Rightarrow> say (''IP Configuration exists on '' @ lan_interface @ '': '' @ show_val t (row_get r ''address'')))"

definition addon_hotspot_parts :: "site \<Rightarrow> link \<Rightarrow> unit script" where
  "addon_hotspot_parts t a =
     bnd (consume t (call_api a ''/ip/pool/print'' [])) (\<lambda>all_pools.
     andthen (if \<not> list_ex (row_is ''name'' ''hs-pool-1'') all_pools then drop_call (add_pool a) else ret ())
    (bnd (consume t (call_api a ''/ip/hotspot/profile/print'' [])) (\<lambda>all_profiles.
     andthen (if \<not> list_ex (row_is ''name'' ''hsprof1'') all_profiles then drop_call (add_profile a) else ret ())
    (bnd (consume t (call_api a ''/ip/hotspot/print'' [])) (\<lambda>all_servers.
     if \<not> list_ex (row_is ''interface'' lan_interface) all_servers
     then andthen (drop_call (add_server a)) (say ''Hotspot Server created.'')
     else say ''Hotspot Server already exists.'')))))"

definition addon_hotspot_user :: "site \<Rightarrow> link \<Rightarrow> unit script" where
  "addon_hotspot_user t a = andthen (say creating_user)
     (bnd (consume t (call_api a ''/ip/hotspot/user/print'' [])) (\<lambda>all_users.
      case List.find (row_is ''name'' hotspot_user) all_users of
        Some u \<Rightarrow> andthen (say ''User already exists. Updating password...'')
          (bnd (row_item u ''.id'') (\<lambda>i. drop_call (set_user a i)))
      | None \<Rightarrow> andthen (drop_call (add_user a)) (say ''User created.'')))"

definition addon_hotspot :: "site \<Rightarrow> link \<Rightarrow> unit script" where
  "addon_hotspot t a = andthen (say configuring_hotspot) (catching (\<lambda>_. True)
     (andthen (addon_lan_address t a) (andthen (addon_hotspot_parts t a) (addon_hotspot_user t a)))
     (\<lambda>e. say (''Error configuring Hotspot: '' @ exc_str e)))"

definition addon_onboard_main :: "site \<Rightarrow> unit script" where
  "addon_onboard_main t =
     (let ip = environ_get t ''ROUTER_IP'' ''192.168.88.1''
      in andthen (say (''Connecting to MikroTik at '' @ ip @ ''...''))
        (bnd (try_creds t ip creds) (\<lambda>api.
         case api of
           None \<Rightarrow> say ''Could not connect with any credential/port combination.''
         | Some a \<Rightarrow> andthen (say ''Connected successfully.'') (andthen (addon_check_olt t a)
             (andthen (addon_hotspot t a) (say completed))))))"

section \<open>Neither script configures anything\<close>

definition not_subscriptable :: string where
  "not_subscriptable = quoted ''generator'' @ '' object is not subscriptable''"

lemma say_run: "say w s = (Inr (), s\<lparr>printed := printed s @ [w]\<rparr>)"
  by (simp add: say_def run_simps)

lemma check_olt_run:
  "check_olt t a s = (Inr (), s\<lparr>printed := printed s @ [checking_olt, ''Error checking OLT: '' @ not_subscriptable]\<rparr>)"
  by (simp add: check_olt_def gen_truthy_def gen_item_def not_subscriptable_def say_def run_simps)

lemma configure_hotspot_run:
  "configure_hotspot t a s =
     (Inr (), s\<lparr>printed := printed s @ [configuring_hotspot, ''Error configuring Hotspot: '' @ not_subscriptable]\<rparr>)"
  by (simp add: configure_hotspot_def ensure_lan_address_def gen_truthy_def gen_item_def not_subscriptable_def
      say_def run_simps)

text \<open>Once connected, the script in \<open>tools/\<close> behaves the same whatever the router is: both parts end
  in a caught exception on an unconsumed generator, no command is ever sent, and the run still ends with
  the message that onboarding is completed.\<close>

theorem onboard_sends_nothing:
  assumes "api_open t (sent s) (environ_get t ''ROUTER_IP'' ''192.168.88.1'', PStr (environ_get t ''ROUTER_USER'' ''admin''))
    (PStr (environ_get t ''ROUTER_PASS'' [])) (PInt 8728) = None"
  shows "onboard_main t s = (Inr (), s\<lparr>printed := printed s @
    [''Connecting to MikroTik at '' @ environ_get t ''ROUTER_IP'' ''192.168.88.1'' @ ''...'', ''Connected successfully.'',
     checking_olt, ''Error checking OLT: '' @ not_subscriptable,
     configuring_hotspot, ''Error configuring Hotspot: '' @ not_subscriptable, completed]\<rparr>)"
  using assms
  unfolding onboard_main_def Let_def
  by (simp add: connect_to_def say_run run_simps check_olt_run configure_hotspot_run)

definition demo_net :: site where
  "demo_net = \<lparr>environ = (\<lambda>_. None), str_text = (\<lambda>_. []), api_open = (\<lambda>_ _ _ _. None), api_reply = (\<lambda>_ _ _. Inr []),
     format_special = (\<lambda>_ _. Inr []), connects = (\<lambda>_ _. False), other_network = (\<lambda>_. Inr []), request_env = (\<lambda>_. plain_env),
     authenticate = (\<lambda>_ _ _ _. Inr True), marshal = Inr, fault = id, text_arg = (\<lambda>_. Inr [])\<rparr>"

definition idle_station :: station where
  "idle_station = \<lparr>sent = [], printed = [], server = demo_sys change_plan, calls = 0\<rparr>"

theorem onboard_sends_nothing_witness:
  "sent (snd (onboard_main demo_net idle_station)) = [] \<and>
   last (printed (snd (onboard_main demo_net idle_station))) = completed"
  using onboard_sends_nothing [of demo_net "idle_station"] by (simp add: demo_net_def idle_station_def)

text \<open>What the other script sends: prints and the monitor command.\<close>

definition reading_paths :: "string set" where
  "reading_paths = {''/interface/print'', ''/interface/ethernet/monitor'', ''/ip/address/print'', ''/ip/pool/print'',
     ''/ip/hotspot/profile/print'', ''/ip/hotspot/print'', ''/ip/hotspot/user/print''}"

lemma only_at_consume: "path \<in> paths \<Longrightarrow> keeps_all (only_at paths cs d) (consume t (call_api a path kw))"
  by (simp add: call_api_def only_at_api_exec)

lemma only_at_drop [keeps_all_intros]: "keeps_all (only_at paths cs d) (drop_call g)"
  by (simp add: drop_call_def keeps_all_ret)

lemma only_at_try_ports [keeps_all_intros]: "keeps_all (only_at paths cs d) (try_ports t ip c ps)"
  by (induction ps) (auto intro!: keeps_all_intros)

lemma only_at_try_creds [keeps_all_intros]: "keeps_all (only_at paths cs d) (try_creds t ip xs)"
  by (induction xs) (auto intro!: keeps_all_intros)

lemma only_at_report [keeps_all_intros]: "keeps_all (only_at paths cs d) (report_interface t r)"
  unfolding report_interface_def by (intro keeps_all_intros)

lemma only_at_row_item [keeps_all_intros]: "keeps_all (only_at paths cs d) (row_item r k)"
  unfolding row_item_def by (intro keeps_all_intros)

lemma reading_monitor [keeps_all_intros]: "keeps_all (only_at reading_paths cs d) (monitor_sfp t a)"
  unfolding monitor_sfp_def by (intro keeps_all_intros only_at_consume) (simp add: reading_paths_def)

lemma reading_check [keeps_all_intros]: "keeps_all (only_at reading_paths cs d) (addon_check_olt t a)"
  unfolding addon_check_olt_def by (intro keeps_all_intros keeps_all_list only_at_consume) (simp add: reading_paths_def)

lemma reading_hotspot [keeps_all_intros]: "keeps_all (only_at reading_paths cs d) (addon_hotspot t a)"
  unfolding addon_hotspot_def addon_lan_address_def addon_hotspot_parts_def addon_hotspot_user_def
  by (intro keeps_all_intros keeps_all_list only_at_consume) (simp_all add: reading_paths_def)

lemma reading_main: "keeps_all (only_at reading_paths cs d) (addon_onboard_main t)"
  unfolding addon_onboard_main_def Let_def by (intro keeps_all_intros)

lemma no_raise_try_ports [no_raise_intros]: "no_raise (try_ports t ip c ps)"
  by (induction ps) (auto intro!: no_raise_intros)

lemma no_raise_try_creds [no_raise_intros]: "no_raise (try_creds t ip xs)"
  by (induction xs) (auto intro!: no_raise_intros)

lemma no_raise_addon_main: "no_raise (addon_onboard_main t)"
  unfolding addon_onboard_main_def addon_check_olt_def addon_hotspot_def Let_def by (intro no_raise_intros)

text \<open>On a router where nothing is set up yet the script reports that it has created the server and the user.\<close>

definition blank_router :: "site \<Rightarrow> bool" where
  "blank_router t \<longleftrightarrow> (\<forall>cs a user pass. api_open t cs a user pass = None) \<and> (\<forall>cs a c. api_reply t cs a c = Inr [])"

lemma blank_claims:
  assumes "blank_router t" and "addon_onboard_main t s = (r, s')"
  shows "{''Hotspot Server created.'', ''User created.'', completed} \<subseteq> set (printed s')"
proof -
  have consume: "consume t (call_api a path kw) u = (Inr [], u\<lparr>sent := sent u @ [(a, Cmd path kw)]\<rparr>)" for a path kw u
    using assms(1) by (cases a) (simp add: blank_router_def call_api_def api_exec_def)
  have connect: "connect_to t ip u p port w = (Inr (ip, u), w)" for ip u p port w
    using assms(1) by (simp add: blank_router_def connect_to_def run_simps)
  show ?thesis
    using assms(2) unfolding addon_onboard_main_def Let_def
    by (auto simp: creds_def ports_def connect consume say_run run_simps addon_check_olt_def
        addon_hotspot_def addon_lan_address_def addon_hotspot_parts_def addon_hotspot_user_def drop_call_def)
qed

text \<open>C37. The script in \<open>addons/\<close> always returns, and all it ever sends are prints and the monitor command:
  its add and set calls are generators that nobody consumes. On a blank router it reports all the same
  that the hotspot server and the user were created.\<close>

theorem addon_onboard_only_reads:
  "\<exists>s' new. addon_onboard_main t s = (Inr (), s') \<and> server s' = server s \<and> sent s' = sent s @ new \<and>
     (\<forall>x\<in>set new. cmd_path (snd x) \<in> reading_paths) \<and>
     (blank_router t \<longrightarrow> {''Hotspot Server created.'', ''User created.'', completed} \<subseteq> set (printed s'))"
proof -
  obtain v s' where run: "addon_onboard_main t s = (Inr v, s')" by (rule no_raiseE [OF no_raise_addon_main])
  from keeps_allD [OF reading_main only_at_start run] run show ?thesis
    using blank_claims [OF _ run] by (auto simp: only_at_def)
qed

theorem addon_onboard_only_reads_witness:
  "\<exists>s' new. addon_onboard_main demo_net idle_station = (Inr (), s') \<and>
     sent s' = new \<and> (\<forall>x\<in>set new. cmd_path (snd x) \<in> reading_paths) \<and> ''User created.'' \<in> set (printed s')"
  using addon_onboard_only_reads [of demo_net "idle_station"]
  by (auto simp: demo_net_def blank_router_def idle_station_def)

end
