(* ===== verification/Onu_Scan.thy ===== *)
theory Onu_Scan
  imports Router_Scripts
begin

text \<open>
  \<open>tools/scan_onus.py\<close> (the file of the same name in \<open>addons/\<close> is a copy): look for devices
  behind the OLT interface of a router and create an ONU (\<open>isp_onu/models/onu.py\<close>) for each
  of them in the application.
\<close>

section \<open>Creating an ONU\<close>

text \<open>The columns that \<open>create\<close> is given; \<open>U_other\<close> is a key that is no field of the model.\<close>

datatype onu_val =
    U_serial string
  | U_mac_address string
  | U_vendor string
  | U_model string
  | U_sector_id "nat option"
  | U_olt_ref string
  | U_pon_port string
  | U_vlan string
  | U_status onu_status
  | U_notes string
  | U_other string

fun onu_set :: "onu_val \<Rightarrow> onu \<Rightarrow> onu" where
  "onu_set (U_serial x) r = r\<lparr>onu_serial := x\<rparr>"
| "onu_set (U_mac_address x) r = r\<lparr>onu_mac_address := Some x\<rparr>"
| "onu_set (U_vendor x) r = r\<lparr>onu_vendor := Some x\<rparr>"
| "onu_set (U_model x) r = r\<lparr>onu_model := Some x\<rparr>"
| "onu_set (U_sector_id x) r = r\<lparr>onu_sector_id := x\<rparr>"
| "onu_set (U_olt_ref x) r = r\<lparr>onu_olt_ref := Some x\<rparr>"
| "onu_set (U_pon_port x) r = r\<lparr>onu_pon_port := Some x\<rparr>"
| "onu_set (U_vlan x) r = r\<lparr>onu_vlan := Some x\<rparr>"
| "onu_set (U_status x) r = r\<lparr>onu_status := Some x\<rparr>"
| "onu_set (U_notes x) r = r\<lparr>onu_notes := Some x\<rparr>"
| "onu_set (U_other k) r = r"

definition onu_default :: onu where
  "onu_default = \<lparr>onu_serial = [], onu_mac_address = None, onu_vendor = None, onu_model = None,
     onu_sector_id = None, onu_olt_ref = None, onu_pon_port = None, onu_vlan = None,
     onu_status = Some OnuStock, onu_notes = None\<rparr>"

fun unknown_key :: "onu_val \<Rightarrow> string option" where
  "unknown_key (U_other k) = Some k"
| "unknown_key v = None"

fun is_serial :: "onu_val \<Rightarrow> bool" where
  "is_serial (U_serial x) = True"
| "is_serial v = False"

text \<open>
  \<open>refuse k\<close> is what the framework does with a key that is no field of the model: its present
  versions raise, old ones ignored the key (\<open>None\<close>). \<open>serial\<close> is required and unique.
\<close>

definition check_keys :: "(string \<Rightarrow> exc option) \<Rightarrow> onu_val list \<Rightarrow> unit op" where
  "check_keys refuse vals = (case List.map_filter refuse (List.map_filter unknown_key vals) of
     x # _ \<Rightarrow> raise x
   | [] \<Rightarrow> ret ())"

definition onu_create :: "(string \<Rightarrow> exc option) \<Rightarrow> onu_val list \<Rightarrow> nat op" where
  "onu_create refuse vals = andthen (check_keys refuse vals)
     (if \<not> list_ex is_serial vals then raise (IntegrityError ''null value in column serial'')
      else let r = fold onu_set vals onu_default
        in bnd (gets (\<lambda>s. search_ids (\<lambda>_ x. onu_serial x = onu_serial r) (onus s))) (\<lambda>same.
           if same \<noteq> [] then raise (IntegrityError ''ONU serial must be unique.'')
           else bnd (gets (\<lambda>s. fresh_id (onus s))) (\<lambda>i.
             andthen (modify (\<lambda>s. s\<lparr>onus := tins r (onus s)\<rparr>)) (ret i))))"

section \<open>The script's own state\<close>

record found =
  fd_mac :: pyval
  fd_ip :: pyval
  fd_source :: string

text \<open>\<open>found_devices\<close> survives an exception, so it is part of the state.\<close>

type_synonym 'a scan = "(station \<times> found list, 'a) prog"

definition on_station :: "'a script \<Rightarrow> 'a scan" where
  "on_station m = (\<lambda>(s, f). case m s of (r, s') \<Rightarrow> (r, (s', f)))"

definition add_found :: "pyval \<Rightarrow> pyval \<Rightarrow> string \<Rightarrow> unit scan" where
  "add_found mac ip src = modify (\<lambda>(s, f). (s, f @ [\<lparr>fd_mac = mac, fd_ip = ip, fd_source = src\<rparr>]))"

definition tell :: "string \<Rightarrow> unit scan" where
  "tell w = on_station (say w)"

definition ask :: "site \<Rightarrow> link \<Rightarrow> string \<Rightarrow> (string \<times> pyval) list \<Rightarrow> row list scan" where
  "ask t a path kwargs = on_station (consume t (call_api a path kwargs))"

section \<open>Monitoring the interface\<close>

definition report_rate :: "site \<Rightarrow> row \<Rightarrow> unit script" where
  "report_rate t r =
     andthen (say (''Rate: '' @ show_val t (row_get r ''rate'')))
    (andthen (say (''Duplex: '' @ (if truthy (row_get r ''full-duplex'') then ''Full'' else ''Half'')))
      (if map_of r ''sfp-module-present'' \<noteq> None
       then say (''SFP Present: '' @ show_val t (row_get r ''sfp-module-present'')) else ret ()))"

definition monitor_rate :: "site \<Rightarrow> link \<Rightarrow> unit script" where
  "monitor_rate t a = catching (\<lambda>_. True)
     (bnd (consume t (call_api a ''/interface/ethernet/monitor'' [(''numbers'', PStr olt_interface), (''once'', PBool True)]))
       (for_each (report_rate t)))
     (\<lambda>e. say (''Monitor command failed: '' @ exc_str e))"

definition monitor_interface :: "site \<Rightarrow> link \<Rightarrow> unit script" where
  "monitor_interface t a = catching (\<lambda>_. True)
     (andthen (say (''--- Monitoring '' @ olt_interface @ '' ---''))
       (bnd (consume t (call_api a ''/interface/ethernet/print'' [])) (\<lambda>all_ifaces.
        case filter (row_is ''name'' olt_interface) all_ifaces of
          detail # _ \<Rightarrow>
            andthen (say (''Status: '' @ (if truthy (row_get detail ''running'') then ''RUNNING'' else ''DOWN'')))
           (andthen (say (''Auto-Negotiation: '' @ show_val t (row_get detail ''auto-negotiation'')))
           (andthen (say (''Speed: '' @ show_val t (row_get detail ''speed'')))
             (monitor_rate t a)))
        | [] \<Rightarrow> say (''Interface '' @ olt_interface @ '' not found in ethernet print.''))))
     (\<lambda>e. say (''Monitor Error: '' @ exc_str e))"

section \<open>Looking for devices\<close>

text \<open>\<open>any(...)\<close> over the addresses of the router; it stops at the first hit.\<close>

fun any_olt_ip :: "row list \<Rightarrow> bool scan" where
  "any_olt_ip [] = ret False"
| "any_olt_ip (r # rows) =
     (if row_is ''interface'' olt_interface r
      then (case row_get r ''address'' of
          PStr x \<Rightarrow> if py_startswith x ''192.168.1.'' then ret True else any_olt_ip rows
        | v \<Rightarrow> raise (no_attribute v ''startswith''))
      else any_olt_ip rows)"

definition add_olt_ip :: "link \<Rightarrow> generator" where
  "add_olt_ip a = call_api a ''/ip/address/add'' [(''address'', PStr ''192.168.1.2/24''), (''interface'', PStr olt_interface)]"

definition ping_target :: "site \<Rightarrow> link \<Rightarrow> string \<Rightarrow> unit scan" where
  "ping_target t a target = andthen (tell (''Pinging '' @ target @ ''... ''))
     (bnd (ask t a ''/ping'' [(''address'', PStr target), (''count'', PInt 2), (''interface'', PStr olt_interface)]) (\<lambda>ping_res.
      if list_ex (\<lambda>p. py_eq (row_get p ''received'') (PInt 1)) ping_res
      then andthen (tell ''REACHABLE!'') (add_found (PStr ''Unknown (OLT)'') (PStr target) ''Ping Probe'')
      else tell ''No response.''))"

definition target_mac :: string where
  "target_mac = ''48:E6:63:13:58:45''"

fun arp_entry :: "row list \<Rightarrow> row option scan" where
  "arp_entry [] = ret None"
| "arp_entry (r # rows) = (case (case map_of r ''mac-address'' of None \<Rightarrow> PStr [] | Some v \<Rightarrow> v) of
     PStr x \<Rightarrow> if py_upper x = target_mac then ret (Some r) else arp_entry rows
   | v \<Rightarrow> raise (no_attribute v ''upper''))"

definition probe_olt :: "site \<Rightarrow> link \<Rightarrow> unit scan" where
  "probe_olt t a = catching (\<lambda>_. True)
     (andthen (tell (''--- Probing for Zisa OLT on '' @ olt_interface @ '' ---''))
     (bnd (ask t a ''/ip/address/print'' []) (\<lambda>all_ips.
      bnd (any_olt_ip all_ips) (\<lambda>has_olt_ip.
      andthen (if has_olt_ip then ret ()
        else andthen (tell (''Adding 192.168.1.2/24 to '' @ olt_interface @ ''...'')) (on_station (drop_call (add_olt_ip a))))
     (andthen (ping_target t a ''192.168.1.1'')
     (andthen (ping_target t a ''192.168.1.10'')
     (andthen (tell (''Checking ARP for '' @ target_mac @ ''...''))
     (bnd (ask t a ''/ip/arp/print'' []) (\<lambda>all_arp.
      bnd (arp_entry all_arp) (\<lambda>entry.
      andthen (case entry of
          None \<Rightarrow> ret ()
        | Some r \<Rightarrow> andthen (tell (''FOUND OLT by MAC! IP: '' @ show_val t (row_get r ''address'')))
            (add_found (PStr target_mac) (row_get r ''address'') ''ARP Match''))
     (andthen (tell (''--- All ARP on '' @ olt_interface @ '' ---''))
       (for_each (\<lambda>r. tell (''MAC: '' @ show_val t (row_get r ''mac-address'') @ '' IP: '' @ show_val t (row_get r ''address'')))
         (filter (row_is ''interface'' olt_interface) all_arp)))))))))))))
     (\<lambda>e. tell (''Error probing OLT: '' @ exc_str e))"

definition scan_arp :: "site \<Rightarrow> link \<Rightarrow> unit scan" where
  "scan_arp t a = catching (\<lambda>_. True)
     (bnd (ask t a ''/ip/arp/print'' []) (\<lambda>all_arp.
      let arp_entries = filter (row_is ''interface'' olt_interface) all_arp
      in andthen (tell (''Found '' @ nat_str (length arp_entries) @ '' ARP entries.''))
        (for_each (\<lambda>r. if truthy (row_get r ''mac-address'')
            then add_found (row_get r ''mac-address'') (row_get r ''address'') ''ARP'' else ret ()) arp_entries)))
     (\<lambda>e. tell (''Error scanning ARP: '' @ exc_str e))"

definition scan_leases :: "site \<Rightarrow> link \<Rightarrow> unit scan" where
  "scan_leases t a = catching (\<lambda>_. True)
     (bnd (ask t a ''/ip/dhcp-server/lease/print'' []) (\<lambda>_. ret ()))
     (\<lambda>e. tell (''Error scanning DHCP: '' @ exc_str e))"

definition collect :: "site \<Rightarrow> link \<Rightarrow> found list script" where
  "collect t a = (\<lambda>s. case andthen (probe_olt t a) (andthen (scan_arp t a) (scan_leases t a)) (s, []) of
      (Inl e, (s', f)) \<Rightarrow> (Inl e, s')
    | (Inr _, (s', f)) \<Rightarrow> (Inr f, s'))"

section \<open>Creating the ONUs in the application\<close>

text \<open>\<open>{d['mac']: d for d in found_devices}.values()\<close>: the last device with an address wins, at the
  place of the first.\<close>

fun put_device :: "found \<Rightarrow> found list \<Rightarrow> found list" where
  "put_device d [] = [d]"
| "put_device d (x # xs) = (if py_eq (fd_mac x) (fd_mac d) then d # xs else x # put_device d xs)"

definition unique_devices :: "found list \<Rightarrow> found list" where
  "unique_devices ds = fold put_device ds []"

fun hashable :: "pyval \<Rightarrow> bool" where
  "hashable (PList xs) = False"
| "hashable (PDict d) = False"
| "hashable v = True"

definition onu_vals :: "string \<Rightarrow> found \<Rightarrow> onu_val list" where
  "onu_vals mac dev = [U_other ''name'', U_serial (''UNK-'' @ filter (\<lambda>c. c \<noteq> CHR '':'') mac), U_mac_address mac,
     U_status OnuStock, U_notes (''Auto-detected via '' @ fd_source dev @ '' on '' @ olt_interface),
     U_olt_ref ''Detected on ether3'']"

definition find_onus :: "string \<Rightarrow> sys \<Rightarrow> nat list" where
  "find_onus mac s = search_ids (\<lambda>_ r. onu_mac_address r = Some mac) (onus s)"

definition create_for :: "site \<Rightarrow> (string \<Rightarrow> exc option) \<Rightarrow> found \<Rightarrow> pyval \<Rightarrow> unit script" where
  "create_for t refuse dev v = (case v of
      PStr mac \<Rightarrow> bnd (rpc t (\<lambda>e. onu_create refuse (onu_vals mac dev))) (\<lambda>new_id.
        say (''Created (ID: '' @ nat_str new_id @ '')''))
    | w \<Rightarrow> raise (no_attribute w ''replace''))"

definition sync_device :: "site \<Rightarrow> (string \<Rightarrow> exc option) \<Rightarrow> found \<Rightarrow> unit script" where
  "sync_device t refuse dev =
     andthen (say (''Processing MAC: '' @ show_val t (fd_mac dev) @ '' (IP: '' @ show_val t (fd_ip dev) @ '')... ''))
    (bnd (as_text t (fd_mac dev)) (\<lambda>m.
     bnd (rpc t (\<lambda>e. gets (find_onus m))) (\<lambda>existing_ids.
     if existing_ids \<noteq> [] then say ''Already exists. Skipping.''
     else create_for t refuse dev (fd_mac dev))))"

text \<open>The exit status: \<open>sys.exit(1)\<close> is not caught by \<open>except Exception\<close>.\<close>

definition sync_onus :: "site \<Rightarrow> (string \<Rightarrow> exc option) \<Rightarrow> found list \<Rightarrow> nat script" where
  "sync_onus t refuse devs = catching (\<lambda>_. True)
     (bnd (lift_sum (authenticate t (PStr ''http://localhost:8069'') (PStr ''odoo'') (PStr ''admin'') ''admin'')) (\<lambda>uid.
      if \<not> uid then andthen (say ''Odoo authentication failed.'') (ret 1)
      else andthen (for_each (sync_device t refuse) devs) (ret 0)))
     (\<lambda>e. andthen (say (''Odoo Sync Error: '' @ exc_str e)) (ret 0))"

definition sync_found :: "site \<Rightarrow> (string \<Rightarrow> exc option) \<Rightarrow> found list \<Rightarrow> nat script" where
  "sync_found t refuse found_devices =
     (if found_devices = [] then andthen
        (say ''No devices found. Ensure the OLT/ONUs are powered on and generating traffic (ARP).'') (ret 0)
      else (case List.find (\<lambda>d. \<not> hashable (fd_mac d)) found_devices of
          Some d \<Rightarrow> raise (OtherError (''unhashable type: '' @ quoted (type_name (fd_mac d))))
        | None \<Rightarrow> let devs = unique_devices found_devices
            in andthen (say (newline @ ''--- Syncing '' @ nat_str (length devs) @ '' devices to Odoo ---''))
              (sync_onus t refuse devs)))"

definition scan_main :: "site \<Rightarrow> (string \<Rightarrow> exc option) \<Rightarrow> nat script" where
  "scan_main t refuse =
     andthen (say ''--- Connecting to MikroTik 192.168.88.1 ---'')
    (bnd (catching (\<lambda>_. True)
       (bnd (connect_to t ''192.168.88.1'' (PStr ''admin'') (PStr ''getupsoft'') (PInt 8728)) (\<lambda>a. ret (Some a)))
       (\<lambda>e. andthen (say (''Failed to connect to MikroTik: '' @ exc_str e)) (ret None))) (\<lambda>api.
     case api of
       None \<Rightarrow> ret 1
     | Some a \<Rightarrow> andthen (say (''Scanning interface '' @ olt_interface @ ''...''))
        (andthen (monitor_interface t a) (bnd (collect t a) (sync_found t refuse)))))"

end
