(* ===== verification/Scan_Facts.thy ===== *)
theory Scan_Facts
  imports Onu_Scan
begin

text \<open>
  The scan always ends, after a bounded number of commands, and with a framework that refuses
  unknown fields it never creates an ONU.
\<close>

section \<open>How much a program sends\<close>

named_theorems sends_intros \<open>bounds on the number of commands a program sends\<close>

definition sends :: "('s \<Rightarrow> (link \<times> cmd) list) \<Rightarrow> nat \<Rightarrow> ('s, 'a) prog \<Rightarrow> bool" where
  "sends wires n m \<longleftrightarrow> (\<forall>s r s'. m s = (r, s') \<longrightarrow> (\<exists>new. wires s' = wires s @ new \<and> length new \<le> n))"

lemma sendsI: "(\<And>s. \<exists>new. wires (snd (m s)) = wires s @ new \<and> length new \<le> n) \<Longrightarrow> sends wires n m"
  unfolding sends_def by (metis snd_conv)

lemma sendsD: "sends wires n m \<Longrightarrow> \<exists>new. wires (snd (m s)) = wires s @ new \<and> length new \<le> n"
  unfolding sends_def by (metis prod.collapse)

lemma sends_le: "sends wires j m \<Longrightarrow> j \<le> n \<Longrightarrow> sends wires n m"
  unfolding sends_def by (meson le_trans)

lemma sends_max: "sends wires j m \<Longrightarrow> sends wires (max j k) m" "sends wires k m \<Longrightarrow> sends wires (max j k) m"
  by (erule sends_le, simp)+

lemma sends_ret [sends_intros]: "sends wires 0 (ret x)" "sends wires 0 (raise e)" "sends wires 0 (gets f)"
  by (simp_all add: sends_def run_simps)

lemma sends_join:
  assumes "\<exists>new. ws' = ws @ new \<and> length new \<le> j" and "\<exists>new. ws'' = ws' @ new \<and> length new \<le> k"
  shows "\<exists>new. ws'' = ws @ new \<and> length new \<le> j + k"
  using assms by (auto intro!: add_mono)

lemma sends_weaken: "\<exists>new. ws' = ws @ new \<and> length new \<le> j \<Longrightarrow> \<exists>new. ws' = ws @ new \<and> length new \<le> j + (k::nat)"
  by fastforce

lemma sends_bnd [sends_intros]:
  assumes "sends wires j m" and "\<And>x. sends wires k (f x)"
  shows "sends wires (j + k) (bnd m f)"
proof (rule sendsI)
  fix s
  obtain r s' where m: "m s = (r, s')" by (cases "m s")
  show "\<exists>new. wires (snd (bnd m f s)) = wires s @ new \<and> length new \<le> j + k"
    using sendsD [OF assms(1), of s] sendsD [OF assms(2), of _ s']
    by (cases r) (auto simp: m bnd_run intro: sends_weaken intro!: sends_join)
qed

lemma sends_andthen [sends_intros]: "sends wires j m \<Longrightarrow> sends wires k n \<Longrightarrow> sends wires (j + k) (andthen m n)"
  unfolding andthen_def by (rule sends_bnd)

lemma sends_catching [sends_intros]:
  assumes "sends wires j m" and "\<And>x. sends wires k (h x)"
  shows "sends wires (j + k) (catching p m h)"
proof (rule sendsI)
  fix s
  obtain r s' where m: "m s = (r, s')" by (cases "m s")
  show "\<exists>new. wires (snd (catching p m h s)) = wires s @ new \<and> length new \<le> j + k"
    using sendsD [OF assms(1), of s] sendsD [OF assms(2), of _ s']
    by (cases r) (auto simp: m catching_run intro: sends_weaken intro!: sends_join)
qed

lemma sends_if [sends_intros]: "sends wires j m \<Longrightarrow> sends wires k n \<Longrightarrow> sends wires (max j k) (if b then m else n)"
  by (auto intro: sends_le)

lemma sends_option [sends_intros]:
  "sends wires j m \<Longrightarrow> (\<And>x. sends wires k (f x)) \<Longrightarrow> sends wires (max j k) (case v of None \<Rightarrow> m | Some x \<Rightarrow> f x)"
  by (cases v) (simp_all add: sends_max)

lemma sends_list [sends_intros]:
  "sends wires j m \<Longrightarrow> (\<And>x xs. sends wires k (f x xs)) \<Longrightarrow> sends wires (max j k) (case v of [] \<Rightarrow> m | x # xs \<Rightarrow> f x xs)"
  by (cases v) (simp_all add: sends_max)

lemma sends_for_each [sends_intros]: "(\<And>x. sends wires 0 (f x)) \<Longrightarrow> sends wires 0 (for_each f xs)"
proof (induction xs)
  case (Cons x xs)
  then show ?case using sends_andthen [of wires 0 "f x" 0 "for_each f xs"] by simp
qed (simp add: sends_ret)

lemma sends_station [sends_intros]: "sends sent n m \<Longrightarrow> sends (sent \<circ> fst) n (on_station m)"
  unfolding sends_def on_station_def by (auto split: prod.splits)

lemma sends_script [sends_intros]:
  "sends sent 0 (say w)" "sends sent 0 (drop_call g)" "sends sent 1 (consume t (call_api a path kw))"
  "sends sent 0 (connect_to t ip u p port)" "sends sent 0 (rpc t act)" "sends sent 0 (lift_sum v)"
  by (auto simp: sends_def say_run drop_call_def ret_run call_api_def api_exec_def connect_to_def rpc_def lift_sum_def
      run_simps split: option.splits sum.splits prod.splits)

lemma sends_scan [sends_intros]:
  "sends (sent \<circ> fst) 0 (tell w)" "sends (sent \<circ> fst) 1 (ask t a path kw)" "sends (sent \<circ> fst) 0 (add_found mac ip src)"
  unfolding tell_def ask_def by (intro sends_intros)+ (auto simp: sends_def add_found_def modify_run)

lemma sends_lookups [sends_intros]: "sends (sent \<circ> fst) 0 (any_olt_ip rows)" "sends (sent \<circ> fst) 0 (arp_entry rows)"
  by (induction rows) (auto intro: sends_ret split: pyval.split)

section \<open>The scan\<close>

lemma sends_report [sends_intros]: "sends sent 0 (report_rate t r)"
  unfolding report_rate_def by (rule sends_le) ((rule sends_intros)+, simp)

lemma sends_monitor [sends_intros]: "sends sent 2 (monitor_interface t a)"
  unfolding monitor_interface_def monitor_rate_def
  by (rule sends_le) ((rule sends_intros)+, simp)

lemma sends_ping [sends_intros]: "sends (sent \<circ> fst) 1 (ping_target t a ip)"
  unfolding ping_target_def by (rule sends_le) ((rule sends_intros)+, simp)

lemma sends_probe [sends_intros]: "sends (sent \<circ> fst) 4 (probe_olt t a)"
  unfolding probe_olt_def by (rule sends_le) ((rule sends_intros)+, simp)

lemma sends_arp_row [sends_intros]:
  "sends (sent \<circ> fst) 0 (if b then add_found mac ip src else ret ())"
  by (simp add: sends_intros)

lemma sends_arp [sends_intros]: "sends (sent \<circ> fst) 1 (scan_arp t a)"
  unfolding scan_arp_def Let_def by (rule sends_le) ((rule sends_intros)+, simp)

lemma sends_leases [sends_intros]: "sends (sent \<circ> fst) 1 (scan_leases t a)"
  unfolding scan_leases_def by (rule sends_le) ((rule sends_intros)+, simp)

lemma sends_collect [sends_intros]: "sends sent 6 (collect t a)"
proof -
  have "sends (sent \<circ> fst) (4 + (1 + 1)) (andthen (probe_olt t a) (andthen (scan_arp t a) (scan_leases t a)))"
    by (intro sends_intros)
  then show ?thesis
    unfolding collect_def by (force simp: sends_def split: prod.splits sum.splits)
qed

lemma sends_as_text [sends_intros]: "sends sent 0 (as_text t v)"
  unfolding as_text_def by (cases v) (simp_all add: sends_intros)

lemma sends_create_for [sends_intros]: "sends sent 0 (create_for t refuse dev v)"
proof (cases v)
  case (PStr mac)
  have "sends sent (0 + 0) (create_for t refuse dev v)"
    unfolding create_for_def PStr by (simp only: pyval.case) (intro sends_intros)
  then show ?thesis by simp
qed (simp_all add: create_for_def sends_ret)

lemma sends_device [sends_intros]: "sends sent 0 (sync_device t refuse d)"
  unfolding sync_device_def
  by (rule sends_le) ((rule sends_intros)+, simp)

lemma sends_sync [sends_intros]: "sends sent 0 (sync_found t refuse ds)"
  unfolding sync_found_def sync_onus_def Let_def
  by (rule sends_le) ((rule sends_intros)+, simp)

lemma sends_scan_main: "sends sent 8 (scan_main t refuse)"
  unfolding scan_main_def by (rule sends_le) ((rule sends_intros)+, simp)

section \<open>The scan ends\<close>

text \<open>A reply of librouteros: rows of plain values (numbers, booleans and text).\<close>

definition plain_row :: "row \<Rightarrow> bool" where
  "plain_row r \<longleftrightarrow> list_all (\<lambda>p. hashable (snd p)) r"

definition plain_replies :: "site \<Rightarrow> bool" where
  "plain_replies t \<longleftrightarrow> (\<forall>cs a c rows. api_reply t cs a c = Inr rows \<longrightarrow> list_all plain_row rows)"

definition hashable_found :: "station \<times> found list \<Rightarrow> bool" where
  "hashable_found x \<longleftrightarrow> list_all (\<lambda>d. hashable (fd_mac d)) (snd x)"

lemma hashable_get: "plain_row r \<Longrightarrow> hashable (row_get r k)"
  by (auto simp: plain_row_def row_get_def list_all_iff dest!: map_of_SomeD split: option.split)

lemma hashable_station [keeps_all_intros]: "keeps_all hashable_found (on_station m)"
  by (auto simp: keeps_all_def on_station_def hashable_found_def split: prod.splits)

lemma hashable_tell [keeps_all_intros]: "keeps_all hashable_found (tell w)" "keeps_all hashable_found (ask t a path kw)"
  unfolding tell_def ask_def by (intro keeps_all_intros)+

lemma hashable_add: "hashable mac \<Longrightarrow> keeps_all hashable_found (add_found mac ip src)"
  unfolding add_found_def by (rule keeps_all_modify) (auto simp: hashable_found_def)

lemma hashable_lookups [keeps_all_intros]: "keeps_all hashable_found (any_olt_ip rows)" "keeps_all hashable_found (arp_entry rows)"
  by (induction rows) (auto intro!: keeps_all_intros split: pyval.split)

lemma hashable_ping [keeps_all_intros]: "keeps_all hashable_found (ping_target t a ip)"
  unfolding ping_target_def by (intro keeps_all_intros hashable_add) simp

lemma hashable_probe [keeps_all_intros]: "keeps_all hashable_found (probe_olt t a)"
  unfolding probe_olt_def by (intro keeps_all_intros hashable_add) (simp add: target_mac_def)

lemma hashable_arp_rows:
  "list_all plain_row rows \<Longrightarrow> keeps_all hashable_found
     (for_each (\<lambda>r. if truthy (row_get r k) then add_found (row_get r k) (row_get r k') src else ret ()) rows)"
  by (induction rows) (auto intro!: keeps_all_intros hashable_add simp: hashable_get)

lemma ask_plain:
  assumes "plain_replies t" and "\<And>rows. list_all plain_row rows \<Longrightarrow> keeps_all hashable_found (k rows)"
  shows "keeps_all hashable_found (bnd (ask t a path kw) k)"
proof (unfold keeps_all_def, intro allI impI)
  fix s
  assume start: "hashable_found s"
  obtain q u where q: "ask t a path kw s = (q, u)" by (cases "ask t a path kw s")
  have u: "hashable_found u" by (rule keeps_allD [OF hashable_tell(2) start q])
  show "hashable_found (snd (bnd (ask t a path kw) k s))"
  proof (cases q)
    case (Inr rows)
    have "list_all plain_row rows"
      using q assms(1) by (cases s, cases a) (auto simp: Inr ask_def on_station_def call_api_def api_exec_def plain_replies_def)
    with assms(2) u show ?thesis by (cases u) (simp add: keeps_all_def bnd_run q Inr)
  qed (use u in \<open>simp add: bnd_run q\<close>)
qed

lemma hashable_arp:
  assumes "plain_replies t"
  shows "keeps_all hashable_found (scan_arp t a)"
  unfolding scan_arp_def Let_def
  by (intro keeps_all_intros ask_plain [OF assms] hashable_arp_rows) (auto simp: list_all_iff)

lemma hashable_collect:
  assumes "plain_replies t" and "collect t a s = (Inr f, s')"
  shows "list_all (\<lambda>d. hashable (fd_mac d)) f"
proof -
  let ?m = "andthen (probe_olt t a) (andthen (scan_arp t a) (scan_leases t a))"
  have leases: "keeps_all hashable_found (scan_leases t a)" unfolding scan_leases_def by (intro keeps_all_intros)
  have keep: "keeps_all hashable_found ?m"
    by (intro keeps_all_andthen hashable_probe hashable_arp [OF assms(1)] leases)
  obtain r x where run: "?m (s, []) = (r, x)" by (cases "?m (s, [])")
  have "hashable_found (s, [])" by (simp add: hashable_found_def)
  from keeps_allD [OF keep this run] show ?thesis
    using assms(2) run by (auto simp: collect_def hashable_found_def split: sum.splits prod.splits)
qed

lemma no_raise_scan_parts [no_raise_intros]:
  "no_raise (tell w)" "no_raise (monitor_interface t a)" "no_raise (sync_onus t refuse ds)"
proof -
  show tell: "no_raise (tell w)" by (auto simp: no_raise_def tell_def on_station_def say_run)
  show "no_raise (monitor_interface t a)" "no_raise (sync_onus t refuse ds)"
    unfolding monitor_interface_def sync_onus_def by (intro no_raise_intros)+
qed

lemma no_raise_collect [no_raise_intros]: "no_raise (collect t a)"
proof -
  have "no_raise (andthen (probe_olt t a) (andthen (scan_arp t a) (scan_leases t a)))"
    unfolding probe_olt_def scan_arp_def scan_leases_def by (intro no_raise_intros)
  then show ?thesis by (auto simp: collect_def no_raise_def split: sum.splits prod.splits) (metis Inl_Inr_False prod.inject)
qed

lemma no_raise_sync_found:
  "list_all (\<lambda>d. hashable (fd_mac d)) f \<Longrightarrow> no_raise (sync_found t refuse f)"
  unfolding sync_found_def Let_def
  by (auto simp: find_Some_iff list_all_length intro!: no_raise_intros split: option.split)

lemma no_raise_bnd_when:
  assumes "no_raise m" and "\<And>s x s'. m s = (Inr x, s') \<Longrightarrow> no_raise (k x)"
  shows "no_raise (bnd m k)"
proof (rule no_raiseI)
  fix s
  obtain x u where x: "m s = (Inr x, u)" by (rule no_raiseE [OF assms(1)])
  obtain v w where "k x u = (Inr v, w)" by (rule no_raiseE [OF assms(2) [OF x]])
  with x show "\<exists>v s'. bnd m k s = (Inr v, s')" by (simp add: bnd_run)
qed

lemma no_raise_scan_main: "plain_replies t \<Longrightarrow> no_raise (scan_main t refuse)"
  unfolding scan_main_def
  by (intro no_raise_andthen no_raise_bnd no_raise_option no_raise_catching no_raise_simple no_raise_scan_parts
      no_raise_bnd_when [OF no_raise_collect] no_raise_sync_found) (erule hashable_collect, assumption)

text \<open>C38. Whatever the router and the application answer, the scan returns an exit status: no exception
  leaves it, and it sends at most eight commands, although it runs several queries after one has failed.\<close>

theorem scan_terminates:
  assumes "plain_replies t"
  shows "\<exists>status s' new. scan_main t refuse s = (Inr status, s') \<and> sent s' = sent s @ new \<and> length new \<le> 8"
proof -
  obtain status s' where run: "scan_main t refuse s = (Inr status, s')"
    by (rule no_raiseE [OF no_raise_scan_main [OF assms]])
  with sends_scan_main show ?thesis unfolding sends_def by blast
qed

theorem scan_terminates_witness:
  "\<exists>status s' new. scan_main demo_net (\<lambda>_. None) idle_station = (Inr status, s') \<and> sent s' = new \<and> length new \<le> 8"
  using scan_terminates [of demo_net "\<lambda>_. None" idle_station] by (simp add: plain_replies_def demo_net_def idle_station_def)

section \<open>The scan creates nothing\<close>

definition serves :: "sys \<Rightarrow> station \<Rightarrow> bool" where
  "serves d s \<longleftrightarrow> server s = d"

lemma serves_parts [keeps_all_intros]:
  "keeps_all (serves d) (say w)" "keeps_all (serves d) (consume t (call_api a path kw))"
  "keeps_all (serves d) (connect_to t ip u p port)" "keeps_all (serves d) (lift_sum v)"
  by (auto simp: keeps_all_def serves_def say_run call_api_def api_exec_def connect_to_def lift_sum_def run_simps
      split: option.splits)

lemma rollback_same: "rollback d d = d"
  by (cases d) (simp add: rollback_def)

lemma serves_rpc:
  assumes "\<And>e u. snd (act e u) = u"
  shows "keeps_all (serves d) (rpc t act)"
proof -
  have "server (snd (rpc t act s)) = server s" for s
  proof -
    obtain r u where run: "act (request_env t (calls s)) (server s) = (r, u)"
      by (cases "act (request_env t (calls s)) (server s)")
    with assms [of "request_env t (calls s)" "server s"] have "u = server s" by simp
    with run show ?thesis by (cases r) (simp_all add: rpc_def rollback_same)
  qed
  then show ?thesis by (simp add: keeps_all_def serves_def)
qed

lemma serves_create:
  assumes "refuse ''name'' = Some x"
  shows "keeps_all (serves d) (create_for t refuse dev v)"
proof (cases v)
  case (PStr mac)
  show ?thesis unfolding create_for_def PStr
    by (simp only: pyval.case, intro keeps_all_intros serves_rpc)
      (use assms in \<open>simp add: onu_create_def check_keys_def onu_vals_def map_filter_simps run_simps\<close>)
qed (simp_all add: create_for_def keeps_all_raise)

lemma serves_sync:
  assumes "refuse ''name'' = Some x"
  shows "keeps_all (serves d) (sync_found t refuse f)"
proof -
  have as_text: "keeps_all (serves d) (as_text t v)" for v
    unfolding as_text_def by (cases v) (auto intro!: keeps_all_intros)
  show ?thesis
    unfolding sync_found_def sync_onus_def sync_device_def Let_def
    by (intro keeps_all_intros serves_create [of refuse, OF assms] serves_rpc as_text) (simp add: gets_run)
qed

lemma serves_monitor: "keeps_all (serves d) (monitor_interface t a)"
  unfolding monitor_interface_def monitor_rate_def report_rate_def by (intro keeps_all_intros keeps_all_list)

definition scan_serves :: "sys \<Rightarrow> station \<times> found list \<Rightarrow> bool" where
  "scan_serves d x \<longleftrightarrow> serves d (fst x)"

lemma scan_serves_station [keeps_all_intros]: "keeps_all (serves d) m \<Longrightarrow> keeps_all (scan_serves d) (on_station m)"
  unfolding keeps_all_def on_station_def scan_serves_def by (auto split: prod.splits)

lemma scan_serves_parts [keeps_all_intros]:
  "keeps_all (scan_serves d) (tell w)" "keeps_all (scan_serves d) (ask t a path kw)"
  "keeps_all (scan_serves d) (add_found mac ip src)"
  "keeps_all (scan_serves d) (on_station (drop_call g))"
  unfolding tell_def ask_def
  by (intro keeps_all_intros)+ (auto simp: add_found_def keeps_all_def scan_serves_def modify_run drop_call_def
      on_station_def ret_run)

lemma scan_serves_lookups [keeps_all_intros]:
  "keeps_all (scan_serves d) (any_olt_ip rows)" "keeps_all (scan_serves d) (arp_entry rows)"
  by (induction rows) (auto intro!: keeps_all_intros split: pyval.split)

lemma serves_collect: "keeps_all (serves d) (collect t a)"
proof -
  have "keeps_all (scan_serves d) (andthen (probe_olt t a) (andthen (scan_arp t a) (scan_leases t a)))"
    unfolding probe_olt_def ping_target_def scan_arp_def scan_leases_def Let_def by (intro keeps_all_intros)
  then have "scan_serves d (snd (andthen (probe_olt t a) (andthen (scan_arp t a) (scan_leases t a)) (s, [])))"
    if "serves d s" for s
    using that unfolding keeps_all_def scan_serves_def by (metis fst_conv prod.collapse)
  then show ?thesis
    unfolding keeps_all_def collect_def scan_serves_def by (force split: prod.splits sum.splits)
qed

text \<open>C39. The values of every new ONU have the key \<open>name\<close>, which is no field of \<open>isp.onu\<close>. With a
  framework that refuses such a key the scan never changes the application, and the first device that is
  new ends the synchronisation with an error, so that the devices after it are not even looked up.\<close>

theorem scan_creates_nothing:
  assumes "refuse ''name'' = Some x"
    and "authenticate t (PStr ''http://localhost:8069'') (PStr ''odoo'') (PStr ''admin'') ''admin'' = Inr True"
    and "fd_mac dev = PStr mac" and "find_onus mac (server s) = []"
  shows "server (snd (scan_main t refuse s)) = server s \<and>
    sync_onus t refuse (dev # devs) s = (Inr 0, s\<lparr>printed := printed s @
      [''Processing MAC: '' @ mac @ '' (IP: '' @ show_val t (fd_ip dev) @ '')... '',
       ''Odoo Sync Error: '' @ exc_str (fault t x)], calls := calls s + 2\<rparr>)"
proof
  have "keeps_all (serves (server s)) (scan_main t refuse)"
    unfolding scan_main_def
    by (intro keeps_all_intros serves_monitor serves_collect serves_sync [of refuse, OF assms(1)])
  then show "server (snd (scan_main t refuse s)) = server s"
    unfolding keeps_all_def serves_def by (metis prod.collapse)
  have create: "rpc t (\<lambda>e. onu_create refuse (onu_vals mac dev)) u = (Inl (fault t x), u\<lparr>calls := Suc (calls u)\<rparr>)" for u
    using assms(1) by (simp add: rpc_def onu_create_def check_keys_def onu_vals_def map_filter_simps run_simps rollback_same)
  show "sync_onus t refuse (dev # devs) s = (Inr 0, s\<lparr>printed := printed s @
      [''Processing MAC: '' @ mac @ '' (IP: '' @ show_val t (fd_ip dev) @ '')... '',
       ''Odoo Sync Error: '' @ exc_str (fault t x)], calls := calls s + 2\<rparr>)"
    using assms(2-4)
    by (simp add: sync_onus_def lift_sum_def sync_device_def create_for_def as_text_def say_run run_simps rpc_def [of t "\<lambda>e. gets _"]
        create)
qed

theorem scan_creates_nothing_witness:
  "server (snd (scan_main demo_net (\<lambda>_. Some (ValueError ''Invalid field'')) idle_station)) = server idle_station \<and>
   last (printed (snd (sync_onus demo_net (\<lambda>_. Some (ValueError ''Invalid field''))
     [\<lparr>fd_mac = PStr ''48:E6'', fd_ip = PNone, fd_source = ''ARP''\<rparr>] idle_station))) = ''Odoo Sync Error: Invalid field''"
  using scan_creates_nothing [of "\<lambda>_. Some (ValueError ''Invalid field'')" "ValueError ''Invalid field''" demo_net
      "\<lparr>fd_mac = PStr ''48:E6'', fd_ip = PNone, fd_source = ''ARP''\<rparr>" "''48:E6''" idle_station "[]"]
  by (simp add: demo_net_def idle_station_def demo_sys_def blank_sys_def find_onus_def search_ids_def)

end
