(* ===== verification/Manager_Script.thy ===== *)
theory Manager_Script
  imports Preloader_Main
begin

text \<open>
  \<open>tools/mikrotik_manager.py\<close> (the file of the same name in \<open>addons/\<close> is a copy): a command
  line client that lists routers and provisioning jobs and triggers the provisioning cron.
\<close>

section \<open>The client\<close>

record manager_args =
  ma_url :: string
  ma_db :: string
  ma_user :: string
  ma_password :: string
  ma_command :: "string option"

text \<open>\<open>list_db\<close> is the answer of the service; the result is the database to use, if any.\<close>

definition choose_db :: "exc + string list \<Rightarrow> string \<Rightarrow> string option script" where
  "choose_db list_db db = catching (\<lambda>_. True)
     (bnd (lift_sum list_db) (\<lambda>dbs.
      if db \<in> set dbs then ret (Some db)
      else (case dbs of
          d # _ \<Rightarrow> andthen (say (''Warning: DB '' @ quoted db @ '' not found. Using '' @ quoted d @ ''.'')) (ret (Some d))
        | [] \<Rightarrow> andthen (say ''Error: No databases found.'') (ret None))))
     (\<lambda>_. ret (Some db))"

definition client_authenticate :: "site \<Rightarrow> exc + string list \<Rightarrow> manager_args \<Rightarrow> bool script" where
  "client_authenticate t list_db args = catching (\<lambda>_. True)
     (bnd (choose_db list_db (ma_db args)) (\<lambda>db. case db of
        None \<Rightarrow> ret False
      | Some d \<Rightarrow> lift_sum (authenticate t (PStr (ma_url args)) (PStr d) (PStr (ma_user args)) (ma_password args))))
     (\<lambda>e. andthen (say (''Error authenticating: '' @ exc_str e)) (ret False))"

section \<open>Listing\<close>

definition ljust :: "nat \<Rightarrow> string \<Rightarrow> string" where
  "ljust n w = w @ replicate (n - length w) CHR '' ''"

definition rule_line :: "nat \<Rightarrow> string" where
  "rule_line n = replicate n CHR ''-''"

definition router_device_name :: "sys \<Rightarrow> router \<Rightarrow> string" where
  "router_device_name s r = (case rtr_device_id r of
      None \<Rightarrow> ''Unknown''
    | Some d \<Rightarrow> via (devices s) (Some d) [] dev_name)"

definition healthcheck_text :: "healthcheck_status option \<Rightarrow> string" where
  "healthcheck_text x = (case x of None \<Rightarrow> ''False'' | Some HcOk \<Rightarrow> ''ok'' | Some HcFailed \<Rightarrow> ''failed'')"

definition router_line :: "site \<Rightarrow> sys \<Rightarrow> nat \<Rightarrow> router \<Rightarrow> string" where
  "router_line t s i r = ljust 5 (nat_str i) @ '' '' @ ljust 20 (router_device_name s r) @ '' '' @
     ljust 10 (healthcheck_text (rtr_last_healthcheck_status r)) @ '' '' @ ljust 10 (show_val t (rtr_routeros_version r))"

text \<open>Routers are ordered by their devices, devices by name.\<close>

definition routers_in_order :: "env \<Rightarrow> (nat \<Rightarrow> router \<Rightarrow> bool) \<Rightarrow> sys \<Rightarrow> nat list" where
  "routers_in_order e p s = sort_key (\<lambda>i. collate e (via (devices s) (via (routers s) (Some i) None rtr_device_id) [] dev_name))
     (search_ids p (routers s))"

definition list_routers :: "site \<Rightarrow> unit script" where
  "list_routers t =
     bnd (rpc t (\<lambda>e. gets (\<lambda>s. List.map_filter (\<lambda>i. map_option (router_line t s i) (tget (routers s) i))
       (routers_in_order e (\<lambda>_ _. True) s)))) (\<lambda>rows.
     andthen (say (ljust 5 ''ID'' @ '' '' @ ljust 20 ''Name'' @ '' '' @ ljust 10 ''Status'' @ '' '' @ ljust 10 ''Version''))
    (andthen (say (rule_line 50)) (for_each say rows)))"

text \<open>Nothing calls this one; it only looks routers up.\<close>

definition run_healthcheck :: "site \<Rightarrow> int option \<Rightarrow> unit script" where
  "run_healthcheck t router_id =
     bnd (rpc t (\<lambda>e. gets (routers_in_order e (\<lambda>i _. case router_id of None \<Rightarrow> True | Some k \<Rightarrow> k = 0 \<or> int i = k)))) (\<lambda>ids.
     if ids = [] then say ''No routers found.''
     else say (''Running healthcheck on routers: '' @ show_val t (PList (map (\<lambda>i. PInt (int i)) ids))))"

definition job_state_str :: "job_state \<Rightarrow> string" where
  "job_state_str x = (case x of JobQueued \<Rightarrow> ''queued'' | JobRunning \<Rightarrow> ''running'' | JobSuccess \<Rightarrow> ''success'' | JobFailed \<Rightarrow> ''failed'')"

definition job_line :: "nat \<Rightarrow> provisioning_job \<Rightarrow> string" where
  "job_line i job = ljust 5 (nat_str i) @ '' '' @ ljust 20 (job_type_str (job_type job)) @ '' '' @
     ljust 10 (job_state_str (job_state job)) @ '' '' @ ljust 5 (int_str (job_attempts job)) @ '' '' @
     take 30 (or_str (job_error_message job) [])"

text \<open>\<open>isp.provisioning_job\<close> is ordered by \<open>requested_at desc\<close>.\<close>

definition open_jobs :: "sys \<Rightarrow> nat list" where
  "open_jobs s = search_ids (\<lambda>_ job. job_state_str (job_state job) \<in> {''pending'', ''queued'', ''failed''}) (jobs s)"

definition listed_jobs :: "sys \<Rightarrow> nat list" where
  "listed_jobs s = take 20 (sort_key (\<lambda>i. - via (jobs s) (Some i) 0 job_requested_at) (open_jobs s))"

definition list_jobs :: "site \<Rightarrow> unit script" where
  "list_jobs t =
     bnd (rpc t (\<lambda>e. gets (\<lambda>s. List.map_filter (\<lambda>i. map_option (job_line i) (tget (jobs s) i)) (listed_jobs s)))) (\<lambda>rows.
     andthen (say (ljust 5 ''ID'' @ '' '' @ ljust 20 ''Type'' @ '' '' @ ljust 10 ''State'' @ '' '' @ ljust 5 ''Attempts'' @ '' Error''))
    (andthen (say (rule_line 80)) (for_each say rows)))"

section \<open>Triggering the cron\<close>

text \<open>The scheduled actions: id, name and code, as the modules' data files and the framework have them.\<close>

type_synonym crons = "(nat \<times> string \<times> (env \<Rightarrow> unit op)) list"

definition provisioning_crons :: "crons \<Rightarrow> crons" where
  "provisioning_crons cs = filter (\<lambda>(i, name, act). py_contains (py_lower ''Provisioning'') (py_lower name)) cs"

definition trigger_cron :: "site \<Rightarrow> crons \<Rightarrow> unit script" where
  "trigger_cron t cs =
     bnd (rpc t (\<lambda>e. ret (provisioning_crons cs))) (\<lambda>hits.
     if hits \<noteq> []
     then andthen (say (''Triggering cron job '' @ show_val t (PList (map (\<lambda>c. PInt (int (fst c))) hits)) @ ''...''))
         (andthen (rpc t (\<lambda>e. for_each (\<lambda>(i, name, act). act e) hits))
           (say ''Cron triggered.''))
     else say ''Provisioning cron not found.'')"

text \<open>The exit status; \<open>help_text\<close> is what argparse prints.\<close>

definition manager_main :: "site \<Rightarrow> exc + string list \<Rightarrow> crons \<Rightarrow> string \<Rightarrow> manager_args \<Rightarrow> nat script" where
  "manager_main t list_db cs help_text args =
     bnd (client_authenticate t list_db args) (\<lambda>uid.
     if \<not> uid then ret 1
     else andthen
       (if ma_command args = Some ''list'' then list_routers t
        else if ma_command args = Some ''jobs'' then list_jobs t
        else if ma_command args = Some ''run'' then trigger_cron t cs
        else say help_text) (ret 0))"

section \<open>What it shows and does\<close>

lemma say_each: "for_each say ws s = (Inr (), s\<lparr>printed := printed s @ ws\<rparr>)"
proof (induction ws arbitrary: s)
  case (Cons w ws)
  have "say w s = (Inr (), s\<lparr>printed := printed s @ [w]\<rparr>)" by (simp add: say_def run_simps)
  then show ?case by (simp add: andthen_run Cons)
qed (simp add: run_simps)

lemma rpc_gets: "rpc t (\<lambda>e. gets (f e)) s = (Inr (f (request_env t (calls s)) (server s)), s\<lparr>calls := Suc (calls s)\<rparr>)"
  by (simp add: rpc_def gets_run)

lemma strict_max_last:
  fixes f :: "nat \<Rightarrow> int"
  assumes "distinct xs" and "x \<in> set xs" and "\<And>y. y \<in> set xs \<Longrightarrow> y \<noteq> x \<Longrightarrow> f y < f x" and "n < length xs"
  shows "x \<notin> set (take n (sort_key f xs))"
proof
  let ?ys = "sort_key f xs"
  assume x: "x \<in> set (take n ?ys)"
  have "drop n ?ys \<noteq> []" using assms(4) by simp
  then obtain y where y: "y \<in> set (drop n ?ys)" by (meson last_in_set)
  have "sorted (map f (take n ?ys @ drop n ?ys))" by (simp only: append_take_drop_id sorted_sort_key)
  then have "f x \<le> f y" using x y unfolding map_append sorted_append by auto
  moreover have "distinct (take n ?ys @ drop n ?ys)" using assms(1) by (simp only: append_take_drop_id distinct_sort)
  then have "y \<noteq> x" using x y unfolding distinct_append by auto
  moreover have "y \<in> set xs" using in_set_dropD [OF y] by simp
  ultimately show False using assms(3) [of y] by simp
qed

lemma strict_min_first:
  fixes f :: "nat \<Rightarrow> int"
  assumes "x \<in> set xs" and "\<And>y. y \<in> set xs \<Longrightarrow> y \<noteq> x \<Longrightarrow> f x < f y"
  shows "hd (sort_key f xs) = x"
proof (cases "sort_key f xs")
  case Nil
  then show ?thesis using assms(1) by (metis empty_iff list.set(1) set_sort)
next
  case (Cons y ys)
  have "sorted (map f (sort_key f xs))" by (rule sorted_sort_key)
  moreover have "x \<in> set (y # ys)" "y \<in> set xs" using assms(1) Cons by (metis set_sort, metis list.set_intros(1) set_sort)
  ultimately have "f y \<le> f x" using Cons by auto
  then show ?thesis using assms(2) [OF \<open>y \<in> set xs\<close>] Cons by force
qed

text \<open>The oldest queued job of more than twenty: strictly before all other open jobs.\<close>

definition oldest_queued :: "nat \<Rightarrow> sys \<Rightarrow> bool" where
  "oldest_queued j s \<longleftrightarrow> via (jobs s) (Some j) False (\<lambda>job. job_state job = JobQueued) \<and>
     (\<forall>k\<in>set (open_jobs s). k \<noteq> j \<longrightarrow>
        via (jobs s) (Some j) 0 job_requested_at < via (jobs s) (Some k) 0 job_requested_at)"

text \<open>The list of jobs shows the twenty newest open jobs, the worker starts with the oldest queued one:
  with more than twenty open jobs the job the worker is stuck on is not in the list.\<close>

theorem jobs_list_hides_oldest:
  assumes "oldest_queued j (server s)" and "20 < length (open_jobs (server s))"
  shows "list_jobs t s = (Inr (), s\<lparr>printed := printed s @
      [''ID    Type                 State      Attempts Error'', rule_line 80] @
      List.map_filter (\<lambda>i. map_option (job_line i) (tget (jobs (server s)) i)) (listed_jobs (server s)),
      calls := Suc (calls s)\<rparr>) \<and>
    length (listed_jobs (server s)) = 20 \<and> hd (pending_jobs (server s)) = j \<and> j \<notin> set (listed_jobs (server s))"
proof -
  let ?d = "server s"
  let ?f = "\<lambda>i. via (jobs ?d) (Some i) 0 job_requested_at"
  let ?queued = "search_ids (\<lambda>_ job. job_state job = JobQueued) (jobs ?d)"
  have queued: "j \<in> set ?queued"
    using assms(1) by (auto simp: oldest_queued_def via_def deref_def search_ids_iff split: option.splits)
  have sub: "set ?queued \<subseteq> set (open_jobs ?d)"
    by (auto simp: open_jobs_def search_ids_iff job_state_str_def)
  have old: "?f j < ?f k" if "k \<in> set (open_jobs ?d)" "k \<noteq> j" for k
    using assms(1) that by (simp add: oldest_queued_def)
  have "hd (sort_key ?f ?queued) = j"
    by (rule strict_min_first) (use queued sub old in auto)
  then have "hd (pending_jobs ?d) = j" by (simp add: pending_jobs_def hd_take)
  moreover have "j \<notin> set (listed_jobs ?d)"
    unfolding listed_jobs_def
    by (rule strict_max_last) (use queued sub old assms(2) in \<open>auto simp: open_jobs_def distinct_search_ids\<close>)
  moreover have "list_jobs t s = (Inr (), s\<lparr>printed := printed s @
      [''ID    Type                 State      Attempts Error'', rule_line 80] @
      List.map_filter (\<lambda>i. map_option (job_line i) (tget (jobs ?d) i)) (listed_jobs ?d), calls := Suc (calls s)\<rparr>)"
    by (simp add: list_jobs_def bnd_run andthen_run rpc_gets say_each say_def modify_run ljust_def numeral_eq_Suc)
  ultimately show ?thesis using assms(2) by (simp add: listed_jobs_def)
qed

definition demo_cli :: site where
  "demo_cli = \<lparr>environ = (\<lambda>_. None), str_text = (\<lambda>_. []), api_open = (\<lambda>_ _ _ _. None), api_reply = (\<lambda>_ _ _. Inr []),
     format_special = (\<lambda>_ _. Inr []), connects = (\<lambda>_ _. False), other_network = (\<lambda>_. Inr []), request_env = (\<lambda>_. plain_env),
     authenticate = (\<lambda>_ _ _ _. Inr True), marshal = Inr, fault = id, text_arg = (\<lambda>_. Inr [])\<rparr>"

definition crowded :: station where
  "crowded = \<lparr>sent = [], printed = [], server = (demo_sys change_plan)\<lparr>jobs :=
     map (\<lambda>i. (i, (new_job plain_env [] export_config_snapshot None None None [])\<lparr>job_requested_at := int i\<rparr>)) [1..<22]\<rparr>,
     calls = 0\<rparr>"

lemma map_of_pairs: "map_of (map (\<lambda>i. (i, f i)) xs) i = (if i \<in> set xs then Some (f i) else None)"
  by (induction xs) auto

lemma crowded_jobs: "tget (jobs (server crowded)) i = (if 1 \<le> i \<and> i < 22
    then Some ((new_job plain_env [] export_config_snapshot None None None [])\<lparr>job_requested_at := int i\<rparr>) else None)"
  by (simp add: crowded_def tget_def map_of_pairs del: upt_Suc upt_rec_numeral)

lemma crowded_open: "open_jobs (server crowded) = [1..<22]"
proof -
  have "map fst (jobs (server crowded)) = [1..<22]" by (simp add: crowded_def comp_def)
  then show ?thesis
    by (simp add: open_jobs_def search_ids_def crowded_jobs new_job_def job_state_str_def cong: filter_cong)
qed

theorem jobs_list_hides_oldest_witness:
  "hd (pending_jobs (server crowded)) = 1 \<and> 1 \<notin> set (listed_jobs (server crowded))"
proof -
  have "oldest_queued 1 (server crowded)"
    by (auto simp del: upt_Suc upt_rec_numeral simp: oldest_queued_def crowded_open via_def deref_def crowded_jobs new_job_def)
  moreover have "20 < length (open_jobs (server crowded))" by (simp add: crowded_open)
  ultimately show ?thesis using jobs_list_hides_oldest [of 1 crowded demo_cli] by simp
qed

section \<open>Triggering the worker\<close>

text \<open>With the scheduled actions of the modules, \<open>run\<close> is one run of the worker as a transaction.\<close>

lemma manager_run_is_cron:
  assumes "provisioning_crons cs = [(i, ''ISP Provisioning Jobs'', cron_run_pending_jobs)]"
    and "trigger_cron t cs s = (r, s')"
  shows "server s' = transaction (cron_run_pending_jobs (request_env t (Suc (calls s)))) (server s)"
  using assms(2)
  by (auto simp: trigger_cron_def assms(1) bnd_run andthen_run rpc_def ret_run say_def modify_run transaction_def run_tx_def
      split: sum.splits prod.splits)

end
