(* ===== verification/Spec2Isabelle.thy ===== *)
theory Spec2Isabelle
  imports Command_Flow Preloader_Merge Preloader_Reach Portal_Access Dashboard_Views Scan_Facts Manager_Script
begin

text \<open>
  GetUpNet is a back office for an internet provider: a set of Odoo modules under \<open>addons/\<close>
  (subscriptions, provisioning of MikroTik routers, captive portal, ONUs, billing, customer portal)
  and the scripts under \<open>tools/\<close> that bring new routers on line. This development models the
  modules and the scripts as HOL functions and proves what they do.

  \<^bold>\<open>How the program is modelled.\<close> A piece of Python is a \<open>('s, 'a) prog\<close>
  (\<open>Prelude\<close>): a function from a state to an exception or a value and the state it left. What was
  written before an exception stays written, as in Python. The database is one record \<open>sys\<close>
  (\<open>Schema\<close>) with a table per model, the mails queued, the accounting operations asked for and the
  commands sent to routers (\<open>wire\<close>). A request or cron run is a \<open>transaction\<close>: an exception that
  leaves it undoes the database but not the commands sent. What is not code of the repository is a
  field of the record \<open>env\<close> or a parameter: the clock, parameters, sequences, JSON, the answers of
  routers (a function of all commands sent so far), the invoice engine and the payment wizard of the
  accounting application, the text order of the database. Nothing is assumed about them except where
  a theorem says so. Integers are unbounded as in Python, money is rational, text is a list of
  characters; a \<open>Char\<close> field is \<open>None\<close> when it is not set. ORM behaviour that the code relies on is
  written out: defaults, required columns, which constraint runs for which written field, unique
  indices, the order of a model, archived records.

  \<^bold>\<open>Theories and the code they model.\<close>
  \<^item> \<open>Prelude\<close>, \<open>Py\<close>: programs, exceptions, tables, Python values and strings. Locales
    \<open>row_store\<close> (a table), \<open>checked_rows\<close> (a model whose \<open>write\<close> validates) and
    \<open>guarded_system\<close> (a transition system with an invariant), each interpreted on the models;
    \<open>bounded_worker\<close> and \<open>supervised\<close> are those of \<open>Worker_Facts\<close> and
    \<open>Preloader_Reach\<close>.
  \<^item> \<open>Schema\<close>, \<open>Services\<close>: the models' columns; the audit log, the mails, a router's
    credentials (\<open>router.py\<close>) and the RouterOS clients (\<open>routeros_client.py\<close>).
  \<^item> \<open>Subscription\<close>, \<open>Subscription_Inv\<close>: \<open>isp_core/models/subscription.py\<close> with its
    constraints; every operation keeps them.
  \<^item> \<open>Job_Queue\<close>, \<open>Mikrotik_Jobs\<close>, \<open>Captive\<close>, \<open>Job_Runner\<close>:
    \<open>provisioning_job.py\<close> of \<open>isp_core\<close>, \<open>isp_mikrotik\<close> and
    \<open>isp_captive_portal\<close>, the buttons that queue jobs, every handler, \<open>_execute\<close> and the cron
    worker. \<open>Job_Safety\<close>, \<open>Job_Facts\<close>, \<open>Handler_Facts\<close>: what a run may change, the
    outcome of one job, the blocked worker, suspension and reconnection.
  \<^item> \<open>Plan_Change\<close>, \<open>Plan_Change_Facts\<close>: \<open>plan_change_request.py\<close>.
    \<open>Fault_Ticket\<close>: \<open>fault_ticket.py\<close> and its abstract history.
  \<^item> \<open>Transfer_Payment\<close>, \<open>Transfer_Facts\<close>: \<open>bank_transfer_payment.py\<close>.
    \<open>Billing\<close>, \<open>Billing_Facts\<close>: \<open>isp_billing/models/subscription.py\<close> and
    \<open>dashboard.py\<close>. \<open>Dashboard_Views\<close>: its buttons and the sectors in arrears.
  \<^item> \<open>Onu_Assignment\<close>: \<open>isp_onu/models/assignment.py\<close>. \<open>Mac_Onboarding\<close>:
    \<open>controllers/mac_onboarding.py\<close> and \<open>mac_profile.py\<close>.
  \<^item> \<open>Preconfig\<close>: \<open>isp_mikrotik/models/preconfig.py\<close>. \<open>Portal\<close>,
    \<open>Portal_Facts\<close>: \<open>isp_portal/controllers/portal.py\<close>; \<open>Frames\<close> says which tables each
    operation leaves alone. \<open>Portal_Access\<close>: both forms again, with the access rights of
    \<open>isp_portal/security/ir.model.access.csv\<close> checked at every call. \<open>Device\<close>: \<open>device.py\<close>.
  \<^item> \<open>System\<close>: all requests as one step relation between transactions; the invariants of the
    components hold in every reachable database. Jobs that somebody types in by hand are not among the
    requests.
  \<^item> \<open>Worker_Facts\<close>: the worker over an abstract queue (first come, first served, twenty at a
    time, all or nothing), how long a job waits, and the commands that a failing job makes it repeat.
    \<open>Service_Flow\<close>: the billing crons, the queue and the worker together - late payers are
    suspended, paid ones reconnected, and the second undoes the first. \<open>Command_Flow\<close>: from a
    button or an applied request to the commands a router accepts; every job in the queue is well typed.
  \<^item> \<open>Preloader_Router\<close>, \<open>Preloader_Setup\<close>, \<open>Preloader_Config\<close>,
    \<open>Preloader_Main\<close>: \<open>tools/mikrotik_preloader/preloader.py\<close> from the \<open>routeros_\<close>
    functions to \<open>main\<close>, with the application behind XML-RPC as the same \<open>sys\<close>, one transaction
    per call. \<open>Preloader_Merge\<close>: the merged configuration at every path. \<open>Preloader_Facts\<close>:
    firewall, unwanted routers, registration, transport of profiles. \<open>Network_Scan\<close>: the port
    scan, with IPv4 addresses as 32-bit words and \<open>ip_network\<close>, \<open>hosts\<close> and \<open>str\<close>
    of the standard library written out. \<open>Preloader_Reach\<close>: where the commands of a run can go.
  \<^item> \<open>Router_Scripts\<close>: \<open>mikrotik_onboard.py\<close> of \<open>tools/\<close> and of \<open>addons/\<close>, with the
    generators that librouteros returns; what such a script can send and that it always returns.
    \<open>Onu_Scan\<close>, \<open>Scan_Facts\<close>: \<open>scan_onus.py\<close> and the creation of ONUs
    (\<open>isp_onu/models/onu.py\<close>). \<open>Manager_Script\<close>: \<open>mikrotik_manager.py\<close>.

  \<^bold>\<open>What the theorems show.\<close> The functional theorems give the outcome of an operation on
  every branch (a job run, a plan change, a booked transfer, invoices, both portal forms, the firewall
  rules, a registration, the hosts of a port scan). The invariants are proved per operation with \<open>keeps\<close> (on return) and
  \<open>keeps_all\<close> (also on an exception) and lifted to reachable databases in \<open>System\<close>. The
  refinements compare the worker with an abstract queue, and the dashboard loop, the ticket history and
  the merged configuration with references that do not look at the order of events. The theorems of
  \<open>Worker_Facts\<close>, \<open>Service_Flow\<close> and \<open>Command_Flow\<close> are about several components
  at work one after the other. The error theorems are behaviours the code does
  not intend: a blocked worker, requests that can never be applied, profiles that are not delivered,
  scripts that report what they have not done.

  \<^bold>\<open>Termination.\<close> No fuel is used: every loop of the code runs over a finite list, and the
  recursions that are not structural (\<open>merge_items\<close>, \<open>py_format\<close>, \<open>nat_str\<close>) have
  termination proofs.

  \<^bold>\<open>Not modelled.\<close> Access rights outside the portal forms, and record rules (the framework
  checks them before the code runs), the translation of messages, pages that only render a record, mail delivery, manifests,
  views and tests. Floating point is exact. Foreign keys are checked where an id comes from outside or is kept for
  later (plan change requests, the invoices of a transfer); the other ids written are those of rows just
  read or chosen in a form, and are taken to exist. Of the scripts, reading the YAML file, whether a
  socket connects, networks that are not IPv4, argparse, librouteros and the XML-RPC transport are
  parameters. \<open>scan_onus.py\<close> and
  \<open>mikrotik_manager.py\<close> exist twice with the same text and are modelled once. What the framework
  does with a key that is no field is a parameter of the ONU scan.
\<close>

end
